(* ===== verification/Prelude.thy ===== *)
theory Prelude
  imports Main "HOL-Library.Word"
begin

text \<open>
  What every theory of the development shares: the error values of the Go code, results that
  are an error or a value, Go maps as partial functions, machine integers, and the collections
  of rewrite rules that the component proofs use.

  \<^item> An \<open>error\<close> built by \<open>errors.New\<close> or \<open>fmt.Errorf\<close> is a \<open>Msg\<close> with its text; \<open>Wrap p e\<close> is
    \<open>fmt.Errorf(p + ": %w", e)\<close>; \<open>LibErr t\<close> is an error a library call returned, named by a tag
    (its text is the library's and nothing depends on it).
  \<^item> A call \<open>(T, error)\<close> returns \<open>Inl e\<close> when the error is not nil and \<open>Inr v\<close> otherwise.
  \<^item> A panic is a value of its own where the code can panic.
\<close>

datatype goerr =
    Msg string
  | Wrap string goerr
  | LibErr string

type_synonym 'a res = "goerr + 'a"

type_synonym int64 = "64 word"
type_synonym uint64 = "64 word"

text \<open>
  Rules that unfold the operations of a Go map or of a result, and rules about the stores of the
  components, collected for \<open>simp add:\<close>.
\<close>

named_theorems res_simps \<open>rules for results that are an error or a value\<close>
named_theorems store_simps \<open>what a lookup in a store returns after an operation\<close>
named_theorems str_simps \<open>rules for the string functions of the standard library\<close>

definition ok :: "'a res \<Rightarrow> bool" where
  "ok r = (case r of Inl _ \<Rightarrow> False | Inr _ \<Rightarrow> True)"

lemma ok_simps [simp, res_simps]: "ok (Inr v)" "\<not> ok (Inl e)"
  by (simp_all add: ok_def)

lemma ok_iff: "ok r \<longleftrightarrow> (\<exists>v. r = Inr v)"
  by (cases r) simp_all

text \<open>\<open>if err != nil { return err }\<close> between two calls.\<close>

definition and_then :: "'a res \<Rightarrow> ('a \<Rightarrow> 'b res) \<Rightarrow> 'b res" where
  "and_then r f = (case r of Inl e \<Rightarrow> Inl e | Inr v \<Rightarrow> f v)"

lemma and_then_simps [simp, res_simps]:
  "and_then (Inl e) f = Inl e" "and_then (Inr v) f = f v"
  by (simp_all add: and_then_def)

lemma and_then_Inr [res_simps]: "and_then r f = Inr b \<longleftrightarrow> (\<exists>a. r = Inr a \<and> f a = Inr b)"
  by (cases r) simp_all

text \<open>The same with a prefix for the error, \<open>fmt.Errorf(p + ": %w", err)\<close>.\<close>

definition wrapped :: "string \<Rightarrow> 'a res \<Rightarrow> 'a res" where
  "wrapped p r = (case r of Inl e \<Rightarrow> Inl (Wrap p e) | Inr v \<Rightarrow> Inr v)"

lemma wrapped_simps [simp, res_simps]:
  "wrapped p (Inl e) = Inl (Wrap p e)" "wrapped p (Inr v) = Inr v"
  by (simp_all add: wrapped_def)

lemma wrapped_Inr [res_simps]: "wrapped p r = Inr v \<longleftrightarrow> r = Inr v"
  by (cases r) simp_all

text \<open>Calls that return a result and the new state, one after the other.\<close>

definition bind_st :: "'a res \<times> 's \<Rightarrow> ('a \<Rightarrow> 's \<Rightarrow> 'b res \<times> 's) \<Rightarrow> 'b res \<times> 's" where
  "bind_st r f = (case fst r of Inl e \<Rightarrow> (Inl e, snd r) | Inr v \<Rightarrow> f v (snd r))"

lemma bind_st_simps [simp, res_simps]:
  "bind_st (Inl e, s) f = (Inl e, s)" "bind_st (Inr v, s) f = f v s"
  by (simp_all add: bind_st_def)

lemma bind_st_Inr [res_simps]:
  "bind_st r f = (Inr b, s') \<longleftrightarrow> (\<exists>a s. r = (Inr a, s) \<and> f a s = (Inr b, s'))"
  by (cases r; cases "fst r") auto

text \<open>The format \<open>'%s'\<close> of an error text.\<close>

definition quoted :: "string \<Rightarrow> string" where
  "quoted s = [CHR 0x27] @ s @ [CHR 0x27]"

text \<open>Running a fallible step over a list stops at the first error, as an early \<open>return err\<close>.\<close>

fun each_res :: "('a \<Rightarrow> 's \<Rightarrow> 's res) \<Rightarrow> 'a list \<Rightarrow> 's \<Rightarrow> 's res" where
  "each_res f [] s = Inr s"
| "each_res f (x # xs) s = (case f x s of Inl e \<Rightarrow> Inl e | Inr s' \<Rightarrow> each_res f xs s')"

lemma each_res_append:
  "each_res f (xs @ ys) s = (case each_res f xs s of Inl e \<Rightarrow> Inl e | Inr s' \<Rightarrow> each_res f ys s')"
  by (induction xs arbitrary: s) (auto split: sum.splits)

lemma each_res_invariant:
  assumes "each_res f xs s = Inr s'" and "P s"
    and "\<And>x t t'. x \<in> set xs \<Longrightarrow> P t \<Longrightarrow> f x t = Inr t' \<Longrightarrow> P t'"
  shows "P s'"
  using assms
proof (induction xs arbitrary: s)
  case Nil
  then show ?case by simp
next
  case (Cons x xs)
  from Cons.prems(1) obtain t where t: "f x s = Inr t" "each_res f xs t = Inr s'"
    by (auto split: sum.splits)
  have "P t" using Cons.prems(3) [OF _ Cons.prems(2) t(1)] by simp
  then show ?case using t(2) Cons.prems(3) by (intro Cons.IH) auto
qed

text \<open>A Go map literal or a \<open>for range\<close> over a map visits its entries as a list of pairs.\<close>

lemma map_of_filter_fst:
  "map_of (filter (\<lambda>kv. P (fst kv)) xs) k = (if P k then map_of xs k else None)"
  by (induction xs) auto

lemma fun_upd_None_absent: "m k = None \<Longrightarrow> m(k := None) = m"
  by (rule ext) auto

end
