(* ===== verification/GoStrings.thy ===== *)
theory GoStrings
  imports Prelude
begin

text \<open>
  The functions of Go's \<open>strings\<close> and \<open>path\<close> packages that the program uses, on byte strings
  (a Go string is a sequence of bytes, a HOL \<open>string\<close> a list of 8-bit characters).
\<close>

section \<open>Searching and replacing\<close>

definition has_prefix :: "string \<Rightarrow> string \<Rightarrow> bool" where
  "has_prefix s p = (take (length p) s = p)"

fun find_sub :: "string \<Rightarrow> string \<Rightarrow> nat option" where
  "find_sub sub [] = (if sub = [] then Some 0 else None)"
| "find_sub sub (c # cs) =
     (if has_prefix (c # cs) sub then Some 0 else map_option Suc (find_sub sub cs))"

definition str_contains :: "string \<Rightarrow> string \<Rightarrow> bool" where
  "str_contains s sub = (find_sub sub s \<noteq> None)"

text \<open>\<open>strings.ReplaceAll\<close> for a nonempty \<open>old\<close>: non-overlapping matches from the left.\<close>

function replace_all :: "string \<Rightarrow> string \<Rightarrow> string \<Rightarrow> string" where
  "replace_all old new [] = []"
| "replace_all old new (c # cs) =
     (if old \<noteq> [] \<and> has_prefix (c # cs) old
      then new @ replace_all old new (drop (length old) (c # cs))
      else c # replace_all old new cs)"
  by pat_completeness auto
termination
proof (relation "measure (\<lambda>(old, new, s). length s)")
  show "wf (measure (\<lambda>(old::string, new::string, s::string). length s))" by simp
next
  fix old new :: string and c cs
  assume "old \<noteq> [] \<and> has_prefix (c # cs) old"
  then show "((old, new, drop (length old) (c # cs)), old, new, c # cs)
      \<in> measure (\<lambda>(old, new, s). length s)"
    by (cases old) auto
next
  fix old new :: string and c cs
  show "((old, new, cs), old, new, c # cs) \<in> measure (\<lambda>(old, new, s). length s)" by simp
qed

declare replace_all.simps(2) [simp del]

lemma find_sub_None_iff: "find_sub sub s = None \<longleftrightarrow> (\<forall>a b. s \<noteq> a @ sub @ b)"
proof (induction s)
  case Nil
  show ?case by auto
next
  case (Cons c cs)
  show ?case
  proof
    assume n: "find_sub sub (c # cs) = None"
    then have np: "\<not> has_prefix (c # cs) sub" and rest: "find_sub sub cs = None"
      by (auto split: if_splits)
    show "\<forall>a b. c # cs \<noteq> a @ sub @ b"
    proof (intro allI notI)
      fix a b assume eq: "c # cs = a @ sub @ b"
      show False
      proof (cases a)
        case Nil
        with eq np show False by (simp add: has_prefix_def)
      next
        case (Cons x xs)
        with eq rest Cons.IH show False by auto
      qed
    qed
  next
    assume h: "\<forall>a b. c # cs \<noteq> a @ sub @ b"
    have np: "\<not> has_prefix (c # cs) sub"
    proof
      assume "has_prefix (c # cs) sub"
      then have "c # cs = [] @ sub @ drop (length sub) (c # cs)"
        by (metis append_take_drop_id has_prefix_def self_append_conv2)
      with h show False by blast
    qed
    have "\<forall>a b. cs \<noteq> a @ sub @ b"
      using h by (metis append_Cons)
    with Cons.IH np show "find_sub sub (c # cs) = None" by simp
  qed
qed

lemma contains_iff [str_simps]: "str_contains s sub \<longleftrightarrow> (\<exists>a b. s = a @ sub @ b)"
  using find_sub_None_iff [of sub s] by (auto simp: str_contains_def)

lemma find_sub_Some:
  "find_sub sub s = Some i \<Longrightarrow> s = take i s @ sub @ drop (i + length sub) s"
proof (induction s arbitrary: i)
  case Nil
  then show ?case by (auto split: if_splits)
next
  case (Cons c cs)
  show ?case
  proof (cases "has_prefix (c # cs) sub")
    case True
    with Cons.prems have "i = 0" by simp
    with True show ?thesis
      by (metis add_0 append_self_conv2 append_take_drop_id has_prefix_def take0)
  next
    case False
    with Cons.prems obtain j where j: "find_sub sub cs = Some j" "i = Suc j" by auto
    from Cons.IH [OF j(1)] j(2) show ?thesis by simp
  qed
qed

text \<open>The match found is the leftmost one: no match lies in a shorter prefix.\<close>

lemma find_sub_first:
  "find_sub sub s = Some i \<Longrightarrow> s = a @ sub @ b \<Longrightarrow> i \<le> length a"
proof (induction s arbitrary: i a)
  case Nil
  then show ?case by (auto split: if_splits)
next
  case (Cons c cs)
  show ?case
  proof (cases "has_prefix (c # cs) sub")
    case True
    with Cons.prems(1) have "i = 0" by simp
    then show ?thesis by simp
  next
    case False
    with Cons.prems(1) obtain j where j: "find_sub sub cs = Some j" "i = Suc j" by auto
    show ?thesis
    proof (cases a)
      case Nil
      with Cons.prems(2) False show ?thesis by (simp add: has_prefix_def)
    next
      case (Cons x xs)
      with Cons.prems(2) have "cs = xs @ sub @ b" by simp
      with Cons.IH j show ?thesis using Cons by auto
    qed
  qed
qed

lemma replace_all_absent: "\<not> str_contains s old \<Longrightarrow> replace_all old new s = s"
proof (induction s)
  case Nil
  show ?case by simp
next
  case (Cons c cs)
  from Cons.prems have "\<not> has_prefix (c # cs) old" and "find_sub old cs = None"
    by (auto simp: str_contains_def split: if_splits)
  with Cons.IH show ?case by (simp add: str_contains_def replace_all.simps(2))
qed

lemma length_replace_all_le:
  "length new \<le> length old \<Longrightarrow> length (replace_all old new s) \<le> length s"
proof (induction old new s rule: replace_all.induct)
  case (1 old new)
  show ?case by simp
next
  case (2 old new c cs)
  show ?case
  proof (cases "old \<noteq> [] \<and> has_prefix (c # cs) old")
    case True
    then have le: "length old \<le> length (c # cs)"
      by (metis has_prefix_def length_take min.cobounded1)
    from 2 True have "length (replace_all old new (drop (length old) (c # cs)))
        \<le> length (c # cs) - length old"
      by simp
    with True le 2(3) show ?thesis by (simp add: replace_all.simps(2))
  next
    case False
    then have "replace_all old new (c # cs) = c # replace_all old new cs"
      by (auto simp: replace_all.simps(2))
    with 2 False show ?thesis by simp
  qed
qed

lemma length_replace_all_less:
  "length new < length old \<Longrightarrow> str_contains s old \<Longrightarrow> length (replace_all old new s) < length s"
proof (induction s)
  case Nil
  then show ?case by (auto simp: str_contains_def split: if_splits)
next
  case (Cons c cs)
  show ?case
  proof (cases "has_prefix (c # cs) old")
    case True
    then have le: "length old \<le> length (c # cs)"
      by (metis has_prefix_def length_take min.cobounded1)
    have ne: "old \<noteq> []" using Cons.prems(1) by auto
    have "length (replace_all old new (drop (length old) (c # cs)))
        \<le> length (drop (length old) (c # cs))"
      using Cons.prems(1) by (intro length_replace_all_le) simp
    with True ne le Cons.prems(1) show ?thesis by (simp add: replace_all.simps(2))
  next
    case False
    with Cons.prems have "str_contains cs old"
      by (auto simp: str_contains_def split: if_splits)
    with Cons.IH Cons.prems(1) False show ?thesis by (simp add: replace_all.simps(2))
  qed
qed

section \<open>Trimming\<close>

text \<open>
  The UTF-8 encodings of the runes for which \<open>unicode.IsSpace\<close> holds: six ASCII characters,
  U+0085, U+00A0, U+1680, U+2000 to U+200A, U+2028, U+2029, U+202F, U+205F and U+3000.
\<close>

definition ws_runes :: "string list" where
  "ws_runes =
     map (\<lambda>b. map char_of b)
       ([[9], [10], [11], [12], [13], [32], [0xC2, 0x85], [0xC2, 0xA0], [0xE1, 0x9A, 0x80]]
        @ map (\<lambda>k. [0xE2, 0x80, 0x80 + k]) [0, 1, 2, 3, 4, 5, 6, 7, 8, 9, 10]
        @ [[0xE2, 0x80, 0xA8], [0xE2, 0x80, 0xA9], [0xE2, 0x80, 0xAF], [0xE2, 0x81, 0x9F],
           [0xE3, 0x80, 0x80 :: nat]])"

lemma ws_runes_nonempty: "w \<in> set ws_runes \<Longrightarrow> w \<noteq> []"
  by (auto simp: ws_runes_def)

fun strip_front :: "string list \<Rightarrow> nat \<Rightarrow> string \<Rightarrow> string" where
  "strip_front ws 0 s = s"
| "strip_front ws (Suc n) s =
     (case List.find (has_prefix s) ws of
        None \<Rightarrow> s
      | Some w \<Rightarrow> strip_front ws n (drop (length w) s))"

text \<open>Each round removes at least one byte, so the length of the string is fuel enough.\<close>

definition trim_left :: "string \<Rightarrow> string" where
  "trim_left s = strip_front ws_runes (length s) s"

definition trim_right :: "string \<Rightarrow> string" where
  "trim_right s = rev (strip_front (map rev ws_runes) (length s) (rev s))"

definition trim_space :: "string \<Rightarrow> string" where
  "trim_space s = trim_right (trim_left s)"

definition trim_right_slash :: "string \<Rightarrow> string" where
  "trim_right_slash s = rev (dropWhile (\<lambda>c. c = CHR ''/'') (rev s))"

text \<open>\<open>path.Base\<close>.\<close>

definition path_base :: "string \<Rightarrow> string" where
  "path_base p =
     (if p = [] then ''.''
      else let q = trim_right_slash p;
               b = rev (takeWhile (\<lambda>c. c \<noteq> CHR ''/'') (rev q))
           in if b = [] then ''/'' else b)"

section \<open>Splitting\<close>

text \<open>\<open>strings.Split(s, c)\<close> for a one-byte separator: never the empty list.\<close>

fun split_on :: "char \<Rightarrow> string \<Rightarrow> string list" where
  "split_on c [] = [[]]"
| "split_on c (x # xs) =
     (if x = c then [] # split_on c xs
      else (case split_on c xs of [] \<Rightarrow> [[x]] | p # ps \<Rightarrow> (x # p) # ps))"

lemma split_on_nonempty [simp]: "split_on c s \<noteq> []"
  by (induction s) (auto split: list.splits)

lemma split_on_plain: "c \<notin> set s \<Longrightarrow> split_on c s = [s]"
  by (induction s) auto

lemma split_on_append:
  "c \<notin> set s \<Longrightarrow> split_on c (s @ c # t) = s # split_on c t"
  by (induction s) (auto split: list.splits)

text \<open>\<open>strings.Join\<close>.\<close>

fun str_join :: "string \<Rightarrow> string list \<Rightarrow> string" where
  "str_join sep [] = []"
| "str_join sep [x] = x"
| "str_join sep (x # y # xs) = x @ sep @ str_join sep (y # xs)"

lemma str_join_split_on: "str_join [c] (split_on c s) = s"
proof (induction s)
  case Nil
  show ?case by simp
next
  case (Cons x xs)
  obtain p ps where ps: "split_on c xs = p # ps"
    by (cases "split_on c xs") auto
  with Cons.IH show ?case
    by (cases ps) auto
qed

lemma strip_front_fixed:
  "length s \<le> n \<Longrightarrow> (\<forall>w\<in>set ws. w \<noteq> []) \<Longrightarrow>
     List.find (has_prefix (strip_front ws n s)) ws = None"
proof (induction ws n s rule: strip_front.induct)
  case (1 ws s)
  then show ?case by (force simp: has_prefix_def find_None_iff)
next
  case (2 ws n s)
  show ?case
  proof (cases "List.find (has_prefix s) ws")
    case None
    then show ?thesis by simp
  next
    case (Some w)
    then have w: "has_prefix s w" "w \<in> set ws" by (auto simp: find_Some_iff)
    with 2 have "w \<noteq> []" by blast
    with w have "length (drop (length w) s) \<le> n"
      using "2.prems"(1) by (cases w) auto
    with 2 Some show ?thesis by simp
  qed
qed

lemma strip_front_stop: "List.find (has_prefix s) ws = None \<Longrightarrow> strip_front ws n s = s"
  by (cases n) simp_all

lemma strip_front_suffix: "\<exists>p. s = p @ strip_front ws n s"
proof (induction ws n s rule: strip_front.induct)
  case (1 ws s)
  show ?case by simp
next
  case (2 ws n s)
  show ?case
  proof (cases "List.find (has_prefix s) ws")
    case None
    then show ?thesis by simp
  next
    case (Some w)
    with 2 obtain p where "drop (length w) s = p @ strip_front ws n (drop (length w) s)" by blast
    then have "s = (take (length w) s @ p) @ strip_front ws n (drop (length w) s)"
      by (metis append.assoc append_take_drop_id)
    with Some show ?thesis by (metis strip_front.simps(2) option.simps(5))
  qed
qed

end
