(* ===== verification/GoNumbers.thy ===== *)
theory GoNumbers
  imports Complex_Main GoStrings "HOL-Library.Log_Nat"
begin

text \<open>
  Numbers as the Go code reads and writes them: decimal integers (\<open>strconv.Itoa\<close>,
  \<open>strconv.ParseInt(s, 10, 64)\<close>, \<open>strconv.Atoi\<close>), 64-bit floats as exact rationals with
  correctly rounded decimal parsing, the conversion \<open>int64(f)\<close>, the JSON number grammar and the
  calendar arithmetic of \<open>time.Parse("2006-01-02", s)\<close>.
\<close>

section \<open>Decimal integers\<close>

definition digit_char :: "nat \<Rightarrow> char" where
  "digit_char d = char_of (48 + d)"

definition is_digit :: "char \<Rightarrow> bool" where
  "is_digit c = (48 \<le> (of_char c :: nat) \<and> (of_char c :: nat) \<le> 57)"

definition digit_val :: "char \<Rightarrow> nat" where
  "digit_val c = of_char c - 48"

fun nat_str :: "nat \<Rightarrow> string" where
  "nat_str n = (if n < 10 then [digit_char n] else nat_str (n div 10) @ [digit_char (n mod 10)])"

declare nat_str.simps [simp del]

definition int_str :: "int \<Rightarrow> string" where
  "int_str i = (if i < 0 then CHR ''-'' # nat_str (nat (- i)) else nat_str (nat i))"

definition digits_val :: "string \<Rightarrow> nat" where
  "digits_val s = foldl (\<lambda>n c. 10 * n + digit_val c) 0 s"

definition parse_nat :: "string \<Rightarrow> nat option" where
  "parse_nat s = (if s \<noteq> [] \<and> list_all is_digit s then Some (digits_val s) else None)"

text \<open>An optional sign, then the rest.\<close>

definition split_sign :: "string \<Rightarrow> bool \<times> string" where
  "split_sign s =
     (case s of [] \<Rightarrow> (False, [])
      | c # cs \<Rightarrow> if c = CHR ''-'' then (True, cs) else if c = CHR ''+'' then (False, cs) else (False, s))"

definition in_int64 :: "int \<Rightarrow> bool" where
  "in_int64 i = (- (2 ^ 63) \<le> i \<and> i < 2 ^ 63)"

text \<open>\<open>strconv.ParseInt(s, 10, 64)\<close>: \<open>None\<close> stands for a syntax or a range error.\<close>

definition parse_int64 :: "string \<Rightarrow> int64 option" where
  "parse_int64 s =
     (case split_sign s of (neg, ds) \<Rightarrow>
        (case parse_nat ds of
           None \<Rightarrow> None
         | Some n \<Rightarrow> (let i = (if neg then - int n else int n)
                     in if in_int64 i then Some (word_of_int i) else None)))"

lemma digit_char_simps [simp]:
  assumes "d < 10"
  shows "is_digit (digit_char d)" "digit_val (digit_char d) = d"
proof -
  have "of_char (char_of (48 + d) :: char) = (48 + d) mod 256"
    by (rule of_char_of)
  with assms have "of_char (digit_char d) = 48 + d"
    by (simp add: digit_char_def)
  with assms show "is_digit (digit_char d)" "digit_val (digit_char d) = d"
    by (simp_all add: is_digit_def digit_val_def)
qed

lemma nat_str_digits: "list_all is_digit (nat_str n)"
  by (induction n rule: nat_str.induct) (subst nat_str.simps, simp)

lemma nat_str_nonempty [simp]: "nat_str n \<noteq> []"
  by (subst nat_str.simps) simp

lemma digits_val_append: "digits_val (s @ [c]) = 10 * digits_val s + digit_val c"
  by (simp add: digits_val_def)

lemma digits_val_nat_str [simp]: "digits_val (nat_str n) = n"
proof (induction n rule: nat_str.induct)
  case (1 n)
  show ?case
  proof (cases "n < 10")
    case True
    then show ?thesis
      by (subst nat_str.simps) (simp add: digits_val_def)
  next
    case False
    with 1 have "digits_val (nat_str (n div 10)) = n div 10" by simp
    with False show ?thesis
      by (subst nat_str.simps) (simp add: digits_val_append)
  qed
qed

lemma parse_nat_str [simp]: "parse_nat (nat_str n) = Some n"
  by (simp add: parse_nat_def nat_str_digits)

lemma digit_not_sign: "is_digit c \<Longrightarrow> c \<noteq> CHR ''-'' \<and> c \<noteq> CHR ''+''"
  by (auto simp: is_digit_def)

lemma split_sign_nat_str [simp]: "split_sign (nat_str n) = (False, nat_str n)"
proof -
  obtain c cs where "nat_str n = c # cs" by (cases "nat_str n") auto
  with nat_str_digits [of n] show ?thesis by (simp add: split_sign_def digit_not_sign)
qed

lemma split_sign_int_str:
  "split_sign (int_str i) = (i < 0, nat_str (nat \<bar>i\<bar>))"
proof (cases "i < 0")
  case True
  then show ?thesis by (simp add: int_str_def split_sign_def)
next
  case False
  then show ?thesis by (simp add: int_str_def)
qed

text \<open>Printing an integer in range and parsing it back gives the integer.\<close>

lemma length_nat_str: "n < 10 ^ k \<Longrightarrow> 0 < k \<Longrightarrow> length (nat_str n) \<le> k"
proof (induction n arbitrary: k rule: nat_str.induct)
  case (1 n)
  show ?case
  proof (cases "n < 10")
    case True
    then show ?thesis using 1(3) by (subst nat_str.simps) simp
  next
    case False
    have "1 < k"
    proof (rule ccontr)
      assume "\<not> 1 < k"
      then have "k = 1" using 1(3) by simp
      then show False using 1(2) False by simp
    qed
    then obtain j where j: "k = Suc j" "0 < j" by (cases k) auto
    have "n div 10 < 10 ^ j" using 1(2) j(1) by (simp add: less_mult_imp_div_less mult.commute)
    then have "length (nat_str (n div 10)) \<le> j" using 1(1) False j(2) by simp
    then show ?thesis using False j(1) by (subst nat_str.simps) simp
  qed
qed

lemma parse_int64_str: "in_int64 i \<Longrightarrow> parse_int64 (int_str i) = Some (word_of_int i)"
  by (auto simp: parse_int64_def split_sign_int_str)

lemma sint_int64 [simp]: "in_int64 i \<Longrightarrow> sint (word_of_int i :: int64) = i"
  by (simp add: in_int64_def int_word_sint)

lemma in_int64_sint [simp]: "in_int64 (sint (w :: int64))"
  using sint_ge [of w] sint_lt [of w] by (simp add: in_int64_def)

lemma sint_int64_inject: "sint (v :: int64) = sint w \<longleftrightarrow> v = w"
  by (auto intro: signed_word_eqI)

section \<open>Floats\<close>

text \<open>
  A \<open>float64\<close> is a rational number or one of the special values (the sign of zero plays no role
  in the program). Rounding is to nearest, ties to even, with 53 bits of precision and exponents
  down to -1074; \<open>None\<close> is the overflow that \<open>strconv.ParseFloat\<close> reports as a range error.
\<close>

datatype f64 = Fin rat | PosInf | NegInf | NaN

definition pow2 :: "int \<Rightarrow> rat" where
  "pow2 e = (if 0 \<le> e then 2 ^ nat e else 1 / 2 ^ nat (- e))"

definition round_even :: "rat \<Rightarrow> int" where
  "round_even q =
     (let f = \<lfloor>q\<rfloor>; d = q - of_int f
      in if d < 1 / 2 then f else if 1 / 2 < d then f + 1 else if even f then f else f + 1)"

definition ilog2 :: "rat \<Rightarrow> int" where
  "ilog2 q = (case quotient_of q of (a, b) \<Rightarrow>
     (let k = bitlen a - bitlen b in if q < pow2 k then k - 1 else k))"

definition round64 :: "rat \<Rightarrow> f64 option" where
  "round64 q =
     (if q = 0 then Some (Fin 0)
      else let s = \<bar>q\<bar>; u = max (ilog2 s - 52) (- 1074);
               r = of_int (round_even (s / pow2 u)) * pow2 u
           in if 2 ^ 1024 \<le> r then None else Some (Fin (if q < 0 then - r else r)))"

text \<open>Integers below \<open>2 ^ 53\<close> are exact.\<close>

lemma round_even_of_int [simp]: "round_even (of_int i) = i"
  by (simp add: round_even_def Let_def)

lemma ilog2_of_int:
  assumes "0 < i" and "i < 2 ^ n"
  shows "ilog2 (of_int i) \<le> int n - 1"
proof -
  have bitlen_1: "bitlen 1 = 1" by (simp add: bitlen_alt_def)
  have "bitlen i \<le> int n"
    using assms bitlen_le_iff_power [of i n] by simp
  moreover have "ilog2 (of_int i) \<le> bitlen i - 1"
    by (simp add: ilog2_def Let_def bitlen_1)
  ultimately show ?thesis by simp
qed

lemma round64_int:
  assumes "\<bar>i\<bar> < 2 ^ 53"
  shows "round64 (of_int i) = Some (Fin (of_int i))"
proof (cases "i = 0")
  case True
  then show ?thesis by (simp add: round64_def)
next
  case False
  define u where "u = max (ilog2 (of_int \<bar>i\<bar>) - 52) (- 1074)"
  have "u \<le> 0" using ilog2_of_int [of "\<bar>i\<bar>" 53] assms False by (simp add: u_def)
  define k :: nat where "k = nat (- u)"
  have p: "pow2 u = 1 / 2 ^ k"
    using \<open>u \<le> 0\<close> by (cases "u = 0") (simp_all add: pow2_def k_def)
  have "of_int \<bar>i\<bar> / pow2 u = (of_int (\<bar>i\<bar> * 2 ^ k) :: rat)" by (simp add: p)
  then have "of_int (round_even (of_int \<bar>i\<bar> / pow2 u)) * pow2 u = (of_int (\<bar>i\<bar> * 2 ^ k) :: rat) * pow2 u"
    by (simp only: round_even_of_int)
  also have "\<dots> = of_int \<bar>i\<bar>" by (simp add: p)
  finally have r: "of_int (round_even (of_int \<bar>i\<bar> / pow2 u)) * pow2 u = (of_int \<bar>i\<bar> :: rat)" .
  have "\<bar>i\<bar> < 2 ^ 1024" using assms by (rule order.strict_trans) simp
  then have "\<not> 2 ^ 1024 \<le> (of_int \<bar>i\<bar> :: rat)"
    by (metis not_le of_int_less_iff of_int_numeral of_int_power)
  moreover have "(of_int i :: rat) \<noteq> 0" using False by simp
  moreover have "\<bar>of_int i :: rat\<bar> = of_int \<bar>i\<bar>" by simp
  ultimately have "round64 (of_int i)
      = Some (Fin (if (of_int i :: rat) < 0 then - of_int \<bar>i\<bar> else of_int \<bar>i\<bar>))"
    using r unfolding round64_def Let_def u_def by presburger
  then show ?thesis by simp
qed

text \<open>
  The decimal syntax of a Go float literal: digits with an optional point (at least one digit),
  then an optional exponent.
\<close>

definition take_digits :: "string \<Rightarrow> string \<times> string" where
  "take_digits s = (takeWhile is_digit s, dropWhile is_digit s)"

definition parse_exponent :: "string \<Rightarrow> int option" where
  "parse_exponent s =
     (case s of
        [] \<Rightarrow> Some 0
      | c # cs \<Rightarrow>
          if c = CHR ''e'' \<or> c = CHR ''E''
          then (case split_sign cs of (neg, ds) \<Rightarrow>
                  map_option (\<lambda>n. if neg then - int n else int n) (parse_nat ds))
          else None)"

definition pow10 :: "int \<Rightarrow> rat" where
  "pow10 e = (if 0 \<le> e then 10 ^ nat e else 1 / 10 ^ nat (- e))"

definition parse_decimal :: "string \<Rightarrow> rat option" where
  "parse_decimal s =
     (case split_sign s of (neg, s1) \<Rightarrow>
      case take_digits s1 of (ip, s2) \<Rightarrow>
      case (case s2 of c # cs \<Rightarrow> if c = CHR ''.'' then take_digits cs else ([], s2) | [] \<Rightarrow> ([], [])) of
        (fp, s3) \<Rightarrow>
      if ip = [] \<and> fp = [] then None
      else case parse_exponent s3 of
             None \<Rightarrow> None
           | Some e \<Rightarrow>
               (let q = of_nat (digits_val (ip @ fp)) * pow10 (e - int (length fp))
                in Some (if neg then - q else q)))"

text \<open>
  Code equations that evaluate on integers and on the bits of a character.
\<close>

definition digits_int :: "string \<Rightarrow> int" where
  "digits_int s = int (digits_val s)"

definition digit_int :: "char \<Rightarrow> int" where
  "digit_int c = int (digit_val c)"

lemma digit_int_code [code]:
  "digit_int (Char b0 b1 b2 b3 b4 b5 b6 b7) =
     max 0 ((if b0 then 1 else 0) + (if b1 then 2 else 0) + (if b2 then 4 else 0)
       + (if b3 then 8 else 0) + (if b4 then 16 else 0) + (if b5 then 32 else 0)
       + (if b6 then 64 else 0) + (if b7 then 128 else 0) - 48)"
  by (cases b7; cases b6; cases b5; cases b4; simp add: digit_int_def digit_val_def)

lemma is_digit_code [code]:
  "is_digit (Char b0 b1 b2 b3 b4 b5 b6 b7) \<longleftrightarrow>
     \<not> b7 \<and> \<not> b6 \<and> b5 \<and> b4 \<and> (\<not> b3 \<or> \<not> b2 \<and> \<not> b1)"
  by (simp add: is_digit_def)

lemma foldl_digits_int:
  "foldl (\<lambda>n c. 10 * n + digit_int c) (int k) s = int (foldl (\<lambda>n c. 10 * n + digit_val c) k s)"
proof (induction s arbitrary: k)
  case Nil
  show ?case by simp
next
  case (Cons c s)
  have "10 * int k + digit_int c = int (10 * k + digit_val c)" by (simp add: digit_int_def)
  then show ?case by (simp only: foldl.simps Cons.IH)
qed

lemma digits_int_code [code]: "digits_int s = foldl (\<lambda>n c. 10 * n + digit_int c) 0 s"
  using foldl_digits_int [of 0 s] by (simp add: digits_int_def digits_val_def)

lemma parse_int64_code [code]:
  "parse_int64 s =
     (case split_sign s of (neg, ds) \<Rightarrow>
        if ds \<noteq> [] \<and> list_all is_digit ds
        then (let n = digits_int ds; i = (if neg then - n else n)
              in if in_int64 i then Some (word_of_int i) else None)
        else None)"
  by (simp add: parse_int64_def parse_nat_def digits_int_def split: prod.splits)

lemma parse_decimal_code [code]:
  "parse_decimal s =
     (case split_sign s of (neg, s1) \<Rightarrow>
      case take_digits s1 of (ip, s2) \<Rightarrow>
      case (case s2 of c # cs \<Rightarrow> if c = CHR ''.'' then take_digits cs else ([], s2) | [] \<Rightarrow> ([], [])) of
        (fp, s3) \<Rightarrow>
      if ip = [] \<and> fp = [] then None
      else case parse_exponent s3 of
             None \<Rightarrow> None
           | Some e \<Rightarrow>
               (let q = of_int (digits_int (ip @ fp)) * pow10 (e - int (length fp))
                in Some (if neg then - q else q)))"
  by (simp only: parse_decimal_def digits_int_def of_int_of_nat_eq)

text \<open>
  What the model leaves to the library: the float syntaxes beyond decimal ones (hexadecimal,
  infinities, NaN, underscores), the value of \<open>int64(f)\<close> for a float out of range (the language
  leaves it to the implementation), the text of composite values under \<open>fmt.Sprint\<close>,
  \<open>time.Parse(time.RFC3339, s)\<close> in Unix seconds, the SHA-256 digest, the JSON text of a value
  and back, and standard base64. Every definition that uses one of them takes the record.
\<close>

section \<open>JSON numbers\<close>

text \<open>\<open>isValidNumber\<close> of \<open>encoding/json\<close>: no leading zeros, no plus sign, digits around a point.\<close>

definition json_int_part :: "string \<Rightarrow> bool" where
  "json_int_part ip = (ip = ''0'' \<or> (ip \<noteq> [] \<and> hd ip \<noteq> CHR ''0''))"

definition valid_json_number :: "string \<Rightarrow> bool" where
  "valid_json_number s =
     (let s1 = (case s of c # cs \<Rightarrow> if c = CHR ''-'' then cs else s | [] \<Rightarrow> []);
          ip = takeWhile is_digit s1; s2 = dropWhile is_digit s1
      in json_int_part ip \<and>
         (case s2 of
            [] \<Rightarrow> True
          | c # cs \<Rightarrow>
              if c = CHR ''.''
              then takeWhile is_digit cs \<noteq> [] \<and> parse_exponent (dropWhile is_digit cs) \<noteq> None
              else parse_exponent s2 \<noteq> None))"

section \<open>Calendar days\<close>

definition leap :: "int \<Rightarrow> bool" where
  "leap y = (y mod 4 = 0 \<and> (y mod 100 \<noteq> 0 \<or> y mod 400 = 0))"

definition month_days :: "int \<Rightarrow> int \<Rightarrow> int" where
  "month_days y m =
     (if m = 2 then (if leap y then 29 else 28)
      else if m = 4 \<or> m = 6 \<or> m = 9 \<or> m = 11 then 30 else 31)"

definition days_before_year :: "int \<Rightarrow> int" where
  "days_before_year y = 365 * (y - 1) + (y - 1) div 4 - (y - 1) div 100 + (y - 1) div 400"

definition days_before_month :: "int \<Rightarrow> int \<Rightarrow> int" where
  "days_before_month y m = sum_list (map (month_days y) [1 .. m - 1])"

text \<open>Days since 1970-01-01.\<close>

definition unix_days :: "int \<Rightarrow> int \<Rightarrow> int \<Rightarrow> int" where
  "unix_days y m d =
     days_before_year y - days_before_year 1970 + days_before_month y m + (d - 1)"

text \<open>\<open>time.Parse("2006-01-02", s)\<close> followed by \<open>Unix()\<close>.\<close>

definition parse_date :: "string \<Rightarrow> int option" where
  "parse_date s =
     (case split_on (CHR ''-'') s of
        [ys, ms, ds] \<Rightarrow>
          (if length ys = 4 \<and> length ms = 2 \<and> length ds = 2
              \<and> list_all is_digit (ys @ ms @ ds)
           then (let y = int (digits_val ys); m = int (digits_val ms); d = int (digits_val ds)
                 in if 1 \<le> m \<and> m \<le> 12 \<and> 1 \<le> d \<and> d \<le> month_days y m
                    then Some (86400 * unix_days y m d) else None)
           else None)
      | _ \<Rightarrow> None)"

lemma parse_date_code [code]:
  "parse_date s =
     (case split_on (CHR ''-'') s of
        [ys, ms, ds] \<Rightarrow>
          (if length ys = 4 \<and> length ms = 2 \<and> length ds = 2
              \<and> list_all is_digit (ys @ ms @ ds)
           then (let y = digits_int ys; m = digits_int ms; d = digits_int ds
                 in if 1 \<le> m \<and> m \<le> 12 \<and> 1 \<le> d \<and> d \<le> month_days y m
                    then Some (86400 * unix_days y m d) else None)
           else None)
      | _ \<Rightarrow> None)"
  by (simp only: parse_date_def digits_int_def)

end
