(* ===== verification/GoValues.thy ===== *)
theory GoValues
  imports GoNumbers
begin

text \<open>
  Dynamic values (\<open>interface{}\<close>), JSON trees and the record of library functions that the model
  takes as a parameter; \<open>fmt.Sprint\<close>, \<open>strconv.ParseFloat\<close> and the struct-field lookup of
  \<open>encoding/json\<close>.
\<close>

section \<open>JSON trees\<close>

text \<open>
  A JSON text after lexing. Numbers keep their literal and objects their members in the order of
  the text, duplicates included.
\<close>

datatype json =
    JNull
  | JBool bool
  | JNum string
  | JStr string
  | JArr "json list"
  | JObj "(string \<times> json) list"

section \<open>Dynamic values\<close>

datatype int_kind = KInt | KInt8 | KInt16 | KInt32 | KInt64 | KUint | KUint8 | KUint16 | KUint32 | KUint64

datatype float_kind = KFloat32 | KFloat64

text \<open>
  The values an \<open>interface{}\<close> holds in the program: the numeric kinds (with the mathematical value
  of an integer), strings, byte slices, \<open>json.Number\<close>, \<open>*big.Int\<close>, \<open>time.Time\<close> (as Unix seconds)
  and the composite values JSON decoding makes.
\<close>

datatype gval =
    GNil
  | GBool bool
  | GInt int_kind int
  | GFloat float_kind f64
  | GStr string
  | GBytes string
  | GNumber string
  | GBig int
  | GTime int
  | GList "gval list"
  | GMap "(string \<times> gval) list"

section \<open>Library functions\<close>

record golib =
  gl_float_ext :: "string \<Rightarrow> f64 option"
  gl_float_oor :: "f64 \<Rightarrow> int64"
  gl_sprint :: "gval \<Rightarrow> string"
  gl_rfc3339 :: "string \<Rightarrow> int option"
  gl_sha256 :: "string \<Rightarrow> string"
  gl_json_parse :: "string \<Rightarrow> json option"
  gl_json_text :: "gval \<Rightarrow> string option"
  gl_b64_decode :: "string \<Rightarrow> string option"
  gl_b64_encode :: "string \<Rightarrow> string"
  gl_hex :: "string \<Rightarrow> string"

text \<open>\<open>strconv.ParseFloat(s, 64)\<close>: \<open>None\<close> is a syntax or range error.\<close>

definition parse_float :: "golib \<Rightarrow> string \<Rightarrow> f64 option" where
  "parse_float L s =
     (case parse_decimal s of
        Some q \<Rightarrow> round64 q
      | None \<Rightarrow> gl_float_ext L s)"

text \<open>The conversion \<open>int64(f)\<close>: truncation towards zero for values in range.\<close>

definition trunc_rat :: "rat \<Rightarrow> int" where
  "trunc_rat q = (if 0 \<le> q then \<lfloor>q\<rfloor> else \<lceil>q\<rceil>)"

definition float_to_int64 :: "golib \<Rightarrow> f64 \<Rightarrow> int64" where
  "float_to_int64 L f =
     (case f of
        Fin q \<Rightarrow> if in_int64 (trunc_rat q) then word_of_int (trunc_rat q) else gl_float_oor L f
      | _ \<Rightarrow> gl_float_oor L f)"

lemma trunc_rat_of_int [simp]: "trunc_rat (of_int i) = i"
  by (simp add: trunc_rat_def)

text \<open>\<open>fmt.Sprint\<close> of one operand.\<close>

definition sprint :: "golib \<Rightarrow> gval \<Rightarrow> string" where
  "sprint L v =
     (case v of
        GNil \<Rightarrow> ''<nil>''
      | GBool b \<Rightarrow> if b then ''true'' else ''false''
      | GInt k i \<Rightarrow> int_str i
      | GStr s \<Rightarrow> s
      | GNumber s \<Rightarrow> s
      | GBig i \<Rightarrow> int_str i
      | _ \<Rightarrow> gl_sprint L v)"

lemma sprint_simps [simp]:
  "sprint L (GStr s) = s"
  "sprint L GNil = ''<nil>''"
  "sprint L (GBig i) = int_str i"
  "sprint L (GInt k i) = int_str i"
  "sprint L (GNumber s) = s"
  by (simp_all add: sprint_def)

text \<open>\<open>v == nil\<close> for an interface value.\<close>

definition is_nil :: "gval \<Rightarrow> bool" where
  "is_nil v = (case v of GNil \<Rightarrow> True | _ \<Rightarrow> False)"

text \<open>The methods \<open>String()\<close> of the types that are a \<open>fmt.Stringer\<close>.\<close>

definition stringer :: "golib \<Rightarrow> gval \<Rightarrow> string option" where
  "stringer L v =
     (case v of
        GNumber s \<Rightarrow> Some s
      | GBig i \<Rightarrow> Some (int_str i)
      | GTime t \<Rightarrow> Some (gl_sprint L v)
      | _ \<Rightarrow> None)"

text \<open>
  \<open>json.Unmarshal\<close> into an \<open>interface{}\<close>: numbers become \<open>float64\<close> (\<open>UseNumber\<close> off) or
  \<open>json.Number\<close> (on), objects a map in which the last duplicate wins, kept here as the list
  of its entries. \<open>None\<close> is a number literal out of the range of \<open>float64\<close>.
\<close>

definition dedup_last :: "(string \<times> 'a) list \<Rightarrow> (string \<times> 'a) list" where
  "dedup_last kvs = foldr (\<lambda>(k, v) acc. if k \<in> fst ` set acc then acc else (k, v) # acc) kvs []"

fun decode_any :: "golib \<Rightarrow> bool \<Rightarrow> json \<Rightarrow> gval option"
  and decode_list :: "golib \<Rightarrow> bool \<Rightarrow> json list \<Rightarrow> gval list option"
  and decode_members :: "golib \<Rightarrow> bool \<Rightarrow> (string \<times> json) list \<Rightarrow> (string \<times> gval) list option" where
  "decode_any L un JNull = Some GNil"
| "decode_any L un (JBool b) = Some (GBool b)"
| "decode_any L un (JNum s) =
     (if un then Some (GNumber s)
      else map_option (GFloat KFloat64) (parse_float L s))"
| "decode_any L un (JStr s) = Some (GStr s)"
| "decode_any L un (JArr xs) = map_option GList (decode_list L un xs)"
| "decode_any L un (JObj kvs) = map_option (\<lambda>m. GMap (dedup_last m)) (decode_members L un kvs)"
| "decode_list L un [] = Some []"
| "decode_list L un (x # xs) =
     (case decode_any L un x of None \<Rightarrow> None
      | Some v \<Rightarrow> map_option (Cons v) (decode_list L un xs))"
| "decode_members L un [] = Some []"
| "decode_members L un ((k, x) # kvs) =
     (case decode_any L un x of None \<Rightarrow> None
      | Some v \<Rightarrow> map_option (Cons (k, v)) (decode_members L un kvs))"

lemma dedup_last_map_of: "map_of (dedup_last kvs) k = map_of (rev kvs) k"
proof (induction kvs arbitrary: k)
  case Nil
  show ?case by (simp add: dedup_last_def)
next
  case (Cons kv kvs)
  obtain j w where kv: "kv = (j, w)" by (cases kv)
  have step: "dedup_last (kv # kvs) =
      (if j \<in> fst ` set (dedup_last kvs) then dedup_last kvs else (j, w) # dedup_last kvs)"
    by (simp add: dedup_last_def kv)
  have "map_of (rev kvs) j = None \<longleftrightarrow> j \<notin> fst ` set (dedup_last kvs)"
    by (simp only: Cons.IH [symmetric] map_of_eq_None_iff)
  then show ?case
    using Cons.IH step kv by (auto simp: map_add_def split: option.splits)
qed

text \<open>
  The struct decoder: the members whose key names the field, by the exact name or by a match that
  ignores case; a later member overwrites an earlier one, so the last one decides. Every name
  the program declares is ASCII, so beside the ASCII letters only the two other runes that fold
  to an ASCII letter matter: U+017F folds to s and U+212A to k.
\<close>

definition lower_char :: "char \<Rightarrow> char" where
  "lower_char c = (let n = of_char c :: nat in if 65 \<le> n \<and> n \<le> 90 then char_of (n + 32) else c)"

definition fold_ascii :: "string \<Rightarrow> string" where
  "fold_ascii s =
     map lower_char
       (replace_all (map char_of [0xE2, 0x84, 0xAA :: nat]) ''k''
          (replace_all (map char_of [0xC5, 0xBF :: nat]) ''s'' s))"

text \<open>Code equations on the bits of a character, so that evaluation needs no arithmetic.\<close>

lemma lower_char_code [code]:
  "lower_char (Char b0 b1 b2 b3 b4 b5 b6 b7) =
     (if \<not> b7 \<and> b6 \<and> \<not> b5 \<and> (b0 \<or> b1 \<or> b2 \<or> b3 \<or> b4) \<and> \<not> (b4 \<and> b3 \<and> (b2 \<or> b1 \<and> b0))
      then Char b0 b1 b2 b3 b4 True b6 b7 else Char b0 b1 b2 b3 b4 b5 b6 b7)"
  by (cases b0; cases b1; cases b2; cases b3; cases b4; cases b5; cases b6; cases b7)
    (simp_all add: lower_char_def Let_def char_of_def bit_simps)

lemma fold_ascii_code [code]:
  "fold_ascii s = map lower_char
     (replace_all [CHR 0xE2, CHR 0x84, CHR 0xAA] ''k'' (replace_all [CHR 0xC5, CHR 0xBF] ''s'' s))"
  by (simp add: fold_ascii_def char_of_def bit_simps)

text \<open>\<open>strings.EqualFold(s, t)\<close> for an ASCII \<open>t\<close>.\<close>

definition equal_fold :: "string \<Rightarrow> string \<Rightarrow> bool" where
  "equal_fold s t = (fold_ascii s = fold_ascii t)"

lemma equal_fold_refl [simp]: "equal_fold s s"
  by (simp add: equal_fold_def)

definition members_of :: "string \<Rightarrow> (string \<times> json) list \<Rightarrow> json list" where
  "members_of f kvs = map snd (filter (\<lambda>kv. equal_fold (fst kv) f) kvs)"

text \<open>The entry of a Go map literal in a dynamic value, with the comma-ok form.\<close>

definition gmap_get :: "gval \<Rightarrow> string \<Rightarrow> gval option" where
  "gmap_get v k = (case v of GMap m \<Rightarrow> map_of m k | _ \<Rightarrow> None)"

text \<open>An index expression \<open>m[k]\<close> without comma-ok: the nil interface for an absent key.\<close>

definition index_any :: "(string \<rightharpoonup> gval) \<Rightarrow> string \<Rightarrow> gval" where
  "index_any m k = (case m k of None \<Rightarrow> GNil | Some v \<Rightarrow> v)"

text \<open>A library for the witnesses: every parameter is a fixed function.\<close>

definition plain_lib :: golib where
  "plain_lib =
     \<lparr>gl_float_ext = \<lambda>s. None, gl_float_oor = \<lambda>f. 0, gl_sprint = \<lambda>v. [],
      gl_rfc3339 = \<lambda>s. None, gl_sha256 = \<lambda>s. take 32 s, gl_json_parse = \<lambda>s. Some (JStr s),
      gl_json_text = \<lambda>v. Some [], gl_b64_decode = \<lambda>s. Some s, gl_b64_encode = \<lambda>s. s,
      gl_hex = \<lambda>s. s\<rparr>"

end
