(* ===== verification/Schema.thy ===== *)
theory Schema
  imports GoValues "HOL-Library.Sublist" "HOL-Library.Multiset"
begin

text \<open>
  \<open>pkg/zkp/schema.go\<close>: the schema of a circuit, its JSON decoding, the validation pass \<open>prepare\<close>
  and the readers of a constraint's value. The copies of the file in \<open>blockchain-client\<close> and in
  the wallet are the same text.
\<close>

section \<open>Data\<close>

definition FieldTypeInteger :: string where "FieldTypeInteger = ''integer''"
definition FieldTypeNumber :: string where "FieldTypeNumber = ''number''"
definition FieldTypeBoolean :: string where "FieldTypeBoolean = ''boolean''"
definition FieldTypeString :: string where "FieldTypeString = ''string''"
definition FieldTypeDate :: string where "FieldTypeDate = ''date''"

definition ConstraintRange :: string where "ConstraintRange = ''range_check''"
definition ConstraintComparison :: string where "ConstraintComparison = ''comparison''"
definition ConstraintAge :: string where "ConstraintAge = ''age_verification''"

lemmas type_names = FieldTypeInteger_def FieldTypeNumber_def FieldTypeBoolean_def
  FieldTypeString_def FieldTypeDate_def ConstraintRange_def ConstraintComparison_def
  ConstraintAge_def

record field_def =
  fd_name :: string
  fd_type :: string
  fd_required :: bool
  fd_secret :: bool
  fd_public :: bool
  fd_description :: string

text \<open>\<open>Value\<close> is a \<open>json.RawMessage\<close>: absent, or the text of one JSON value.\<close>

record constraint_def =
  cd_type :: string
  cd_fields :: "string list"
  cd_operator :: string
  cd_value :: "json option"
  cd_error_message :: string

record schema_def =
  sd_schema_id :: string
  sd_version :: string
  sd_fields :: "field_def list"
  sd_constraints :: "constraint_def list"
  sd_field_index :: "string \<rightharpoonup> field_def"

section \<open>Decoding a schema\<close>

text \<open>
  \<open>json.Unmarshal\<close> into the structs: a member of the wrong JSON type is an error, \<open>null\<close> leaves a
  string or a bool as it is and empties a slice. When a text repeats an array member the model
  decodes the last one afresh.
\<close>

definition decode_string :: "string \<Rightarrow> (string \<times> json) list \<Rightarrow> string res" where
  "decode_string f kvs =
     each_res (\<lambda>j s. case j of JStr t \<Rightarrow> Inr t | JNull \<Rightarrow> Inr s | _ \<Rightarrow> Inl (LibErr ''json''))
       (members_of f kvs) []"

definition decode_bool :: "string \<Rightarrow> (string \<times> json) list \<Rightarrow> bool res" where
  "decode_bool f kvs =
     each_res (\<lambda>j b. case j of JBool c \<Rightarrow> Inr c | JNull \<Rightarrow> Inr b | _ \<Rightarrow> Inl (LibErr ''json''))
       (members_of f kvs) False"

fun decode_all :: "('a \<Rightarrow> 'b res) \<Rightarrow> 'a list \<Rightarrow> 'b list res" where
  "decode_all f [] = Inr []"
| "decode_all f (x # xs) =
     (case f x of Inl e \<Rightarrow> Inl e
      | Inr y \<Rightarrow> (case decode_all f xs of Inl e \<Rightarrow> Inl e | Inr ys \<Rightarrow> Inr (y # ys)))"

definition decode_slice :: "(json \<Rightarrow> 'b res) \<Rightarrow> string \<Rightarrow> (string \<times> json) list \<Rightarrow> 'b list res" where
  "decode_slice d f kvs =
     each_res (\<lambda>j ys. case j of JArr xs \<Rightarrow> decode_all d xs | JNull \<Rightarrow> Inr [] | _ \<Rightarrow> Inl (LibErr ''json''))
       (members_of f kvs) []"

definition decode_raw :: "string \<Rightarrow> (string \<times> json) list \<Rightarrow> json option" where
  "decode_raw f kvs = (case rev (members_of f kvs) of [] \<Rightarrow> None | j # _ \<Rightarrow> Some j)"

definition members :: "json \<Rightarrow> (string \<times> json) list res" where
  "members j = (case j of JObj kvs \<Rightarrow> Inr kvs | JNull \<Rightarrow> Inr [] | _ \<Rightarrow> Inl (LibErr ''json''))"

definition decode_name :: "json \<Rightarrow> string res" where
  "decode_name j = (case j of JStr s \<Rightarrow> Inr s | JNull \<Rightarrow> Inr [] | _ \<Rightarrow> Inl (LibErr ''json''))"

definition decode_field :: "json \<Rightarrow> field_def res" where
  "decode_field j =
     (case members j of Inl e \<Rightarrow> Inl e | Inr kvs \<Rightarrow>
      case decode_string ''name'' kvs of Inl e \<Rightarrow> Inl e | Inr n \<Rightarrow>
      case decode_string ''type'' kvs of Inl e \<Rightarrow> Inl e | Inr t \<Rightarrow>
      case decode_bool ''required'' kvs of Inl e \<Rightarrow> Inl e | Inr r \<Rightarrow>
      case decode_bool ''secret'' kvs of Inl e \<Rightarrow> Inl e | Inr s \<Rightarrow>
      case decode_bool ''public'' kvs of Inl e \<Rightarrow> Inl e | Inr p \<Rightarrow>
      case decode_string ''description'' kvs of Inl e \<Rightarrow> Inl e | Inr d \<Rightarrow>
      Inr \<lparr>fd_name = n, fd_type = t, fd_required = r, fd_secret = s, fd_public = p,
           fd_description = d\<rparr>)"

definition decode_constraint :: "json \<Rightarrow> constraint_def res" where
  "decode_constraint j =
     (case members j of Inl e \<Rightarrow> Inl e | Inr kvs \<Rightarrow>
      case decode_string ''type'' kvs of Inl e \<Rightarrow> Inl e | Inr t \<Rightarrow>
      case decode_slice decode_name ''fields'' kvs of Inl e \<Rightarrow> Inl e | Inr fs \<Rightarrow>
      case decode_string ''operator'' kvs of Inl e \<Rightarrow> Inl e | Inr opr \<Rightarrow>
      case decode_string ''error_message'' kvs of Inl e \<Rightarrow> Inl e | Inr m \<Rightarrow>
      Inr \<lparr>cd_type = t, cd_fields = fs, cd_operator = opr, cd_value = decode_raw ''value'' kvs,
           cd_error_message = m\<rparr>)"

definition decode_schema :: "json \<Rightarrow> schema_def res" where
  "decode_schema j =
     (case members j of Inl e \<Rightarrow> Inl e | Inr kvs \<Rightarrow>
      case decode_string ''schema_id'' kvs of Inl e \<Rightarrow> Inl e | Inr i \<Rightarrow>
      case decode_string ''version'' kvs of Inl e \<Rightarrow> Inl e | Inr v \<Rightarrow>
      case decode_slice decode_field ''fields'' kvs of Inl e \<Rightarrow> Inl e | Inr fs \<Rightarrow>
      case decode_slice decode_constraint ''constraints'' kvs of Inl e \<Rightarrow> Inl e | Inr cs \<Rightarrow>
      Inr \<lparr>sd_schema_id = i, sd_version = v, sd_fields = fs, sd_constraints = cs,
           sd_field_index = Map.empty\<rparr>)"

section \<open>prepare\<close>

text \<open>Default visibility and default type of one field (lines 81 to 90).\<close>

definition normalise_field :: "field_def \<Rightarrow> field_def" where
  "normalise_field f =
     (let f1 = (if fd_public f then f\<lparr>fd_secret := False\<rparr>
                else if \<not> fd_secret f then f\<lparr>fd_secret := True\<rparr> else f)
      in if fd_type f1 = [] then f1\<lparr>fd_type := FieldTypeString\<rparr> else f1)"

fun prepare_fields ::
    "field_def list \<Rightarrow> (string \<rightharpoonup> field_def) \<Rightarrow> (field_def list \<times> (string \<rightharpoonup> field_def)) res" where
  "prepare_fields [] idx = Inr ([], idx)"
| "prepare_fields (f # fs) idx =
     (if fd_name f = [] then Inl (Msg ''schema field name cannot be empty'')
      else if idx (fd_name f) \<noteq> None
      then Inl (Msg (''duplicate field '' @ quoted (fd_name f) @ '' in schema''))
      else let f' = normalise_field f
           in (case prepare_fields fs (idx(fd_name f' \<mapsto> f')) of
                 Inl e \<Rightarrow> Inl e
               | Inr (fs', idx') \<Rightarrow> Inr (f' # fs', idx')))"

definition check_constraint :: "(string \<rightharpoonup> field_def) \<Rightarrow> constraint_def \<Rightarrow> unit \<Rightarrow> unit res" where
  "check_constraint idx c u =
     (if cd_type c = [] then Inl (Msg ''constraint must declare type'')
      else if cd_fields c = []
      then Inl (Msg (''constraint '' @ quoted (cd_type c) @ '' must reference at least one field''))
      else each_res (\<lambda>n u. if idx n = None
                           then Inl (Msg (''constraint references unknown field '' @ quoted n))
                           else Inr u) (cd_fields c) u)"

definition prepare :: "schema_def \<Rightarrow> schema_def res" where
  "prepare s =
     (if sd_fields s = [] then Inl (Msg ''schema must declare at least one field'')
      else case prepare_fields (sd_fields s) Map.empty of
             Inl e \<Rightarrow> Inl e
           | Inr (fs, idx) \<Rightarrow>
               (case each_res (check_constraint idx) (sd_constraints s) () of
                  Inl e \<Rightarrow> Inl e
                | Inr u \<Rightarrow> Inr (s\<lparr>sd_fields := fs, sd_field_index := idx\<rparr>)))"

definition ParseSchema :: "golib \<Rightarrow> string \<Rightarrow> schema_def res" where
  "ParseSchema L data =
     (case gl_json_parse L data of
        None \<Rightarrow> Inl (Wrap ''parse schema'' (LibErr ''json''))
      | Some j \<Rightarrow>
          (case decode_schema j of
             Inl e \<Rightarrow> Inl (Wrap ''parse schema'' e)
           | Inr s \<Rightarrow> prepare s))"

definition schema_field :: "schema_def \<Rightarrow> string \<Rightarrow> field_def option" where
  "schema_field s name = sd_field_index s name"

definition SecretFieldOrder :: "schema_def \<Rightarrow> string list" where
  "SecretFieldOrder s = map fd_name (filter (\<lambda>f. \<not> fd_public f) (sd_fields s))"

definition PublicFieldOrder :: "schema_def \<Rightarrow> string list" where
  "PublicFieldOrder s = map fd_name (filter fd_public (sd_fields s))"

definition FieldDefinition :: "schema_def \<Rightarrow> string \<Rightarrow> field_def res" where
  "FieldDefinition s name =
     (case schema_field s name of
        None \<Rightarrow> Inl (Msg (''unknown field '' @ quoted name))
      | Some f \<Rightarrow> Inr f)"

section \<open>The value of a constraint\<close>

text \<open>\<open>json.Number.Int64()\<close>, then \<open>json.Number.Float64()\<close>.\<close>

definition number_as_int :: "golib \<Rightarrow> string \<Rightarrow> int64 option" where
  "number_as_int L s =
     (case parse_int64 s of
        Some v \<Rightarrow> Some v
      | None \<Rightarrow> map_option (float_to_int64 L) (parse_float L s))"

definition parseStringInt :: "golib \<Rightarrow> string \<Rightarrow> int64 res" where
  "parseStringInt L value =
     (let v = trim_space value
      in if v = [] then Inl (Msg ''empty numeric string'')
         else case number_as_int L v of
                Some n \<Rightarrow> Inr n
              | None \<Rightarrow> Inl (Msg (''invalid numeric value '' @ quoted v)))"

text \<open>
  \<open>json.Unmarshal\<close> of a raw value into a \<open>json.Number\<close>, a \<open>float64\<close> and a \<open>string\<close>: a quoted string
  is a \<open>json.Number\<close> when it is a JSON number, and \<open>null\<close> leaves the zero value.
\<close>

definition unmarshal_number :: "json \<Rightarrow> string option" where
  "unmarshal_number j =
     (case j of
        JNum s \<Rightarrow> Some s
      | JStr s \<Rightarrow> if valid_json_number s then Some s else None
      | JNull \<Rightarrow> Some []
      | _ \<Rightarrow> None)"

definition unmarshal_float :: "golib \<Rightarrow> json \<Rightarrow> f64 option" where
  "unmarshal_float L j =
     (case j of JNum s \<Rightarrow> parse_float L s | JNull \<Rightarrow> Some (Fin 0) | _ \<Rightarrow> None)"

definition unmarshal_string :: "json \<Rightarrow> string option" where
  "unmarshal_string j = (case j of JStr s \<Rightarrow> Some s | JNull \<Rightarrow> Some [] | _ \<Rightarrow> None)"

definition ValueAsInt :: "golib \<Rightarrow> constraint_def \<Rightarrow> int64 res" where
  "ValueAsInt L c =
     (case cd_value c of
        None \<Rightarrow> Inl (Msg ''constraint missing value'')
      | Some j \<Rightarrow>
          (case (case unmarshal_number j of None \<Rightarrow> None | Some s \<Rightarrow> number_as_int L s) of
             Some v \<Rightarrow> Inr v
           | None \<Rightarrow>
               (case unmarshal_float L j of
                  Some f \<Rightarrow> Inr (float_to_int64 L f)
                | None \<Rightarrow>
                    (case unmarshal_string j of
                       Some s \<Rightarrow> parseStringInt L s
                     | None \<Rightarrow> Inl (Wrap ''constraint value is not numeric'' (LibErr ''raw value''))))))"

definition ValueAsNumberSlice :: "golib \<Rightarrow> constraint_def \<Rightarrow> f64 list res" where
  "ValueAsNumberSlice L c =
     (case cd_value c of
        None \<Rightarrow> Inl (Msg ''constraint missing value array'')
      | Some j \<Rightarrow>
          (case (case j of
                   JArr xs \<Rightarrow> decode_all (\<lambda>x. case unmarshal_float L x of
                                                 None \<Rightarrow> Inl (LibErr ''json'') | Some f \<Rightarrow> Inr f) xs
                 | JNull \<Rightarrow> Inr []
                 | _ \<Rightarrow> Inl (LibErr ''json'')) of
             Inl e \<Rightarrow> Inl (Wrap ''constraint expects numeric array value'' e)
           | Inr fs \<Rightarrow> Inr fs))"


section \<open>What prepare accepts and what it makes\<close>

text \<open>The declarations \<open>prepare\<close> accepts, read off the schema alone.\<close>

definition constraint_ok :: "string set \<Rightarrow> constraint_def \<Rightarrow> bool" where
  "constraint_ok names c = (cd_type c \<noteq> [] \<and> cd_fields c \<noteq> [] \<and> set (cd_fields c) \<subseteq> names)"

definition schema_ok :: "schema_def \<Rightarrow> bool" where
  "schema_ok s =
     (sd_fields s \<noteq> [] \<and> [] \<notin> fd_name ` set (sd_fields s) \<and> distinct (map fd_name (sd_fields s))
      \<and> (\<forall>c\<in>set (sd_constraints s). constraint_ok (fd_name ` set (sd_fields s)) c))"

definition field_index_of :: "field_def list \<Rightarrow> (string \<rightharpoonup> field_def)" where
  "field_index_of fs = map_of (map (\<lambda>f. (fd_name f, f)) fs)"

definition normalised :: "schema_def \<Rightarrow> schema_def" where
  "normalised s =
     s\<lparr>sd_fields := map normalise_field (sd_fields s),
       sd_field_index := field_index_of (map normalise_field (sd_fields s))\<rparr>"

definition field_wf :: "field_def \<Rightarrow> bool" where
  "field_wf f = (fd_name f \<noteq> [] \<and> fd_type f \<noteq> [] \<and> fd_secret f = (\<not> fd_public f))"

definition schema_wf :: "schema_def \<Rightarrow> bool" where
  "schema_wf s =
     (sd_fields s \<noteq> [] \<and> list_all field_wf (sd_fields s) \<and> distinct (map fd_name (sd_fields s))
      \<and> sd_field_index s = field_index_of (sd_fields s)
      \<and> list_all (constraint_ok (fd_name ` set (sd_fields s))) (sd_constraints s))"

lemma normalise_field_simps [simp]:
  "fd_name (normalise_field f) = fd_name f"
  "fd_public (normalise_field f) = fd_public f"
  "fd_required (normalise_field f) = fd_required f"
  "fd_secret (normalise_field f) = (\<not> fd_public f)"
  "fd_type (normalise_field f) = (if fd_type f = [] then FieldTypeString else fd_type f)"
  by (simp_all add: normalise_field_def Let_def)

lemma normalise_field_wf: "fd_name f \<noteq> [] \<Longrightarrow> field_wf (normalise_field f)"
  by (simp add: field_wf_def FieldTypeString_def)

lemma normalise_field_fixed: "field_wf f \<Longrightarrow> normalise_field f = f"
  by (cases f) (auto simp: normalise_field_def field_wf_def)

lemma normalise_field_idem [simp]: "normalise_field (normalise_field f) = normalise_field f"
  by (auto simp: normalise_field_def Let_def FieldTypeString_def)

lemma prepare_fields_iff:
  "prepare_fields fs idx = Inr r \<longleftrightarrow>
     [] \<notin> fd_name ` set fs \<and> distinct (map fd_name fs) \<and> (\<forall>f\<in>set fs. idx (fd_name f) = None)
     \<and> r = (map normalise_field fs, idx ++ field_index_of (map normalise_field fs))"
proof (induction fs arbitrary: idx r)
  case Nil
  show ?case by (auto simp: field_index_of_def)
next
  case (Cons f fs)
  show ?case
  proof (cases "fd_name f = [] \<or> idx (fd_name f) \<noteq> None")
    case True
    then show ?thesis by auto
  next
    case False
    define idx1 where "idx1 = idx(fd_name f \<mapsto> normalise_field f)"
    let ?U = "idx ++ field_index_of (map normalise_field (f # fs))"
    have "prepare_fields (f # fs) idx = Inr r \<longleftrightarrow>
        (\<exists>fs' idx'. prepare_fields fs idx1 = Inr (fs', idx') \<and> r = (normalise_field f # fs', idx'))"
      using False by (auto simp: Let_def idx1_def split: sum.splits)
    also have "\<dots> \<longleftrightarrow> [] \<notin> fd_name ` set fs \<and> distinct (map fd_name fs)
        \<and> (\<forall>g\<in>set fs. idx1 (fd_name g) = None)
        \<and> r = (map normalise_field (f # fs), idx1 ++ field_index_of (map normalise_field fs))"
      by (auto simp: Cons.IH)
    also have "(\<forall>g\<in>set fs. idx1 (fd_name g) = None) \<longleftrightarrow>
        fd_name f \<notin> fd_name ` set fs \<and> (\<forall>g\<in>set fs. idx (fd_name g) = None)"
      by (auto simp: idx1_def image_iff split: if_splits)
    finally have step: "prepare_fields (f # fs) idx = Inr r \<longleftrightarrow>
        [] \<notin> fd_name ` set fs \<and> distinct (map fd_name fs)
        \<and> (fd_name f \<notin> fd_name ` set fs \<and> (\<forall>g\<in>set fs. idx (fd_name g) = None))
        \<and> r = (map normalise_field (f # fs), idx1 ++ field_index_of (map normalise_field fs))" .
    have upd: "idx1 ++ field_index_of (map normalise_field fs) = ?U"
      if "fd_name f \<notin> fd_name ` set fs"
    proof -
      have "field_index_of (map normalise_field fs) (fd_name f) = None"
        using that by (auto simp: field_index_of_def map_of_eq_None_iff image_iff)
      then show ?thesis
        by (auto simp: idx1_def field_index_of_def map_add_def fun_eq_iff split: option.splits)
    qed
    show ?thesis
    proof (cases "fd_name f \<in> fd_name ` set fs")
      case True
      then show ?thesis unfolding step by auto
    next
      case new: False
      show ?thesis
        unfolding step upd [OF new] list.map(2) [of fd_name] distinct.simps(2)
        using False new by (auto simp del: list.map)
    qed
  qed
qed

lemma check_names_iff:
  "each_res (\<lambda>n u. if idx n = None then Inl (m n) else Inr u) ns u = Inr v
     \<longleftrightarrow> set ns \<subseteq> dom idx \<and> v = u"
  by (induction ns) auto

lemma check_constraint_iff:
  "check_constraint idx c u = Inr v \<longleftrightarrow> constraint_ok (dom idx) c"
  by (auto simp: check_constraint_def constraint_ok_def check_names_iff)

lemma check_constraints_iff:
  "each_res (check_constraint idx) cs u = Inr v \<longleftrightarrow> (\<forall>c\<in>set cs. constraint_ok (dom idx) c)"
proof (induction cs)
  case Nil
  show ?case by simp
next
  case (Cons c cs)
  show ?case
  proof (cases "check_constraint idx c u")
    case (Inl e)
    then show ?thesis using check_constraint_iff [of idx c u u] by simp
  next
    case (Inr v)
    then show ?thesis using Cons.IH check_constraint_iff [of idx c u v] by simp
  qed
qed

lemma dom_field_index_of: "dom (field_index_of fs) = fd_name ` set fs"
  by (simp add: field_index_of_def dom_map_of_conv_image_fst image_image)

lemma field_index_of_lookup:
  "distinct (map fd_name fs) \<Longrightarrow> f \<in> set fs \<Longrightarrow> field_index_of fs (fd_name f) = Some f"
  by (simp add: field_index_of_def map_of_eq_Some_iff comp_def)

lemma field_index_of_member: "field_index_of fs n = Some f \<Longrightarrow> f \<in> set fs \<and> fd_name f = n"
  by (auto simp: field_index_of_def dest: map_of_SomeD)

lemma prepare_iff: "prepare s = Inr s' \<longleftrightarrow> schema_ok s \<and> s' = normalised s"
proof (cases "prepare_fields (sd_fields s) Map.empty")
  case (Inl e)
  then have "\<not> schema_ok s"
    using prepare_fields_iff [of "sd_fields s" Map.empty] by (auto simp: schema_ok_def)
  with Inl show ?thesis by (simp add: prepare_def)
next
  case (Inr r)
  then have r: "[] \<notin> fd_name ` set (sd_fields s)" "distinct (map fd_name (sd_fields s))"
      "r = (map normalise_field (sd_fields s), field_index_of (map normalise_field (sd_fields s)))"
    using prepare_fields_iff [of "sd_fields s" Map.empty r] by auto
  let ?idx = "field_index_of (map normalise_field (sd_fields s))"
  have dom: "dom ?idx = fd_name ` set (sd_fields s)"
    by (simp add: dom_field_index_of image_image)
  show ?thesis
  proof (cases "each_res (check_constraint ?idx) (sd_constraints s) ()")
    case (Inl e)
    then have "\<not> (\<forall>c\<in>set (sd_constraints s). constraint_ok (fd_name ` set (sd_fields s)) c)"
      using check_constraints_iff [of ?idx "sd_constraints s" "()" "()"] dom by simp
    with Inl Inr r show ?thesis by (auto simp: prepare_def schema_ok_def)
  next
    case c: (Inr u)
    then have "\<forall>c\<in>set (sd_constraints s). constraint_ok (fd_name ` set (sd_fields s)) c"
      using check_constraints_iff [of ?idx "sd_constraints s" "()" u] dom by simp
    with c Inr r show ?thesis
      by (auto simp: prepare_def schema_ok_def normalised_def)
  qed
qed

lemma normalised_wf: "schema_ok s \<Longrightarrow> schema_wf (normalised s)"
  by (auto simp: schema_ok_def schema_wf_def normalised_def list_all_iff comp_def image_image
      constraint_ok_def intro!: normalise_field_wf) (metis imageI)

lemma schema_wf_ok: "schema_wf s \<Longrightarrow> schema_ok s"
  by (auto simp: schema_ok_def schema_wf_def list_all_iff field_wf_def)

lemma normalised_fixed:
  assumes "schema_wf s" shows "normalised s = s"
proof -
  have "map normalise_field (sd_fields s) = sd_fields s"
    using assms by (intro map_idI) (simp add: schema_wf_def list_all_iff normalise_field_fixed)
  moreover have "sd_field_index s = field_index_of (sd_fields s)"
    using assms by (simp add: schema_wf_def)
  ultimately show ?thesis by (simp add: normalised_def)
qed

lemma ParseSchema_cases:
  "ParseSchema L data = Inr s \<Longrightarrow>
     \<exists>j s0. gl_json_parse L data = Some j \<and> decode_schema j = Inr s0 \<and> schema_ok s0 \<and> s = normalised s0"
  by (auto simp: ParseSchema_def prepare_iff split: option.splits sum.splits)

lemma ParseSchema_wf: "ParseSchema L data = Inr s \<Longrightarrow> schema_wf s"
  by (auto dest!: ParseSchema_cases intro: normalised_wf)

section \<open>The input orders\<close>

lemma secret_public_perm:
  "mset (SecretFieldOrder s) + mset (PublicFieldOrder s) = mset (map fd_name (sd_fields s))"
proof -
  have "mset (map fd_name (filter (\<lambda>f. \<not> fd_public f) fs)) + mset (map fd_name (filter fd_public fs))
      = mset (map fd_name fs)" for fs
    by (induction fs) auto
  then show ?thesis by (simp only: SecretFieldOrder_def PublicFieldOrder_def)
qed

lemma SecretFieldOrder_subseq: "subseq (SecretFieldOrder s) (map fd_name (sd_fields s))"
  by (simp add: SecretFieldOrder_def subseq_map)

lemma PublicFieldOrder_subseq: "subseq (PublicFieldOrder s) (map fd_name (sd_fields s))"
  by (simp add: PublicFieldOrder_def subseq_map)

end
