(* ===== verification/Conversion.thy ===== *)
theory Conversion
  imports Schema
begin

text \<open>
  \<open>pkg/zkp/value_conversion.go\<close> (the wallet's copy is the same text) and the variant of
  \<open>blockchain-client/src/zkp/value_conversion.go\<close>: from the dynamic value of an input to the value
  of a circuit variable.
\<close>

section \<open>pkg/zkp\<close>

definition convertToInt :: "golib \<Rightarrow> gval \<Rightarrow> int64 res" where
  "convertToInt L value =
     (case value of
        GInt k i \<Rightarrow> Inr (word_of_int i)
      | GFloat k f \<Rightarrow> Inr (float_to_int64 L f)
      | GStr v \<Rightarrow>
          if v = [] then Inl (Msg ''empty string cannot be converted to integer'')
          else (case parse_float L v of
                  None \<Rightarrow> Inl (Wrap ''unable to parse integer'' (LibErr ''strconv''))
                | Some f \<Rightarrow> Inr (float_to_int64 L f))
      | _ \<Rightarrow>
          (case stringer L value of
             Some s \<Rightarrow>
               (case parse_float L s of
                  None \<Rightarrow> Inl (Wrap ''unable to parse integer'' (LibErr ''strconv''))
                | Some f \<Rightarrow> Inr (float_to_int64 L f))
           | None \<Rightarrow> Inl (Msg ''unsupported numeric type'')))"

text \<open>\<open>strconv.ParseBool\<close>.\<close>

definition parse_bool :: "string \<Rightarrow> bool option" where
  "parse_bool s =
     (if s \<in> {''1'', ''t'', ''T'', ''true'', ''TRUE'', ''True''} then Some True
      else if s \<in> {''0'', ''f'', ''F'', ''false'', ''FALSE'', ''False''} then Some False
      else None)"

definition convertToBool :: "gval \<Rightarrow> int64 res" where
  "convertToBool value =
     (case value of
        GBool v \<Rightarrow> Inr (if v then 1 else 0)
      | GStr v \<Rightarrow>
          (case parse_bool v of
             None \<Rightarrow> Inl (Wrap ''unable to parse boolean'' (LibErr ''strconv''))
           | Some b \<Rightarrow> Inr (if b then 1 else 0))
      | _ \<Rightarrow> Inl (Msg ''unsupported boolean type''))"

text \<open>An \<open>int64\<close> stored in an interface.\<close>

definition g_int64 :: "int64 \<Rightarrow> gval" where
  "g_int64 w = GInt KInt64 (sint w)"

definition box :: "int64 res \<Rightarrow> gval res" where
  "box r = (case r of Inl e \<Rightarrow> Inl e | Inr w \<Rightarrow> Inr (g_int64 w))"

text \<open>The date branch, shared by both packages.\<close>

definition convertDate :: "golib \<Rightarrow> gval \<Rightarrow> gval" where
  "convertDate L value =
     (case value of
        GTime t \<Rightarrow> g_int64 (word_of_int t)
      | GStr v \<Rightarrow>
          (case gl_rfc3339 L v of
             Some t \<Rightarrow> g_int64 (word_of_int t)
           | None \<Rightarrow>
               (case parse_date v of
                  Some t \<Rightarrow> g_int64 (word_of_int t)
                | None \<Rightarrow> GStr (sprint L value)))
      | _ \<Rightarrow> GStr (sprint L value))"

definition convertToVariable :: "golib \<Rightarrow> field_def \<Rightarrow> gval \<Rightarrow> gval res" where
  "convertToVariable L field value =
     (if is_nil value
      then Inl (Msg (''value for field '' @ quoted (fd_name field) @ '' is nil''))
      else if fd_type field = FieldTypeInteger \<or> fd_type field = FieldTypeNumber
      then box (convertToInt L value)
      else if fd_type field = FieldTypeBoolean then box (convertToBool value)
      else if fd_type field = FieldTypeString then Inr (GStr (sprint L value))
      else if fd_type field = FieldTypeDate then Inr (convertDate L value)
      else Inr value)"

section \<open>blockchain-client/src/zkp\<close>

text \<open>The scalar field of BN254.\<close>

definition scalarFieldModulus :: int where
  "scalarFieldModulus =
     21888242871839275222246405745257275088548364400416034343698204186575808495617"

text \<open>\<open>new(big.Int).SetBytes\<close>: the bytes as a big-endian number.\<close>

definition be_int :: "string \<Rightarrow> int" where
  "be_int bs = foldl (\<lambda>n c. 256 * n + int (of_char c)) 0 bs"

lemma foldl_base_bound:
  fixes d :: "'a \<Rightarrow> int"
  assumes d: "\<And>c. 0 \<le> d c \<and> d c < b"
  shows "0 \<le> n \<Longrightarrow> 0 \<le> foldl (\<lambda>n c. b * n + d c) n bs
     \<and> foldl (\<lambda>n c. b * n + d c) n bs < (n + 1) * b ^ length bs"
proof (induction bs arbitrary: n)
  case Nil
  then show ?case by simp
next
  case (Cons c bs)
  let ?m = "b * n + d c"
  have b: "0 \<le> b" using d [of c] by linarith
  then have m: "0 \<le> ?m" using d [of c] Cons.prems by simp
  from Cons.IH [OF m] have nn: "0 \<le> foldl (\<lambda>n c. b * n + d c) ?m bs" by blast
  from Cons.IH [OF m] have "foldl (\<lambda>n c. b * n + d c) ?m bs < (?m + 1) * b ^ length bs" by blast
  also have "(?m + 1) * b ^ length bs \<le> (b * (n + 1)) * b ^ length bs"
  proof (rule mult_right_mono)
    show "?m + 1 \<le> b * (n + 1)" using d [of c] by (simp add: distrib_left)
  qed (simp add: b)
  finally show ?case using nn by (simp add: mult.assoc mult.left_commute)
qed

lemma be_int_bound: "0 \<le> be_int bs \<and> be_int bs < 256 ^ length bs"
proof -
  have "0 \<le> int (of_char c) \<and> int (of_char c) < 256" for c :: char
    by (simp only: of_nat_less_numeral_iff nat_of_char_less_256 of_nat_0_le_iff simp_thms)
  from foldl_base_bound [of "\<lambda>c. int (of_char c)" 256 0 bs, OF this] show ?thesis
    by (simp add: be_int_def)
qed

definition normalizeString :: "golib \<Rightarrow> gval \<Rightarrow> string res" where
  "normalizeString L value =
     (case value of
        GStr v \<Rightarrow> Inr v
      | GBytes v \<Rightarrow> Inr v
      | _ \<Rightarrow> (case stringer L value of
                Some s \<Rightarrow> Inr s
              | None \<Rightarrow> Inl (Msg ''unsupported string type'')))"

definition convertToStringFieldValue :: "golib \<Rightarrow> gval \<Rightarrow> int res" where
  "convertToStringFieldValue L value =
     (case normalizeString L value of
        Inl e \<Rightarrow> Inl e
      | Inr str \<Rightarrow> Inr (be_int (gl_sha256 L str) mod scalarFieldModulus))"

definition bc_convertToInt :: "golib \<Rightarrow> gval \<Rightarrow> int64 res" where
  "bc_convertToInt L value =
     (case value of
        GNumber v \<Rightarrow>
          (case parse_int64 v of
             Some i \<Rightarrow> Inr i
           | None \<Rightarrow>
               (case parse_float L v of
                  None \<Rightarrow> Inl (Wrap ''unable to parse integer'' (LibErr ''strconv''))
                | Some f \<Rightarrow> Inr (float_to_int64 L f)))
      | _ \<Rightarrow> convertToInt L value)"

definition bc_convertToVariable :: "golib \<Rightarrow> field_def \<Rightarrow> gval \<Rightarrow> gval res" where
  "bc_convertToVariable L field value =
     (if is_nil value
      then Inl (Msg (''value for field '' @ quoted (fd_name field) @ '' is nil''))
      else if fd_type field = FieldTypeInteger \<or> fd_type field = FieldTypeNumber
      then box (bc_convertToInt L value)
      else if fd_type field = FieldTypeBoolean then box (convertToBool value)
      else if fd_type field = FieldTypeString
      then (case convertToStringFieldValue L value of Inl e \<Rightarrow> Inl e | Inr n \<Rightarrow> Inr (GBig n))
      else if fd_type field = FieldTypeDate then Inr (convertDate L value)
      else Inr value)"

end
