(* ===== verification/Circuit.thy ===== *)
theory Circuit
  imports Conversion
begin

text \<open>
  \<open>pkg/zkp/dynamic_circuit.go\<close> and \<open>pkg/zkp/identity_circuit.go\<close>: the circuit a schema describes,
  the assignment of inputs and the constraints it asserts. The wallet's \<open>dynamic_circuit.go\<close> is the
  same text.

  The proof library gnark is not part of the repository. A \<open>frontend.Variable\<close> is a Go constant or
  a wire of gnark's (type parameter \<open>'w\<close>); the arithmetic of \<open>frontend.API\<close> is the record \<open>gnark\<close>,
  a parameter; an assertion is recorded, in the order the code makes it. \<open>gnark_sem\<close> states the
  documented meaning of both in a field of prime order.
\<close>

section \<open>The constraint builder\<close>

datatype 'w var = Const gval | Wire 'w

datatype 'w assertion =
    AssertIsLessOrEqual "'w var" "'w var"
  | AssertIsEqual "'w var" "'w var"
  | AssertIsDifferent "'w var" "'w var"

record 'w gnark =
  gk_add :: "'w var \<Rightarrow> 'w var \<Rightarrow> 'w var"
  gk_sub :: "'w var \<Rightarrow> 'w var \<Rightarrow> 'w var"
  gk_is_zero :: "'w var \<Rightarrow> 'w var"
  gk_select :: "'w var \<Rightarrow> 'w var \<Rightarrow> 'w var \<Rightarrow> 'w var"
  gk_and :: "'w var \<Rightarrow> 'w var \<Rightarrow> 'w var"

text \<open>
  The value of a variable in the field: constants are reduced modulo its order, a decimal string
  is the number it denotes, and the operations compute in the field.
\<close>

definition gnark_sem :: "int \<Rightarrow> 'w gnark \<Rightarrow> ('w var \<Rightarrow> int) \<Rightarrow> bool" where
  "gnark_sem p G den =
     (1 < p
      \<and> (\<forall>k i. den (Const (GInt k i)) = i mod p)
      \<and> (\<forall>i. den (Const (GBig i)) = i mod p)
      \<and> (\<forall>i. den (Const (GStr (int_str i))) = i mod p)
      \<and> (\<forall>x. 0 \<le> den x \<and> den x < p)
      \<and> (\<forall>x y. den (gk_add G x y) = (den x + den y) mod p)
      \<and> (\<forall>x y. den (gk_sub G x y) = (den x - den y) mod p)
      \<and> (\<forall>x. den (gk_is_zero G x) = (if den x = 0 then 1 else 0))
      \<and> (\<forall>b x y. den (gk_select G b x y) = (if den b = 1 then den x else den y))
      \<and> (\<forall>x y. den (gk_and G x y) = (if den x = 1 \<and> den y = 1 then 1 else 0)))"

fun holds :: "('w var \<Rightarrow> int) \<Rightarrow> 'w assertion \<Rightarrow> bool" where
  "holds den (AssertIsLessOrEqual x y) = (den x \<le> den y)"
| "holds den (AssertIsEqual x y) = (den x = den y)"
| "holds den (AssertIsDifferent x y) = (den x \<noteq> den y)"

definition accepts :: "('w var \<Rightarrow> int) \<Rightarrow> 'w assertion list \<Rightarrow> bool" where
  "accepts den as = list_all (holds den) as"

section \<open>The circuit\<close>

record 'w circuit =
  dc_secret_values :: "'w var list"
  dc_public_values :: "'w var list"
  dc_schema :: schema_def
  dc_secret_order :: "string list"
  dc_public_order :: "string list"
  dc_secret_index :: "string \<rightharpoonup> nat"
  dc_public_index :: "string \<rightharpoonup> nat"
  dc_metadata :: "string \<rightharpoonup> field_def"

text \<open>\<open>for i, name := range order { index[name] = i }\<close>.\<close>

fun index_from :: "nat \<Rightarrow> string list \<Rightarrow> (string \<rightharpoonup> nat) \<Rightarrow> (string \<rightharpoonup> nat)" where
  "index_from i [] m = m"
| "index_from i (n # ns) m = index_from (Suc i) ns (m(n \<mapsto> i))"

fun metadata_of :: "field_def list \<Rightarrow> (string \<rightharpoonup> field_def) \<Rightarrow> (string \<rightharpoonup> field_def)" where
  "metadata_of [] m = m"
| "metadata_of (f # fs) m = metadata_of fs (m(fd_name f \<mapsto> f))"

definition NewDynamicCircuit :: "schema_def option \<Rightarrow> 'w circuit res" where
  "NewDynamicCircuit schema =
     (case schema of
        None \<Rightarrow> Inl (Msg ''schema cannot be nil'')
      | Some s \<Rightarrow>
          (let secretOrder = SecretFieldOrder s; publicOrder = PublicFieldOrder s
           in Inr \<lparr>dc_secret_values = replicate (length secretOrder) (Const GNil),
                   dc_public_values = replicate (length publicOrder) (Const GNil),
                   dc_schema = s,
                   dc_secret_order = secretOrder,
                   dc_public_order = publicOrder,
                   dc_secret_index = index_from 0 secretOrder Map.empty,
                   dc_public_index = index_from 0 publicOrder Map.empty,
                   dc_metadata = metadata_of (sd_fields s) Map.empty\<rparr>))"

definition Clone :: "'w circuit \<Rightarrow> 'w circuit" where
  "Clone dc =
     dc\<lparr>dc_secret_values := replicate (length (dc_secret_values dc)) (Const GNil),
        dc_public_values := replicate (length (dc_public_values dc)) (Const GNil)\<rparr>"

definition hashStringToFieldElement :: "golib \<Rightarrow> string \<Rightarrow> int" where
  "hashStringToFieldElement L s = be_int (gl_sha256 L s)"

section \<open>Assigning inputs\<close>

text \<open>Lines 89 to 118: the value of the variable for one input.\<close>

definition assigned_value :: "golib \<Rightarrow> field_def \<Rightarrow> string \<Rightarrow> gval \<Rightarrow> gval res" where
  "assigned_value L field name rawValue =
     (if equal_fold (fd_type field) ''string'' \<or> fd_type field = FieldTypeString
      then (case rawValue of
              GStr strVal \<Rightarrow> Inr (GBig (hashStringToFieldElement L strVal))
            | _ \<Rightarrow>
                (case convertToVariable L field rawValue of
                   Inl e \<Rightarrow> Inl (Wrap (''invalid numeric value for string field '' @ quoted name) e)
                 | Inr v \<Rightarrow> Inr v))
      else (case convertToVariable L field rawValue of
              Inl e \<Rightarrow> Inl (Wrap (''invalid value for field '' @ quoted name) e)
            | Inr v \<Rightarrow> Inr v))"

text \<open>One turn of the loop over the map of values (lines 83 to 129).\<close>

definition store_value :: "'w circuit \<Rightarrow> string \<Rightarrow> 'w var \<Rightarrow> 'w circuit res" where
  "store_value dc name v =
     (case dc_secret_index dc name of
        Some idx \<Rightarrow> Inr (dc\<lparr>dc_secret_values := (dc_secret_values dc)[idx := v]\<rparr>)
      | None \<Rightarrow>
          (case dc_public_index dc name of
             Some idx \<Rightarrow> Inr (dc\<lparr>dc_public_values := (dc_public_values dc)[idx := v]\<rparr>)
           | None \<Rightarrow> Inl (Msg (''field '' @ quoted name @ '' does not map to a circuit input''))))"

definition assign_one ::
    "golib \<Rightarrow> string \<times> gval \<Rightarrow> 'w circuit \<times> string set \<Rightarrow> ('w circuit \<times> string set) res" where
  "assign_one L kv st =
     (case kv of (name, rawValue) \<Rightarrow> case st of (dc, assigned) \<Rightarrow>
        (case dc_metadata dc name of
           None \<Rightarrow> Inl (Msg (''assignment references unknown field '' @ quoted name))
         | Some field \<Rightarrow>
             (case assigned_value L field name rawValue of
                Inl e \<Rightarrow> Inl e
              | Inr v \<Rightarrow>
                  (case store_value dc name (Const v) of
                     Inl e \<Rightarrow> Inl e
                   | Inr dc' \<Rightarrow> Inr (dc', insert name assigned)))))"

text \<open>
  \<open>values\<close> lists the entries of the map in the order the runtime happens to visit them. After an
  error every caller drops the circuit, so only the error is returned.
\<close>

definition AssignValues :: "golib \<Rightarrow> (string \<times> gval) list \<Rightarrow> 'w circuit \<Rightarrow> 'w circuit res" where
  "AssignValues L values dc =
     (case each_res (assign_one L) values (dc, {}) of
        Inl e \<Rightarrow> Inl e
      | Inr (dc', assigned) \<Rightarrow>
          (case List.find (\<lambda>f. fd_required f \<and> fd_name f \<notin> assigned) (sd_fields (dc_schema dc')) of
             Some f \<Rightarrow> Inl (Msg (''required field '' @ quoted (fd_name f) @ '' missing from assignments''))
           | None \<Rightarrow> Inr dc'))"

section \<open>Constraints\<close>

definition toIntBound :: "golib \<Rightarrow> f64 \<Rightarrow> int64 res" where
  "toIntBound L bound =
     (if (case bound of Fin q \<Rightarrow> of_int (trunc_rat q) \<noteq> q | NaN \<Rightarrow> True | _ \<Rightarrow> False)
      then Inl (Wrap ''range constraint bound must be whole number'' (LibErr ''bound''))
      else Inr (float_to_int64 L bound))"

definition fieldVariable :: "'w circuit \<Rightarrow> string \<Rightarrow> 'w var res" where
  "fieldVariable dc name =
     (case dc_secret_index dc name of
        Some idx \<Rightarrow> Inr (dc_secret_values dc ! idx)
      | None \<Rightarrow>
          (case dc_public_index dc name of
             Some idx \<Rightarrow> Inr (dc_public_values dc ! idx)
           | None \<Rightarrow> Inl (Msg (''unknown circuit field '' @ quoted name))))"

definition applyRangeConstraint ::
    "golib \<Rightarrow> 'w circuit \<Rightarrow> constraint_def \<Rightarrow> 'w assertion list res" where
  "applyRangeConstraint L dc c =
     (if length (cd_fields c) \<noteq> 1 then Inl (Msg ''range constraint requires exactly one field'')
      else case ValueAsNumberSlice L c of Inl e \<Rightarrow> Inl e | Inr bounds \<Rightarrow>
      if length bounds \<noteq> 2 then Inl (Msg ''range constraint requires two bounds'')
      else case toIntBound L (bounds ! 0) of Inl e \<Rightarrow> Inl e | Inr minBound \<Rightarrow>
      case toIntBound L (bounds ! 1) of Inl e \<Rightarrow> Inl e | Inr maxBound \<Rightarrow>
      case fieldVariable dc (cd_fields c ! 0) of Inl e \<Rightarrow> Inl e | Inr value \<Rightarrow>
      Inr [AssertIsLessOrEqual (Const (g_int64 minBound)) value,
           AssertIsLessOrEqual value (Const (g_int64 maxBound))])"

text \<open>The \<open>switch constraint.Operator\<close> of a comparison.\<close>

definition compare_assertion ::
    "'w gnark \<Rightarrow> string \<Rightarrow> 'w var \<Rightarrow> 'w var \<Rightarrow> 'w assertion list res" where
  "compare_assertion G opr left right =
     (if opr = ''greater_equal'' \<or> opr = ''ge'' then Inr [AssertIsLessOrEqual right left]
      else if opr = ''greater_than'' \<or> opr = ''gt''
      then Inr [AssertIsLessOrEqual (gk_add G right (Const (GInt KInt 1))) left]
      else if opr = ''less_equal'' \<or> opr = ''le'' then Inr [AssertIsLessOrEqual left right]
      else if opr = ''less_than'' \<or> opr = ''lt''
      then Inr [AssertIsLessOrEqual (gk_add G left (Const (GInt KInt 1))) right]
      else if opr = ''equal'' \<or> opr = ''eq'' then Inr [AssertIsEqual left right]
      else if opr = ''not_equal'' \<or> opr = ''ne'' then Inr [AssertIsDifferent left right]
      else Inl (Msg (''unsupported comparison operator '' @ quoted opr)))"

text \<open>The constant a field is compared with: the hash of a JSON string, else a number.\<close>

definition comparison_constant :: "golib \<Rightarrow> constraint_def \<Rightarrow> gval res" where
  "comparison_constant L c =
     (case (case cd_value c of None \<Rightarrow> None | Some j \<Rightarrow> unmarshal_string j) of
        Some strVal \<Rightarrow> Inr (GBig (hashStringToFieldElement L strVal))
      | None \<Rightarrow>
          (case ValueAsInt L c of
             Inl e \<Rightarrow> Inl (Wrap ''constraint value is neither a valid string nor a number'' e)
           | Inr n \<Rightarrow> Inr (g_int64 n)))"

definition applyComparisonConstraint ::
    "golib \<Rightarrow> 'w gnark \<Rightarrow> 'w circuit \<Rightarrow> constraint_def \<Rightarrow> 'w assertion list res" where
  "applyComparisonConstraint L G dc c =
     (if cd_fields c = [] then Inl (Msg ''comparison constraint must declare at least one field'')
      else case fieldVariable dc (cd_fields c ! 0) of Inl e \<Rightarrow> Inl e | Inr left \<Rightarrow>
      case (if 1 < length (cd_fields c) then fieldVariable dc (cd_fields c ! 1)
            else case comparison_constant L c of Inl e \<Rightarrow> Inl e | Inr v \<Rightarrow> Inr (Const v)) of
        Inl e \<Rightarrow> Inl e
      | Inr right \<Rightarrow> compare_assertion G (cd_operator c) left right)"

definition secondsPerYear :: int64 where
  "secondsPerYear = 365 * 24 * 60 * 60"

text \<open>\<open>now\<close> is \<open>time.Now().Unix()\<close>; the arithmetic is that of \<open>int64\<close>.\<close>

definition min_birth_ts :: "int64 \<Rightarrow> int64 \<Rightarrow> int64" where
  "min_birth_ts now minAgeYears = now - minAgeYears * secondsPerYear"

definition applyAgeConstraint ::
    "golib \<Rightarrow> int64 \<Rightarrow> 'w circuit \<Rightarrow> constraint_def \<Rightarrow> 'w assertion list res" where
  "applyAgeConstraint L now dc c =
     (if length (cd_fields c) \<noteq> 1
      then Inl (Msg ''age constraint expects one field (birthdate timestamp)'')
      else case ValueAsInt L c of Inl e \<Rightarrow> Inl e | Inr minAgeYears \<Rightarrow>
      case fieldVariable dc (cd_fields c ! 0) of Inl e \<Rightarrow> Inl e | Inr birthTsVar \<Rightarrow>
      Inr [AssertIsLessOrEqual birthTsVar (Const (g_int64 (min_birth_ts now minAgeYears)))])"

definition applyConstraint ::
    "golib \<Rightarrow> 'w gnark \<Rightarrow> int64 \<Rightarrow> 'w circuit \<Rightarrow> constraint_def \<Rightarrow> 'w assertion list res" where
  "applyConstraint L G now dc c =
     (if cd_type c = ConstraintRange then applyRangeConstraint L dc c
      else if cd_type c = ConstraintComparison then applyComparisonConstraint L G dc c
      else if cd_type c = ConstraintAge then applyAgeConstraint L now dc c
      else Inl (Msg (''unsupported constraint type '' @ quoted (cd_type c))))"

text \<open>\<open>clk i\<close> is the time at which the constraint at position \<open>i\<close> is applied.\<close>

fun define_from ::
    "golib \<Rightarrow> 'w gnark \<Rightarrow> (nat \<Rightarrow> int64) \<Rightarrow> 'w circuit \<Rightarrow> nat \<Rightarrow> constraint_def list
      \<Rightarrow> 'w assertion list res" where
  "define_from L G clk dc i [] = Inr []"
| "define_from L G clk dc i (c # cs) =
     (case applyConstraint L G (clk i) dc c of
        Inl e \<Rightarrow> Inl e
      | Inr as \<Rightarrow>
          (case define_from L G clk dc (Suc i) cs of
             Inl e \<Rightarrow> Inl e
           | Inr bs \<Rightarrow> Inr (as @ bs)))"

definition Define ::
    "golib \<Rightarrow> 'w gnark \<Rightarrow> (nat \<Rightarrow> int64) \<Rightarrow> 'w circuit \<Rightarrow> 'w assertion list res" where
  "Define L G clk dc = define_from L G clk dc 0 (sd_constraints (dc_schema dc))"

section \<open>The fixed identity circuit\<close>

text \<open>A calendar date as \<open>time.Now()\<close> gives it.\<close>

record date =
  d_year :: int
  d_month :: int
  d_day :: int

record 'w identity_circuit =
  ic_age_day :: "'w var"
  ic_age_month :: "'w var"
  ic_age_year :: "'w var"

definition g_int :: "int \<Rightarrow> 'w var" where
  "g_int i = Const (GInt KInt i)"

text \<open>
  The assertions both packages make on a birth date, for the least admissible year: the date is
  well-formed and not after the reference date.
\<close>

definition date_assertions ::
    "'w gnark \<Rightarrow> int \<Rightarrow> date \<Rightarrow> 'w var \<Rightarrow> 'w var \<Rightarrow> 'w var \<Rightarrow> 'w assertion list" where
  "date_assertions G minValidYear now year month day =
     (let yearIsMinValid = gk_is_zero G (gk_sub G year (g_int minValidYear));
          monthIsCurrent = gk_is_zero G (gk_sub G month (g_int (d_month now)))
      in [AssertIsLessOrEqual year (g_int minValidYear),
          AssertIsLessOrEqual (g_int 1) month,
          AssertIsLessOrEqual month (g_int 12),
          AssertIsLessOrEqual month (gk_select G yearIsMinValid (g_int (d_month now)) (g_int 12)),
          AssertIsLessOrEqual (g_int 1) day,
          AssertIsLessOrEqual day (g_int 31),
          AssertIsLessOrEqual day
            (gk_select G (gk_and G yearIsMinValid monthIsCurrent) (g_int (d_day now)) (g_int 31))])"

definition IdentityDefine :: "'w gnark \<Rightarrow> date \<Rightarrow> 'w identity_circuit \<Rightarrow> 'w assertion list" where
  "IdentityDefine G now c =
     date_assertions G (d_year now - 18) now (ic_age_year c) (ic_age_month c) (ic_age_day c)"

end
