(* ===== verification/CircuitFacts.thy ===== *)
theory CircuitFacts
  imports Circuit
begin

text \<open>
  What \<open>NewDynamicCircuit\<close> builds and what \<open>AssignValues\<close> does to it: the index maps are the
  positions of the orders, every field has exactly one slot, and the assignment of a map of values
  fills the slots of its keys, in whatever order the runtime visits the map.
\<close>

section \<open>Index maps\<close>

lemma index_from_absent: "n \<notin> set ns \<Longrightarrow> index_from i ns m n = m n"
  by (induction ns arbitrary: i m) auto

lemma index_from_nth:
  "distinct ns \<Longrightarrow> k < length ns \<Longrightarrow> index_from i ns m (ns ! k) = Some (i + k)"
proof (induction ns arbitrary: i m k)
  case Nil
  then show ?case by simp
next
  case (Cons n ns)
  show ?case
  proof (cases k)
    case 0
    with Cons.prems show ?thesis by (simp add: index_from_absent)
  next
    case (Suc j)
    with Cons show ?thesis by simp
  qed
qed

lemma index_from_iff:
  assumes "distinct ns"
  shows "index_from 0 ns Map.empty n = Some k \<longleftrightarrow> k < length ns \<and> ns ! k = n"
proof (cases "n \<in> set ns")
  case True
  then obtain j where j: "j < length ns" "ns ! j = n" by (auto simp: in_set_conv_nth)
  with assms have "index_from 0 ns Map.empty n = Some j"
    using index_from_nth [of ns j 0 Map.empty] by simp
  with j assms show ?thesis by (auto simp: nth_eq_iff_index_eq)
next
  case False
  then show ?thesis by (auto simp: index_from_absent)
qed

lemma index_from_None: "distinct ns \<Longrightarrow> index_from 0 ns Map.empty n = None \<longleftrightarrow> n \<notin> set ns"
  by (metis index_from_absent index_from_iff in_set_conv_nth not_None_eq)

lemma metadata_of_eq:
  "distinct (map fd_name fs) \<Longrightarrow> metadata_of fs m = m ++ field_index_of fs"
proof (induction fs arbitrary: m)
  case Nil
  show ?case by (simp add: field_index_of_def)
next
  case (Cons f fs)
  then have "field_index_of fs (fd_name f) = None"
    by (auto simp: field_index_of_def map_of_eq_None_iff image_iff)
  with Cons show ?case
    by (auto simp: field_index_of_def map_add_def fun_eq_iff split: option.splits)
qed

section \<open>Well-formed circuits\<close>

definition circuit_wf :: "'w circuit \<Rightarrow> bool" where
  "circuit_wf dc =
     (let s = dc_schema dc
      in schema_wf s
         \<and> dc_secret_order dc = SecretFieldOrder s \<and> dc_public_order dc = PublicFieldOrder s
         \<and> dc_secret_index dc = index_from 0 (SecretFieldOrder s) Map.empty
         \<and> dc_public_index dc = index_from 0 (PublicFieldOrder s) Map.empty
         \<and> dc_metadata dc = field_index_of (sd_fields s)
         \<and> length (dc_secret_values dc) = length (SecretFieldOrder s)
         \<and> length (dc_public_values dc) = length (PublicFieldOrder s))"

lemma NewDynamicCircuit_wf:
  assumes "schema_wf s" and "NewDynamicCircuit (Some s) = Inr dc"
  shows "circuit_wf dc" and "dc_schema dc = s"
  using assms
  by (auto simp: NewDynamicCircuit_def circuit_wf_def Let_def schema_wf_def metadata_of_eq)

lemma Clone_wf: "circuit_wf dc \<Longrightarrow> circuit_wf (Clone dc)"
  by (simp add: circuit_wf_def Clone_def Let_def)

lemma order_names:
  "set (SecretFieldOrder s) = fd_name ` {f \<in> set (sd_fields s). \<not> fd_public f}"
  "set (PublicFieldOrder s) = fd_name ` {f \<in> set (sd_fields s). fd_public f}"
  by (auto simp: SecretFieldOrder_def PublicFieldOrder_def)

lemma orders_distinct:
  assumes "distinct (map fd_name (sd_fields s))"
  shows "distinct (SecretFieldOrder s)" and "distinct (PublicFieldOrder s)"
    and "set (SecretFieldOrder s) \<inter> set (PublicFieldOrder s) = {}"
proof -
  have "inj_on fd_name (set (sd_fields s))" and d: "distinct (sd_fields s)"
    using assms by (simp_all add: distinct_map)
  then show "set (SecretFieldOrder s) \<inter> set (PublicFieldOrder s) = {}"
    by (auto simp: order_names dest: inj_onD)
  show "distinct (SecretFieldOrder s)" "distinct (PublicFieldOrder s)"
    using assms unfolding SecretFieldOrder_def PublicFieldOrder_def
    by (simp_all add: distinct_map inj_on_def)
qed

lemma circuit_wfD:
  assumes "circuit_wf dc"
  shows "schema_wf (dc_schema dc)"
    and "distinct (map fd_name (sd_fields (dc_schema dc)))"
    and "distinct (dc_secret_order dc)" and "distinct (dc_public_order dc)"
    and "set (dc_secret_order dc) \<inter> set (dc_public_order dc) = {}"
    and "set (dc_secret_order dc) \<union> set (dc_public_order dc) = dom (dc_metadata dc)"
    and "dc_secret_index dc = index_from 0 (dc_secret_order dc) Map.empty"
    and "dc_public_index dc = index_from 0 (dc_public_order dc) Map.empty"
    and "length (dc_secret_values dc) = length (dc_secret_order dc)"
    and "length (dc_public_values dc) = length (dc_public_order dc)"
proof -
  let ?s = "dc_schema dc"
  show wf: "schema_wf ?s" using assms by (simp add: circuit_wf_def Let_def)
  then show d: "distinct (map fd_name (sd_fields ?s))" by (simp add: schema_wf_def)
  have o: "dc_secret_order dc = SecretFieldOrder ?s" "dc_public_order dc = PublicFieldOrder ?s"
    and m: "dc_metadata dc = field_index_of (sd_fields ?s)"
    using assms by (simp_all add: circuit_wf_def Let_def)
  show "distinct (dc_secret_order dc)" "distinct (dc_public_order dc)"
    "set (dc_secret_order dc) \<inter> set (dc_public_order dc) = {}"
    using orders_distinct [OF d] o by simp_all
  show "set (dc_secret_order dc) \<union> set (dc_public_order dc) = dom (dc_metadata dc)"
    unfolding o m dom_field_index_of order_names by auto
  show "dc_secret_index dc = index_from 0 (dc_secret_order dc) Map.empty"
    "dc_public_index dc = index_from 0 (dc_public_order dc) Map.empty"
    "length (dc_secret_values dc) = length (dc_secret_order dc)"
    "length (dc_public_values dc) = length (dc_public_order dc)"
    using assms o by (simp_all add: circuit_wf_def Let_def)
qed

section \<open>Filling slots\<close>

definition put_list :: "string list \<Rightarrow> string \<Rightarrow> 'v \<Rightarrow> 'v list \<Rightarrow> 'v list" where
  "put_list ns n x vs = map (\<lambda>(m, old). if m = n then x else old) (zip ns vs)"

definition put :: "string \<Rightarrow> 'w var \<Rightarrow> 'w circuit \<Rightarrow> 'w circuit" where
  "put n x dc =
     dc\<lparr>dc_secret_values := put_list (dc_secret_order dc) n x (dc_secret_values dc),
        dc_public_values := put_list (dc_public_order dc) n x (dc_public_values dc)\<rparr>"

lemma put_list_update:
  assumes "distinct ns" and "length vs = length ns" and "k < length ns" and "ns ! k = n"
  shows "put_list ns n x vs = vs[k := x]"
proof (rule nth_equalityI)
  show "length (put_list ns n x vs) = length (vs[k := x])"
    using assms by (simp add: put_list_def)
next
  fix i assume "i < length (put_list ns n x vs)"
  then have i: "i < length ns" using assms by (simp add: put_list_def)
  have "ns ! i = n \<longleftrightarrow> i = k" using assms i by (metis nth_eq_iff_index_eq)
  then show "put_list ns n x vs ! i = vs[k := x] ! i"
    using assms i by (simp add: put_list_def nth_list_update)
qed

lemma put_list_absent: "n \<notin> set ns \<Longrightarrow> length vs = length ns \<Longrightarrow> put_list ns n x vs = vs"
proof (induction ns arbitrary: vs)
  case Nil
  then show ?case by (simp add: put_list_def)
next
  case (Cons m ns)
  then show ?case by (cases vs) (auto simp: put_list_def)
qed

lemma store_value_put:
  assumes wf: "circuit_wf dc"
  shows "store_value dc n v = (if n \<in> dom (dc_metadata dc) then Inr (put n v dc)
      else Inl (Msg (''field '' @ quoted n @ '' does not map to a circuit input'')))"
proof -
  note d = circuit_wfD [OF wf]
  consider (secret) k where "dc_secret_index dc n = Some k"
    | (public) k where "dc_secret_index dc n = None" "dc_public_index dc n = Some k"
    | (none) "dc_secret_index dc n = None" "dc_public_index dc n = None"
    by (cases "dc_secret_index dc n"; cases "dc_public_index dc n") auto
  then show ?thesis
  proof cases
    case secret
    then have k: "k < length (dc_secret_order dc)" "dc_secret_order dc ! k = n"
      using d(3,7) index_from_iff by metis+
    then have ins: "n \<in> set (dc_secret_order dc)" by auto
    with d(5) have nop: "n \<notin> set (dc_public_order dc)" by auto
    show ?thesis
      using secret ins nop d(6) put_list_update [OF d(3) d(9) k, of v]
        put_list_absent [OF nop d(10), of v]
      by (auto simp: store_value_def put_def)
  next
    case public
    then have k: "k < length (dc_public_order dc)" "dc_public_order dc ! k = n"
      using d(4,8) index_from_iff by metis+
    then have inp: "n \<in> set (dc_public_order dc)" by auto
    with d(5) have nos: "n \<notin> set (dc_secret_order dc)" by auto
    show ?thesis
      using public inp nos d(6) put_list_update [OF d(4) d(10) k, of v]
        put_list_absent [OF nos d(9), of v]
      by (auto simp: store_value_def put_def)
  next
    case none
    then have "n \<notin> set (dc_secret_order dc) \<union> set (dc_public_order dc)"
      using d(3,4,7,8) index_from_None by auto
    with none d(6) show ?thesis by (simp add: store_value_def domIff)
  qed
qed

lemma put_wf: "circuit_wf dc \<Longrightarrow> circuit_wf (put n x dc)"
  by (simp add: circuit_wf_def put_def put_list_def Let_def)

lemma put_metadata [simp]: "dc_metadata (put n x dc) = dc_metadata dc"
  and put_schema [simp]: "dc_schema (put n x dc) = dc_schema dc"
  and put_secret_order [simp]: "dc_secret_order (put n x dc) = dc_secret_order dc"
  and put_public_order [simp]: "dc_public_order (put n x dc) = dc_public_order dc"
  by (simp_all add: put_def)

text \<open>
  The two packages convert the value of an input differently and agree on everything else: \<open>cv\<close>
  is the conversion, for a field and the name under which the value was given.
\<close>

type_synonym conversion = "field_def \<Rightarrow> string \<Rightarrow> gval \<Rightarrow> gval res"

text \<open>The value an entry of the map gets, when its key is a field and its conversion succeeds.\<close>

definition entry_value :: "conversion \<Rightarrow> (string \<rightharpoonup> field_def) \<Rightarrow> string \<Rightarrow> gval \<Rightarrow> gval option" where
  "entry_value cv meta n v =
     (case meta n of None \<Rightarrow> None
      | Some f \<Rightarrow> (case cv f n v of Inl e \<Rightarrow> None | Inr x \<Rightarrow> Some x))"

fun fill :: "conversion \<Rightarrow> (string \<times> gval) list \<Rightarrow> 'w circuit \<Rightarrow> 'w circuit" where
  "fill cv [] dc = dc"
| "fill cv ((n, v) # kvs) dc = fill cv kvs (put n (Const (the (entry_value cv (dc_metadata dc) n v))) dc)"

lemma fill_schema [simp]: "dc_schema (fill cv kvs dc) = dc_schema dc"
  and fill_metadata [simp]: "dc_metadata (fill cv kvs dc) = dc_metadata dc"
  by (induction kvs arbitrary: dc) auto

lemma fill_wf: "circuit_wf dc \<Longrightarrow> circuit_wf (fill cv kvs dc)"
  by (induction kvs arbitrary: dc) (auto simp: put_wf)

lemma zip_map_zip: "zip xs (map f (zip xs ys)) = map (\<lambda>(x, y). (x, f (x, y))) (zip xs ys)"
proof (induction xs arbitrary: ys)
  case Nil
  show ?case by simp
next
  case (Cons x xs)
  then show ?case by (cases ys) auto
qed

text \<open>Slot by slot: the value of the map at the slot's name, else what was there.\<close>

definition slot_value ::
    "conversion \<Rightarrow> (string \<rightharpoonup> field_def) \<Rightarrow> (string \<rightharpoonup> gval) \<Rightarrow> string \<times> 'w var \<Rightarrow> 'w var" where
  "slot_value cv meta m slot =
     (case slot of (n, old) \<Rightarrow>
        (case m n of None \<Rightarrow> old
         | Some v \<Rightarrow> (case entry_value cv meta n v of None \<Rightarrow> old | Some x \<Rightarrow> Const x)))"

definition filled :: "conversion \<Rightarrow> (string \<rightharpoonup> gval) \<Rightarrow> 'w circuit \<Rightarrow> 'w circuit" where
  "filled cv m dc =
     dc\<lparr>dc_secret_values :=
          map (slot_value cv (dc_metadata dc) m) (zip (dc_secret_order dc) (dc_secret_values dc)),
        dc_public_values :=
          map (slot_value cv (dc_metadata dc) m) (zip (dc_public_order dc) (dc_public_values dc))\<rparr>"

lemma slot_value_empty: "length vs = length ns \<Longrightarrow> map (slot_value cv meta Map.empty) (zip ns vs) = vs"
proof (induction ns arbitrary: vs)
  case Nil
  then show ?case by simp
next
  case (Cons n ns)
  then show ?case by (cases vs) (auto simp: slot_value_def)
qed

lemma filled_put:
  fixes dc :: "'w circuit"
  assumes "entry_value cv (dc_metadata dc) n v = Some x" and "m n = None"
  shows "filled cv m (put n (Const x) dc) = filled cv (m(n \<mapsto> v)) dc"
proof -
  have "(\<lambda>s :: string \<times> 'w var. slot_value cv (dc_metadata dc) m (fst s, if fst s = n then Const x else snd s))
      = slot_value cv (dc_metadata dc) (m(n \<mapsto> v))"
    using assms by (auto simp: slot_value_def fun_eq_iff split: option.splits)
  then show ?thesis
    by (simp add: filled_def put_def put_list_def zip_map_zip comp_def case_prod_beta)
qed

lemma fill_filled:
  assumes "circuit_wf dc" and "distinct (map fst kvs)"
    and "\<forall>(n, v)\<in>set kvs. entry_value cv (dc_metadata dc) n v \<noteq> None"
  shows "fill cv kvs dc = filled cv (map_of kvs) dc"
  using assms
proof (induction kvs arbitrary: dc)
  case Nil
  then show ?case
    using circuit_wfD(9,10) [OF Nil.prems(1)] by (simp add: filled_def slot_value_empty)
next
  case (Cons kv kvs)
  obtain n v where kv: "kv = (n, v)" by (cases kv)
  with Cons.prems obtain x where x: "entry_value cv (dc_metadata dc) n v = Some x" by auto
  have "fill cv (kv # kvs) dc = fill cv kvs (put n (Const x) dc)" using kv x by simp
  also have "\<dots> = filled cv (map_of kvs) (put n (Const x) dc)"
    using Cons kv by (intro Cons.IH) (auto simp: put_wf)
  also have "\<dots> = filled cv ((map_of kvs)(n \<mapsto> v)) dc"
    using x Cons.prems(2) kv by (intro filled_put) (auto simp: map_of_eq_None_iff)
  finally show ?case using kv by (simp add: fun_upd_def)
qed

text \<open>
  The whole of \<open>AssignValues\<close>: it succeeds when every key is a field whose value converts and every
  required field has a key, and then the circuit is filled slot by slot.
\<close>

definition assignable :: "conversion \<Rightarrow> 'w circuit \<Rightarrow> (string \<times> gval) list \<Rightarrow> bool" where
  "assignable cv dc kvs =
     ((\<forall>(n, v)\<in>set kvs. entry_value cv (dc_metadata dc) n v \<noteq> None)
      \<and> (\<forall>f\<in>set (sd_fields (dc_schema dc)). fd_required f \<longrightarrow> fd_name f \<in> fst ` set kvs))"

text \<open>The variable a constraint reads for a field.\<close>

definition slot_of :: "'w circuit \<Rightarrow> string \<Rightarrow> 'w var option" where
  "slot_of dc n =
     map_of (zip (dc_secret_order dc) (dc_secret_values dc)
             @ zip (dc_public_order dc) (dc_public_values dc)) n"

lemma fieldVariable_slot:
  assumes wf: "circuit_wf dc"
  shows "fieldVariable dc n =
    (case slot_of dc n of Some v \<Rightarrow> Inr v
     | None \<Rightarrow> Inl (Msg (''unknown circuit field '' @ quoted n)))"
proof -
  note d = circuit_wfD [OF wf]
  have zip_iff: "map_of (zip ns vs) n = (case index_from 0 ns Map.empty n of None \<Rightarrow> None
      | Some k \<Rightarrow> Some (vs ! k))"
    if "distinct ns" "length vs = length ns" for ns and vs :: "'a var list"
  proof (cases "index_from 0 ns Map.empty n")
    case None
    with that have "n \<notin> set ns" by (simp add: index_from_None)
    with None that show ?thesis by (simp add: map_of_zip_is_None)
  next
    case (Some k)
    with that have k: "k < length ns" "ns ! k = n" by (simp_all add: index_from_iff)
    with Some that map_of_zip_nth [of ns vs k] show ?thesis by simp
  qed
  let ?S = "index_from 0 (dc_secret_order dc) Map.empty n"
  let ?P = "index_from 0 (dc_public_order dc) Map.empty n"
  have excl: "?S = None \<or> ?P = None"
    unfolding index_from_None [OF d(3)] index_from_None [OF d(4)] using d(5) by blast
  show ?thesis
    unfolding fieldVariable_def slot_of_def map_of_append map_add_def d(7) d(8)
      zip_iff [OF d(3) d(9)] zip_iff [OF d(4) d(10)]
    using excl by (cases ?S; cases ?P) simp_all
qed

lemma slot_of_dom: "circuit_wf dc \<Longrightarrow> slot_of dc n \<noteq> None \<longleftrightarrow> n \<in> dom (dc_metadata dc)"
  using circuit_wfD(6,9,10) [of dc]
  by (simp add: slot_of_def map_of_zip_is_None del: not_None_eq) blast


lemma map_of_zip_map:
  "map_of (zip ns (map g (zip ns vs))) n = map_option (\<lambda>old. g (n, old)) (map_of (zip ns vs) n)"
proof (induction ns arbitrary: vs)
  case Nil
  show ?case by simp
next
  case (Cons m ns)
  then show ?case by (cases vs) auto
qed

lemma slot_of_filled:
  assumes "circuit_wf dc" and "n \<in> dom (dc_metadata dc)"
  shows "slot_of (filled cv m dc) n
    = map_option (\<lambda>old. slot_value cv (dc_metadata dc) m (n, old)) (slot_of dc n)"
  by (auto simp: slot_of_def filled_def map_of_zip_map map_add_def split: option.splits)

section \<open>Assigning inputs\<close>

text \<open>
  What both versions of \<open>AssignValues\<close> promise: one turn of the loop stores the converted value of a
  known field in its slot, and the whole succeeds when the loop does and no required field is left
  without a value.
\<close>

locale input_assignment =
  fixes cv :: conversion
    and one :: "string \<times> gval \<Rightarrow> 'w circuit \<times> string set \<Rightarrow> ('w circuit \<times> string set) res"
    and assign :: "(string \<times> gval) list \<Rightarrow> 'w circuit \<Rightarrow> 'w circuit res"
  assumes one_iff: "one (n, v) (dc, A) = Inr st \<longleftrightarrow>
      (\<exists>f x dc'. dc_metadata dc n = Some f \<and> cv f n v = Inr x
        \<and> store_value dc n (Const x) = Inr dc' \<and> st = (dc', insert n A))"
    and assign_iff: "assign kvs dc = Inr dc' \<longleftrightarrow>
      (\<exists>A. each_res one kvs (dc, {}) = Inr (dc', A)
        \<and> (\<forall>f\<in>set (sd_fields (dc_schema dc')). fd_required f \<longrightarrow> fd_name f \<in> A))"
begin

lemma assign_one_iff:
  assumes "circuit_wf dc"
  shows "one (n, v) (dc, A) = Inr st \<longleftrightarrow>
    (\<exists>x. entry_value cv (dc_metadata dc) n v = Some x \<and> st = (put n (Const x) dc, insert n A))"
  unfolding one_iff store_value_put [OF assms]
  by (auto simp: entry_value_def domIff split: option.splits sum.splits if_splits)

lemma assign_loop_iff:
  "circuit_wf dc \<Longrightarrow>
   each_res (one) kvs (dc, A) = Inr st \<longleftrightarrow>
     (\<forall>(n, v)\<in>set kvs. entry_value cv (dc_metadata dc) n v \<noteq> None)
     \<and> st = (fill cv kvs dc, A \<union> fst ` set kvs)"
proof (induction kvs arbitrary: dc A)
  case Nil
  then show ?case by auto
next
  case (Cons kv kvs)
  obtain n v where kv: "kv = (n, v)" by (cases kv)
  show ?case
  proof (cases "entry_value cv (dc_metadata dc) n v")
    case None
    then have "one (n, v) (dc, A) \<noteq> Inr st'" for st'
      using assign_one_iff [OF Cons.prems] by simp
    then have "\<exists>e. one (n, v) (dc, A) = Inl e" by (metis obj_sumE)
    with None kv show ?thesis by auto
  next
    case (Some x)
    then have "one (n, v) (dc, A) = Inr (put n (Const x) dc, insert n A)"
      using assign_one_iff [OF Cons.prems] by simp
    with Some kv Cons.IH [OF put_wf [OF Cons.prems]] show ?thesis by auto
  qed
qed

lemma assigns_iff:
  assumes "circuit_wf dc" and "distinct (map fst kvs)"
  shows "assign kvs dc = Inr dc' \<longleftrightarrow> assignable cv dc kvs \<and> dc' = filled cv (map_of kvs) dc"
proof (cases "\<forall>(n, v)\<in>set kvs. entry_value cv (dc_metadata dc) n v \<noteq> None")
  case False
  then have "each_res one kvs (dc, {}) \<noteq> Inr st" for st
    unfolding assign_loop_iff [OF assms(1)] by blast
  then show ?thesis using False unfolding assign_iff assignable_def by blast
next
  case True
  show ?thesis
    unfolding assign_iff assign_loop_iff [OF assms(1)] assignable_def
    using True by (auto simp: fill_filled [OF assms True, symmetric])
qed

lemma assigns_wf:
  assumes "circuit_wf dc" and "assign kvs dc = Inr dc'"
  shows "circuit_wf dc'" and "dc_schema dc' = dc_schema dc"
proof -
  have "dc' = fill cv kvs dc"
    using assms(2) unfolding assign_iff assign_loop_iff [OF assms(1)] by blast
  then show "circuit_wf dc'" "dc_schema dc' = dc_schema dc"
    using fill_wf [OF assms(1)] by simp_all
qed

text \<open>The order of the entries plays no role.\<close>

lemma assigns_perm:
  assumes "circuit_wf dc" and "distinct (map fst xs)" and "distinct (map fst ys)" and "set ys = set xs"
  shows "assign xs dc = Inr dc' \<longleftrightarrow> assign ys dc = Inr dc'"
proof -
  have "map_of xs = map_of ys" using assms(2-4) by (simp add: map_of_inject_set)
  moreover have "assignable cv dc xs = assignable cv dc ys" using assms(4) by (simp add: assignable_def)
  ultimately show ?thesis
    using assigns_iff [OF assms(1,2)] assigns_iff [OF assms(1,3)] by simp
qed

lemma assigns_required:
  assumes "circuit_wf dc" and "distinct (map fst kvs)" and "assign kvs dc = Inr dc'"
    and "f \<in> set (sd_fields (dc_schema dc))" and "fd_required f"
  shows "fd_name f \<in> fst ` set kvs"
  using assigns_iff [OF assms(1,2)] assms(3-5) by (auto simp: assignable_def)

lemma assigns_read:
  assumes wf: "circuit_wf dc" and d: "distinct (map fst kvs)" and a: "assign kvs dc = Inr dc'"
    and nv: "(n, v) \<in> set kvs"
  shows "\<exists>f x. dc_metadata dc n = Some f \<and> cv f n v = Inr x \<and> fieldVariable dc' n = Inr (Const x)"
proof -
  from assigns_iff [OF wf d] a
  have as: "assignable cv dc kvs" and dc': "dc' = filled cv (map_of kvs) dc" by auto
  from as nv obtain x where x: "entry_value cv (dc_metadata dc) n v = Some x"
    by (auto simp: assignable_def)
  then obtain f where f: "dc_metadata dc n = Some f" "cv f n v = Inr x"
    by (auto simp: entry_value_def split: option.splits sum.splits)
  have "map_of kvs n = Some v" using d nv by simp
  moreover from f(1) obtain old where "slot_of dc n = Some old" using slot_of_dom [OF wf, of n] by auto
  ultimately have "slot_of dc' n = Some (Const x)"
    using slot_of_filled [OF wf, of n cv "map_of kvs"] f(1) x by (simp add: dc' slot_value_def domI)
  then show ?thesis
    using f fieldVariable_slot [OF assigns_wf(1) [OF wf a], of n] by simp
qed

end

interpretation pkg_assign: input_assignment "assigned_value L" "assign_one L" "AssignValues L" for L
proof (unfold_locales, goal_cases)
  case (1 n v dc A st)
  show ?case by (auto simp: assign_one_def split: option.splits sum.splits)
next
  case (2 kvs dc dc')
  show ?case
    by (auto simp: AssignValues_def find_None_iff find_Some_iff split: sum.splits option.splits)
qed

end
