(* ===== verification/CircuitProps.thy ===== *)
theory CircuitProps
  imports CircuitFacts
begin

text \<open>
  The properties of the dynamic circuit: what its inputs and its constraints mean. The last section
  gives a concrete instance of the gnark interface, an evaluator over the integers modulo \<open>p\<close>, at
  which the witnesses apply the theorems.
\<close>

section \<open>The meaning of the assertions\<close>

lemma gnark_semD:
  assumes "gnark_sem p G den"
  shows "1 < p" and "den (Const (GInt k i)) = i mod p" and "den (Const (GBig i)) = i mod p"
    and "den (Const (GStr (int_str i))) = i mod p"
    and "0 \<le> den x" and "den x < p"
    and "den (gk_add G x y) = (den x + den y) mod p"
    and "den (gk_sub G x y) = (den x - den y) mod p"
    and "den (gk_is_zero G x) = (if den x = 0 then 1 else 0)"
    and "den (gk_select G b x y) = (if den b = 1 then den x else den y)"
    and "den (gk_and G x y) = (if den x = 1 \<and> den y = 1 then 1 else 0)"
  using assms unfolding gnark_sem_def by (blast+)

lemma accepts_simps [simp]:
  "accepts den []"
  "accepts den (a # as) \<longleftrightarrow> holds den a \<and> accepts den as"
  "accepts den (as @ bs) \<longleftrightarrow> accepts den as \<and> accepts den bs"
  by (simp_all add: accepts_def)

lemma den_g_int:
  "gnark_sem p G den \<Longrightarrow> 0 \<le> i \<Longrightarrow> i < p \<Longrightarrow> den (g_int i) = i"
  by (simp add: g_int_def gnark_semD(2))

lemma den_g_int64: "gnark_sem p G den \<Longrightarrow> den (Const (g_int64 w)) = sint w mod p"
  by (simp add: g_int64_def gnark_semD(2))

lemma den_is_equal:
  assumes "gnark_sem p G den"
  shows "den (gk_is_zero G (gk_sub G x y)) = (if den x = den y then 1 else 0)"
proof -
  note d = gnark_semD [OF assms]
  have "(den x - den y) mod p = 0 \<longleftrightarrow> den x = den y"
  proof -
    have "den x mod p = den x" "den y mod p = den y"
      using d(5,6) by (simp_all add: mod_pos_pos_trivial)
    then show ?thesis by (metis mod_eq_dvd_iff dvd_eq_mod_eq_0)
  qed
  then show ?thesis by (simp add: d(8,9))
qed

text \<open>The comparison an operator name stands for.\<close>

definition op_holds :: "string \<Rightarrow> int \<Rightarrow> int \<Rightarrow> bool" where
  "op_holds opr a b =
     (if opr \<in> {''greater_equal'', ''ge''} then b \<le> a
      else if opr \<in> {''greater_than'', ''gt''} then b < a
      else if opr \<in> {''less_equal'', ''le''} then a \<le> b
      else if opr \<in> {''less_than'', ''lt''} then a < b
      else if opr \<in> {''equal'', ''eq''} then a = b
      else a \<noteq> b)"

lemma compare_assertion_iff:
  assumes sem: "gnark_sem p G den" and "compare_assertion G opr left right = Inr as"
    and lt: "den left + 1 < p" "den right + 1 < p"
  shows "accepts den as \<longleftrightarrow> op_holds opr (den left) (den right)"
proof -
  note d = gnark_semD [OF sem]
  have one: "den (Const (GInt KInt 1)) = 1" using d(1,2) by simp
  have add: "den (gk_add G x (Const (GInt KInt 1))) = den x + 1" if "den x + 1 < p" for x
    using that d(5) [of x] by (simp add: d(7) one)
  have "accepts den as \<longleftrightarrow> (case compare_assertion G opr left right of Inl e \<Rightarrow> False | Inr as \<Rightarrow> accepts den as)"
    using assms(2) by simp
  also have "\<dots> \<longleftrightarrow> ok (compare_assertion G opr left right) \<and> op_holds opr (den left) (den right)"
    unfolding compare_assertion_def op_holds_def insert_iff empty_iff
    by (simp add: add [OF lt(1)] add [OF lt(2)] add1_zle_eq)
  finally show ?thesis using assms(2) by simp
qed

lemma compare_assertion_error:
  "compare_assertion G opr left right = Inl e \<longleftrightarrow>
     opr \<notin> {''greater_equal'', ''ge'', ''greater_than'', ''gt'', ''less_equal'', ''le'',
              ''less_than'', ''lt'', ''equal'', ''eq'', ''not_equal'', ''ne''}
     \<and> e = Msg (''unsupported comparison operator '' @ quoted opr)"
  by (auto simp: compare_assertion_def)

section \<open>Birth dates\<close>

text \<open>Calendar order on dates, and the dates the circuit takes for well-formed.\<close>

definition date_le :: "date \<Rightarrow> date \<Rightarrow> bool" where
  "date_le a b =
     (d_year a < d_year b
      \<or> d_year a = d_year b \<and> (d_month a < d_month b \<or> d_month a = d_month b \<and> d_day a \<le> d_day b))"

definition date_ok :: "date \<Rightarrow> bool" where
  "date_ok a = (1 \<le> d_month a \<and> d_month a \<le> 12 \<and> 1 \<le> d_day a \<and> d_day a \<le> 31)"

text \<open>The variables carry a date.\<close>

definition carries :: "('w var \<Rightarrow> int) \<Rightarrow> date \<Rightarrow> 'w var \<Rightarrow> 'w var \<Rightarrow> 'w var \<Rightarrow> bool" where
  "carries den b year month day =
     (den year = d_year b \<and> den month = d_month b \<and> den day = d_day b)"

lemma date_assertions_iff:
  assumes sem: "gnark_sem p G den" and p: "31 < p"
    and y: "0 \<le> Y" "Y < p" and now: "date_ok now" and c: "carries den b year month day"
  shows "accepts den (date_assertions G Y now year month day)
    \<longleftrightarrow> date_ok b \<and> date_le b (now\<lparr>d_year := Y\<rparr>)"
proof -
  note d = gnark_semD [OF sem]
  have m: "den (g_int (d_month now)) = d_month now" and dd: "den (g_int (d_day now)) = d_day now"
    using now p by (simp_all add: date_ok_def den_g_int [OF sem])
  have num: "den (g_int 1) = 1" "den (g_int 12) = 12" "den (g_int 31) = 31"
    using p by (simp_all add: den_g_int [OF sem])
  have Y: "den (g_int Y) = Y" using y by (simp add: den_g_int [OF sem])
  show ?thesis
    using c now
    by (auto simp: date_assertions_def Let_def den_is_equal [OF sem] d(10,11) m dd num Y
        carries_def date_ok_def date_le_def)
qed

section \<open>Timestamps\<close>

lemma sint_min_birth_ts:
  assumes "in_int64 (sint now - sint minAge * 31536000)"
  shows "sint (min_birth_ts now minAge) = sint now - sint minAge * 31536000"
proof -
  have "min_birth_ts now minAge = word_of_int (sint now - sint minAge * 31536000)"
    by (simp add: min_birth_ts_def secondsPerYear_def)
  then show ?thesis by (simp only: sint_int64 [OF assms])
qed

lemma min_birth_ts_inject: "min_birth_ts now a = min_birth_ts now' a \<longleftrightarrow> now = now'"
  by (simp add: min_birth_ts_def)

lemma g_int64_inject: "g_int64 v = g_int64 w \<longleftrightarrow> v = w"
  by (simp add: g_int64_def sint_int64_inject)

lemma applyAge_cases:
  assumes "applyAgeConstraint L now dc c = Inr as"
  obtains n age v where "cd_fields c = [n]" and "ValueAsInt L c = Inr age"
    and "fieldVariable dc n = Inr v"
    and "as = [AssertIsLessOrEqual v (Const (g_int64 (min_birth_ts now age)))]"
proof -
  from assms obtain n where "cd_fields c = [n]"
    by (auto simp: applyAgeConstraint_def length_Suc_conv split: if_splits)
  with assms that show ?thesis
    by (auto simp: applyAgeConstraint_def split: sum.splits)
qed

section \<open>The clock in the constraints\<close>

lemma applyConstraint_clock_length:
  assumes "applyConstraint L G t dc c = Inr as" and "applyConstraint L G t' dc c = Inr as'"
  shows "length as = length as'"
    and "cd_type c \<noteq> ConstraintAge \<Longrightarrow> as = as'"
    and "cd_type c = ConstraintAge \<Longrightarrow> as = as' \<longleftrightarrow> t = t'"
proof -
  have age: "as = as' \<longleftrightarrow> t = t'" "length as = length as'" if "cd_type c = ConstraintAge"
  proof -
    from that assms have a: "applyAgeConstraint L t dc c = Inr as"
      "applyAgeConstraint L t' dc c = Inr as'"
      by (simp_all add: applyConstraint_def type_names)
    from applyAge_cases [OF a(1)] obtain n g v where
      1: "cd_fields c = [n]" "ValueAsInt L c = Inr g" "fieldVariable dc n = Inr v"
         "as = [AssertIsLessOrEqual v (Const (g_int64 (min_birth_ts t g)))]" .
    from applyAge_cases [OF a(2)] obtain n' g' v' where
      2: "cd_fields c = [n']" "ValueAsInt L c = Inr g'" "fieldVariable dc n' = Inr v'"
         "as' = [AssertIsLessOrEqual v' (Const (g_int64 (min_birth_ts t' g')))]" .
    from 1 2 show "as = as' \<longleftrightarrow> t = t'" "length as = length as'"
      by (auto simp: g_int64_inject min_birth_ts_inject)
  qed
  have other: "as = as'" if "cd_type c \<noteq> ConstraintAge"
    using assms that by (auto simp: applyConstraint_def split: if_splits)
  from age other show "length as = length as'" by (cases "cd_type c = ConstraintAge") auto
  from other show "cd_type c \<noteq> ConstraintAge \<Longrightarrow> as = as'" .
  from age show "cd_type c = ConstraintAge \<Longrightarrow> as = as' \<longleftrightarrow> t = t'" by blast
qed

lemma define_from_clock:
  assumes "define_from L G clk dc i cs = Inr as" and "define_from L G clk' dc i cs = Inr as'"
  shows "length as = length as'
    \<and> (as = as' \<longleftrightarrow> (\<forall>k<length cs. cd_type (cs ! k) = ConstraintAge \<longrightarrow> clk (i + k) = clk' (i + k)))"
  using assms
proof (induction cs arbitrary: i as as')
  case Nil
  then show ?case by simp
next
  case (Cons c cs)
  from Cons.prems obtain a b where
    ab: "applyConstraint L G (clk i) dc c = Inr a" "define_from L G clk dc (Suc i) cs = Inr b"
      "as = a @ b"
    by (auto split: sum.splits)
  from Cons.prems obtain a' b' where
    ab': "applyConstraint L G (clk' i) dc c = Inr a'" "define_from L G clk' dc (Suc i) cs = Inr b'"
      "as' = a' @ b'"
    by (auto split: sum.splits)
  note step = applyConstraint_clock_length [OF ab(1) ab'(1)]
  note IH = Cons.IH [OF ab(2) ab'(2)]
  have hd_eq: "a = a' \<longleftrightarrow> (cd_type c = ConstraintAge \<longrightarrow> clk i = clk' i)"
    using step(2,3) by blast
  have "as = as' \<longleftrightarrow> a = a' \<and> b = b'"
    using step(1) ab(3) ab'(3) by simp
  also have "\<dots> \<longleftrightarrow> (\<forall>k<length (c # cs). cd_type ((c # cs) ! k) = ConstraintAge \<longrightarrow> clk (i + k) = clk' (i + k))"
    using IH hd_eq by (auto simp: less_Suc_eq_0_disj)
  finally show ?case using IH step(1) ab(3) ab'(3) by simp
qed

section \<open>Reading inputs back\<close>

lemma reads_back:
  assumes "ParseSchema L data = Inr s" and "NewDynamicCircuit (Some s) = Inr dc"
    and "distinct (map fst kvs)" and "AssignValues L kvs (Clone dc) = Inr dc'"
  shows "(\<forall>(n, v)\<in>set kvs. \<exists>f x. FieldDefinition s n = Inr f \<and> assigned_value L f n v = Inr x
            \<and> fieldVariable dc' n = Inr (Const x))
       \<and> (\<forall>f\<in>set (sd_fields s). fd_required f \<longrightarrow> fd_name f \<in> fst ` set kvs)"
proof -
  note new = NewDynamicCircuit_wf [OF ParseSchema_wf [OF assms(1)] assms(2)]
  have wf: "circuit_wf (Clone dc)" by (rule Clone_wf [OF new(1)])
  have sch: "dc_schema (Clone dc) = s" using new(2) by (simp add: Clone_def)
  have meta: "dc_metadata (Clone dc) = sd_field_index s"
    using wf sch by (simp add: circuit_wf_def schema_wf_def Let_def)
  show ?thesis
    using pkg_assign.assigns_read [OF wf assms(3,4)] pkg_assign.assigns_required [OF wf assms(3,4)]
    unfolding meta sch by (fastforce simp: FieldDefinition_def schema_field_def)
qed

section \<open>The age bound\<close>

text \<open>Both sides of the age check are read modulo the order of the field.\<close>

lemma age_accepts_iff:
  fixes now minAge ts :: int64
  assumes "gnark_sem p G den"
    and "applyAgeConstraint L now dc c = Inr as" and "ValueAsInt L c = Inr minAge"
    and "fieldVariable dc (cd_fields c ! 0) = Inr v" and "den v = sint ts mod p"
    and "in_int64 (sint now - sint minAge * 31536000)"
  shows "accepts den as \<longleftrightarrow> sint ts mod p \<le> (sint now - sint minAge * 31536000) mod p"
proof -
  from applyAge_cases [OF assms(2)] obtain n g w where
    "cd_fields c = [n]" "ValueAsInt L c = Inr g" "fieldVariable dc n = Inr w"
    "as = [AssertIsLessOrEqual w (Const (g_int64 (min_birth_ts now g)))]" .
  with assms(3,4) have "as = [AssertIsLessOrEqual v (Const (g_int64 (min_birth_ts now minAge)))]"
    by simp
  then show ?thesis
    using assms(5) by (simp add: den_g_int64 [OF assms(1)] sint_min_birth_ts [OF assms(6)])
qed

lemma mod_neg_below: "(i :: int) < 0 \<Longrightarrow> - p \<le> i \<Longrightarrow> i mod p = i + p"
  using mod_pos_pos_trivial [of "i + p" p] by simp

lemma parse_date_2022: "parse_date ''2022-05-06'' = Some 1651795200"
  by code_simp

lemma parse_date_2004: "parse_date ''2004-05-10'' = Some 1084147200"
  by code_simp

section \<open>A concrete constraint system\<close>

definition str_int :: "string \<Rightarrow> int" where
  "str_int s = (case split_sign s of (neg, ds) \<Rightarrow>
     if neg then - int (digits_val ds) else int (digits_val ds))"

definition eval_den :: "int \<Rightarrow> int var \<Rightarrow> int" where
  "eval_den p v =
     (case v of
        Wire i \<Rightarrow> i mod p
      | Const g \<Rightarrow>
          (case g of GInt k i \<Rightarrow> i mod p | GBig i \<Rightarrow> i mod p | GStr s \<Rightarrow> str_int s mod p | _ \<Rightarrow> 0))"

definition eval_gnark :: "int \<Rightarrow> int gnark" where
  "eval_gnark p =
     \<lparr>gk_add = \<lambda>x y. Wire (eval_den p x + eval_den p y),
      gk_sub = \<lambda>x y. Wire (eval_den p x - eval_den p y),
      gk_is_zero = \<lambda>x. Wire (if eval_den p x = 0 then 1 else 0),
      gk_select = \<lambda>b x y. if eval_den p b = 1 then x else y,
      gk_and = \<lambda>x y. Wire (if eval_den p x = 1 \<and> eval_den p y = 1 then 1 else 0)\<rparr>"

lemma str_int_str [simp]: "str_int (int_str i) = i"
  by (simp add: str_int_def split_sign_int_str)

lemma eval_den_simps [simp]:
  "eval_den p (Wire i) = i mod p"
  "eval_den p (Const (GInt k i)) = i mod p"
  "eval_den p (Const (GBig i)) = i mod p"
  "eval_den p (Const (GStr s)) = str_int s mod p"
  by (simp_all add: eval_den_def)

lemma eval_den_range: "1 < p \<Longrightarrow> 0 \<le> eval_den p v \<and> eval_den p v < p"
  unfolding eval_den_def by (auto split: var.split gval.split)

lemma eval_sem: "1 < p \<Longrightarrow> gnark_sem p (eval_gnark p) (eval_den p)"
  unfolding gnark_sem_def eval_gnark_def
  by (simp add: eval_den_range)

text \<open>A schema with one constraint of each type, and the library that parses it.\<close>

definition demo_json :: json where
  "demo_json = JObj
     [(''schema_id'', JStr ''demo''),
      (''fields'', JArr
         [JObj [(''name'', JStr ''birth_ts''), (''type'', JStr ''integer''), (''required'', JBool True)],
          JObj [(''name'', JStr ''degree''), (''required'', JBool True), (''public'', JBool True)]]),
      (''constraints'', JArr
         [JObj [(''type'', JStr ''age_verification''), (''fields'', JArr [JStr ''birth_ts'']),
                (''value'', JNum ''18'')],
          JObj [(''type'', JStr ''comparison''), (''fields'', JArr [JStr ''degree'']),
                (''operator'', JStr ''eq''), (''value'', JStr ''MSc'')],
          JObj [(''type'', JStr ''range_check''), (''fields'', JArr [JStr ''birth_ts'']),
                (''value'', JArr [JNum ''0'', JNum ''2000000000''])]])]"

definition demo_lib :: golib where
  "demo_lib = plain_lib\<lparr>gl_json_parse := \<lambda>s. Some demo_json\<rparr>"

definition demo_schema :: schema_def where
  "demo_schema = (case ParseSchema demo_lib [] of Inr s \<Rightarrow> s | Inl e \<Rightarrow> undefined)"

definition demo_circuit :: "int circuit" where
  "demo_circuit = (case NewDynamicCircuit (Some demo_schema) of Inr c \<Rightarrow> c | Inl e \<Rightarrow> undefined)"

definition demo_inputs :: "(string \<times> gval) list" where
  "demo_inputs = [(''birth_ts'', GInt KInt64 1084147200), (''degree'', GStr ''MSc'')]"

definition demo_assigned :: "int circuit" where
  "demo_assigned =
     (case AssignValues demo_lib demo_inputs (Clone demo_circuit) of Inr c \<Rightarrow> c | Inl e \<Rightarrow> undefined)"

lemma demo_parses: "ParseSchema demo_lib [] = Inr demo_schema"
proof -
  have "ok (ParseSchema demo_lib [])" by code_simp
  then show ?thesis by (auto simp: demo_schema_def ok_iff)
qed

lemma demo_circuit: "NewDynamicCircuit (Some demo_schema) = Inr demo_circuit"
  by (simp add: demo_circuit_def NewDynamicCircuit_def Let_def)

definition birth_field :: field_def where
  "birth_field = \<lparr>fd_name = ''birth_ts'', fd_type = ''integer'', fd_required = True, fd_secret = True,
     fd_public = False, fd_description = []\<rparr>"

definition degree_field :: field_def where
  "degree_field = \<lparr>fd_name = ''degree'', fd_type = ''string'', fd_required = True, fd_secret = False,
     fd_public = True, fd_description = []\<rparr>"

lemma demo_fields:
  "sd_fields demo_schema = [birth_field, degree_field]"
  "sd_field_index demo_schema ''birth_ts'' = Some birth_field"
  "sd_field_index demo_schema ''degree'' = Some degree_field"
  by code_simp+

lemma demo_clone: "circuit_wf (Clone demo_circuit)" "dc_schema (Clone demo_circuit) = demo_schema"
    "dc_metadata (Clone demo_circuit) = sd_field_index demo_schema"
proof -
  note n = NewDynamicCircuit_wf [OF ParseSchema_wf [OF demo_parses] demo_circuit]
  show w: "circuit_wf (Clone demo_circuit)" and s: "dc_schema (Clone demo_circuit) = demo_schema"
    using n Clone_wf by (auto simp: Clone_def)
  show "dc_metadata (Clone demo_circuit) = sd_field_index demo_schema"
    using w s by (simp add: circuit_wf_def schema_wf_def Let_def)
qed

lemma demo_assigns: "AssignValues demo_lib demo_inputs (Clone demo_circuit) = Inr demo_assigned"
proof -
  have "assignable (assigned_value demo_lib) (Clone demo_circuit) demo_inputs"
    unfolding assignable_def demo_inputs_def demo_clone
    by (simp add: demo_fields entry_value_def assigned_value_def birth_field_def degree_field_def
        convertToVariable_def convertToInt_def type_names is_nil_def box_def)
  moreover have "distinct (map fst demo_inputs)" by (simp add: demo_inputs_def)
  ultimately have "ok (AssignValues demo_lib demo_inputs (Clone demo_circuit))"
    using pkg_assign.assigns_iff [OF demo_clone(1)] by (auto simp: ok_iff)
  then show ?thesis by (auto simp: demo_assigned_def ok_iff)
qed

text \<open>A field order, a circuit with one secret input and single constraints.\<close>

definition demo_p :: int where
  "demo_p = 2 ^ 64 + 13"

lemma demo_p: "2 ^ 64 < demo_p" "gnark_sem demo_p (eval_gnark demo_p) (eval_den demo_p)"
  by (simp_all add: demo_p_def eval_sem)

definition age_c :: constraint_def where
  "age_c = \<lparr>cd_type = ''age_verification'', cd_fields = [''birth_ts''], cd_operator = [],
     cd_value = Some (JNum ''18''), cd_error_message = []\<rparr>"

definition range_c :: constraint_def where
  "range_c = \<lparr>cd_type = ''range_check'', cd_fields = [''birth_ts''], cd_operator = [],
     cd_value = Some (JArr [JNum ''1'', JNum ''12'']), cd_error_message = []\<rparr>"

definition ge_c :: constraint_def where
  "ge_c = \<lparr>cd_type = ''comparison'', cd_fields = [''birth_ts''], cd_operator = ''ge'',
     cd_value = Some (JNum ''18''), cd_error_message = []\<rparr>"

definition degree_c :: constraint_def where
  "degree_c = \<lparr>cd_type = ''comparison'', cd_fields = [''degree''], cd_operator = ''eq'',
     cd_value = Some (JStr ''BSc''), cd_error_message = []\<rparr>"

definition one_circuit :: "int \<Rightarrow> int circuit" where
  "one_circuit x = demo_circuit
     \<lparr>dc_secret_index := [''birth_ts'' \<mapsto> 0], dc_secret_values := [Const (GInt KInt64 x)],
      dc_schema := demo_schema\<lparr>sd_constraints := [age_c]\<rparr>\<rparr>"

lemma demo_value_18: "cd_value c = Some (JNum ''18'') \<Longrightarrow> ValueAsInt L c = Inr 18"
proof -
  have "parse_int64 ''18'' = Some 18"
    unfolding parse_int64_code by (simp add: split_sign_def is_digit_code digits_int_code digit_int_code in_int64_def)
  then show "cd_value c = Some (JNum ''18'') \<Longrightarrow> ValueAsInt L c = Inr 18"
    by (simp add: ValueAsInt_def unmarshal_number_def number_as_int_def)
qed

lemma demo_age:
  "applyAgeConstraint demo_lib now (one_circuit x) age_c =
     Inr [AssertIsLessOrEqual (Const (GInt KInt64 x)) (Const (g_int64 (min_birth_ts now 18)))]"
  "ValueAsInt L age_c = Inr 18"
  "fieldVariable (one_circuit x) (cd_fields age_c ! 0) = Inr (Const (GInt KInt64 x))"
  by (simp_all add: applyAgeConstraint_def age_c_def fieldVariable_def one_circuit_def demo_value_18)

lemma demo_define:
  "Define demo_lib G (\<lambda>k. t) (one_circuit x) =
     Inr [AssertIsLessOrEqual (Const (GInt KInt64 x)) (Const (g_int64 (min_birth_ts t 18)))]"
proof -
  have "sd_constraints (dc_schema (one_circuit x)) = [age_c]" by (simp add: one_circuit_def)
  then show ?thesis
    by (simp add: Define_def applyConstraint_def demo_age(1)) (simp add: age_c_def type_names)
qed

lemma demo_bounds: "float_to_int64 demo_lib (Fin 1) = 1" "float_to_int64 demo_lib (Fin 12) = 12"
  by (simp_all add: float_to_int64_def trunc_rat_def in_int64_def)

lemma demo_range_value: "ValueAsNumberSlice demo_lib range_c = Inr [Fin 1, Fin 12]"
proof -
  have "parse_decimal ''1'' = Some 1" "parse_decimal ''12'' = Some 12"
    by (simp_all add: parse_decimal_code split_sign_def take_digits_def is_digit_code
        parse_exponent_def pow10_def digits_int_code digit_int_code)
  moreover have "round64 1 = Some (Fin 1)" "round64 12 = Some (Fin 12)"
    using round64_int [of 1] round64_int [of 12] by simp_all
  ultimately show ?thesis
    by (simp add: ValueAsNumberSlice_def range_c_def unmarshal_float_def parse_float_def)
qed

lemma demo_range_field: "fieldVariable (one_circuit x) ''birth_ts'' = Inr (Const (GInt KInt64 x))"
  by (simp add: fieldVariable_def one_circuit_def)

lemma demo_range:
  "applyRangeConstraint demo_lib (one_circuit x) range_c =
     Inr [AssertIsLessOrEqual (Const (g_int64 1)) (Const (GInt KInt64 x)),
          AssertIsLessOrEqual (Const (GInt KInt64 x)) (Const (g_int64 12))]"
  unfolding applyRangeConstraint_def demo_range_value
  by (simp add: range_c_def demo_range_field toIntBound_def demo_bounds trunc_rat_def)

lemma ge_c_fields:
  "cd_fields ge_c = [''birth_ts'']" "cd_value ge_c = Some (JNum ''18'')" "cd_operator ge_c = ''ge''"
  by (simp_all add: ge_c_def)

lemma demo_ge_value: "ValueAsInt L ge_c = Inr 18"
  by (simp add: ge_c_def demo_value_18)

lemma demo_ge:
  "applyComparisonConstraint demo_lib G (one_circuit x) ge_c =
     Inr [AssertIsLessOrEqual (Const (g_int64 18)) (Const (GInt KInt64 x))]"
  unfolding applyComparisonConstraint_def comparison_constant_def demo_ge_value
  by (simp add: ge_c_def demo_range_field unmarshal_string_def compare_assertion_def)

lemma demo_degree: "FieldDefinition demo_schema ''degree'' = Inr degree_field"
  by (simp add: FieldDefinition_def schema_field_def demo_fields)

lemma demo_degree_eq:
  "applyComparisonConstraint demo_lib G demo_assigned degree_c =
     Inr [AssertIsEqual (Const (GBig (hashStringToFieldElement demo_lib ''MSc'')))
        (Const (GBig (hashStringToFieldElement demo_lib ''BSc'')))]"
proof -
  from reads_back [OF demo_parses demo_circuit _ demo_assigns]
  have "fieldVariable demo_assigned ''degree'' = Inr (Const (GBig (hashStringToFieldElement demo_lib ''MSc'')))"
    by (auto simp: demo_inputs_def demo_degree assigned_value_def degree_field_def)
  then show ?thesis
    by (simp add: applyComparisonConstraint_def degree_c_def comparison_constant_def
        unmarshal_string_def compare_assertion_def)
qed

section \<open>Properties\<close>

text \<open>
  C7. The order in which the runtime visits the map of inputs does not matter: for two listings of
  the same entries \<open>AssignValues\<close> fails on both or returns the same circuit.
\<close>

theorem AssignValues_order_independent:
  assumes "ParseSchema L data = Inr s" and "NewDynamicCircuit (Some s) = Inr dc"
    and "distinct (map fst xs)" and "distinct (map fst ys)" and "set ys = set xs"
  shows "AssignValues L xs (Clone dc) = Inr dc' \<longleftrightarrow> AssignValues L ys (Clone dc) = Inr dc'"
  using assms(1,2) by (intro pkg_assign.assigns_perm [OF _ assms(3-5)] Clone_wf)
    (blast intro: NewDynamicCircuit_wf ParseSchema_wf)

text \<open>
  C8. After a successful assignment the constraints read, for every input, the converted value
  of that input, and every required field of the schema has one.
\<close>

theorem AssignValues_reads_back:
  assumes "ParseSchema L data = Inr s" and "NewDynamicCircuit (Some s) = Inr dc"
    and "distinct (map fst kvs)" and "AssignValues L kvs (Clone dc) = Inr dc'"
  shows "(\<forall>(n, v)\<in>set kvs. \<exists>f x. FieldDefinition s n = Inr f \<and> assigned_value L f n v = Inr x
            \<and> fieldVariable dc' n = Inr (Const x))
       \<and> (\<forall>f\<in>set (sd_fields s). fd_required f \<longrightarrow> fd_name f \<in> fst ` set kvs)"
  using reads_back [OF assms] .

theorem AssignValues_order_independent_witness:
  "AssignValues demo_lib (rev demo_inputs) (Clone demo_circuit) = Inr demo_assigned"
  using demo_assigns
    AssignValues_order_independent [OF demo_parses demo_circuit, of demo_inputs "rev demo_inputs"
      demo_assigned]
  by (simp add: demo_inputs_def insert_commute)

theorem AssignValues_reads_back_witness:
  "\<exists>x. FieldDefinition demo_schema ''birth_ts'' = Inr birth_field
     \<and> assigned_value demo_lib birth_field ''birth_ts'' (GInt KInt64 1084147200) = Inr x
     \<and> fieldVariable demo_assigned ''birth_ts'' = Inr (Const x)"
  using AssignValues_reads_back [OF demo_parses demo_circuit _ demo_assigns]
  by (auto simp: demo_inputs_def FieldDefinition_def schema_field_def demo_fields)

text \<open>
  C19. What an age constraint accepts. Away from the boundaries of \<open>int64\<close> and for a birth timestamp
  and a bound that are not negative, the proof goes through exactly when the holder was born at
  least the required number of 365-day years before the time the constraint was built.
\<close>

theorem age_constraint_correct:
  fixes now minAge ts :: int64
  assumes "gnark_sem p G den" and "2 ^ 64 < p"
    and "applyAgeConstraint L now dc c = Inr as" and "ValueAsInt L c = Inr minAge"
    and "fieldVariable dc (cd_fields c ! 0) = Inr v" and "den v = sint ts mod p"
    and "in_int64 (sint now - sint minAge * 31536000)"
    and "0 \<le> sint ts" and "sint minAge * 31536000 \<le> sint now"
  shows "accepts den as \<longleftrightarrow> sint ts + sint minAge * 31536000 \<le> sint now"
proof -
  have "sint now - sint minAge * 31536000 < 2 ^ 63" using assms(7) by (simp add: in_int64_def)
  then show ?thesis
    using age_accepts_iff [OF assms(1,3-7)] assms(2,8,9) in_int64_sint [of ts]
    by (auto simp: in_int64_def mod_pos_pos_trivial)
qed

theorem age_constraint_correct_witness:
  "accepts (eval_den demo_p)
     [AssertIsLessOrEqual (Const (GInt KInt64 1084147200)) (Const (g_int64 (min_birth_ts 1700000000 18)))]
   \<longleftrightarrow> sint (1084147200 :: int64) + sint (18 :: int64) * 31536000 \<le> sint (1700000000 :: int64)"
  by (rule age_constraint_correct [OF demo_p(2,1) demo_age(1) demo_age(2) demo_age(3)])
    (simp_all add: in_int64_def)

text \<open>
  Where the age constraint goes wrong. The bound is reduced modulo the order of the field: when
  the required years reach back before 1970 every later birth timestamp is accepted, and a
  holder born before 1970 is rejected however old.
\<close>

theorem age_constraint_wraps:
  fixes now minAge ts :: int64
  assumes "gnark_sem p G den" and "2 ^ 64 < p"
    and "applyAgeConstraint L now dc c = Inr as" and "ValueAsInt L c = Inr minAge"
    and "fieldVariable dc (cd_fields c ! 0) = Inr v" and "den v = sint ts mod p"
    and "in_int64 (sint now - sint minAge * 31536000)"
  shows "(sint now < sint minAge * 31536000 \<and> 0 \<le> sint ts \<longrightarrow> accepts den as)
       \<and> (sint minAge * 31536000 \<le> sint now \<and> sint ts < 0 \<longrightarrow> \<not> accepts den as)"
proof -
  have b: "sint now - sint minAge * 31536000 < 2 ^ 63" "- (2 ^ 63) \<le> sint now - sint minAge * 31536000"
    and t: "sint ts < 2 ^ 63" "- (2 ^ 63) \<le> sint ts"
    using assms(7) in_int64_sint [of ts] by (simp_all add: in_int64_def)
  show ?thesis
    using age_accepts_iff [OF assms(1,3-7)] assms(2) b t
    by (auto simp: mod_pos_pos_trivial mod_neg_below)
qed

theorem age_constraint_wraps_witness:
  "accepts (eval_den demo_p)
     [AssertIsLessOrEqual (Const (GInt KInt64 1084147200)) (Const (g_int64 (min_birth_ts 500000000 18)))]"
  using age_constraint_wraps [OF demo_p(2,1) demo_age(1) demo_age(2) demo_age(3), of _ 1084147200]
  by (simp add: in_int64_def)

text \<open>
  A year of the constraint has 365 days: a holder born on 10 May 2004 passes the check for 18
  years on 6 May 2022, four days early.
\<close>

theorem age_constraint_accepts_before_birthday:
  assumes "gnark_sem p G den" and "2 ^ 64 < p"
    and "parse_date ''2022-05-06'' = Some now" and "parse_date ''2004-05-10'' = Some birth"
    and "applyAgeConstraint L (word_of_int now) dc c = Inr as" and "ValueAsInt L c = Inr 18"
    and "fieldVariable dc (cd_fields c ! 0) = Inr v" and "den v = birth"
  shows "accepts den as"
proof -
  have d: "now = 1651795200" "birth = 1084147200"
    using assms(3,4) by (simp_all add: parse_date_2022 parse_date_2004)
  have "sint (word_of_int now :: int64) = 1651795200" unfolding d by (simp add: in_int64_def)
  then show ?thesis
    using age_accepts_iff [OF assms(1,5,6,7), of 1084147200] assms(2,8) d
    by (simp add: in_int64_def mod_pos_pos_trivial)
qed

theorem age_constraint_accepts_before_birthday_witness:
  "accepts (eval_den demo_p)
     [AssertIsLessOrEqual (Const (GInt KInt64 1084147200)) (Const (g_int64 (min_birth_ts 1651795200 18)))]"
  by (rule age_constraint_accepts_before_birthday
        [where L = demo_lib, OF demo_p(2,1) parse_date_2022 parse_date_2004 _ demo_age(2) demo_age(3) [of 1084147200]])
    (simp_all add: demo_age(1) demo_p_def)

text \<open>
  The constraint system depends on the time at which it is built: two runs of \<open>Define\<close> assert
  the same things, in number, and they are the same assertions exactly when every age constraint saw
  the same second. Keys made from one run do not fit the other.
\<close>

theorem Define_depends_on_clock:
  assumes "Define L G clk dc = Inr as" and "Define L G clk' dc = Inr as'"
  shows "length as = length as'
    \<and> (as = as' \<longleftrightarrow> (\<forall>k<length (sd_constraints (dc_schema dc)).
          cd_type (sd_constraints (dc_schema dc) ! k) = ConstraintAge \<longrightarrow> clk k = clk' k))"
  using define_from_clock [of L G clk dc 0 _ as clk' as'] assms by (simp add: Define_def)

theorem Define_depends_on_clock_witness:
  "Define demo_lib (eval_gnark demo_p) (\<lambda>k. 1700000000) (one_circuit 7)
   \<noteq> Define demo_lib (eval_gnark demo_p) (\<lambda>k. 1700000001) (one_circuit 7)"
proof -
  have c: "sd_constraints (dc_schema (one_circuit 7)) = [age_c]" "cd_type age_c = ConstraintAge"
    by (simp_all add: one_circuit_def age_c_def type_names)
  note D = Define_depends_on_clock [OF demo_define [of "eval_gnark demo_p" 1700000000 7]
      demo_define [of "eval_gnark demo_p" 1700000001 7], unfolded c list.size]
  show ?thesis unfolding demo_define sum.inject using D c(2) by simp
qed

text \<open>
  A range constraint holds exactly when the value lies between the two bounds, for bounds that
  are numbers of the field.
\<close>

theorem range_constraint_meaning:
  assumes "gnark_sem p G den" and "applyRangeConstraint L dc c = Inr as"
    and "ValueAsNumberSlice L c = Inr [lo, hi]" and "fieldVariable dc (cd_fields c ! 0) = Inr v"
    and "0 \<le> sint (float_to_int64 L lo)" and "sint (float_to_int64 L lo) < p"
    and "0 \<le> sint (float_to_int64 L hi)" and "sint (float_to_int64 L hi) < p"
  shows "accepts den as \<longleftrightarrow> sint (float_to_int64 L lo) \<le> den v \<and> den v \<le> sint (float_to_int64 L hi)"
proof -
  from assms(2-4) have "as = [AssertIsLessOrEqual (Const (g_int64 (float_to_int64 L lo))) v,
           AssertIsLessOrEqual v (Const (g_int64 (float_to_int64 L hi)))]"
    by (auto simp: applyRangeConstraint_def toIntBound_def split: if_splits sum.splits)
  then show ?thesis using assms(5-8) by (simp add: den_g_int64 [OF assms(1)] mod_pos_pos_trivial)
qed

theorem range_constraint_meaning_witness:
  "accepts (eval_den demo_p)
     [AssertIsLessOrEqual (Const (g_int64 1)) (Const (GInt KInt64 7)),
      AssertIsLessOrEqual (Const (GInt KInt64 7)) (Const (g_int64 12))]
   \<longleftrightarrow> 1 \<le> eval_den demo_p (Const (GInt KInt64 7)) \<and> eval_den demo_p (Const (GInt KInt64 7)) \<le> 12"
  using range_constraint_meaning [OF demo_p(2) demo_range demo_range_value, of 7]
    demo_range_field [of 7]
  by (simp add: demo_bounds demo_p_def range_c_def)

text \<open>
  A string field and an equality constraint on it hash alike: after a successful assignment of a
  string to the field, the constraint holds exactly when the digests of the two strings are the
  same field element.
\<close>

theorem string_equality_constraint:
  assumes "ParseSchema L data = Inr s" and "NewDynamicCircuit (Some s) = Inr dc"
    and "distinct (map fst kvs)" and "AssignValues L kvs (Clone dc) = Inr dc'"
    and "(n, GStr t) \<in> set kvs" and "FieldDefinition s n = Inr f" and "fd_type f = FieldTypeString"
    and "cd_fields c = [n]" and "cd_operator c = ''eq''" and "cd_value c = Some (JStr u)"
    and "gnark_sem p G den" and "applyComparisonConstraint L G dc' c = Inr as"
  shows "accepts den as \<longleftrightarrow>
    hashStringToFieldElement L t mod p = hashStringToFieldElement L u mod p"
proof -
  from reads_back [OF assms(1-4)] assms(5,6) obtain x where
    x: "assigned_value L f n (GStr t) = Inr x" "fieldVariable dc' n = Inr (Const x)"
    by fastforce
  have "x = GBig (hashStringToFieldElement L t)" using x(1) assms(7) by (simp add: assigned_value_def)
  with x(2) assms(8-10,12) have
    "as = [AssertIsEqual (Const (GBig (hashStringToFieldElement L t)))
             (Const (GBig (hashStringToFieldElement L u)))]"
    by (simp add: applyComparisonConstraint_def comparison_constant_def unmarshal_string_def
        compare_assertion_def)
  then show ?thesis by (simp add: gnark_semD(3) [OF assms(11)])
qed

theorem string_equality_constraint_witness:
  "accepts (eval_den demo_p)
     [AssertIsEqual (Const (GBig (hashStringToFieldElement demo_lib ''MSc'')))
        (Const (GBig (hashStringToFieldElement demo_lib ''BSc'')))] \<longleftrightarrow>
   hashStringToFieldElement demo_lib ''MSc'' mod demo_p = hashStringToFieldElement demo_lib ''BSc'' mod demo_p"
  by (rule string_equality_constraint [OF demo_parses demo_circuit _ demo_assigns _ demo_degree _ _ _ _
        demo_p(2) demo_degree_eq])
    (simp_all add: demo_inputs_def degree_field_def degree_c_def type_names)

text \<open>
  A comparison of two numbers means the comparison its operator names, for numbers below the
  order of the field; \<open>greater_equal\<close> and \<open>ge\<close> have the field on the left.
\<close>

theorem comparison_constraint_meaning:
  assumes "gnark_sem p G den" and "applyComparisonConstraint L G dc c = Inr as"
    and "cd_fields c = [n]" and "cd_value c = Some (JNum k)" and "ValueAsInt L c = Inr w"
    and "0 \<le> sint w" and "sint w + 1 < p"
    and "fieldVariable dc n = Inr v" and "den v + 1 < p"
  shows "accepts den as \<longleftrightarrow> op_holds (cd_operator c) (den v) (sint w)"
proof -
  have "compare_assertion G (cd_operator c) v (Const (g_int64 w)) = Inr as"
    using assms(2-5,8)
    by (simp add: applyComparisonConstraint_def comparison_constant_def unmarshal_string_def)
  moreover have w: "den (Const (g_int64 w)) = sint w"
    using assms(6,7) by (simp add: den_g_int64 [OF assms(1)] mod_pos_pos_trivial)
  ultimately show ?thesis
    using compare_assertion_iff [OF assms(1)] assms(7,9) by (simp only: w)
qed

theorem comparison_constraint_meaning_witness:
  "accepts (eval_den demo_p) [AssertIsLessOrEqual (Const (g_int64 18)) (Const (GInt KInt64 7))]
   \<longleftrightarrow> op_holds ''ge'' (eval_den demo_p (Const (GInt KInt64 7))) (sint (18 :: int64))"
  by (rule comparison_constraint_meaning [OF demo_p(2) demo_ge [where x = 7] ge_c_fields(1,2) demo_ge_value _ _ demo_range_field,
        unfolded ge_c_fields(3)])
    (simp_all add: demo_p_def)

text \<open>
  C20. The fixed identity circuit accepts exactly the well-formed calendar dates that lie at least
  18 years before the day on which it was built.
\<close>

theorem IdentityDefine_meaning:
  assumes "gnark_sem p G den" and "31 < p" and "date_ok now" and "18 \<le> d_year now" and "d_year now < p"
    and "carries den b (ic_age_year c) (ic_age_month c) (ic_age_day c)"
  shows "accepts den (IdentityDefine G now c)
    \<longleftrightarrow> date_ok b \<and> date_le (b\<lparr>d_year := d_year b + 18\<rparr>) now"
  using date_assertions_iff [OF assms(1,2) _ _ assms(3,6), of "d_year now - 18"] assms(4,5)
  by (auto simp: IdentityDefine_def date_le_def date_ok_def)

theorem IdentityDefine_meaning_witness:
  "accepts (eval_den 101) (IdentityDefine (eval_gnark 101) \<lparr>d_year = 40, d_month = 5, d_day = 6\<rparr>
      \<lparr>ic_age_day = g_int 7, ic_age_month = g_int 5, ic_age_year = g_int 22\<rparr>)
   \<longleftrightarrow> date_ok \<lparr>d_year = 22, d_month = 5, d_day = 7\<rparr>
       \<and> date_le \<lparr>d_year = 40, d_month = 5, d_day = 7\<rparr> \<lparr>d_year = 40, d_month = 5, d_day = 6\<rparr>"
  using IdentityDefine_meaning [OF eval_sem [of 101],
      of "\<lparr>d_year = 40, d_month = 5, d_day = 6\<rparr>" "\<lparr>d_year = 22, d_month = 5, d_day = 7\<rparr>"
      "\<lparr>ic_age_day = g_int 7, ic_age_month = g_int 5, ic_age_year = g_int 22\<rparr>"]
  by (simp add: date_ok_def carries_def g_int_def)

text \<open>
  C18. What \<open>ParseSchema\<close> returns is well formed: there is a field, names are not empty and not repeated,
  every field has a type and is secret exactly when it is not public, the index finds each field
  under its name, and constraints name declared fields only. Preparing it again changes nothing.
\<close>

theorem parsed_schema_well_formed:
  assumes "ParseSchema L data = Inr s"
  shows "schema_wf s \<and> prepare s = Inr s"
  using ParseSchema_wf [OF assms] by (simp add: prepare_iff schema_wf_ok normalised_fixed)

theorem parsed_schema_well_formed_witness:
  "schema_wf demo_schema \<and> prepare demo_schema = Inr demo_schema"
  using parsed_schema_well_formed [OF demo_parses] .

end
