(* ===== verification/Copies.thy ===== *)
theory Copies
  imports CircuitFacts
begin

text \<open>
  The wallet and the blockchain client do not import \<open>pkg/zkp\<close>: each has a copy of its files in a
  package of its own. Where the text of a function is the same, so is its model; the functions of the
  blockchain client that differ are modelled in \<open>BlockchainCircuit\<close>. What the two provers call is named
  here by its owner, so that it is visible which copy they run.
\<close>

section \<open>The wallet: all of its three files\<close>

text \<open>\<open>zk-wallet-go/internal/app/zkp\<close>: \<open>schema.go\<close>, \<open>value_conversion.go\<close> and \<open>dynamic_circuit.go\<close>.\<close>

definition wallet_prepare :: "schema_def \<Rightarrow> schema_def res" where
  "wallet_prepare = prepare"

definition wallet_ParseSchema :: "golib \<Rightarrow> string \<Rightarrow> schema_def res" where
  "wallet_ParseSchema = ParseSchema"

definition wallet_schema_field :: "schema_def \<Rightarrow> string \<Rightarrow> field_def option" where
  "wallet_schema_field = schema_field"

definition wallet_SecretFieldOrder :: "schema_def \<Rightarrow> string list" where
  "wallet_SecretFieldOrder = SecretFieldOrder"

definition wallet_PublicFieldOrder :: "schema_def \<Rightarrow> string list" where
  "wallet_PublicFieldOrder = PublicFieldOrder"

definition wallet_parseStringInt :: "golib \<Rightarrow> string \<Rightarrow> int64 res" where
  "wallet_parseStringInt = parseStringInt"

definition wallet_ValueAsInt :: "golib \<Rightarrow> constraint_def \<Rightarrow> int64 res" where
  "wallet_ValueAsInt = ValueAsInt"

definition wallet_ValueAsNumberSlice :: "golib \<Rightarrow> constraint_def \<Rightarrow> f64 list res" where
  "wallet_ValueAsNumberSlice = ValueAsNumberSlice"

definition wallet_FieldDefinition :: "schema_def \<Rightarrow> string \<Rightarrow> field_def res" where
  "wallet_FieldDefinition = FieldDefinition"

definition wallet_convertToInt :: "golib \<Rightarrow> gval \<Rightarrow> int64 res" where
  "wallet_convertToInt = convertToInt"

definition wallet_convertToBool :: "gval \<Rightarrow> int64 res" where
  "wallet_convertToBool = convertToBool"

definition wallet_convertToVariable :: "golib \<Rightarrow> field_def \<Rightarrow> gval \<Rightarrow> gval res" where
  "wallet_convertToVariable = convertToVariable"

definition wallet_NewDynamicCircuit :: "schema_def option \<Rightarrow> 'w circuit res" where
  "wallet_NewDynamicCircuit = NewDynamicCircuit"

definition wallet_Clone :: "'w circuit \<Rightarrow> 'w circuit" where
  "wallet_Clone = Clone"

definition wallet_AssignValues :: "golib \<Rightarrow> (string \<times> gval) list \<Rightarrow> 'w circuit \<Rightarrow> 'w circuit res" where
  "wallet_AssignValues = AssignValues"

definition wallet_toIntBound :: "golib \<Rightarrow> f64 \<Rightarrow> int64 res" where
  "wallet_toIntBound = toIntBound"

definition wallet_fieldVariable :: "'w circuit \<Rightarrow> string \<Rightarrow> 'w var res" where
  "wallet_fieldVariable = fieldVariable"

definition wallet_applyRangeConstraint :: "golib \<Rightarrow> 'w circuit \<Rightarrow> constraint_def \<Rightarrow> 'w assertion list res" where
  "wallet_applyRangeConstraint = applyRangeConstraint"

definition wallet_applyComparisonConstraint :: "golib \<Rightarrow> 'w gnark \<Rightarrow> 'w circuit \<Rightarrow> constraint_def \<Rightarrow> 'w assertion list res" where
  "wallet_applyComparisonConstraint = applyComparisonConstraint"

definition wallet_applyAgeConstraint :: "golib \<Rightarrow> int64 \<Rightarrow> 'w circuit \<Rightarrow> constraint_def \<Rightarrow> 'w assertion list res" where
  "wallet_applyAgeConstraint = applyAgeConstraint"

definition wallet_applyConstraint :: "golib \<Rightarrow> 'w gnark \<Rightarrow> int64 \<Rightarrow> 'w circuit \<Rightarrow> constraint_def \<Rightarrow> 'w assertion list res" where
  "wallet_applyConstraint = applyConstraint"

definition wallet_Define :: "golib \<Rightarrow> 'w gnark \<Rightarrow> (nat \<Rightarrow> int64) \<Rightarrow> 'w circuit \<Rightarrow> 'w assertion list res" where
  "wallet_Define = Define"

lemmas wallet_copies [simp] = wallet_prepare_def wallet_ParseSchema_def wallet_schema_field_def
  wallet_SecretFieldOrder_def wallet_PublicFieldOrder_def wallet_parseStringInt_def wallet_ValueAsInt_def
  wallet_ValueAsNumberSlice_def wallet_FieldDefinition_def wallet_convertToInt_def wallet_convertToBool_def
  wallet_convertToVariable_def wallet_NewDynamicCircuit_def wallet_Clone_def wallet_AssignValues_def
  wallet_toIntBound_def wallet_fieldVariable_def wallet_applyRangeConstraint_def
  wallet_applyComparisonConstraint_def wallet_applyAgeConstraint_def wallet_applyConstraint_def
  wallet_Define_def

section \<open>The blockchain client: the schema and parts of the circuit\<close>

text \<open>\<open>blockchain-client/src/zkp\<close>: all of \<open>schema.go\<close>, and of the other two files what is the same.\<close>

definition bc_prepare :: "schema_def \<Rightarrow> schema_def res" where
  "bc_prepare = prepare"

definition bc_ParseSchema :: "golib \<Rightarrow> string \<Rightarrow> schema_def res" where
  "bc_ParseSchema = ParseSchema"

definition bc_schema_field :: "schema_def \<Rightarrow> string \<Rightarrow> field_def option" where
  "bc_schema_field = schema_field"

definition bc_SecretFieldOrder :: "schema_def \<Rightarrow> string list" where
  "bc_SecretFieldOrder = SecretFieldOrder"

definition bc_PublicFieldOrder :: "schema_def \<Rightarrow> string list" where
  "bc_PublicFieldOrder = PublicFieldOrder"

definition bc_parseStringInt :: "golib \<Rightarrow> string \<Rightarrow> int64 res" where
  "bc_parseStringInt = parseStringInt"

definition bc_ValueAsInt :: "golib \<Rightarrow> constraint_def \<Rightarrow> int64 res" where
  "bc_ValueAsInt = ValueAsInt"

definition bc_ValueAsNumberSlice :: "golib \<Rightarrow> constraint_def \<Rightarrow> f64 list res" where
  "bc_ValueAsNumberSlice = ValueAsNumberSlice"

definition bc_FieldDefinition :: "schema_def \<Rightarrow> string \<Rightarrow> field_def res" where
  "bc_FieldDefinition = FieldDefinition"

definition bc_convertToBool :: "gval \<Rightarrow> int64 res" where
  "bc_convertToBool = convertToBool"

definition bc_NewDynamicCircuit :: "schema_def option \<Rightarrow> 'w circuit res" where
  "bc_NewDynamicCircuit = NewDynamicCircuit"

definition bc_Clone :: "'w circuit \<Rightarrow> 'w circuit" where
  "bc_Clone = Clone"

definition bc_toIntBound :: "golib \<Rightarrow> f64 \<Rightarrow> int64 res" where
  "bc_toIntBound = toIntBound"

definition bc_fieldVariable :: "'w circuit \<Rightarrow> string \<Rightarrow> 'w var res" where
  "bc_fieldVariable = fieldVariable"

definition bc_applyRangeConstraint :: "golib \<Rightarrow> 'w circuit \<Rightarrow> constraint_def \<Rightarrow> 'w assertion list res" where
  "bc_applyRangeConstraint = applyRangeConstraint"

lemmas bc_copies [simp] = bc_prepare_def bc_ParseSchema_def bc_schema_field_def bc_SecretFieldOrder_def
  bc_PublicFieldOrder_def bc_parseStringInt_def bc_ValueAsInt_def bc_ValueAsNumberSlice_def
  bc_FieldDefinition_def bc_convertToBool_def bc_NewDynamicCircuit_def bc_Clone_def bc_toIntBound_def
  bc_fieldVariable_def bc_applyRangeConstraint_def

end
