(* ===== verification/BlockchainCircuit.thy ===== *)
theory BlockchainCircuit
  imports Copies
begin

text \<open>
  \<open>blockchain-client/src/zkp\<close>: the circuit of the blockchain client, which differs from
  \<open>pkg/zkp\<close> in the conversion of inputs, in the comparison of string fields and in the age
  constraint, and \<open>CreateZKP\<close>, which compiles the circuit, makes fresh keys and a proof. The
  constructor, \<open>Clone\<close>, the range constraint and \<open>fieldVariable\<close> are the same text as in \<open>pkg/zkp\<close>:
  see \<open>Copies\<close>.
\<close>

section \<open>Assigning inputs\<close>

definition bc_assigned_value :: "golib \<Rightarrow> field_def \<Rightarrow> string \<Rightarrow> gval \<Rightarrow> gval res" where
  "bc_assigned_value L field name rawValue =
     (case bc_convertToVariable L field rawValue of
        Inl e \<Rightarrow> Inl (Wrap (''invalid value for field '' @ quoted name) e)
      | Inr v \<Rightarrow> Inr v)"

definition bc_assign_one ::
    "golib \<Rightarrow> string \<times> gval \<Rightarrow> 'w circuit \<times> string set \<Rightarrow> ('w circuit \<times> string set) res" where
  "bc_assign_one L kv st =
     (case kv of (name, rawValue) \<Rightarrow> case st of (dc, assigned) \<Rightarrow>
        (case dc_metadata dc name of
           None \<Rightarrow> Inl (Msg (''assignment references unknown field '' @ quoted name))
         | Some field \<Rightarrow>
             (case bc_assigned_value L field name rawValue of
                Inl e \<Rightarrow> Inl e
              | Inr variable \<Rightarrow>
                  (case store_value dc name (Const variable) of
                     Inl e \<Rightarrow> Inl e
                   | Inr dc' \<Rightarrow> Inr (dc', insert name assigned)))))"

definition bc_AssignValues :: "golib \<Rightarrow> (string \<times> gval) list \<Rightarrow> 'w circuit \<Rightarrow> 'w circuit res" where
  "bc_AssignValues L values dc =
     (case each_res (bc_assign_one L) values (dc, {}) of
        Inl e \<Rightarrow> Inl e
      | Inr (dc', assigned) \<Rightarrow>
          (case List.find (\<lambda>f. fd_required f \<and> fd_name f \<notin> assigned) (sd_fields (dc_schema dc')) of
             Some f \<Rightarrow> Inl (Msg (''required field '' @ quoted (fd_name f) @ '' missing from assignments''))
           | None \<Rightarrow> Inr dc'))"

interpretation bc_assign: input_assignment "bc_assigned_value L" "bc_assign_one L" "bc_AssignValues L" for L
proof (unfold_locales, goal_cases)
  case (1 n v dc A st)
  show ?case by (auto simp: bc_assign_one_def split: option.splits sum.splits)
next
  case (2 kvs dc dc')
  show ?case
    by (auto simp: bc_AssignValues_def find_None_iff find_Some_iff split: sum.splits option.splits)
qed

section \<open>Constraints\<close>

definition constantValueForField :: "golib \<Rightarrow> field_def \<Rightarrow> json option \<Rightarrow> gval res" where
  "constantValueForField L field raw =
     (case raw of
        None \<Rightarrow> Inl (Msg (''comparison constraint missing constant value for field '' @ quoted (fd_name field)))
      | Some j \<Rightarrow>
          (case decode_any L True j of
             None \<Rightarrow> Inl (Wrap (''invalid constant value for field '' @ quoted (fd_name field)) (LibErr ''json''))
           | Some decoded \<Rightarrow> bc_convertToVariable L field decoded))"

definition bc_applyComparisonConstraint ::
    "golib \<Rightarrow> 'w gnark \<Rightarrow> 'w circuit \<Rightarrow> constraint_def \<Rightarrow> 'w assertion list res" where
  "bc_applyComparisonConstraint L G dc c =
     (if cd_fields c = [] then Inl (Msg ''comparison constraint must declare at least one field'')
      else case dc_metadata dc (cd_fields c ! 0) of
        None \<Rightarrow> Inl (Msg (''comparison constraint references unknown field '' @ quoted (cd_fields c ! 0)))
      | Some fieldDef \<Rightarrow>
      if fd_type fieldDef = FieldTypeString
         \<and> cd_operator c \<notin> {''equal'', ''eq'', ''not_equal'', ''ne''}
      then Inl (Msg (''string fields only support equality comparisons, got '' @ quoted (cd_operator c)))
      else case bc_fieldVariable dc (cd_fields c ! 0) of Inl e \<Rightarrow> Inl e | Inr left \<Rightarrow>
      case (if 1 < length (cd_fields c) then bc_fieldVariable dc (cd_fields c ! 1)
            else case constantValueForField L fieldDef (cd_value c) of
                   Inl e \<Rightarrow> Inl e | Inr number \<Rightarrow> Inr (Const number)) of
        Inl e \<Rightarrow> Inl e
      | Inr right \<Rightarrow> compare_assertion G (cd_operator c) left right)"

text \<open>The least admissible year is computed on the platform's 64-bit \<open>int\<close>.\<close>

definition bc_applyAgeConstraint ::
    "golib \<Rightarrow> 'w gnark \<Rightarrow> date \<Rightarrow> 'w circuit \<Rightarrow> constraint_def \<Rightarrow> 'w assertion list res" where
  "bc_applyAgeConstraint L G currentTime dc c =
     (if length (cd_fields c) \<noteq> 3
      then Inl (Msg ''age constraint expects three fields (year, month, day)'')
      else case bc_ValueAsInt L c of Inl e \<Rightarrow> Inl e | Inr minAge \<Rightarrow>
      case bc_fieldVariable dc (cd_fields c ! 0) of Inl e \<Rightarrow> Inl e | Inr yearVar \<Rightarrow>
      case bc_fieldVariable dc (cd_fields c ! 1) of Inl e \<Rightarrow> Inl e | Inr monthVar \<Rightarrow>
      case bc_fieldVariable dc (cd_fields c ! 2) of Inl e \<Rightarrow> Inl e | Inr dayVar \<Rightarrow>
      (let minValidYear = sint (word_of_int (d_year currentTime) - minAge :: int64)
       in Inr (date_assertions G minValidYear currentTime yearVar monthVar dayVar)))"

definition bc_applyConstraint ::
    "golib \<Rightarrow> 'w gnark \<Rightarrow> date \<Rightarrow> 'w circuit \<Rightarrow> constraint_def \<Rightarrow> 'w assertion list res" where
  "bc_applyConstraint L G currentTime dc c =
     (if cd_type c = ConstraintRange then bc_applyRangeConstraint L dc c
      else if cd_type c = ConstraintComparison then bc_applyComparisonConstraint L G dc c
      else if cd_type c = ConstraintAge then bc_applyAgeConstraint L G currentTime dc c
      else Inl (Msg (''unsupported constraint type '' @ quoted (cd_type c))))"

text \<open>\<open>clk i\<close> is the date on which the constraint at position \<open>i\<close> is applied.\<close>

fun bc_define_from ::
    "golib \<Rightarrow> 'w gnark \<Rightarrow> (nat \<Rightarrow> date) \<Rightarrow> 'w circuit \<Rightarrow> nat \<Rightarrow> constraint_def list
      \<Rightarrow> 'w assertion list res" where
  "bc_define_from L G clk dc i [] = Inr []"
| "bc_define_from L G clk dc i (c # cs) =
     (case bc_applyConstraint L G (clk i) dc c of
        Inl e \<Rightarrow> Inl e
      | Inr as \<Rightarrow>
          (case bc_define_from L G clk dc (Suc i) cs of
             Inl e \<Rightarrow> Inl e
           | Inr bs \<Rightarrow> Inr (as @ bs)))"

definition bc_Define ::
    "golib \<Rightarrow> 'w gnark \<Rightarrow> (nat \<Rightarrow> date) \<Rightarrow> 'w circuit \<Rightarrow> 'w assertion list res" where
  "bc_Define L G clk dc = bc_define_from L G clk dc 0 (sd_constraints (dc_schema dc))"

section \<open>The default schemas\<close>

definition int_field :: "string \<Rightarrow> json" where
  "int_field n = JObj [(''name'', JStr n), (''type'', JStr ''integer''), (''required'', JBool True),
     (''secret'', JBool True)]"

definition public_field :: "string \<Rightarrow> string \<Rightarrow> json" where
  "public_field n t = JObj [(''name'', JStr n), (''type'', JStr t), (''required'', JBool True),
     (''public'', JBool True)]"

definition schema_constraint :: "string \<Rightarrow> string list \<Rightarrow> string \<Rightarrow> json \<Rightarrow> json" where
  "schema_constraint t fs opr v = JObj [(''type'', JStr t), (''fields'', JArr (map JStr fs)),
     (''operator'', JStr opr), (''value'', v)]"

definition default_constraints :: json where
  "default_constraints = JArr
     [schema_constraint ''age_verification'' [''birth_year'', ''birth_month'', ''birth_day''] ''ge'' (JNum ''18''),
      schema_constraint ''range_check'' [''birth_month''] ''between'' (JArr [JNum ''1'', JNum ''12'']),
      schema_constraint ''range_check'' [''birth_day''] ''between'' (JArr [JNum ''1'', JNum ''31''])]"

text \<open>The JSON trees of the two constants named \<open>DefaultAgeSchema\<close>.\<close>

definition bc_DefaultAgeSchema :: json where
  "bc_DefaultAgeSchema = JObj
     [(''schema_id'', JStr ''age_over_18''), (''version'', JStr ''1.0.0''),
      (''fields'', JArr (map int_field [''birth_year'', ''birth_month'', ''birth_day''])),
      (''constraints'', default_constraints)]"

definition DefaultAgeSchema :: json where
  "DefaultAgeSchema = JObj
     [(''schema_id'', JStr ''age_over_18''), (''version'', JStr ''1.0.1''),
      (''fields'', JArr
         (map int_field [''birth_year'', ''birth_month'', ''birth_day'']
          @ map (\<lambda>n. public_field n ''integer'') [''current_year'', ''current_month'', ''current_day'']
          @ map (\<lambda>n. public_field n ''string'') [''aud'', ''nonce''])),
      (''constraints'', default_constraints)]"

section \<open>CreateZKP\<close>

text \<open>
  The Groth16 backend, a parameter: the constraint builder, the wires given to the inputs, the
  rest of the compilation once the circuit is defined, the key setup, the witness of two lists of
  input values, the prover and the public part of a witness.
\<close>

record ('w, 'ccs, 'pk, 'vk, 'wit, 'pub, 'prf) groth =
  gr_api :: "'w gnark"
  gr_secret_wire :: "nat \<Rightarrow> 'w"
  gr_public_wire :: "nat \<Rightarrow> 'w"
  gr_compile :: "'w assertion list \<Rightarrow> 'ccs res"
  gr_setup :: "'ccs \<Rightarrow> ('pk \<times> 'vk) res"
  gr_witness :: "'w var list \<Rightarrow> 'w var list \<Rightarrow> 'wit res"
  gr_prove :: "'ccs \<Rightarrow> 'pk \<Rightarrow> 'wit \<Rightarrow> 'prf res"
  gr_public :: "'wit \<Rightarrow> 'pub res"

text \<open>\<open>frontend.Compile\<close> gives every input a wire before it calls \<open>Define\<close>.\<close>

definition wired ::
    "('w, 'ccs, 'pk, 'vk, 'wit, 'pub, 'prf) groth \<Rightarrow> 'w circuit \<Rightarrow> 'w circuit" where
  "wired B dc =
     dc\<lparr>dc_secret_values := map (\<lambda>i. Wire (gr_secret_wire B i)) [0..<length (dc_secret_values dc)],
        dc_public_values := map (\<lambda>i. Wire (gr_public_wire B i)) [0..<length (dc_public_values dc)]\<rparr>"

record ('vk, 'pub, 'prf) zkp_result =
  zr_proof :: 'prf
  zr_verifying_key :: 'vk
  zr_public_witness :: 'pub
  zr_tx_hash :: string

record circuit_base =
  cb_schema_json :: string
  cb_verified_values :: "(string \<times> gval) list"

text \<open>The map built from the verified values: a later value of a key replaces an earlier one.\<close>

fun value_map :: "(string \<times> gval) list \<Rightarrow> (string \<rightharpoonup> gval) \<Rightarrow> (string \<rightharpoonup> gval)" where
  "value_map [] m = m"
| "value_map ((k, v) # kvs) m = value_map kvs (m(k \<mapsto> v))"

text \<open>The default assignment; the JSON numbers decode to floats.\<close>

definition default_assignment :: "string \<rightharpoonup> gval" where
  "default_assignment =
     [''birth_year'' \<mapsto> GFloat KFloat64 (Fin 1990), ''birth_month'' \<mapsto> GFloat KFloat64 (Fin 10),
      ''birth_day'' \<mapsto> GFloat KFloat64 (Fin 18)]"

text \<open>
  \<open>visit\<close> is the order in which the runtime ranges over a map, \<open>default_text\<close> the text of the
  default schema.
\<close>

definition CreateZKP ::
    "golib \<Rightarrow> ('w, 'ccs, 'pk, 'vk, 'wit, 'pub, 'prf) groth \<Rightarrow> ((string \<rightharpoonup> gval) \<Rightarrow> (string \<times> gval) list)
      \<Rightarrow> string \<Rightarrow> (nat \<Rightarrow> date) \<Rightarrow> circuit_base \<Rightarrow> ('vk, 'pub, 'prf) zkp_result res" where
  "CreateZKP L B visit default_text clk base =
     and_then (bc_ParseSchema L (if cb_schema_json base = [] then default_text else cb_schema_json base)) (\<lambda>schema.
     and_then (bc_NewDynamicCircuit (Some schema)) (\<lambda>circuit.
     and_then (and_then (bc_Define L (gr_api B) clk (wired B circuit)) (gr_compile B)) (\<lambda>ccs.
     and_then (gr_setup B ccs) (\<lambda>keys.
     let valueMap = (if cb_verified_values base = [] then default_assignment
                     else value_map (cb_verified_values base) Map.empty)
     in and_then (bc_AssignValues L (visit valueMap) (bc_Clone circuit)) (\<lambda>assignment.
        and_then (gr_witness B (dc_secret_values assignment) (dc_public_values assignment)) (\<lambda>fullWitness.
        and_then (gr_prove B ccs (fst keys) fullWitness) (\<lambda>proof'.
        and_then (gr_public B fullWitness) (\<lambda>publicWitness.
        Inr \<lparr>zr_proof = proof', zr_verifying_key = snd keys, zr_public_witness = publicWitness,
             zr_tx_hash = []\<rparr>))))))))"

end
