(* ===== verification/BlockchainProps.thy ===== *)
theory BlockchainProps
  imports BlockchainCircuit CircuitProps
begin

text \<open>
  What \<open>CreateZKP\<close> proves: under the documented meaning of the Groth16 backend it returns a proof for
  the default schema exactly when the birth date is a date at least 18 years old. The last section
  has the properties of the two default schemas.
\<close>

section \<open>The backend\<close>

text \<open>The wires of the inputs carry the assigned values.\<close>

definition wires_carry ::
    "('w, 'ccs, 'pk, 'vk, 'wit, 'pub, 'prf) groth \<Rightarrow> ('wit \<Rightarrow> 'w var \<Rightarrow> int) \<Rightarrow> bool" where
  "wires_carry B den =
     (\<forall>sv pv wit. gr_witness B sv pv = Inr wit \<longrightarrow>
        (\<forall>i g. i < length sv \<longrightarrow> sv ! i = Const g \<longrightarrow>
           den wit (Wire (gr_secret_wire B i)) = den wit (Const g))
        \<and> (\<forall>i g. i < length pv \<longrightarrow> pv ! i = Const g \<longrightarrow>
           den wit (Wire (gr_public_wire B i)) = den wit (Const g)))"

text \<open>
  The meaning of the backend: \<open>den wit\<close> is the value of a variable under the witness \<open>wit\<close>, the wires
  of the inputs carry the assigned values, and the prover succeeds exactly on the witnesses that
  satisfy the assertions its keys were made for.
\<close>

definition groth_sem ::
    "int \<Rightarrow> ('w, 'ccs, 'pk, 'vk, 'wit, 'pub, 'prf) groth \<Rightarrow> ('wit \<Rightarrow> 'w var \<Rightarrow> int) \<Rightarrow> bool" where
  "groth_sem p B den =
     ((\<forall>wit. gnark_sem p (gr_api B) (den wit))
      \<and> wires_carry B den
      \<and> (\<forall>as ccs pk vk wit. gr_compile B as = Inr ccs \<longrightarrow> gr_setup B ccs = Inr (pk, vk) \<longrightarrow>
           ok (gr_prove B ccs pk wit) = accepts (den wit) as))"

text \<open>
  The steps around the prover do not fail where there is no reason to: a compilation whose every
  assertion is about some wire (two constants may contradict each other), a setup of what was
  compiled, a witness of numbers (a value may be missing or no number) and its public part.
\<close>

fun about_wire :: "'w assertion \<Rightarrow> bool" where
  "about_wire (AssertIsLessOrEqual x y) = (\<not> (\<exists>g h. x = Const g \<and> y = Const h))"
| "about_wire (AssertIsEqual x y) = (\<not> (\<exists>g h. x = Const g \<and> y = Const h))"
| "about_wire (AssertIsDifferent x y) = (\<not> (\<exists>g h. x = Const g \<and> y = Const h))"

definition numbers :: "'w var list \<Rightarrow> bool" where
  "numbers xs = list_all (\<lambda>x. \<exists>k i. x = Const (GInt k i)) xs"

definition groth_total :: "('w, 'ccs, 'pk, 'vk, 'wit, 'pub, 'prf) groth \<Rightarrow> bool" where
  "groth_total B =
     ((\<forall>as. list_all about_wire as \<longrightarrow> ok (gr_compile B as))
      \<and> (\<forall>as ccs. gr_compile B as = Inr ccs \<longrightarrow> ok (gr_setup B ccs))
      \<and> (\<forall>sv pv. numbers sv \<longrightarrow> numbers pv \<longrightarrow> ok (gr_witness B sv pv))
      \<and> (\<forall>sv pv wit. gr_witness B sv pv = Inr wit \<longrightarrow> ok (gr_public B wit)))"

lemma groth_totalD:
  assumes "groth_total B"
  shows "list_all about_wire as \<Longrightarrow> \<exists>ccs. gr_compile B as = Inr ccs"
    and "gr_compile B as = Inr ccs \<Longrightarrow> \<exists>pk vk. gr_setup B ccs = Inr (pk, vk)"
    and "numbers sv \<Longrightarrow> numbers pv \<Longrightarrow> \<exists>wit. gr_witness B sv pv = Inr wit"
    and "gr_witness B sv pv = Inr wit \<Longrightarrow> \<exists>pub. gr_public B wit = Inr pub"
  using assms unfolding groth_total_def ok_iff by fastforce+

text \<open>The runtime visits every entry of the map once.\<close>

definition visits :: "((string \<rightharpoonup> gval) \<Rightarrow> (string \<times> gval) list) \<Rightarrow> (string \<rightharpoonup> gval) \<Rightarrow> bool" where
  "visits visit m = (map_of (visit m) = m \<and> distinct (map fst (visit m)))"

section \<open>The default schema of the blockchain client\<close>

definition bc_default_schema :: schema_def where
  "bc_default_schema =
     (case decode_schema bc_DefaultAgeSchema of Inl e \<Rightarrow> undefined | Inr s \<Rightarrow> normalised s)"

definition default_field :: "string \<Rightarrow> field_def" where
  "default_field n = \<lparr>fd_name = n, fd_type = ''integer'', fd_required = True, fd_secret = True,
     fd_public = False, fd_description = []\<rparr>"

definition default_constraint :: "string \<Rightarrow> string list \<Rightarrow> string \<Rightarrow> json \<Rightarrow> constraint_def" where
  "default_constraint t fs opr v = \<lparr>cd_type = t, cd_fields = fs, cd_operator = opr,
     cd_value = Some v, cd_error_message = []\<rparr>"

definition birth_names :: "string list" where
  "birth_names = [''birth_year'', ''birth_month'', ''birth_day'']"

definition expected_constraints :: "constraint_def list" where
  "expected_constraints =
     [default_constraint ''age_verification'' birth_names ''ge'' (JNum ''18''),
      default_constraint ''range_check'' [''birth_month''] ''between'' (JArr [JNum ''1'', JNum ''12'']),
      default_constraint ''range_check'' [''birth_day''] ''between'' (JArr [JNum ''1'', JNum ''31''])]"

lemma bc_default_schema_parts:
  "sd_fields bc_default_schema = map default_field birth_names"
  "sd_constraints bc_default_schema = expected_constraints"
  by code_simp+

lemma bc_default_parses:
  assumes "gl_json_parse L src = Some bc_DefaultAgeSchema"
  shows "ParseSchema L src = Inr bc_default_schema"
proof -
  have "ok (decode_schema bc_DefaultAgeSchema)" by code_simp
  then obtain s where s: "decode_schema bc_DefaultAgeSchema = Inr s" by (auto simp: ok_iff)
  have n: "bc_default_schema = normalised s" by (simp add: bc_default_schema_def s)
  have "schema_ok bc_default_schema"
    unfolding schema_ok_def bc_default_schema_parts
    by (simp add: default_field_def birth_names_def expected_constraints_def default_constraint_def
        constraint_ok_def)
  then have "schema_ok s"
    by (simp add: n normalised_def schema_ok_def comp_def image_image)
  then show ?thesis using assms by (simp add: ParseSchema_def s prepare_iff n)
qed

lemma bc_default_wf: "schema_wf bc_default_schema"
proof -
  have "ParseSchema (plain_lib\<lparr>gl_json_parse := \<lambda>s. Some bc_DefaultAgeSchema\<rparr>) [] = Inr bc_default_schema"
    by (rule bc_default_parses) simp
  then show ?thesis by (rule ParseSchema_wf)
qed

text \<open>The circuit of the schema: three secret inputs.\<close>

lemma bc_default_orders:
  "SecretFieldOrder bc_default_schema = birth_names" "PublicFieldOrder bc_default_schema = []"
  by (simp_all add: SecretFieldOrder_def PublicFieldOrder_def bc_default_schema_parts birth_names_def
      default_field_def)

lemma bc_default_circuit:
  assumes "NewDynamicCircuit (Some bc_default_schema) = Inr dc"
  shows "circuit_wf dc" and "dc_schema dc = bc_default_schema"
    and "dc_secret_order dc = birth_names" and "dc_public_order dc = []"
    and "length (dc_secret_values dc) = 3" and "length (dc_public_values dc) = 0"
    and "dc_secret_index dc = [''birth_year'' \<mapsto> 0, ''birth_month'' \<mapsto> 1, ''birth_day'' \<mapsto> 2]"
    and "dc_metadata dc =
      [''birth_year'' \<mapsto> default_field ''birth_year'', ''birth_month'' \<mapsto> default_field ''birth_month'',
       ''birth_day'' \<mapsto> default_field ''birth_day'']"
proof -
  show "circuit_wf dc" "dc_schema dc = bc_default_schema"
    using NewDynamicCircuit_wf [OF bc_default_wf assms] by simp_all
  show "dc_secret_order dc = birth_names" "dc_public_order dc = []"
    "length (dc_secret_values dc) = 3" "length (dc_public_values dc) = 0"
    "dc_secret_index dc = [''birth_year'' \<mapsto> 0, ''birth_month'' \<mapsto> 1, ''birth_day'' \<mapsto> 2]"
    "dc_metadata dc = [''birth_year'' \<mapsto> default_field ''birth_year'',
       ''birth_month'' \<mapsto> default_field ''birth_month'', ''birth_day'' \<mapsto> default_field ''birth_day'']"
    using assms
    by (auto simp: NewDynamicCircuit_def Let_def bc_default_orders bc_default_schema_parts
        birth_names_def default_field_def)
qed

section \<open>What Define asserts for it\<close>

lemma decimal_bounds:
  "ValueAsInt L (default_constraint t fs opr (JNum ''18'')) = Inr 18"
  "ValueAsNumberSlice L (default_constraint t fs opr (JArr [JNum ''1'', JNum ''12''])) = Inr [Fin 1, Fin 12]"
  "ValueAsNumberSlice L (default_constraint t fs opr (JArr [JNum ''1'', JNum ''31''])) = Inr [Fin 1, Fin 31]"
proof -
  have p: "parse_decimal ''1'' = Some 1" "parse_decimal ''12'' = Some 12" "parse_decimal ''31'' = Some 31"
    by (simp_all add: parse_decimal_code split_sign_def take_digits_def is_digit_code
        parse_exponent_def pow10_def digits_int_code digit_int_code)
  have r: "round64 1 = Some (Fin 1)" "round64 12 = Some (Fin 12)" "round64 31 = Some (Fin 31)"
    using round64_int [of 1] round64_int [of 12] round64_int [of 31] by simp_all
  show "ValueAsInt L (default_constraint t fs opr (JNum ''18'')) = Inr 18"
    by (rule demo_value_18) (simp add: default_constraint_def)
  show "ValueAsNumberSlice L (default_constraint t fs opr (JArr [JNum ''1'', JNum ''12''])) = Inr [Fin 1, Fin 12]"
    "ValueAsNumberSlice L (default_constraint t fs opr (JArr [JNum ''1'', JNum ''31''])) = Inr [Fin 1, Fin 31]"
    by (simp_all add: ValueAsNumberSlice_def default_constraint_def unmarshal_float_def parse_float_def p r)
qed

lemma small_bound: "float_to_int64 L (Fin 1) = 1" "float_to_int64 L (Fin 12) = 12" "float_to_int64 L (Fin 31) = 31"
  by (simp_all add: float_to_int64_def trunc_rat_def in_int64_def)

lemma default_constraint_simps [simp]:
  "cd_type (default_constraint t fs opr v) = t" "cd_fields (default_constraint t fs opr v) = fs"
  "cd_operator (default_constraint t fs opr v) = opr" "cd_value (default_constraint t fs opr v) = Some v"
  by (simp_all add: default_constraint_def)

lemma bc_default_define:
  fixes dc :: "'w circuit"
  assumes "dc_schema dc = bc_default_schema" and "dc_secret_values dc = [y, m, d]"
    and "dc_secret_index dc = [''birth_year'' \<mapsto> 0, ''birth_month'' \<mapsto> 1, ''birth_day'' \<mapsto> 2]"
    and "in_int64 (d_year (clk 0))" and "in_int64 (d_year (clk 0) - 18)"
  shows "bc_Define L G clk dc = Inr
    (date_assertions G (d_year (clk 0) - 18) (clk 0) y m d
     @ [AssertIsLessOrEqual (Const (g_int64 1)) m, AssertIsLessOrEqual m (Const (g_int64 12)),
        AssertIsLessOrEqual (Const (g_int64 1)) d, AssertIsLessOrEqual d (Const (g_int64 31))])"
proof -
  have f: "fieldVariable dc ''birth_year'' = Inr y" "fieldVariable dc ''birth_month'' = Inr m"
    "fieldVariable dc ''birth_day'' = Inr d"
    by (simp_all add: fieldVariable_def assms(2,3))
  have w: "sint (word_of_int (d_year (clk 0)) - 18 :: int64) = d_year (clk 0) - 18"
  proof -
    have "word_of_int (d_year (clk 0)) - 18 = (word_of_int (d_year (clk 0) - 18) :: int64)" by simp
    then show ?thesis by (simp only: sint_int64 [OF assms(5)])
  qed
  have age: "bc_applyConstraint L G (clk 0) dc
      (default_constraint ''age_verification'' birth_names ''ge'' (JNum ''18'')) =
      Inr (date_assertions G (d_year (clk 0) - 18) (clk 0) y m d)"
    by (simp add: bc_applyConstraint_def type_names bc_applyAgeConstraint_def decimal_bounds
        birth_names_def f w)
  have range: "bc_applyConstraint L G now dc
        (default_constraint ''range_check'' [''birth_month''] ''between'' (JArr [JNum ''1'', JNum ''12''])) =
      Inr [AssertIsLessOrEqual (Const (g_int64 1)) m, AssertIsLessOrEqual m (Const (g_int64 12))]"
    "bc_applyConstraint L G now dc
        (default_constraint ''range_check'' [''birth_day''] ''between'' (JArr [JNum ''1'', JNum ''31''])) =
      Inr [AssertIsLessOrEqual (Const (g_int64 1)) d, AssertIsLessOrEqual d (Const (g_int64 31))]" for now
    by (simp_all add: bc_applyConstraint_def type_names applyRangeConstraint_def decimal_bounds f
        toIntBound_def small_bound trunc_rat_def)
  show ?thesis
    by (simp add: bc_Define_def assms(1) bc_default_schema_parts expected_constraints_def age range)
qed

section \<open>Assigning the birth date\<close>

definition birth_map :: "gval \<Rightarrow> gval \<Rightarrow> gval \<Rightarrow> (string \<rightharpoonup> gval)" where
  "birth_map vy vm vd = [''birth_year'' \<mapsto> vy, ''birth_month'' \<mapsto> vm, ''birth_day'' \<mapsto> vd]"

lemma bc_assigned_int:
  assumes "bc_convertToInt L v = Inr w"
  shows "bc_assigned_value L (default_field n) n v = Inr (g_int64 w)"
proof -
  have "\<not> is_nil v"
    using assms by (cases v) (simp_all add: is_nil_def bc_convertToInt_def convertToInt_def stringer_def)
  then show ?thesis
    using assms by (simp add: bc_assigned_value_def bc_convertToVariable_def default_field_def
        FieldTypeInteger_def box_def)
qed

lemma bc_default_assign:
  fixes dc :: "'w circuit"
  assumes new: "NewDynamicCircuit (Some bc_default_schema) = Inr dc" and "visits visit (birth_map vy vm vd)"
    and c: "bc_convertToInt L vy = Inr y" "bc_convertToInt L vm = Inr m" "bc_convertToInt L vd = Inr d"
  shows "\<exists>dc'. bc_AssignValues L (visit (birth_map vy vm vd)) (Clone dc) = Inr dc'
    \<and> dc_secret_values dc' = [Const (g_int64 y), Const (g_int64 m), Const (g_int64 d)]
    \<and> dc_public_values dc' = []"
proof -
  let ?kvs = "visit (birth_map vy vm vd)"
  note D = bc_default_circuit [OF new]
  have C: "circuit_wf (Clone dc)" "dc_schema (Clone dc) = bc_default_schema"
    "dc_metadata (Clone dc) = dc_metadata dc" "dc_secret_order (Clone dc) = birth_names"
    "dc_secret_values (Clone dc) = replicate 3 (Const GNil)" "dc_public_values (Clone dc) = []"
    using D(1-6) by (simp_all add: Clone_wf) (simp_all add: Clone_def)
  from assms(2) have m: "map_of ?kvs = birth_map vy vm vd" and dist: "distinct (map fst ?kvs)"
    by (simp_all add: visits_def)
  have keys: "fst ` set ?kvs = set birth_names"
    using m by (simp add: dom_map_of_conv_image_fst [symmetric] birth_map_def birth_names_def) auto
  have entries: "(n, v) \<in> set ?kvs \<Longrightarrow> birth_map vy vm vd n = Some v" for n v
    using m dist by (metis map_of_is_SomeI)
  have val: "entry_value (bc_assigned_value L) (dc_metadata dc) n v \<noteq> None"
    if "birth_map vy vm vd n = Some v" for n v
    using that c
    by (auto simp: birth_map_def entry_value_def D(8) bc_assigned_int split: if_splits)
  have "assignable (bc_assigned_value L) (Clone dc) ?kvs"
    unfolding assignable_def C(2,3) keys
    using entries val by (auto simp: bc_default_schema_parts default_field_def)
  then have "bc_AssignValues L ?kvs (Clone dc)
      = Inr (filled (bc_assigned_value L) (birth_map vy vm vd) (Clone dc))"
    using bc_assign.assigns_iff [OF C(1) dist] m by simp
  moreover have "dc_secret_values (filled (bc_assigned_value L) (birth_map vy vm vd) (Clone dc))
      = [Const (g_int64 y), Const (g_int64 m), Const (g_int64 d)]"
    by (simp add: filled_def C(3-5) birth_names_def numeral_3_eq_3 slot_value_def entry_value_def
        birth_map_def D(8) bc_assigned_int [OF c(1)] bc_assigned_int [OF c(2)] bc_assigned_int [OF c(3)])
  moreover have "dc_public_values (filled (bc_assigned_value L) (birth_map vy vm vd) (Clone dc)) = []"
    by (simp add: filled_def C(6))
  ultimately show ?thesis by blast
qed

section \<open>The whole run\<close>

lemma groth_semD:
  assumes "groth_sem p B den"
  shows "gnark_sem p (gr_api B) (den wit)"
    and "gr_witness B sv pv = Inr wit \<Longrightarrow> i < length sv \<Longrightarrow> sv ! i = Const g \<Longrightarrow>
      den wit (Wire (gr_secret_wire B i)) = den wit (Const g)"
    and "gr_compile B as = Inr ccs \<Longrightarrow> gr_setup B ccs = Inr (pk, vk) \<Longrightarrow>
      ok (gr_prove B ccs pk wit) = accepts (den wit) as"
  using assms unfolding groth_sem_def wires_carry_def by blast+

lemma CreateZKP_birth:
  fixes B :: "('w, 'ccs, 'pk, 'vk, 'wit, 'pub, 'prf) groth"
  assumes sem: "groth_sem p B den" and tot: "groth_total B" and p: "31 < p"
    and visit: "visits visit (birth_map vy vm vd)" and parse: "gl_json_parse L src = Some bc_DefaultAgeSchema"
    and c: "bc_convertToInt L vy = Inr y" "bc_convertToInt L vm = Inr m" "bc_convertToInt L vd = Inr d"
    and b: "0 \<le> sint y" "sint y < p" "0 \<le> sint m" "sint m < p" "0 \<le> sint d" "sint d < p"
    and now: "date_ok (clk 0)" "18 \<le> d_year (clk 0)" "d_year (clk 0) < p" "d_year (clk 0) < 2 ^ 63"
    and schema: "cb_schema_json base = []"
    and vals: "(if cb_verified_values base = [] then default_assignment
        else value_map (cb_verified_values base) Map.empty) = birth_map vy vm vd"
  shows "ok (CreateZKP L B visit src clk base) \<longleftrightarrow>
    date_ok \<lparr>d_year = sint y, d_month = sint m, d_day = sint d\<rparr>
    \<and> date_le \<lparr>d_year = sint y + 18, d_month = sint m, d_day = sint d\<rparr> (clk 0)"
proof -
  let ?b = "\<lparr>d_year = sint y, d_month = sint m, d_day = sint d\<rparr>"
  obtain dc :: "'w circuit" where new: "NewDynamicCircuit (Some bc_default_schema) = Inr dc"
    by (simp add: NewDynamicCircuit_def Let_def)
  note D = bc_default_circuit [OF new]
  let ?w = "\<lambda>i. Wire (gr_secret_wire B i)"
  have W: "dc_secret_values (wired B dc) = [?w 0, ?w 1, ?w 2]" "dc_schema (wired B dc) = bc_default_schema"
    "dc_secret_index (wired B dc) = dc_secret_index dc"
    using D(2,5) by (simp_all add: wired_def upt_rec numeral_2_eq_2)
  let ?as = "date_assertions (gr_api B) (d_year (clk 0) - 18) (clk 0) (?w 0) (?w 1) (?w 2)
     @ [AssertIsLessOrEqual (Const (g_int64 1)) (?w 1), AssertIsLessOrEqual (?w 1) (Const (g_int64 12)),
        AssertIsLessOrEqual (Const (g_int64 1)) (?w 2), AssertIsLessOrEqual (?w 2) (Const (g_int64 31))]"
  define AS where "AS = ?as"
  have def: "bc_Define L (gr_api B) clk (wired B dc) = Inr AS"
    unfolding AS_def by (rule bc_default_define) (use W D(7) now in \<open>simp_all add: in_int64_def\<close>)
  have "list_all about_wire AS" by (simp add: AS_def date_assertions_def Let_def)
  then obtain ccs where ccs: "gr_compile B AS = Inr ccs" using groth_totalD(1) [OF tot] by blast
  obtain pk vk where keys: "gr_setup B ccs = Inr (pk, vk)" using groth_totalD(2) [OF tot ccs] by blast
  obtain dc' where a: "bc_AssignValues L (visit (birth_map vy vm vd)) (Clone dc) = Inr dc'"
    "dc_secret_values dc' = [Const (g_int64 y), Const (g_int64 m), Const (g_int64 d)]" "dc_public_values dc' = []"
    using bc_default_assign [OF new visit c] by blast
  then have "numbers (dc_secret_values dc')" "numbers (dc_public_values dc')"
    by (simp_all add: numbers_def g_int64_def)
  then obtain wit where wit: "gr_witness B (dc_secret_values dc') (dc_public_values dc') = Inr wit"
    using groth_totalD(3) [OF tot] by blast
  obtain pub where pub: "gr_public B wit = Inr pub" using groth_totalD(4) [OF tot wit] by blast
  have run: "ok (CreateZKP L B visit src clk base) = ok (gr_prove B ccs pk wit)"
    using vals
    by (cases "gr_prove B ccs pk wit")
      (simp_all add: CreateZKP_def Let_def schema bc_default_parses [OF parse] new def ccs keys a(1) wit pub)
  note g = groth_semD(1) [OF sem, of wit]
  have v: "den wit (?w 0) = sint y" "den wit (?w 1) = sint m" "den wit (?w 2) = sint d"
    using groth_semD(2) [OF sem wit, of 0] groth_semD(2) [OF sem wit, of 1] groth_semD(2) [OF sem wit, of 2] b
    by (simp_all add: a(2) den_g_int64 [OF g] mod_pos_pos_trivial)
  have k: "den wit (Const (g_int64 1)) = 1" "den wit (Const (g_int64 12)) = 12" "den wit (Const (g_int64 31)) = 31"
    using p by (simp_all add: den_g_int64 [OF g] mod_pos_pos_trivial)
  have "accepts (den wit) (date_assertions (gr_api B) (d_year (clk 0) - 18) (clk 0) (?w 0) (?w 1) (?w 2))
      \<longleftrightarrow> date_ok ?b \<and> date_le ?b ((clk 0)\<lparr>d_year := d_year (clk 0) - 18\<rparr>)"
    using now v by (intro date_assertions_iff [OF g p]) (simp_all add: carries_def)
  then have "accepts (den wit) AS \<longleftrightarrow> date_ok ?b \<and> date_le ?b ((clk 0)\<lparr>d_year := d_year (clk 0) - 18\<rparr>)"
    using v by (auto simp: AS_def k date_ok_def)
  then show ?thesis
    unfolding run groth_semD(3) [OF sem ccs keys] by (auto simp: date_le_def date_ok_def)
qed

section \<open>A concrete backend\<close>

text \<open>Wires are functions of the witness; the prover checks the assertions.\<close>

type_synonym fwire = "int list \<times> int list \<Rightarrow> int"

definition fden :: "int \<Rightarrow> int list \<times> int list \<Rightarrow> fwire var \<Rightarrow> int" where
  "fden p wit v = (case v of Wire f \<Rightarrow> f wit mod p | Const g \<Rightarrow> eval_den p (Const g))"

definition fgroth ::
    "int \<Rightarrow> (fwire, fwire assertion list, fwire assertion list, unit, int list \<times> int list, int list, unit) groth" where
  "fgroth p =
     \<lparr>gr_api = \<lparr>gk_add = \<lambda>x y. Wire (\<lambda>w. fden p w x + fden p w y),
        gk_sub = \<lambda>x y. Wire (\<lambda>w. fden p w x - fden p w y),
        gk_is_zero = \<lambda>x. Wire (\<lambda>w. if fden p w x = 0 then 1 else 0),
        gk_select = \<lambda>b x y. Wire (\<lambda>w. if fden p w b = 1 then fden p w x else fden p w y),
        gk_and = \<lambda>x y. Wire (\<lambda>w. if fden p w x = 1 \<and> fden p w y = 1 then 1 else 0)\<rparr>,
      gr_secret_wire = \<lambda>i w. fst w ! i, gr_public_wire = \<lambda>i w. snd w ! i,
      gr_compile = Inr, gr_setup = \<lambda>ccs. Inr (ccs, ()),
      gr_witness = \<lambda>sv pv. Inr (map (fden p ([], [])) sv, map (fden p ([], [])) pv),
      gr_prove = \<lambda>ccs pk w. if accepts (fden p w) ccs then Inr () else Inl (LibErr ''groth16''),
      gr_public = \<lambda>w. Inr (snd w)\<rparr>"

lemma fden_simps [simp]:
  "fden p w (Wire f) = f w mod p"
  "fden p w (Const (GInt k i)) = i mod p"
  "fden p w (Const (GBig i)) = i mod p"
  "fden p w (Const (GStr (int_str i))) = i mod p"
  by (simp_all add: fden_def)

lemma fden_range: "1 < p \<Longrightarrow> 0 \<le> fden p w v \<and> fden p w v < p"
  unfolding fden_def using eval_den_range [of p] by (auto split: var.split)

lemma fden_mod: "1 < p \<Longrightarrow> fden p w v mod p = fden p w v"
  using fden_range [of p w v] by (simp add: mod_pos_pos_trivial)

lemma fgroth_gnark: "1 < p \<Longrightarrow> gnark_sem p (gr_api (fgroth p)) (fden p w)"
  unfolding gnark_sem_def fgroth_def
  by (simp add: fden_range fden_mod)

lemma fgroth_sem: "1 < p \<Longrightarrow> groth_sem p (fgroth p) (fden p)"
  unfolding groth_sem_def wires_carry_def
proof (intro conjI allI impI)
  show "1 < p \<Longrightarrow> gnark_sem p (gr_api (fgroth p)) (fden p wit)" for wit by (rule fgroth_gnark)
qed (auto simp: fgroth_def fden_def eval_den_range mod_pos_pos_trivial)

lemma fgroth_total: "groth_total (fgroth p)"
  by (simp add: groth_total_def fgroth_def)

text \<open>The order of the fields, as an order in which to visit a map of birth values.\<close>

definition visit_birth :: "(string \<rightharpoonup> gval) \<Rightarrow> (string \<times> gval) list" where
  "visit_birth m = map (\<lambda>k. (k, the (m k))) birth_names"

lemma visit_birth: "visits visit_birth (birth_map vy vm vd)"
  by (simp add: visits_def visit_birth_def birth_names_def birth_map_def fun_upd_def fun_eq_iff)

definition bc_lib :: golib where
  "bc_lib = plain_lib\<lparr>gl_json_parse := \<lambda>s. Some bc_DefaultAgeSchema\<rparr>"

section \<open>Properties\<close>

text \<open>
  C5. End to end: with the default schema and a birth date among the verified values, \<open>CreateZKP\<close>
  returns a proof exactly when the date is well-formed and at least 18 years back; otherwise it
  returns an error.
\<close>

theorem CreateZKP_proves_age:
  assumes "groth_sem p B den" and "groth_total B" and "31 < p"
    and "visits visit (birth_map vy vm vd)" and "gl_json_parse L src = Some bc_DefaultAgeSchema"
    and "bc_convertToInt L vy = Inr y" and "bc_convertToInt L vm = Inr m" and "bc_convertToInt L vd = Inr d"
    and "0 \<le> sint y" and "sint y < p" and "0 \<le> sint m" and "sint m < p" and "0 \<le> sint d" and "sint d < p"
    and "date_ok (clk 0)" and "18 \<le> d_year (clk 0)" and "d_year (clk 0) < p" and "d_year (clk 0) < 2 ^ 63"
  shows "ok (CreateZKP L B visit src clk
        \<lparr>cb_schema_json = [],
         cb_verified_values = [(''birth_year'', vy), (''birth_month'', vm), (''birth_day'', vd)]\<rparr>) \<longleftrightarrow>
    date_ok \<lparr>d_year = sint y, d_month = sint m, d_day = sint d\<rparr>
    \<and> date_le \<lparr>d_year = sint y + 18, d_month = sint m, d_day = sint d\<rparr> (clk 0)"
  by (rule CreateZKP_birth [where clk = clk, OF assms]) (simp_all add: birth_map_def)

theorem CreateZKP_proves_age_witness:
  "ok (CreateZKP bc_lib (fgroth 10007) visit_birth '''' (\<lambda>k. \<lparr>d_year = 2024, d_month = 6, d_day = 1\<rparr>)
        \<lparr>cb_schema_json = [], cb_verified_values =
          [(''birth_year'', GInt KInt 2006), (''birth_month'', GInt KInt 6), (''birth_day'', GInt KInt 1)]\<rparr>)"
  using CreateZKP_proves_age [OF fgroth_sem [of 10007] fgroth_total _ visit_birth, where L = bc_lib and src = "[]"
      and vy = "GInt KInt 2006" and vm = "GInt KInt 6" and vd = "GInt KInt 1"
      and y = 2006 and m = 6 and d = 1 and clk = "\<lambda>k. \<lparr>d_year = 2024, d_month = 6, d_day = 1\<rparr>"]
  by (simp add: bc_lib_def bc_convertToInt_def convertToInt_def date_ok_def date_le_def)

text \<open>
  Without verified values \<open>CreateZKP\<close> proves the age of a person who does not exist: it fills in 18
  October 1990, so that from 18 October 2008 on the proof always goes through.
\<close>

theorem CreateZKP_without_values:
  assumes "groth_sem p B den" and "groth_total B" and "2100 < p"
    and "visits visit default_assignment" and "gl_json_parse L src = Some bc_DefaultAgeSchema"
    and "date_ok (clk 0)" and "18 \<le> d_year (clk 0)" and "d_year (clk 0) < p" and "d_year (clk 0) < 2 ^ 63"
  shows "ok (CreateZKP L B visit src clk \<lparr>cb_schema_json = [], cb_verified_values = []\<rparr>) \<longleftrightarrow>
    date_le \<lparr>d_year = 2008, d_month = 10, d_day = 18\<rparr> (clk 0)"
proof -
  let ?f = "\<lambda>q. GFloat KFloat64 (Fin q)"
  have m: "default_assignment = birth_map (?f 1990) (?f 10) (?f 18)"
    by (simp add: default_assignment_def birth_map_def)
  have c: "bc_convertToInt L (?f 1990) = Inr 1990" "bc_convertToInt L (?f 10) = Inr 10"
    "bc_convertToInt L (?f 18) = Inr 18"
    by (simp_all add: bc_convertToInt_def convertToInt_def float_to_int64_def trunc_rat_def in_int64_def)
  show ?thesis
    using CreateZKP_birth [where clk = clk, OF assms(1,2) _ assms(4) [unfolded m] assms(5) c _ _ _ _ _ _ assms(6-9),
        of "\<lparr>cb_schema_json = [], cb_verified_values = []\<rparr>"] assms(3)
    by (simp add: m date_ok_def)
qed

theorem CreateZKP_without_values_witness:
  "ok (CreateZKP bc_lib (fgroth 10007) visit_birth '''' (\<lambda>k. \<lparr>d_year = 2024, d_month = 6, d_day = 1\<rparr>)
        \<lparr>cb_schema_json = [], cb_verified_values = []\<rparr>)"
proof -
  have "visits visit_birth default_assignment"
    using visit_birth by (simp add: default_assignment_def birth_map_def)
  from CreateZKP_without_values [OF fgroth_sem [of 10007] fgroth_total _ this, of bc_lib "[]"
      "\<lambda>k. \<lparr>d_year = 2024, d_month = 6, d_day = 1\<rparr>"]
  show ?thesis by (simp add: bc_lib_def date_ok_def date_le_def)
qed

text \<open>
  The default schema of \<open>pkg/zkp\<close> is accepted by its parser and yet describes no circuit: \<open>Define\<close>
  always returns an error, because its age constraint names three fields and the code wants one.
\<close>

theorem DefaultAgeSchema_defines_nothing:
  assumes "gl_json_parse L src = Some DefaultAgeSchema"
  shows "\<exists>s. ParseSchema L src = Inr s \<and> (\<forall>G clk (dc :: 'w circuit). dc_schema dc = s \<longrightarrow>
    Define L G clk dc = Inl (Msg ''age constraint expects one field (birthdate timestamp)''))"
proof -
  have d: "ok (case decode_schema DefaultAgeSchema of Inl e \<Rightarrow> Inl e | Inr s \<Rightarrow> prepare s)"
    by code_simp
  then obtain s where s: "ParseSchema L src = Inr s"
    and s': "(case decode_schema DefaultAgeSchema of Inl e \<Rightarrow> Inl e | Inr s \<Rightarrow> prepare s) = Inr s"
    using assms by (auto simp: ok_iff ParseSchema_def split: sum.splits)
  have "map_option (\<lambda>c. (cd_type c, length (cd_fields c)))
      (case (case decode_schema DefaultAgeSchema of Inl e \<Rightarrow> Inl e | Inr s \<Rightarrow> prepare s) of
         Inl e \<Rightarrow> None | Inr s \<Rightarrow> Some (hd (sd_constraints s))) = Some (''age_verification'', 3)"
    by code_simp
  moreover have "(case (case decode_schema DefaultAgeSchema of Inl e \<Rightarrow> Inl e | Inr s \<Rightarrow> prepare s) of
         Inl e \<Rightarrow> True | Inr s \<Rightarrow> sd_constraints s \<noteq> [])"
    by code_simp
  ultimately obtain c cs where c: "sd_constraints s = c # cs" "cd_type c = ''age_verification''"
    "length (cd_fields c) = 3"
    unfolding s' by (cases "sd_constraints s") auto
  show ?thesis
    using s c by (auto simp: Define_def applyConstraint_def type_names applyAgeConstraint_def)
qed

theorem DefaultAgeSchema_defines_nothing_witness:
  "\<exists>s. ParseSchema (plain_lib\<lparr>gl_json_parse := \<lambda>t. Some DefaultAgeSchema\<rparr>) [] = Inr s"
  using DefaultAgeSchema_defines_nothing [of "plain_lib\<lparr>gl_json_parse := \<lambda>t. Some DefaultAgeSchema\<rparr>" "[]"]
  by auto

end
