(* ===== verification/WalletProver.thy ===== *)
theory WalletProver
  imports BlockchainCircuit
begin

text \<open>
  \<open>zk-wallet-go/internal/app/zkp/prove_dynamic.go\<close>: the wallet's prover, over the circuit of
  \<open>Circuit\<close> (the wallet's copy of it, see \<open>Copies\<close>) and the Groth16 backend of
  \<open>BlockchainCircuit\<close>; and the proof package of \<open>pkg/zkp/zkp_result.go\<close>.
\<close>

section \<open>Hashing the inputs\<close>

text \<open>
  The wallet hashes the text of every value of a string field itself. The error of
  \<open>FieldDefinition\<close> is dropped: for an unknown name the zero definition has an empty type.
\<close>

definition field_type_or_zero :: "schema_def \<Rightarrow> string \<Rightarrow> string" where
  "field_type_or_zero s name =
     (case wallet_FieldDefinition s name of Inl e \<Rightarrow> [] | Inr f \<Rightarrow> fd_type f)"

definition hash_input :: "golib \<Rightarrow> schema_def \<Rightarrow> string \<times> gval \<Rightarrow> string \<times> gval" where
  "hash_input L s kv =
     (case kv of (name, val) \<Rightarrow>
        if field_type_or_zero s name = FieldTypeString
        then (name, GBig (hashStringToFieldElement L (sprint L val)))
        else (name, val))"

section \<open>The prover\<close>

record ('pub, 'prf) proof_result =
  pf_proof :: 'prf
  pf_public_witness :: 'pub

text \<open>
  \<open>assignments\<close> lists the map of inputs in the order the runtime visits it, \<open>visit\<close> reorders the
  second visit (\<open>AssignValues\<close> ranges over the hashed map), \<open>read_pk\<close> is \<open>ProvingKey.ReadFrom\<close>.
\<close>

definition ProveDynamicFromSchema ::
    "golib \<Rightarrow> ('w, 'ccs, 'pk, 'vk, 'wit, 'pub, 'prf) groth \<Rightarrow> (string \<Rightarrow> 'pk res)
      \<Rightarrow> ((string \<times> gval) list \<Rightarrow> (string \<times> gval) list) \<Rightarrow> (nat \<Rightarrow> int64)
      \<Rightarrow> string \<Rightarrow> (string \<times> gval) list \<Rightarrow> string \<Rightarrow> ('pub, 'prf) proof_result res" where
  "ProveDynamicFromSchema L B read_pk visit clk schemaJSON assignments pkBytes =
     (if schemaJSON = [] then Inl (Msg ''empty schema JSON'')
      else and_then (wrapped ''parse schema'' (wallet_ParseSchema L schemaJSON)) (\<lambda>schema.
      and_then (wrapped ''new dynamic circuit'' (wallet_NewDynamicCircuit (Some schema))) (\<lambda>circuit.
      let hashedAssignments = map (hash_input L schema) assignments
      in and_then (wrapped ''compile circuit''
           (and_then (wallet_Define L (gr_api B) clk (wired B circuit)) (gr_compile B))) (\<lambda>ccs.
      and_then (wrapped ''assign values'' (wallet_AssignValues L (visit hashedAssignments) (wallet_Clone circuit)))
        (\<lambda>witnessCircuit.
      and_then (wrapped ''new witness''
           (gr_witness B (dc_secret_values witnessCircuit) (dc_public_values witnessCircuit))) (\<lambda>fullWitness.
      and_then (wrapped ''public witness'' (gr_public B fullWitness)) (\<lambda>publicWitness.
      and_then (wrapped ''read pk'' (read_pk pkBytes)) (\<lambda>pk.
      and_then (wrapped ''groth16 prove'' (gr_prove B ccs pk fullWitness)) (\<lambda>proof'.
      Inr \<lparr>pf_proof = proof', pf_public_witness = publicWitness\<rparr>)))))))))"

section \<open>The proof package\<close>

text \<open>The serialisers of gnark and the Borsh library, parameters.\<close>

record ('pub, 'prf) package_codec =
  pc_write_proof :: "'prf \<Rightarrow> string res"
  pc_read_proof :: "string \<Rightarrow> 'prf res"
  pc_write_witness :: "'pub \<Rightarrow> string res"
  pc_read_witness :: "string \<Rightarrow> 'pub res"
  pc_borsh :: "string \<times> string \<Rightarrow> string res"
  pc_unborsh :: "string \<Rightarrow> (string \<times> string) res"

definition SerializeBorsh :: "('pub, 'prf) package_codec \<Rightarrow> ('pub, 'prf) proof_result \<Rightarrow> string res" where
  "SerializeBorsh C zr =
     and_then (pc_write_proof C (pf_proof zr)) (\<lambda>proofBuf.
     and_then (pc_write_witness C (pf_public_witness zr)) (\<lambda>witnessBuf.
     pc_borsh C (proofBuf, witnessBuf)))"

definition ReconstructZkpResult ::
    "('pub, 'prf) package_codec \<Rightarrow> string \<Rightarrow> ('pub, 'prf) proof_result res" where
  "ReconstructZkpResult C serializedZkp =
     and_then (pc_unborsh C serializedZkp) (\<lambda>deserialized.
     and_then (pc_read_proof C (fst deserialized)) (\<lambda>proof'.
     and_then (pc_read_witness C (snd deserialized)) (\<lambda>witness.
     Inr \<lparr>pf_proof = proof', pf_public_witness = witness\<rparr>)))"

text \<open>The laws of the serialisers: reading back what was written.\<close>

definition codec_laws :: "('pub, 'prf) package_codec \<Rightarrow> bool" where
  "codec_laws C =
     ((\<forall>x s. pc_write_proof C x = Inr s \<longrightarrow> pc_read_proof C s = Inr x)
      \<and> (\<forall>x s. pc_write_witness C x = Inr s \<longrightarrow> pc_read_witness C s = Inr x)
      \<and> (\<forall>x s. pc_borsh C x = Inr s \<longrightarrow> pc_unborsh C s = Inr x))"

end
