(* ===== verification/WalletProps.thy ===== *)
theory WalletProps
  imports WalletProver BlockchainProps
begin

text \<open>
  What the wallet's prover proves, and that the proof package reads back.
\<close>

section \<open>What the wallet proves\<close>

text \<open>A hashed string reaches the field as the same number the server's constraints use.\<close>

lemma hashed_string_value:
  assumes "FieldDefinition s n = Inr f" and "fd_type f = FieldTypeString"
  shows "hash_input L s (n, v) = (n, GBig (hashStringToFieldElement L (sprint L v)))"
    and "assigned_value L f n (GBig h) = Inr (GStr (int_str h))"
  using assms
  by (simp_all add: hash_input_def field_type_or_zero_def assigned_value_def convertToVariable_def
      is_nil_def type_names)

lemma hash_input_fst: "fst (hash_input L s kv) = fst kv"
  by (cases kv) (simp add: hash_input_def)

lemma ProveDynamic_cases:
  assumes "ProveDynamicFromSchema L B read_pk visit clk json as pkb = Inr r"
  obtains s dc asserts ccs dc' wit pk where
    "ParseSchema L json = Inr s" "NewDynamicCircuit (Some s) = Inr dc"
    "Define L (gr_api B) clk (wired B dc) = Inr asserts" "gr_compile B asserts = Inr ccs"
    "AssignValues L (visit (map (hash_input L s) as)) (Clone dc) = Inr dc'"
    "gr_witness B (dc_secret_values dc') (dc_public_values dc') = Inr wit"
    "gr_public B wit = Inr (pf_public_witness r)" "read_pk pkb = Inr pk"
    "gr_prove B ccs pk wit = Inr (pf_proof r)"
  using assms unfolding ProveDynamicFromSchema_def Let_def
  by (auto simp: res_simps split: if_splits)

text \<open>
  What the wallet relies on of the backend. The prover takes whatever key it is given; it first solves
  the system with the witness, so that it fails on one that does not satisfy the assertions.
\<close>

definition prover_sem ::
    "int \<Rightarrow> ('w, 'ccs, 'pk, 'vk, 'wit, 'pub, 'prf) groth \<Rightarrow> ('wit \<Rightarrow> 'w var \<Rightarrow> int) \<Rightarrow> bool" where
  "prover_sem p B den =
     ((\<forall>wit. gnark_sem p (gr_api B) (den wit)) \<and> wires_carry B den
      \<and> (\<forall>asserts ccs pk wit prf. gr_compile B asserts = Inr ccs \<longrightarrow> gr_prove B ccs pk wit = Inr prf
           \<longrightarrow> accepts (den wit) asserts))"

text \<open>The wire that the constraints of the circuit read for a field carries what was assigned to the field.\<close>

lemma wired_field:
  assumes "circuit_wf dc" and "circuit_wf dc'" and "dc_schema dc' = dc_schema dc" and "wires_carry B den"
    and "gr_witness B (dc_secret_values dc') (dc_public_values dc') = Inr wit"
    and "fieldVariable dc' n = Inr (Const x)"
  shows "\<exists>w. fieldVariable (wired B dc) n = Inr (Wire w) \<and> den wit (Wire w) = den wit (Const x)"
proof -
  note d = circuit_wfD [OF assms(1)] and d' = circuit_wfD [OF assms(2)]
  have same: "dc_secret_order dc' = dc_secret_order dc" "dc_public_order dc' = dc_public_order dc"
    using assms(1-3) by (simp_all add: circuit_wf_def Let_def)
  then have idx: "dc_secret_index dc' = dc_secret_index dc" "dc_public_index dc' = dc_public_index dc"
    using d(7,8) d'(7,8) by simp_all
  have len: "length (dc_secret_values dc') = length (dc_secret_order dc)"
    "length (dc_public_values dc') = length (dc_public_order dc)"
    using d'(9,10) same by simp_all
  have carry: "i < length (dc_secret_values dc') \<Longrightarrow> dc_secret_values dc' ! i = Const x \<Longrightarrow>
      den wit (Wire (gr_secret_wire B i)) = den wit (Const x)"
    "i < length (dc_public_values dc') \<Longrightarrow> dc_public_values dc' ! i = Const x \<Longrightarrow>
      den wit (Wire (gr_public_wire B i)) = den wit (Const x)" for i
    using assms(4,5) unfolding wires_carry_def by blast+
  show ?thesis
  proof (cases "dc_secret_index dc n")
    case (Some i)
    then have "i < length (dc_secret_order dc)" using d(3,7) index_from_iff by metis
    moreover from this have "dc_secret_values dc' ! i = Const x" using assms(6) Some by (simp add: fieldVariable_def idx)
    ultimately show ?thesis using Some carry(1) [of i] len(1) d(9) by (simp add: fieldVariable_def wired_def)
  next
    case None
    then obtain i where i: "dc_public_index dc n = Some i" "dc_public_values dc' ! i = Const x"
      using assms(6) by (auto simp: fieldVariable_def idx split: option.splits)
    then have "i < length (dc_public_order dc)" using d(4,8) index_from_iff by metis
    then show ?thesis using None i carry(2) [of i] len(2) d(10) by (simp add: fieldVariable_def wired_def)
  qed
qed

text \<open>Every constraint of the schema has its assertions among those of the circuit.\<close>

lemma constraint_asserted:
  "define_from L G clk dc i cs = Inr as \<Longrightarrow> c \<in> set cs \<Longrightarrow>
   \<exists>k bs. applyConstraint L G (clk k) dc c = Inr bs \<and> set bs \<subseteq> set as"
proof (induction cs arbitrary: i as)
  case Nil
  then show ?case by simp
next
  case (Cons b cs)
  from Cons.prems(1) obtain xs ys where d: "applyConstraint L G (clk i) dc b = Inr xs"
    "define_from L G clk dc (Suc i) cs = Inr ys" "as = xs @ ys"
    by (auto split: sum.splits)
  show ?case
  proof (cases "c = b")
    case True
    then show ?thesis using d(1,3) by auto
  next
    case False
    then show ?thesis using Cons.IH [OF d(2)] Cons.prems(2) d(3) by fastforce
  qed
qed

text \<open>A satisfied equality with a text: the wire of the field carries the digest of the text.\<close>

lemma equality_satisfied:
  assumes "gnark_sem p G den" and "Define L G clk dc = Inr asserts" and "accepts den asserts"
    and "c \<in> set (sd_constraints (dc_schema dc))" and "cd_type c = ConstraintComparison"
    and "cd_fields c = [n]" and "cd_operator c = ''eq''" and "cd_value c = Some (JStr u)"
    and "fieldVariable dc n = Inr v"
  shows "den v = hashStringToFieldElement L u mod p"
proof -
  from constraint_asserted [OF assms(2) [unfolded Define_def] assms(4)] obtain k bs where
    b: "applyConstraint L G (clk k) dc c = Inr bs" "set bs \<subseteq> set asserts" by blast
  have "bs = [AssertIsEqual v (Const (GBig (hashStringToFieldElement L u)))]"
    using b(1) assms(5-9)
    by (simp add: applyConstraint_def type_names applyComparisonConstraint_def comparison_constant_def
        unmarshal_string_def compare_assertion_def)
  then show ?thesis
    using assms(3) b(2) gnark_semD(3) [OF assms(1)] by (auto simp: accepts_def list_all_iff)
qed

text \<open>What was assigned to the circuit, read back through the hashing.\<close>

lemma hashed_reads_back:
  assumes "ParseSchema L json = Inr s" and "NewDynamicCircuit (Some s) = Inr dc"
    and "distinct (map fst as)" and "\<And>xs. mset (visit xs) = mset xs"
    and "AssignValues L (visit (map (hash_input L s) as)) (Clone dc) = Inr dc'"
  shows "(n, v) \<in> set as \<Longrightarrow> \<exists>f x. FieldDefinition s n = Inr f
      \<and> assigned_value L f n (snd (hash_input L s (n, v))) = Inr x \<and> fieldVariable dc' n = Inr (Const x)"
    and "\<forall>f\<in>set (sd_fields s). fd_required f \<longrightarrow> fd_name f \<in> fst ` set as"
proof -
  let ?kvs = "visit (map (hash_input L s) as)"
  have sets: "set ?kvs = hash_input L s ` set as"
    using mset_eq_setD [OF assms(4) [of "map (hash_input L s) as"]] by simp
  have "mset (map fst ?kvs) = mset (map fst as)"
    by (simp add: assms(4) image_mset.compositionality comp_def hash_input_fst)
  then have dist: "distinct (map fst ?kvs)" using assms(3) mset_eq_imp_distinct_iff by blast
  note rb = reads_back [OF assms(1,2) dist assms(5)]
  show "\<exists>f x. FieldDefinition s n = Inr f \<and> assigned_value L f n (snd (hash_input L s (n, v))) = Inr x
      \<and> fieldVariable dc' n = Inr (Const x)" if "(n, v) \<in> set as"
  proof -
    have "(n, snd (hash_input L s (n, v))) \<in> set ?kvs"
      using imageI [OF that, of "hash_input L s"] hash_input_fst [of L s "(n, v)"] by (metis sets fst_conv prod.collapse)
    with rb show ?thesis by fastforce
  qed
  have "fst ` set ?kvs = fst ` set as" by (simp add: sets image_image hash_input_fst)
  with rb show "\<forall>f\<in>set (sd_fields s). fd_required f \<longrightarrow> fd_name f \<in> fst ` set as" by metis
qed

section \<open>A concrete run\<close>

definition tiny_json :: json where
  "tiny_json = JObj
     [(''fields'', JArr [JObj [(''name'', JStr ''degree''), (''public'', JBool True)]]),
      (''constraints'', JArr
         [JObj [(''type'', JStr ''comparison''), (''fields'', JArr [JStr ''degree'']),
                (''operator'', JStr ''eq''), (''value'', JStr ''MSc'')]])]"

definition tiny_lib :: golib where
  "tiny_lib = plain_lib\<lparr>gl_json_parse := \<lambda>s. Some tiny_json, gl_sha256 := take 1\<rparr>"

definition tiny_run :: "(int list, unit) proof_result res" where
  "tiny_run = ProveDynamicFromSchema tiny_lib (fgroth 10007) (\<lambda>s. Inr []) id (\<lambda>k. 0) ''x''
     [(''degree'', GStr ''MSc'')] []"

lemma tiny_run_ok: "ok tiny_run"
  by code_simp

section \<open>Properties\<close>

text \<open>
  C4. Soundness of the wallet's prover. When it returns a proof for the inputs \<open>as\<close>, every required
  field has an input, and there are the assignment \<open>dc'\<close> that \<open>AssignValues\<close> made of them and its
  witness, whose public part is the one returned: it satisfies every assertion that the schema makes
  on the wires of the circuit, and the wire that the assertions read for a field carries the
  converted input, which is the digest of its text when the field is a string. So a schema that asks
  for a string to equal a text gets a proof for an input with the digest of that text only.
\<close>

theorem ProveDynamicFromSchema_sound:
  assumes "prover_sem p B den"
    and "ProveDynamicFromSchema L B read_pk visit clk json as pkb = Inr r"
    and "ParseSchema L json = Inr s" and "NewDynamicCircuit (Some s) = Inr dc"
    and "distinct (map fst as)" and "\<And>xs. mset (visit xs) = mset xs"
  shows "(\<forall>f\<in>set (sd_fields s). fd_required f \<longrightarrow> fd_name f \<in> fst ` set as)
    \<and> (\<exists>asserts dc' wit. Define L (gr_api B) clk (wired B dc) = Inr asserts
         \<and> AssignValues L (visit (map (hash_input L s) as)) (Clone dc) = Inr dc'
         \<and> gr_witness B (dc_secret_values dc') (dc_public_values dc') = Inr wit
         \<and> gr_public B wit = Inr (pf_public_witness r) \<and> accepts (den wit) asserts
         \<and> (\<forall>(n, v)\<in>set as. \<exists>f x w. FieldDefinition s n = Inr f
              \<and> assigned_value L f n (snd (hash_input L s (n, v))) = Inr x
              \<and> fieldVariable (wired B dc) n = Inr (Wire w) \<and> den wit (Wire w) = den wit (Const x)
              \<and> (fd_type f = FieldTypeString \<longrightarrow> den wit (Wire w) = hashStringToFieldElement L (sprint L v) mod p)))
    \<and> (\<forall>c\<in>set (sd_constraints s). \<forall>n f v u.
         cd_type c = ConstraintComparison \<and> cd_fields c = [n] \<and> cd_operator c = ''eq'' \<and> cd_value c = Some (JStr u)
           \<and> FieldDefinition s n = Inr f \<and> fd_type f = FieldTypeString \<and> (n, v) \<in> set as
         \<longrightarrow> hashStringToFieldElement L (sprint L v) mod p = hashStringToFieldElement L u mod p)"
proof -
  have B: "gnark_sem p (gr_api B) (den wit)" "wires_carry B den"
    "gr_compile B asserts = Inr ccs \<Longrightarrow> gr_prove B ccs pk wit = Inr pr \<Longrightarrow> accepts (den wit) asserts"
    for wit asserts ccs pk pr
    using assms(1) unfolding prover_sem_def by blast+
  obtain asserts ccs dc' wit pk where
    run: "Define L (gr_api B) clk (wired B dc) = Inr asserts" "gr_compile B asserts = Inr ccs"
    "AssignValues L (visit (map (hash_input L s) as)) (Clone dc) = Inr dc'"
    "gr_witness B (dc_secret_values dc') (dc_public_values dc') = Inr wit"
    "gr_public B wit = Inr (pf_public_witness r)" "gr_prove B ccs pk wit = Inr (pf_proof r)"
    using ProveDynamic_cases [OF assms(2)] assms(3,4) by (metis sum.inject(2))
  have acc: "accepts (den wit) asserts" by (rule B(3) [OF run(2,6)])
  note new = NewDynamicCircuit_wf [OF ParseSchema_wf [OF assms(3)] assms(4)]
  note wf = pkg_assign.assigns_wf [OF Clone_wf [OF new(1)] run(3)]
  have sch: "dc_schema dc' = dc_schema dc" using wf(2) by (simp add: Clone_def)
  note rb = hashed_reads_back [OF assms(3,4,5,6) run(3)]
  have wires: "\<exists>f x w. FieldDefinition s n = Inr f \<and> assigned_value L f n (snd (hash_input L s (n, v))) = Inr x
      \<and> fieldVariable (wired B dc) n = Inr (Wire w) \<and> den wit (Wire w) = den wit (Const x)
      \<and> (fd_type f = FieldTypeString \<longrightarrow> den wit (Wire w) = hashStringToFieldElement L (sprint L v) mod p)"
    if nv: "(n, v) \<in> set as" for n v
  proof -
    obtain f x where f: "FieldDefinition s n = Inr f" "assigned_value L f n (snd (hash_input L s (n, v))) = Inr x"
      "fieldVariable dc' n = Inr (Const x)" using rb(1) [OF nv] by blast
    obtain w where w: "fieldVariable (wired B dc) n = Inr (Wire w)" "den wit (Wire w) = den wit (Const x)"
      using wired_field [OF new(1) wf(1) sch B(2) run(4) f(3)] by blast
    have "den wit (Const x) = hashStringToFieldElement L (sprint L v) mod p" if "fd_type f = FieldTypeString"
      using f(2) hashed_string_value [OF f(1) that] gnark_semD(4) [OF B(1)] by auto
    with f(1,2) w show ?thesis by metis
  qed
  have "hashStringToFieldElement L (sprint L v) mod p = hashStringToFieldElement L u mod p"
    if c: "c \<in> set (sd_constraints s)" "cd_type c = ConstraintComparison" "cd_fields c = [n]" "cd_operator c = ''eq''"
      "cd_value c = Some (JStr u)" and f: "FieldDefinition s n = Inr f" "fd_type f = FieldTypeString"
      and nv: "(n, v) \<in> set as" for c n f v u
  proof -
    have "c \<in> set (sd_constraints (dc_schema (wired B dc)))" using c(1) new(2) by (simp add: wired_def)
    from wires [OF nv] f equality_satisfied [OF B(1) run(1) acc this c(2-5)] show ?thesis by auto
  qed
  then show ?thesis using rb(2) run(1,3-5) acc wires by blast
qed

theorem ProveDynamicFromSchema_sound_witness:
  "(\<exists>s dc dc' wit w. ParseSchema tiny_lib ''x'' = Inr s \<and> NewDynamicCircuit (Some s) = Inr dc
        \<and> AssignValues tiny_lib [hash_input tiny_lib s (''degree'', GStr ''MSc'')] (Clone dc) = Inr dc'
        \<and> gr_witness (fgroth 10007) (dc_secret_values dc') (dc_public_values dc') = Inr wit
        \<and> fieldVariable (wired (fgroth 10007) dc) ''degree'' = Inr (Wire w)
        \<and> fden 10007 wit (Wire w) = hashStringToFieldElement tiny_lib ''MSc'' mod 10007)"
proof -
  obtain r where r: "tiny_run = Inr r" using tiny_run_ok by (auto simp: ok_iff)
  obtain s and dc :: "fwire circuit" where s: "ParseSchema tiny_lib ''x'' = Inr s" "NewDynamicCircuit (Some s) = Inr dc"
    using ProveDynamic_cases [OF r [unfolded tiny_run_def]] by metis
  have "(case ParseSchema tiny_lib ''x'' of Inl e \<Rightarrow> False
      | Inr s \<Rightarrow> case FieldDefinition s ''degree'' of Inl e \<Rightarrow> False | Inr f \<Rightarrow> fd_type f = FieldTypeString)"
    by code_simp
  then obtain f where f: "FieldDefinition s ''degree'' = Inr f" "fd_type f = FieldTypeString"
    unfolding s by (auto split: sum.splits)
  have "prover_sem 10007 (fgroth 10007) (fden 10007)"
    using fgroth_sem [of 10007] unfolding prover_sem_def groth_sem_def by (auto simp: fgroth_def split: if_splits)
  from ProveDynamicFromSchema_sound [OF this r [unfolded tiny_run_def] s] f s
  show ?thesis by fastforce
qed

text \<open>
  C21. The wallet reads back the package it writes: \<open>ReconstructZkpResult\<close> inverts \<open>SerializeBorsh\<close>.
\<close>

theorem proof_package_roundtrip:
  assumes "codec_laws C" and "SerializeBorsh C zr = Inr blob"
  shows "ReconstructZkpResult C blob = Inr zr"
  using assms
  by (cases zr) (auto simp: SerializeBorsh_def ReconstructZkpResult_def codec_laws_def res_simps)

definition len_codec :: "(string, string) package_codec" where
  "len_codec =
     \<lparr>pc_write_proof = Inr, pc_read_proof = Inr, pc_write_witness = Inr, pc_read_witness = Inr,
      pc_borsh = (\<lambda>(a, b). if 256 \<le> length a then Inl (LibErr ''borsh'')
        else Inr (char_of (length a) # a @ b)),
      pc_unborsh = (\<lambda>s. case s of [] \<Rightarrow> Inl (LibErr ''borsh'')
        | c # cs \<Rightarrow> Inr (take (of_char c) cs, drop (of_char c) cs))\<rparr>"

theorem proof_package_roundtrip_witness:
  "ReconstructZkpResult len_codec (CHR 0x02 # ''abxyz'') = Inr \<lparr>pf_proof = ''ab'', pf_public_witness = ''xyz''\<rparr>"
proof -
  have "codec_laws len_codec"
    by (auto simp: codec_laws_def len_codec_def split: if_splits)
  moreover have "char_of (2 :: nat) = CHR 0x02" by (simp add: char_of_def bit_simps)
  then have "SerializeBorsh len_codec \<lparr>pf_proof = ''ab'', pf_public_witness = ''xyz''\<rparr>
      = Inr (CHR 0x02 # ''abxyz'')"
    by (simp add: SerializeBorsh_def len_codec_def numeral_2_eq_2 [symmetric])
  ultimately show ?thesis by (rule proof_package_roundtrip)
qed

end
