(* ===== verification/RequestStore.thy ===== *)
theory RequestStore
  imports GoValues
begin

text \<open>
  The stores of the three services (\<open>zkprequest/storage.go\<close>, \<open>vcstore/vcstore.go\<close>) and the circuit
  registry (\<open>zkprequest/registry.go\<close>). The interface \<open>RequestStore\<close> is a locale: what \<open>Load\<close> returns
  after each operation. What follows from the contract alone, that a request stays gone once
  consumed and that the last save wins, is proved once inside it.
\<close>

section \<open>The contract\<close>

datatype 'r store_op = Save 'r | Delete string

fun store_step :: "('r \<Rightarrow> 's \<Rightarrow> 's) \<Rightarrow> (string \<Rightarrow> 's \<Rightarrow> 's) \<Rightarrow> 'r store_op \<Rightarrow> 's \<Rightarrow> 's" where
  "store_step save delete (Save r) s = save r s"
| "store_step save delete (Delete i) s = delete i s"

fun store_run :: "('r \<Rightarrow> 's \<Rightarrow> 's) \<Rightarrow> (string \<Rightarrow> 's \<Rightarrow> 's) \<Rightarrow> 'r store_op list \<Rightarrow> 's \<Rightarrow> 's" where
  "store_run save delete [] s = s"
| "store_run save delete (c # cs) s = store_run save delete cs (store_step save delete c s)"

text \<open>The effect of a run on one key, read off the operations: the last one that names it decides.\<close>

fun last_write :: "('r \<Rightarrow> string) \<Rightarrow> string \<Rightarrow> 'r store_op list \<Rightarrow> 'r option \<Rightarrow> 'r option" where
  "last_write key i [] cur = cur"
| "last_write key i (Save r # cs) cur = last_write key i cs (if key r = i then Some r else cur)"
| "last_write key i (Delete j # cs) cur = last_write key i cs (if j = i then None else cur)"

locale request_store =
  fixes save :: "'r \<Rightarrow> 's \<Rightarrow> 's" and load :: "string \<Rightarrow> 's \<Rightarrow> 'r option"
    and delete :: "string \<Rightarrow> 's \<Rightarrow> 's" and key :: "'r \<Rightarrow> string"
  assumes load_save: "load i (save r s) = (if key r = i then Some r else load i s)"
    and load_delete: "load i (delete j s) = (if j = i then None else load i s)"
begin

lemma load_step: "load i (store_step save delete c s) = last_write key i [c] (load i s)"
  by (cases c) (simp_all add: load_save load_delete)

lemma load_run: "load i (store_run save delete cs s) = last_write key i cs (load i s)"
proof (induction cs arbitrary: s)
  case Nil
  show ?case by simp
next
  case (Cons c cs)
  show ?case by (cases c) (simp_all add: Cons.IH load_save load_delete)
qed

lemma last_write_unsaved:
  "\<forall>r. Save r \<in> set cs \<longrightarrow> key r \<noteq> i \<Longrightarrow> last_write key i cs None = None"
proof (induction cs)
  case Nil
  show ?case by simp
next
  case (Cons c cs)
  then show ?case by (cases c) simp_all
qed

lemma last_write_unnamed:
  "\<forall>r. Save r \<in> set cs \<longrightarrow> key r \<noteq> i \<Longrightarrow> Delete i \<notin> set cs \<Longrightarrow> last_write key i cs cur = cur"
proof (induction cs)
  case Nil
  show ?case by simp
next
  case (Cons c cs)
  then show ?case by (cases c) auto
qed

lemma consumed:
  "\<forall>r. Save r \<in> set cs \<longrightarrow> key r \<noteq> i \<Longrightarrow> load i (store_run save delete cs (delete i s)) = None"
  by (simp add: load_run load_delete last_write_unsaved)

lemma untouched:
  "\<forall>r. Save r \<in> set cs \<longrightarrow> key r \<noteq> i \<Longrightarrow> Delete i \<notin> set cs \<Longrightarrow>
   load i (store_run save delete cs s) = load i s"
  by (simp add: load_run last_write_unnamed)

end

section \<open>The in-memory store of the presentation requests\<close>

record presentation_request =
  pr_request_id :: string
  pr_schema_json :: string
  pr_schema_hash :: string
  pr_public_inputs :: "string \<rightharpoonup> gval"
  pr_response_uri :: string
  pr_expires_at :: int
  pr_callback_url :: string
  pr_callback_secret :: string

type_synonym mem_store = "string \<rightharpoonup> presentation_request"

definition mem_save :: "presentation_request \<Rightarrow> mem_store \<Rightarrow> mem_store" where
  "mem_save req m = m(pr_request_id req \<mapsto> req)"

definition mem_load :: "string \<Rightarrow> mem_store \<Rightarrow> presentation_request option" where
  "mem_load i m = m i"

definition mem_delete :: "string \<Rightarrow> mem_store \<Rightarrow> mem_store" where
  "mem_delete i m = m(i := None)"

interpretation mem: request_store mem_save mem_load mem_delete pr_request_id
  by unfold_locales (auto simp: mem_save_def mem_load_def mem_delete_def)

section \<open>The credential store of the wallet\<close>

record credential =
  vc_id :: string
  vc_format :: string
  vc_raw :: string
  vc_issuer :: string
  vc_subject :: string
  vc_types :: "string list"
  vc_created_at :: int

type_synonym vc_store = "string \<rightharpoonup> credential"

definition vc_save :: "credential \<Rightarrow> vc_store \<Rightarrow> vc_store" where
  "vc_save vc m = m(vc_id vc \<mapsto> vc)"

definition vc_get :: "string \<Rightarrow> vc_store \<Rightarrow> credential option" where
  "vc_get i m = m i"

text \<open>\<open>List\<close> returns the values in the order the runtime visits the map, here given by \<open>keys\<close>.\<close>

definition vc_list :: "string list \<Rightarrow> vc_store \<Rightarrow> credential list" where
  "vc_list keys m = List.map_filter m keys"

definition vc_delete :: "string \<Rightarrow> vc_store \<Rightarrow> vc_store" where
  "vc_delete i m = m(i := None)"

definition vc_delete_all :: "vc_store \<Rightarrow> vc_store" where
  "vc_delete_all m = Map.empty"

interpretation vcs: request_store vc_save vc_get vc_delete vc_id
  by unfold_locales (auto simp: vc_save_def vc_get_def vc_delete_def)

text \<open>A listing that visits every key of the map once shows every stored credential once.\<close>

lemma vc_list_complete:
  assumes "set keys = dom m" and "distinct keys"
  shows "set (vc_list keys m) = ran m" and "length (vc_list keys m) = card (dom m)"
proof -
  show "set (vc_list keys m) = ran m"
    using assms(1) by (force simp: vc_list_def map_filter_def ran_def domIff dom_def)
  have "\<forall>k\<in>set keys. m k \<noteq> None" using assms(1) by auto
  then have "length (vc_list keys m) = length keys"
    by (induction keys) (auto simp: vc_list_def map_filter_def)
  then show "length (vc_list keys m) = card (dom m)"
    using assms by (metis distinct_card)
qed

section \<open>The circuit registry\<close>

text \<open>A nil registry and a nil map answer like an empty one.\<close>

record static_registry =
  sr_schemas :: "(string \<rightharpoonup> string) option"
  sr_vks :: "(string \<rightharpoonup> string) option"

definition registry_schema :: "static_registry option \<Rightarrow> string \<Rightarrow> string option" where
  "registry_schema r circuitID =
     (case r of None \<Rightarrow> None
      | Some r' \<Rightarrow> (case sr_schemas r' of None \<Rightarrow> None | Some m \<Rightarrow> m circuitID))"

definition registry_vk :: "static_registry option \<Rightarrow> string \<Rightarrow> string option" where
  "registry_vk r circuitID =
     (case r of None \<Rightarrow> None
      | Some r' \<Rightarrow> (case sr_vks r' of None \<Rightarrow> None | Some m \<Rightarrow> m circuitID))"

end
