(* ===== verification/Presentation.thy ===== *)
theory Presentation
  imports WalletProver RequestStore
begin

text \<open>
  \<open>api/src/zkprequest/service.go\<close> and \<open>helpers.go\<close>: the service that issues presentation requests
  and verifies submissions. Its state is a record: the store, the key and schema caches, the
  waiters of blocked callers with their channels, the verdicts with the goroutines that will
  delete them, and the webhook calls made so far. Each method is a function from the state to
  its result and the new state; \<open>postWebhook\<close> can panic, which is a result of its own.
\<close>

section \<open>Times, verdicts and the state\<close>

text \<open>A \<open>time.Time\<close>: nanoseconds since the Unix epoch and the calendar date in its location.\<close>

record gotime =
  gt_nanos :: int
  gt_date :: date
  gt_is_zero :: bool

definition gt_unix :: "gotime \<Rightarrow> int" where
  "gt_unix t = gt_nanos t div 1000000000"

record verdict =
  vd_ok :: bool
  vd_reason :: string
  vd_state :: string
  vd_verified_at :: "gotime option"

record verify_result =
  vr_ok :: bool
  vr_reason :: string

record webhook_call =
  wh_url :: string
  wh_body :: string
  wh_signature :: "string option"

text \<open>
  A channel of capacity one is a number; \<open>sv_chans\<close> holds what was sent on it and not yet received.
  \<open>sv_timers\<close> are the goroutines of \<open>setVerdict\<close>, with the time from which each may run.
\<close>

record service =
  sv_store :: "mem_store option"
  sv_audience :: string
  sv_response_uri :: string
  sv_ttl :: int
  sv_vk_cache :: "string \<rightharpoonup> string"
  sv_pk_cache :: "string \<rightharpoonup> string"
  sv_schema_cache :: "string \<rightharpoonup> string"
  sv_allow_adhoc :: bool
  sv_waiters :: "string \<rightharpoonup> nat list"
  sv_verdicts :: "string \<rightharpoonup> verdict"
  sv_chans :: "nat \<rightharpoonup> verify_result"
  sv_next_chan :: nat
  sv_timers :: "(string \<times> int) list"
  sv_webhooks :: "webhook_call list"

datatype 'a run = Done 'a service | Panicked service

definition five_minutes :: int where
  "five_minutes = 5 * 60 * 1000000000"

definition NewService :: "mem_store option \<Rightarrow> (service \<Rightarrow> service) list \<Rightarrow> service" where
  "NewService store opts =
     foldl (\<lambda>s o'. o' s)
       \<lparr>sv_store = store, sv_audience = ''http://localhost'',
        sv_response_uri = ''http://localhost/presentations/verify'', sv_ttl = five_minutes,
        sv_vk_cache = Map.empty, sv_pk_cache = Map.empty, sv_schema_cache = Map.empty,
        sv_allow_adhoc = True, sv_waiters = Map.empty, sv_verdicts = Map.empty,
        sv_chans = Map.empty, sv_next_chan = 0, sv_timers = [], sv_webhooks = []\<rparr> opts"

text \<open>
  What the service uses of the libraries: the verifying half of Groth16, the encoder with HTML
  escaping off (its text ends in a newline), the request constructor's check of a URL, HMAC and
  the RFC 3339 format of a time.
\<close>

record ('pub, 'prf, 'vk) env =
  en_lib :: golib
  en_encode :: "gval \<Rightarrow> string option"
  en_codec :: "('pub, 'prf) package_codec"
  en_read_vk :: "string \<Rightarrow> 'vk res"
  en_verify :: "'prf \<Rightarrow> 'vk \<Rightarrow> 'pub \<Rightarrow> bool"
  en_url_ok :: "string \<Rightarrow> bool"
  en_hmac :: "string \<Rightarrow> string \<Rightarrow> string"
  en_format :: "gotime \<Rightarrow> string"

section \<open>Creating a request\<close>

definition defaultTTL :: "service \<Rightarrow> int" where
  "defaultTTL s = (if sv_ttl s \<le> 0 then five_minutes else sv_ttl s)"

text \<open>\<open>current\<close> is \<open>time.Now()\<close>, \<open>nonce\<close> the fresh UUID.\<close>

definition defaultPublicInputs :: "gotime \<Rightarrow> string \<Rightarrow> gotime \<Rightarrow> service \<Rightarrow> (string \<rightharpoonup> gval)" where
  "defaultPublicInputs current nonce now s =
     (let d = gt_date (if gt_is_zero now then current else now)
      in [''current_year'' \<mapsto> GInt KInt (d_year d), ''current_month'' \<mapsto> GInt KInt (d_month d),
          ''current_day'' \<mapsto> GInt KInt (d_day d), ''aud'' \<mapsto> GStr (sv_audience s), ''nonce'' \<mapsto> GStr nonce])"

definition chop_newline :: "string \<Rightarrow> string" where
  "chop_newline out = (if out \<noteq> [] \<and> last out = char_of (10 :: nat) then butlast out else out)"

definition canonicalJSON :: "('pub, 'prf, 'vk) env \<Rightarrow> string \<Rightarrow> string res" where
  "canonicalJSON E raw =
     (case (case gl_json_parse (en_lib E) raw of None \<Rightarrow> None | Some j \<Rightarrow> decode_any (en_lib E) False j) of
        None \<Rightarrow> Inl (LibErr ''json'')
      | Some v \<Rightarrow> (case en_encode E v of None \<Rightarrow> Inl (LibErr ''json'') | Some out \<Rightarrow> Inr (chop_newline out)))"

definition schema_hash_of :: "golib \<Rightarrow> string \<Rightarrow> string" where
  "schema_hash_of L canon = ''sha256:'' @ gl_hex L (gl_sha256 L canon)"

text \<open>
  \<open>B\<close> is the Groth16 backend, \<open>clk\<close> the clock of \<open>Define\<close>, \<open>wvk\<close> and \<open>wpk\<close> write the keys. The
  caches are maps made by \<open>NewService\<close>, so the nil checks before the writes never apply.
\<close>

definition make_keys ::
    "golib \<Rightarrow> ('w, 'ccs, 'pk, 'vk, 'wit, 'pub, 'prf) groth \<Rightarrow> ('vk \<Rightarrow> string res) \<Rightarrow> ('pk \<Rightarrow> string res)
      \<Rightarrow> (nat \<Rightarrow> int64) \<Rightarrow> string \<Rightarrow> (string \<times> string) res" where
  "make_keys L B wvk wpk clk canon =
     and_then (ParseSchema L canon) (\<lambda>schema.
     and_then (NewDynamicCircuit (Some schema)) (\<lambda>circ.
     and_then (and_then (Define L (gr_api B) clk (wired B circ)) (gr_compile B)) (\<lambda>ccs.
     and_then (gr_setup B ccs) (\<lambda>keys.
     and_then (wvk (snd keys)) (\<lambda>vkBuf.
     and_then (wpk (fst keys)) (\<lambda>pkBuf. Inr (vkBuf, pkBuf)))))))"

definition ensureVKForSchema ::
    "golib \<Rightarrow> ('w, 'ccs, 'pk, 'vk, 'wit, 'pub, 'prf) groth \<Rightarrow> ('vk \<Rightarrow> string res) \<Rightarrow> ('pk \<Rightarrow> string res)
      \<Rightarrow> (nat \<Rightarrow> int64) \<Rightarrow> string \<Rightarrow> service \<Rightarrow> string res \<times> service" where
  "ensureVKForSchema L B wvk wpk clk canon s =
     (let hash = schema_hash_of L canon
      in if sv_vk_cache s hash \<noteq> None \<and> sv_pk_cache s hash \<noteq> None then (Inr hash, s)
         else case make_keys L B wvk wpk clk canon of
           Inl e \<Rightarrow> (Inl e, s)
         | Inr (vkBuf, pkBuf) \<Rightarrow>
             (Inr hash, s\<lparr>sv_vk_cache := (sv_vk_cache s)(hash \<mapsto> vkBuf),
                          sv_pk_cache := (sv_pk_cache s)(hash \<mapsto> pkBuf),
                          sv_schema_cache := (sv_schema_cache s)(hash \<mapsto> canon)\<rparr>))"

definition CreateRequestFromSchema ::
    "('pub, 'prf, 'vk) env \<Rightarrow> ('w, 'ccs, 'pk, 'vk, 'wit, 'pub, 'prf) groth \<Rightarrow> ('vk \<Rightarrow> string res)
      \<Rightarrow> ('pk \<Rightarrow> string res) \<Rightarrow> (nat \<Rightarrow> int64) \<Rightarrow> gotime \<Rightarrow> string \<Rightarrow> string \<Rightarrow> string \<Rightarrow> gotime
      \<Rightarrow> service \<Rightarrow> presentation_request res \<times> service" where
  "CreateRequestFromSchema E B wvk wpk clk current requestID nonce schemaJSON now s =
     (case sv_store s of None \<Rightarrow> (Inl (Msg ''service not initialized''), s)
      | Some st \<Rightarrow>
      if \<not> sv_allow_adhoc s then (Inl (Msg ''ad-hoc schema disabled''), s)
      else case canonicalJSON E schemaJSON of Inl e \<Rightarrow> (Inl (Wrap ''invalid schema_json'' e), s) | Inr canon \<Rightarrow>
      case ensureVKForSchema (en_lib E) B wvk wpk clk canon s of
        (Inl e, s1) \<Rightarrow> (Inl (Wrap ''setup failed'' e), s1)
      | (Inr schemaHash, s1) \<Rightarrow>
          (let req = \<lparr>pr_request_id = requestID, pr_schema_json = canon, pr_schema_hash = schemaHash,
                      pr_public_inputs = defaultPublicInputs current nonce now s1,
                      pr_response_uri = sv_response_uri s1,
                      pr_expires_at = (gt_nanos now + defaultTTL s1) div 1000000000,
                      pr_callback_url = [], pr_callback_secret = []\<rparr>
           in (Inr req, s1\<lparr>sv_store := map_option (mem_save req) (sv_store s1)\<rparr>)))"

section \<open>Verdicts, waiters and webhooks\<close>

definition fifteen_minutes :: int where
  "fifteen_minutes = 15 * 60 * 1000000000"

definition setVerdict :: "int \<Rightarrow> string \<Rightarrow> verdict \<Rightarrow> service \<Rightarrow> service" where
  "setVerdict nanos i v s =
     s\<lparr>sv_verdicts := (sv_verdicts s)(i \<mapsto> v),
       sv_timers := sv_timers s @ [(i, nanos + fifteen_minutes)]\<rparr>"

text \<open>The goroutine at position \<open>k\<close> wakes up.\<close>

definition timer_fires :: "nat \<Rightarrow> service \<Rightarrow> service" where
  "timer_fires k s =
     s\<lparr>sv_verdicts := (sv_verdicts s)(fst (sv_timers s ! k) := None),
       sv_timers := take k (sv_timers s) @ drop (Suc k) (sv_timers s)\<rparr>"

definition getVerdict :: "string \<Rightarrow> service \<Rightarrow> verdict option" where
  "getVerdict i s = sv_verdicts s i"

definition waiters_of :: "string \<Rightarrow> service \<Rightarrow> nat list" where
  "waiters_of i s = (case sv_waiters s i of None \<Rightarrow> [] | Some chs \<Rightarrow> chs)"

text \<open>A send in a \<open>select\<close> with a default: it is dropped when the buffer is full.\<close>

fun send_all :: "nat list \<Rightarrow> verify_result \<Rightarrow> (nat \<rightharpoonup> verify_result) \<Rightarrow> (nat \<rightharpoonup> verify_result)" where
  "send_all [] res m = m"
| "send_all (ch # chs) res m =
     send_all chs res (case m ch of None \<Rightarrow> m(ch \<mapsto> res) | Some r \<Rightarrow> m)"

definition notifyWaiters :: "string \<Rightarrow> verify_result \<Rightarrow> service \<Rightarrow> service" where
  "notifyWaiters requestID res s =
     s\<lparr>sv_waiters := (sv_waiters s)(requestID := None),
       sv_chans := send_all (waiters_of requestID s) res (sv_chans s)\<rparr>"

text \<open>\<open>WaitForResult\<close>: the registration, the receive and the clean-up after a timeout.\<close>

definition wait_register :: "string \<Rightarrow> service \<Rightarrow> nat \<times> service" where
  "wait_register requestID s =
     (sv_next_chan s,
      s\<lparr>sv_waiters := (sv_waiters s)(requestID \<mapsto> waiters_of requestID s @ [sv_next_chan s]),
        sv_next_chan := Suc (sv_next_chan s)\<rparr>)"

definition wait_receive :: "nat \<Rightarrow> service \<Rightarrow> (verify_result \<times> service) option" where
  "wait_receive ch s =
     (case sv_chans s ch of None \<Rightarrow> None
      | Some r \<Rightarrow> Some (r, s\<lparr>sv_chans := (sv_chans s)(ch := None)\<rparr>))"

definition wait_timeout :: "string \<Rightarrow> nat \<Rightarrow> service \<Rightarrow> verify_result \<times> service" where
  "wait_timeout requestID ch s =
     (let newList = filter (\<lambda>c. c \<noteq> ch) (waiters_of requestID s)
      in (\<lparr>vr_ok = False, vr_reason = ''timeout''\<rparr>,
          s\<lparr>sv_waiters := (sv_waiters s)(requestID := if newList = [] then None else Some newList)\<rparr>))"

definition webhook_payload ::
    "('pub, 'prf, 'vk) env \<Rightarrow> gotime \<Rightarrow> presentation_request \<Rightarrow> bool \<Rightarrow> string \<Rightarrow> gval" where
  "webhook_payload E now req okay reason =
     GMap [(''request_id'', GStr (pr_request_id req)), (''schema_hash'', GStr (pr_schema_hash req)),
           (''state'', GStr (if okay then ''verified'' else ''failed'')), (''ok'', GBool okay),
           (''reason'', GStr reason), (''verified_at'', GStr (en_format E now))]"

text \<open>A URL that \<open>http.NewRequest\<close> refuses gives a nil request, whose use panics.\<close>

definition postWebhook ::
    "('pub, 'prf, 'vk) env \<Rightarrow> gotime \<Rightarrow> presentation_request \<Rightarrow> bool \<Rightarrow> string \<Rightarrow> service \<Rightarrow> unit run" where
  "postWebhook E now req okay reason s =
     (if pr_callback_url req = [] then Done () s
      else if \<not> en_url_ok E (pr_callback_url req) then Panicked s
      else (let b = (case gl_json_text (en_lib E) (webhook_payload E now req okay reason) of
                       None \<Rightarrow> [] | Some t \<Rightarrow> t);
                sig = (if pr_callback_secret req = [] then None
                       else Some (gl_hex (en_lib E) (en_hmac E (pr_callback_secret req) b)))
            in Done () (s\<lparr>sv_webhooks := sv_webhooks s @
                 [\<lparr>wh_url = pr_callback_url req, wh_body = b, wh_signature = sig\<rparr>]\<rparr>)))"

section \<open>Verifying a submission\<close>

text \<open>The public inputs of a submission are listed, so that their number is that of the map.\<close>

record submission =
  sub_request_id :: string
  sub_blob :: string
  sub_public_inputs :: "(string \<times> gval) list"
  sub_challenge :: string

text \<open>
  The closure \<open>recordFail\<close>, called with a request. \<open>clk k\<close> is the time of the \<open>k\<close>-th reading of the
  clock in one call of a method: the expiry check, the verdict, the webhook.
\<close>

definition recordFail ::
    "('pub, 'prf, 'vk) env \<Rightarrow> (nat \<Rightarrow> gotime) \<Rightarrow> presentation_request \<Rightarrow> string \<Rightarrow> service
      \<Rightarrow> presentation_request res run" where
  "recordFail E clk req reason s =
     (case postWebhook E (clk 2) req False reason
             (setVerdict (gt_nanos (clk 1)) (pr_request_id req)
                \<lparr>vd_ok = False, vd_reason = reason, vd_state = ''failed'', vd_verified_at = None\<rparr> s) of
        Panicked s1 \<Rightarrow> Panicked s1
      | Done u s1 \<Rightarrow>
          Done (Inl (Msg reason)) (notifyWaiters (pr_request_id req) \<lparr>vr_ok = False, vr_reason = reason\<rparr> s1))"

text \<open>
  Lines 178 to 220: why a loaded request is refused, \<open>None\<close> when the proof verifies. The echo of
  \<open>aud\<close> and \<open>nonce\<close> is checked only when the submission has public inputs.
\<close>

definition refusal ::
    "('pub, 'prf, 'vk) env \<Rightarrow> service \<Rightarrow> presentation_request \<Rightarrow> submission \<Rightarrow> string option" where
  "refusal E s req sub =
     (let L = en_lib E; wantAud = sv_audience s;
          gotAud = sprint L (index_any (map_of (sub_public_inputs sub)) ''aud'');
          wantNonce = sprint L (index_any (pr_public_inputs req) ''nonce'');
          gotNonce = sprint L (index_any (map_of (sub_public_inputs sub)) ''nonce'')
      in if sub_public_inputs sub \<noteq> [] \<and> wantAud \<noteq> gotAud
         then Some (''aud mismatch: want='' @ wantAud @ '' got='' @ gotAud)
         else if sub_public_inputs sub \<noteq> []
                 \<and> (wantNonce = [] \<or> gotNonce = [] \<or> wantNonce \<noteq> gotNonce)
         then Some (''nonce mismatch: want='' @ wantNonce @ '' got='' @ gotNonce)
         else case gl_b64_decode L (sub_blob sub) of None \<Rightarrow> Some ''invalid zkp_blob_b64'' | Some raw \<Rightarrow>
         case ReconstructZkpResult (en_codec E) raw of Inl e \<Rightarrow> Some ''invalid proof package'' | Inr pkg \<Rightarrow>
         (let vkb = (case sv_vk_cache s (pr_schema_hash req) of None \<Rightarrow> [] | Some b \<Rightarrow> b)
          in if vkb = [] then Some ''server VK not found''
             else case en_read_vk E vkb of Inl e \<Rightarrow> Some ''cannot load server VK'' | Inr vk \<Rightarrow>
             if en_verify E (pf_proof pkg) vk (pf_public_witness pkg) then None else Some ''verify failed''))"

text \<open>The calls of \<open>Store\<close> on a nil interface panic; the service is always built with a store.\<close>

definition store_of :: "service \<Rightarrow> mem_store" where
  "store_of s = (case sv_store s of None \<Rightarrow> Map.empty | Some m \<Rightarrow> m)"

definition store_delete :: "string \<Rightarrow> service \<Rightarrow> service" where
  "store_delete i s = s\<lparr>sv_store := map_option (mem_delete i) (sv_store s)\<rparr>"

text \<open>Lines 222 to 235: consuming the request.\<close>

definition accept_submission ::
    "('pub, 'prf, 'vk) env \<Rightarrow> (nat \<Rightarrow> gotime) \<Rightarrow> presentation_request \<Rightarrow> string \<Rightarrow> service
      \<Rightarrow> presentation_request res run" where
  "accept_submission E clk req i s =
     (case postWebhook E (clk 2) req True []
             (setVerdict (gt_nanos (clk 1)) (pr_request_id req)
                \<lparr>vd_ok = True, vd_reason = [], vd_state = ''verified'', vd_verified_at = Some (clk 1)\<rparr>
                (store_delete i s)) of
        Panicked s1 \<Rightarrow> Panicked s1
      | Done u s1 \<Rightarrow>
          Done (Inr req) (notifyWaiters (pr_request_id req) \<lparr>vr_ok = True, vr_reason = []\<rparr> s1))"

definition VerifySubmission ::
    "('pub, 'prf, 'vk) env \<Rightarrow> (nat \<Rightarrow> gotime) \<Rightarrow> submission \<Rightarrow> service \<Rightarrow> presentation_request res run" where
  "VerifySubmission E clk sub s =
     (if sub_request_id sub = [] \<or> sub_blob sub = []
      then Done (Inl (Msg ''missing request_id or zkp_blob_b64'')) s
      else case mem_load (sub_request_id sub) (store_of s) of
        None \<Rightarrow> Done (Inl (Msg ''request not found or already used'')) s
      | Some req \<Rightarrow>
          if pr_expires_at req < gt_unix (clk 0)
          then recordFail E clk req ''request expired'' (store_delete (sub_request_id sub) s)
          else case refusal E s req sub of
                 Some reason \<Rightarrow> recordFail E clk req reason s
               | None \<Rightarrow> accept_submission E clk req (sub_request_id sub) s)"

definition MockVerify ::
    "('pub, 'prf, 'vk) env \<Rightarrow> (nat \<Rightarrow> gotime) \<Rightarrow> string \<Rightarrow> service \<Rightarrow> presentation_request res run" where
  "MockVerify E clk requestID s =
     (case mem_load requestID (store_of s) of
        None \<Rightarrow> Done (Inl (Msg ''request not found or already used'')) s
      | Some req \<Rightarrow>
          if pr_expires_at req < gt_unix (clk 0)
          then (case postWebhook E (clk 1) req False ''request expired''
                       (setVerdict (gt_nanos (clk 0)) requestID
                          \<lparr>vd_ok = False, vd_reason = ''request expired'', vd_state = ''expired'',
                           vd_verified_at = None\<rparr> (store_delete requestID s)) of
                  Panicked s1 \<Rightarrow> Panicked s1
                | Done u s1 \<Rightarrow> Done (Inl (Msg ''request expired''))
                    (notifyWaiters requestID \<lparr>vr_ok = False, vr_reason = ''request expired''\<rparr> s1))
          else (case postWebhook E (clk 1) req True []
                       (setVerdict (gt_nanos (clk 0)) requestID
                          \<lparr>vd_ok = True, vd_reason = [], vd_state = ''verified'', vd_verified_at = Some (clk 0)\<rparr>
                          (store_delete requestID s)) of
                  Panicked s1 \<Rightarrow> Panicked s1
                | Done u s1 \<Rightarrow> Done (Inr req)
                    (notifyWaiters requestID \<lparr>vr_ok = True, vr_reason = []\<rparr> s1)))"

definition LoadRequest :: "string \<Rightarrow> service \<Rightarrow> presentation_request option" where
  "LoadRequest i s = mem_load i (store_of s)"

section \<open>The byte reader\<close>

text \<open>\<open>Read\<close> copies what fits into the caller's buffer of \<open>n\<close> bytes; \<open>None\<close> is \<open>io.EOF\<close>.\<close>

record bytes_reader =
  br_bytes :: string
  br_pos :: nat

definition reader_read :: "nat \<Rightarrow> bytes_reader \<Rightarrow> string option \<times> bytes_reader" where
  "reader_read n r =
     (if length (br_bytes r) \<le> br_pos r then (None, r)
      else (let chunk = take n (drop (br_pos r) (br_bytes r))
            in (Some chunk, r\<lparr>br_pos := br_pos r + length chunk\<rparr>)))"

end
