(* ===== verification/PresentationHTTP.thy ===== *)
theory PresentationHTTP
  imports Presentation
begin

text \<open>
  \<open>api/src/zkprequest/handler.go\<close>: the HTTP handlers over the service. The router is \<open>gin.Default()\<close>,
  whose recovery middleware answers 500 when a handler panics. \<open>ShouldBindJSON\<close> is the library's:
  a handler takes what it made of the body, an error text or a struct whose required fields are
  not empty.
\<close>

section \<open>Responses\<close>

datatype body =
    Json gval
  | Plain string
  | Bytes string string
  | Html string gval

record response =
  rs_status :: int
  rs_body :: body

definition resp :: "int \<Rightarrow> body \<Rightarrow> response" where
  "resp st b = \<lparr>rs_status = st, rs_body = b\<rparr>"

definition jobj :: "(string \<times> gval) list \<Rightarrow> body" where
  "jobj kvs = Json (GMap kvs)"

definition jerror :: "string \<Rightarrow> body" where
  "jerror t = jobj [(''error'', GStr t)]"

text \<open>\<open>err.Error()\<close>; the text of a library error is the library's.\<close>

fun error_text :: "(string \<Rightarrow> string) \<Rightarrow> goerr \<Rightarrow> string" where
  "error_text lt (Msg t) = t"
| "error_text lt (Wrap p e) = p @ '': '' @ error_text lt e"
| "error_text lt (LibErr t) = lt t"

definition recovered :: response where
  "recovered = resp 500 (Plain [])"

section \<open>Links\<close>

definition makeWalletLink :: "(string \<Rightarrow> string) \<Rightarrow> string \<Rightarrow> string \<Rightarrow> string \<times> string \<times> string" where
  "makeWalletLink query_escape audience requestID =
     (let humanURL = audience @ ''/v1/presentations/'' @ requestID;
          descriptorURL = audience @ ''/v1/presentations/'' @ requestID @ ''/descriptor''
      in (humanURL, descriptorURL, ''zkwallet://present?request_uri='' @ query_escape descriptorURL))"

section \<open>Creating and verifying\<close>

record create_in =
  ci_schema_json :: string
  ci_public_inputs :: "(string \<times> gval) list"
  ci_expires_in :: int
  ci_callback_url :: string
  ci_callback_secret :: string

text \<open>What a handler needs beside the service: error texts, URL escaping and the QR picture.\<close>

record web =
  wb_lib_text :: "string \<Rightarrow> string"
  wb_query_escape :: "string \<Rightarrow> string"
  wb_qr_png :: "string \<Rightarrow> string"

definition request_json :: "presentation_request \<Rightarrow> (string \<times> gval) list \<Rightarrow> gval" where
  "request_json req inputs =
     GMap [(''request_id'', GStr (pr_request_id req)), (''schema_json'', GStr (pr_schema_json req)),
           (''schema_hash'', GStr (pr_schema_hash req)), (''public_inputs'', GMap inputs),
           (''response_uri'', GStr (pr_response_uri req)), (''expires_at'', GInt KInt64 (pr_expires_at req))]"

text \<open>The five public inputs \<open>defaultPublicInputs\<close> makes, listed by key.\<close>

definition input_keys :: "string list" where
  "input_keys = [''aud'', ''current_day'', ''current_month'', ''current_year'', ''nonce'']"

definition list_inputs :: "(string \<rightharpoonup> gval) \<Rightarrow> (string \<times> gval) list" where
  "list_inputs m = List.map_filter (\<lambda>k. map_option (\<lambda>v. (k, v)) (m k)) input_keys"

definition attach_callback :: "string \<Rightarrow> create_in \<Rightarrow> service \<Rightarrow> service" where
  "attach_callback i inp s =
     (if ci_callback_url inp = [] then s
      else case mem_load i (store_of s) of
        None \<Rightarrow> s
      | Some stored \<Rightarrow>
          s\<lparr>sv_store := map_option (mem_save (stored
             \<lparr>pr_callback_url := ci_callback_url inp, pr_callback_secret := ci_callback_secret inp\<rparr>))
             (sv_store s)\<rparr>)"

definition CreatePresentation ::
    "web \<Rightarrow> ('pub, 'prf, 'vk) env \<Rightarrow> ('w, 'ccs, 'pk, 'vk, 'wit, 'pub, 'prf) groth \<Rightarrow> ('vk \<Rightarrow> string res)
      \<Rightarrow> ('pk \<Rightarrow> string res) \<Rightarrow> (nat \<Rightarrow> int64) \<Rightarrow> gotime \<Rightarrow> string \<Rightarrow> string
      \<Rightarrow> string + create_in \<Rightarrow> service \<Rightarrow> response \<times> service" where
  "CreatePresentation W E B wvk wpk clk now requestID nonce bound s =
     (case bound of
        Inl err \<Rightarrow> (resp 400 (jerror (''bad json: '' @ err)), s)
      | Inr inp \<Rightarrow>
          (case CreateRequestFromSchema E B wvk wpk clk now requestID nonce (ci_schema_json inp) now s of
             (Inl e, s1) \<Rightarrow> (resp 400 (jerror (error_text (wb_lib_text W) e)), s1)
           | (Inr req, s1) \<Rightarrow>
               (case makeWalletLink (wb_query_escape W) (sv_audience s1) (pr_request_id req) of
                  (requestURL, descriptorURL, deeplink) \<Rightarrow>
                    (resp 200 (jobj
                       [(''request'', request_json req (list_inputs (pr_public_inputs req))),
                        (''request_url'', GStr requestURL), (''deeplink'', GStr deeplink),
                        (''qr_png_b64'', GStr (gl_b64_encode (en_lib E) (wb_qr_png W descriptorURL)))]),
                     attach_callback (pr_request_id req) inp s1))))"

text \<open>\<open>clk\<close> are the readings inside \<open>VerifySubmission\<close>, \<open>done\<close> the one for the answer.\<close>

definition VerifyPresentation ::
    "web \<Rightarrow> ('pub, 'prf, 'vk) env \<Rightarrow> (nat \<Rightarrow> gotime) \<Rightarrow> gotime \<Rightarrow> string + submission \<Rightarrow> service
      \<Rightarrow> response \<times> service" where
  "VerifyPresentation W E clk done' bound s =
     (case bound of
        Inl err \<Rightarrow> (resp 400 (jerror (''bad json: '' @ err)), s)
      | Inr sub \<Rightarrow>
          (case VerifySubmission E clk sub s of
             Panicked s1 \<Rightarrow> (recovered, s1)
           | Done (Inl e) s1 \<Rightarrow>
               (resp 401 (jobj [(''ok'', GBool False), (''error'', GStr (error_text (wb_lib_text W) e))]), s1)
           | Done (Inr req) s1 \<Rightarrow>
               (resp 200 (jobj [(''ok'', GBool True), (''verified_at'', GStr (en_format E done'))]), s1)))"

section \<open>Reading a request\<close>

definition ShowPresentation :: "web \<Rightarrow> gotime \<Rightarrow> string \<Rightarrow> service \<Rightarrow> response" where
  "ShowPresentation W now requestID s =
     (case mem_load requestID (store_of s) of
        None \<Rightarrow> resp 404 (jerror ''unknown request'')
      | Some req \<Rightarrow>
          if pr_expires_at req < gt_unix now then resp 410 (jerror ''expired'')
          else (case makeWalletLink (wb_query_escape W) (sv_audience s) requestID of
                  (humanURL, descriptorURL, deeplink) \<Rightarrow>
                    resp 200 (Html ''zkp_request_presentation.html'' (GMap
                      [(''RequestID'', GStr requestID), (''HumanURL'', GStr humanURL),
                       (''QRURL'', GStr (''https://quickchart.io/qr?text='' @ wb_query_escape W descriptorURL
                          @ ''&size=320''))]))))"

definition text_or_empty :: "golib \<Rightarrow> gval option \<Rightarrow> string" where
  "text_or_empty L v =
     (case v of None \<Rightarrow> [] | Some x \<Rightarrow> if is_nil x then [] else sprint L x)"

definition Descriptor :: "golib \<Rightarrow> gotime \<Rightarrow> string \<Rightarrow> service \<Rightarrow> response" where
  "Descriptor L now requestID s =
     (case mem_load requestID (store_of s) of
        None \<Rightarrow> resp 404 (jerror ''unknown request'')
      | Some req \<Rightarrow>
          if pr_expires_at req < gt_unix now then resp 410 (jerror ''expired'')
          else (let base = sv_audience s; hash = pr_schema_hash req
                in resp 200 (jobj
                     [(''request_id'', GStr (pr_request_id req)), (''audience'', GStr base),
                      (''expires_at'', GInt KInt64 (pr_expires_at req)),
                      (''challenge'', GStr (text_or_empty L (pr_public_inputs req ''challenge''))),
                      (''nonce'', GStr (text_or_empty L (pr_public_inputs req ''nonce''))),
                      (''schema'', GMap [(''hash'', GStr hash), (''uri'', GStr (base @ ''/v1/schemas/'' @ hash))]),
                      (''artifacts'', GMap
                         [(''vk_url'', GStr (base @ ''/v1/artifacts/'' @ hash @ ''/vk'')),
                          (''pk_url'', GStr (base @ ''/v1/artifacts/'' @ hash @ ''/pk''))]),
                      (''submit_url'', GStr (pr_response_uri req))])))"

definition Status :: "gotime \<Rightarrow> string \<Rightarrow> service \<Rightarrow> response" where
  "Status now requestID s =
     (case mem_load requestID (store_of s) of
        None \<Rightarrow> resp 200 (jobj [(''state'', GStr ''unknown_or_consumed'')])
      | Some req \<Rightarrow>
          if pr_expires_at req < gt_unix now then resp 200 (jobj [(''state'', GStr ''expired'')])
          else resp 200 (jobj [(''state'', GStr ''pending'')]))"

definition cached_bytes :: "(string \<rightharpoonup> string) \<Rightarrow> string \<Rightarrow> string" where
  "cached_bytes m hash = (case m hash of None \<Rightarrow> [] | Some b \<Rightarrow> b)"

definition GetVK :: "string \<Rightarrow> service \<Rightarrow> response" where
  "GetVK hash s =
     (let vk = cached_bytes (sv_vk_cache s) hash
      in if vk = [] then resp 404 (Plain ''vk not found'')
         else resp 200 (Bytes ''application/octet-stream'' vk))"

definition GetPK :: "string \<Rightarrow> service \<Rightarrow> response" where
  "GetPK hash s =
     (let pk = cached_bytes (sv_pk_cache s) hash
      in if pk = [] then resp 404 (Plain ''pk not found'')
         else resp 200 (Bytes ''application/octet-stream'' pk))"

definition Schema_handler :: "string \<Rightarrow> service \<Rightarrow> response" where
  "Schema_handler hash s =
     (let b = cached_bytes (sv_schema_cache s) hash
      in if b = [] then resp 404 (Plain ''schema not found'')
         else resp 200 (Bytes ''application/json'' b))"

definition Result :: "('pub, 'prf, 'vk) env \<Rightarrow> gotime \<Rightarrow> string \<Rightarrow> service \<Rightarrow> response" where
  "Result E now requestID s =
     (case getVerdict requestID s of
        Some v \<Rightarrow>
          resp 200 (jobj ([(''state'', GStr (vd_state v)), (''ok'', GBool (vd_ok v))]
            @ (if vd_reason v = [] then [] else [(''reason'', GStr (vd_reason v))])
            @ (case vd_verified_at v of None \<Rightarrow> [] | Some t \<Rightarrow> [(''verified_at'', GStr (en_format E t))])))
      | None \<Rightarrow>
          (case mem_load requestID (store_of s) of
             None \<Rightarrow> resp 200 (jobj [(''state'', GStr ''unknown'')])
           | Some req \<Rightarrow>
               if pr_expires_at req < gt_unix now then resp 200 (jobj [(''state'', GStr ''expired'')])
               else resp 200 (jobj [(''state'', GStr ''pending'')])))"

section \<open>The blocking endpoint\<close>

text \<open>
  \<open>VerifyBlocking\<close> up to the wait: an answer, or the request it waits for with the channel and the
  timeout in nanoseconds (a product of \<open>int64\<close>); and what it answers once the wait is over.
\<close>

datatype blocking = Answered response | Waiting string nat int

definition blocking_timeout :: "int \<Rightarrow> int" where
  "blocking_timeout secs =
     (if secs \<le> 0 then 3 * 60 * 1000000000 else sint (word_of_int secs * 1000000000 :: int64))"

definition VerifyBlocking_begin ::
    "web \<Rightarrow> ('pub, 'prf, 'vk) env \<Rightarrow> ('w, 'ccs, 'pk, 'vk, 'wit, 'pub, 'prf) groth \<Rightarrow> ('vk \<Rightarrow> string res)
      \<Rightarrow> ('pk \<Rightarrow> string res) \<Rightarrow> (nat \<Rightarrow> int64) \<Rightarrow> gotime \<Rightarrow> string \<Rightarrow> string
      \<Rightarrow> string + (string \<times> int) \<Rightarrow> service \<Rightarrow> blocking \<times> service" where
  "VerifyBlocking_begin W E B wvk wpk clk now requestID nonce bound s =
     (case bound of
        Inl err \<Rightarrow> (Answered (resp 400 (jerror (''bad json: '' @ err))), s)
      | Inr (schemaJSON, timeoutSecs) \<Rightarrow>
          (case CreateRequestFromSchema E B wvk wpk clk now requestID nonce schemaJSON now s of
             (Inl e, s1) \<Rightarrow> (Answered (resp 400 (jerror (error_text (wb_lib_text W) e))), s1)
           | (Inr req, s1) \<Rightarrow>
               (case wait_register (pr_request_id req) s1 of
                  (ch, s2) \<Rightarrow> (Waiting (pr_request_id req) ch (blocking_timeout timeoutSecs), s2))))"

definition VerifyBlocking_end :: "string \<Rightarrow> verify_result \<Rightarrow> response" where
  "VerifyBlocking_end requestID out =
     (if vr_ok out
      then resp 200 (jobj [(''ok'', GBool True), (''request_id'', GStr requestID)])
      else resp 401 (jobj ([(''ok'', GBool False)]
        @ (if vr_reason out = [] then [] else [(''reason'', GStr (vr_reason out))])
        @ (if requestID = [] then [] else [(''request_id'', GStr requestID)]))))"

end
