(* ===== verification/PresentationProps.thy ===== *)
theory PresentationProps
  imports PresentationHTTP
begin

text \<open>
  The presentation service as a state machine: one action per request the API serves and per
  event of its goroutines. Its invariant, when a submission is accepted, that a request is
  consumed once, what the echo check does not cover, and what two concurrent submissions can do.
\<close>

section \<open>What the helpers leave alone\<close>

lemma setVerdict_simps [simp]:
  "sv_store (setVerdict t i v s) = sv_store s" "sv_audience (setVerdict t i v s) = sv_audience s"
  "sv_vk_cache (setVerdict t i v s) = sv_vk_cache s" "sv_pk_cache (setVerdict t i v s) = sv_pk_cache s"
  "sv_schema_cache (setVerdict t i v s) = sv_schema_cache s" "sv_waiters (setVerdict t i v s) = sv_waiters s"
  "sv_chans (setVerdict t i v s) = sv_chans s" "sv_next_chan (setVerdict t i v s) = sv_next_chan s"
  "sv_verdicts (setVerdict t i v s) = (sv_verdicts s)(i \<mapsto> v)" "sv_webhooks (setVerdict t i v s) = sv_webhooks s"
  by (simp_all add: setVerdict_def)

lemma notifyWaiters_simps [simp]:
  "sv_store (notifyWaiters i r s) = sv_store s" "sv_audience (notifyWaiters i r s) = sv_audience s"
  "sv_vk_cache (notifyWaiters i r s) = sv_vk_cache s" "sv_pk_cache (notifyWaiters i r s) = sv_pk_cache s"
  "sv_schema_cache (notifyWaiters i r s) = sv_schema_cache s" "sv_next_chan (notifyWaiters i r s) = sv_next_chan s"
  "sv_verdicts (notifyWaiters i r s) = sv_verdicts s" "sv_webhooks (notifyWaiters i r s) = sv_webhooks s"
  "sv_waiters (notifyWaiters i r s) = (sv_waiters s)(i := None)"
  "sv_chans (notifyWaiters i r s) = send_all (waiters_of i s) r (sv_chans s)"
  by (simp_all add: notifyWaiters_def)

lemma store_delete_simps [simp]:
  "sv_audience (store_delete i s) = sv_audience s" "sv_vk_cache (store_delete i s) = sv_vk_cache s"
  "sv_pk_cache (store_delete i s) = sv_pk_cache s" "sv_schema_cache (store_delete i s) = sv_schema_cache s"
  "sv_waiters (store_delete i s) = sv_waiters s" "sv_chans (store_delete i s) = sv_chans s"
  "sv_next_chan (store_delete i s) = sv_next_chan s" "sv_verdicts (store_delete i s) = sv_verdicts s"
  "sv_webhooks (store_delete i s) = sv_webhooks s"
  by (simp_all add: store_delete_def)

lemma store_of_delete [simp]: "store_of (store_delete i s) = mem_delete i (store_of s)"
  by (cases "sv_store s") (simp_all add: store_of_def store_delete_def mem_delete_def)

text \<open>The webhook changes the log of calls and nothing else.\<close>

definition run_state :: "'a run \<Rightarrow> service" where
  "run_state r = (case r of Done x s \<Rightarrow> s | Panicked s \<Rightarrow> s)"

lemma run_state_simps [simp]: "run_state (Done x s) = s" "run_state (Panicked s) = s"
  by (simp_all add: run_state_def)

lemma postWebhook_cases:
  obtains (plain) "pr_callback_url req = []" "postWebhook E now req okay reason s = Done () s"
  | (panic) "pr_callback_url req \<noteq> []" "\<not> en_url_ok E (pr_callback_url req)"
      "postWebhook E now req okay reason s = Panicked s"
  | (posted) c where "pr_callback_url req \<noteq> []" "en_url_ok E (pr_callback_url req)"
      "wh_url c = pr_callback_url req"
      "postWebhook E now req okay reason s = Done () (s\<lparr>sv_webhooks := sv_webhooks s @ [c]\<rparr>)"
proof (cases "pr_callback_url req = []")
  case True
  then show ?thesis by (intro plain) (simp_all add: postWebhook_def)
next
  case url: False
  show ?thesis
  proof (cases "en_url_ok E (pr_callback_url req)")
    case False
    with url show ?thesis by (intro panic) (simp_all add: postWebhook_def)
  next
    case True
    obtain b sig where "postWebhook E now req okay reason s
        = Done () (s\<lparr>sv_webhooks := sv_webhooks s @
            [\<lparr>wh_url = pr_callback_url req, wh_body = b, wh_signature = sig\<rparr>]\<rparr>)"
      using url True by (simp add: postWebhook_def Let_def)
    with url True show ?thesis
      by (intro posted [of "\<lparr>wh_url = pr_callback_url req, wh_body = b, wh_signature = sig\<rparr>"]) simp_all
  qed
qed

text \<open>The webhook of a request can be sent.\<close>

definition webhook_ok :: "('pub, 'prf, 'vk) env \<Rightarrow> presentation_request \<Rightarrow> bool" where
  "webhook_ok E req = (pr_callback_url req = [] \<or> en_url_ok E (pr_callback_url req))"

section \<open>What a call leaves behind\<close>

text \<open>
  The parts of the state a final verdict touches, whether or not the webhook panics: the verdict
  and, without a panic, the waiters.
\<close>

definition same_caches :: "service \<Rightarrow> service \<Rightarrow> bool" where
  "same_caches s s' =
     (sv_audience s' = sv_audience s \<and> sv_vk_cache s' = sv_vk_cache s \<and> sv_pk_cache s' = sv_pk_cache s
      \<and> sv_schema_cache s' = sv_schema_cache s \<and> sv_next_chan s' = sv_next_chan s)"

lemma recordFail_result:
  "(webhook_ok E req \<and> (\<exists>s'. recordFail E clk req reason s = Done (Inl (Msg reason)) s'))
   \<or> (\<not> webhook_ok E req \<and> (\<exists>s'. recordFail E clk req reason s = Panicked s'))"
  by (cases rule: postWebhook_cases [of req E "clk 2" False reason "setVerdict (gt_nanos (clk 1)) (pr_request_id req)
        \<lparr>vd_ok = False, vd_reason = reason, vd_state = ''failed'', vd_verified_at = None\<rparr> s"])
    (simp_all add: recordFail_def webhook_ok_def)

lemma recordFail_state:
  "store_of (run_state (recordFail E clk req reason s)) = store_of s"
  "same_caches s (run_state (recordFail E clk req reason s))"
  "\<exists>v. sv_verdicts (run_state (recordFail E clk req reason s)) = (sv_verdicts s)(pr_request_id req \<mapsto> v)
     \<and> \<not> vd_ok v"
  by (cases rule: postWebhook_cases [of req E "clk 2" False reason "setVerdict (gt_nanos (clk 1)) (pr_request_id req)
        \<lparr>vd_ok = False, vd_reason = reason, vd_state = ''failed'', vd_verified_at = None\<rparr> s"];
      simp add: recordFail_def store_of_def same_caches_def; fastforce)+

lemma accept_result:
  "(webhook_ok E req \<and> (\<exists>s'. accept_submission E clk req i s = Done (Inr req) s'))
   \<or> (\<not> webhook_ok E req \<and> (\<exists>s'. accept_submission E clk req i s = Panicked s'))"
  by (cases rule: postWebhook_cases [of req E "clk 2" True "[]" "setVerdict (gt_nanos (clk 1)) (pr_request_id req)
        \<lparr>vd_ok = True, vd_reason = [], vd_state = ''verified'', vd_verified_at = Some (clk 1)\<rparr> (store_delete i s)"])
    (simp_all add: accept_submission_def webhook_ok_def)

lemma accept_state:
  "store_of (run_state (accept_submission E clk req i s)) = mem_delete i (store_of s)"
  "same_caches s (run_state (accept_submission E clk req i s))"
  "\<exists>v. sv_verdicts (run_state (accept_submission E clk req i s)) = (sv_verdicts s)(pr_request_id req \<mapsto> v)
     \<and> vd_ok v"
  by (cases rule: postWebhook_cases [of req E "clk 2" True "[]" "setVerdict (gt_nanos (clk 1)) (pr_request_id req)
        \<lparr>vd_ok = True, vd_reason = [], vd_state = ''verified'', vd_verified_at = Some (clk 1)\<rparr> (store_delete i s)"];
      simp add: accept_submission_def store_of_delete [unfolded store_of_def] store_of_def same_caches_def; fastforce)+

text \<open>When a submission is accepted.\<close>

definition acceptable ::
    "('pub, 'prf, 'vk) env \<Rightarrow> (nat \<Rightarrow> gotime) \<Rightarrow> submission \<Rightarrow> service \<Rightarrow> presentation_request \<Rightarrow> bool" where
  "acceptable E clk sub s req =
     (sub_request_id sub \<noteq> [] \<and> sub_blob sub \<noteq> []
      \<and> mem_load (sub_request_id sub) (store_of s) = Some req
      \<and> gt_unix (clk 0) \<le> pr_expires_at req \<and> refusal E s req sub = None)"

lemma VerifySubmission_accepts:
  "(\<exists>s'. VerifySubmission E clk sub s = Done (Inr req) s') \<longleftrightarrow> acceptable E clk sub s req \<and> webhook_ok E req"
proof (cases "sub_request_id sub = [] \<or> sub_blob sub = []")
  case True
  then show ?thesis by (auto simp: VerifySubmission_def acceptable_def)
next
  case given: False
  show ?thesis
  proof (cases "mem_load (sub_request_id sub) (store_of s)")
    case None
    with given show ?thesis by (auto simp: VerifySubmission_def acceptable_def)
  next
    case (Some r)
    show ?thesis
    proof (cases "pr_expires_at r < gt_unix (clk 0)")
      case True
      with given Some recordFail_result [of E r clk "''request expired''" "store_delete (sub_request_id sub) s"]
      show ?thesis by (auto simp: VerifySubmission_def acceptable_def)
    next
      case fresh: False
      show ?thesis
      proof (cases "refusal E s r sub")
        case None
        with given Some fresh accept_result [of E r clk "sub_request_id sub" s]
        show ?thesis by (auto simp: VerifySubmission_def acceptable_def)
      next
        case (Some reason)
        with given \<open>mem_load _ _ = Some r\<close> fresh recordFail_result [of E r clk reason s]
        show ?thesis by (auto simp: VerifySubmission_def acceptable_def)
      qed
    qed
  qed
qed

lemma refusal_None:
  "refusal E s req sub = None \<longleftrightarrow>
     (sub_public_inputs sub = []
      \<or> sprint (en_lib E) (index_any (map_of (sub_public_inputs sub)) ''aud'') = sv_audience s
        \<and> sprint (en_lib E) (index_any (map_of (sub_public_inputs sub)) ''nonce'')
            = sprint (en_lib E) (index_any (pr_public_inputs req) ''nonce'')
        \<and> sprint (en_lib E) (index_any (pr_public_inputs req) ''nonce'') \<noteq> [])
     \<and> (\<exists>raw pkg vkb vk. gl_b64_decode (en_lib E) (sub_blob sub) = Some raw
          \<and> ReconstructZkpResult (en_codec E) raw = Inr pkg
          \<and> sv_vk_cache s (pr_schema_hash req) = Some vkb \<and> vkb \<noteq> [] \<and> en_read_vk E vkb = Inr vk
          \<and> en_verify E (pf_proof pkg) vk (pf_public_witness pkg))"
  unfolding refusal_def Let_def
  by (auto split: if_splits option.splits sum.splits)

section \<open>The state machine\<close>

text \<open>
  One action per call of a handler (with the times, identifiers and the bound body of that call)
  and per event of the goroutines: a verdict timer, a receive, a timeout.
\<close>

datatype action =
    ACreate gotime string string "string + create_in"
  | ABlocking gotime string string "string + (string \<times> int)"
  | AVerify "nat \<Rightarrow> gotime" gotime "string + submission"
  | AMock "nat \<Rightarrow> gotime" string
  | ATimer nat
  | AReceive nat
  | ATimeout string nat

record ('w, 'ccs, 'pk, 'vk, 'wit, 'pub, 'prf) world =
  wd_web :: web
  wd_env :: "('pub, 'prf, 'vk) env"
  wd_groth :: "('w, 'ccs, 'pk, 'vk, 'wit, 'pub, 'prf) groth"
  wd_write_vk :: "'vk \<Rightarrow> string res"
  wd_write_pk :: "'pk \<Rightarrow> string res"
  wd_clock :: "nat \<Rightarrow> int64"

fun act :: "('w, 'ccs, 'pk, 'vk, 'wit, 'pub, 'prf) world \<Rightarrow> action \<Rightarrow> service \<Rightarrow> service" where
  "act D (ACreate now i n b) s =
     snd (CreatePresentation (wd_web D) (wd_env D) (wd_groth D) (wd_write_vk D) (wd_write_pk D) (wd_clock D) now i n b s)"
| "act D (ABlocking now i n b) s =
     snd (VerifyBlocking_begin (wd_web D) (wd_env D) (wd_groth D) (wd_write_vk D) (wd_write_pk D) (wd_clock D) now i n b s)"
| "act D (AVerify clk t b) s = snd (VerifyPresentation (wd_web D) (wd_env D) clk t b s)"
| "act D (AMock clk i) s = run_state (MockVerify (wd_env D) clk i s)"
| "act D (ATimer k) s = timer_fires k s"
| "act D (AReceive ch) s = (case wait_receive ch s of None \<Rightarrow> s | Some (r, s') \<Rightarrow> s')"
| "act D (ATimeout i ch) s = snd (wait_timeout i ch s)"

text \<open>The identifier an action gives to a new request.\<close>

fun creates :: "action \<Rightarrow> string option" where
  "creates (ACreate now i n b) = Some i"
| "creates (ABlocking now i n b) = Some i"
| "creates a = None"

fun acts :: "('w, 'ccs, 'pk, 'vk, 'wit, 'pub, 'prf) world \<Rightarrow> action list \<Rightarrow> service \<Rightarrow> service" where
  "acts D [] s = s"
| "acts D (a # as) s = acts D as (act D a s)"

text \<open>The service as \<open>main.go\<close> builds it.\<close>

definition api_service :: "string \<Rightarrow> service" where
  "api_service base =
     NewService (Some Map.empty)
       [\<lambda>s. s\<lparr>sv_audience := base\<rparr>, \<lambda>s. s\<lparr>sv_response_uri := base @ ''/v1/presentations/verify''\<rparr>,
        \<lambda>s. s\<lparr>sv_ttl := five_minutes\<rparr>]"

section \<open>The invariant\<close>

text \<open>
  Requests are stored under their own identifier with a nonce and a schema whose keys are cached,
  the three caches have the same keys and a schema is cached under its hash. No channel is registered
  twice, for one request or for two, a registered channel is known and empty, so that the send of an
  answer to it is never dropped; channels not yet given out hold nothing.
\<close>

definition request_ok :: "service \<Rightarrow> string \<Rightarrow> presentation_request \<Rightarrow> bool" where
  "request_ok s i r =
     (pr_request_id r = i \<and> (\<exists>n. pr_public_inputs r ''nonce'' = Some (GStr n))
      \<and> pr_schema_hash r \<in> dom (sv_vk_cache s))"

definition caches_ok :: "golib \<Rightarrow> service \<Rightarrow> bool" where
  "caches_ok L s =
     (dom (sv_pk_cache s) = dom (sv_vk_cache s) \<and> dom (sv_schema_cache s) = dom (sv_vk_cache s)
      \<and> (\<forall>h canon. sv_schema_cache s h = Some canon \<longrightarrow> h = schema_hash_of L canon))"

definition channels_ok :: "service \<Rightarrow> bool" where
  "channels_ok s =
     ((\<forall>i. distinct (waiters_of i s))
      \<and> (\<forall>i j. i \<noteq> j \<longrightarrow> set (waiters_of i s) \<inter> set (waiters_of j s) = {})
      \<and> (\<forall>i. \<forall>ch\<in>set (waiters_of i s). ch < sv_next_chan s \<and> sv_chans s ch = None)
      \<and> (\<forall>ch. sv_next_chan s \<le> ch \<longrightarrow> sv_chans s ch = None))"

definition service_inv :: "golib \<Rightarrow> service \<Rightarrow> bool" where
  "service_inv L s =
     (sv_store s \<noteq> None \<and> (\<forall>i r. store_of s i = Some r \<longrightarrow> request_ok s i r) \<and> caches_ok L s
      \<and> channels_ok s)"

lemma channels_ok_update [simp]:
  "channels_ok (s\<lparr>sv_store := st\<rparr>) = channels_ok s" "channels_ok (s\<lparr>sv_verdicts := vs\<rparr>) = channels_ok s"
  "channels_ok (s\<lparr>sv_timers := ts\<rparr>) = channels_ok s" "channels_ok (s\<lparr>sv_webhooks := ws\<rparr>) = channels_ok s"
  "channels_ok (s\<lparr>sv_vk_cache := m\<rparr>) = channels_ok s" "channels_ok (s\<lparr>sv_pk_cache := m\<rparr>) = channels_ok s"
  "channels_ok (s\<lparr>sv_schema_cache := m\<rparr>) = channels_ok s"
  by (simp_all add: channels_ok_def waiters_of_def)

lemma channels_okI:
  assumes "channels_ok s" and "sv_next_chan s' = sv_next_chan s"
    and "\<And>i. distinct (waiters_of i s) \<Longrightarrow> distinct (waiters_of i s')"
    and "\<And>i. set (waiters_of i s') \<subseteq> set (waiters_of i s)"
    and "\<And>ch. sv_chans s ch = None \<Longrightarrow> sv_next_chan s \<le> ch \<or> (\<exists>i. ch \<in> set (waiters_of i s')) \<Longrightarrow> sv_chans s' ch = None"
  shows "channels_ok s'"
  unfolding channels_ok_def
proof (intro conjI allI impI ballI)
  show "distinct (waiters_of i s')" for i using assms(1,3) by (simp add: channels_ok_def)
  show "i \<noteq> j \<Longrightarrow> set (waiters_of i s') \<inter> set (waiters_of j s') = {}" for i j
    using assms(1,4) unfolding channels_ok_def by blast
  fix i ch assume ch: "ch \<in> set (waiters_of i s')"
  then have "ch < sv_next_chan s \<and> sv_chans s ch = None"
    using assms(1,4) unfolding channels_ok_def by blast
  then show "ch < sv_next_chan s'" "sv_chans s' ch = None" using assms(2,5) ch by auto
next
  show "sv_next_chan s' \<le> ch \<Longrightarrow> sv_chans s' ch = None" for ch
    using assms(1,2,5) by (simp add: channels_ok_def)
qed

lemma service_invI:
  assumes "service_inv L s" and "sv_store s' \<noteq> None"
    and "\<And>i r. store_of s' i = Some r \<Longrightarrow> store_of s i = Some r"
    and "sv_vk_cache s' = sv_vk_cache s" and "sv_pk_cache s' = sv_pk_cache s"
    and "sv_schema_cache s' = sv_schema_cache s" and "channels_ok s \<Longrightarrow> channels_ok s'"
  shows "service_inv L s'"
proof -
  have "request_ok s' = request_ok s" "caches_ok L s' = caches_ok L s"
    by (simp_all add: request_ok_def [abs_def] caches_ok_def assms(4-6))
  then show ?thesis using assms(1-3,7) by (simp add: service_inv_def)
qed

lemma service_invD:
  assumes "service_inv L s"
  shows "sv_store s \<noteq> None" and "store_of s i = Some r \<Longrightarrow> request_ok s i r" and "caches_ok L s"
    and "sv_next_chan s \<le> ch \<Longrightarrow> sv_chans s ch = None"
    and "ch \<in> set (waiters_of i s) \<Longrightarrow> ch < sv_next_chan s"
    and "ch \<in> set (waiters_of i s) \<Longrightarrow> ch \<in> set (waiters_of j s) \<Longrightarrow> i = j"
proof -
  have c: "channels_ok s" and r: "\<forall>i r. store_of s i = Some r \<longrightarrow> request_ok s i r"
    using assms by (simp_all add: service_inv_def)
  show "sv_store s \<noteq> None" "caches_ok L s" using assms by (simp_all add: service_inv_def)
  show "store_of s i = Some r \<Longrightarrow> request_ok s i r" using r by simp
  show "sv_next_chan s \<le> ch \<Longrightarrow> sv_chans s ch = None" "ch \<in> set (waiters_of i s) \<Longrightarrow> ch < sv_next_chan s"
    using c by (simp_all add: channels_ok_def)
  show "ch \<in> set (waiters_of i s) \<Longrightarrow> ch \<in> set (waiters_of j s) \<Longrightarrow> i = j"
    using c unfolding channels_ok_def by blast
qed

lemma send_all_untouched: "ch \<notin> set chs \<Longrightarrow> send_all chs r m ch = m ch"
proof (induction chs arbitrary: m)
  case Nil
  show ?case by simp
next
  case (Cons c chs)
  then show ?case by (simp split: option.splits)
qed

lemma send_all_delivers:
  assumes "ch \<in> set chs" and "m ch = None" shows "send_all chs r m ch = Some r"
proof -
  have keep: "send_all chs r m ch = Some x" if "m ch = Some x" for chs m x
    using that
  proof (induction chs arbitrary: m)
    case Nil
    then show ?case by simp
  next
    case (Cons c chs)
    then have "(case m c of None \<Rightarrow> m(c \<mapsto> r) | Some y \<Rightarrow> m) ch = Some x" by (auto split: option.split)
    then show ?case using Cons.IH by simp
  qed
  show ?thesis using assms
  proof (induction chs arbitrary: m)
    case Nil
    then show ?case by simp
  next
    case (Cons c chs)
    show ?case
    proof (cases "c = ch")
      case True
      then show ?thesis using Cons.prems keep by simp
    next
      case False
      then show ?thesis using Cons by (simp split: option.splits)
    qed
  qed
qed

text \<open>Every piece of a handler keeps the invariant.\<close>

lemma setVerdict_inv: assumes "service_inv L s" shows "service_inv L (setVerdict t i v s)"
  by (rule service_invI [OF assms]) (use service_invD(1) [OF assms] in \<open>auto simp: store_of_def setVerdict_def\<close>)

lemma waiters_of_notify: "waiters_of j (notifyWaiters i r s) = (if j = i then [] else waiters_of j s)"
  by (simp add: waiters_of_def)

lemma notifyWaiters_inv:
  assumes "service_inv L s" shows "service_inv L (notifyWaiters i r s)"
proof (rule service_invI [OF assms])
  show "sv_store (notifyWaiters i r s) \<noteq> None" using service_invD(1) [OF assms] by simp
  assume "channels_ok s"
  then show "channels_ok (notifyWaiters i r s)"
  proof (rule channels_okI)
    fix ch assume "sv_chans s ch = None"
      and "sv_next_chan s \<le> ch \<or> (\<exists>j. ch \<in> set (waiters_of j (notifyWaiters i r s)))"
    moreover have "ch \<notin> set (waiters_of i s)"
    proof
      assume w: "ch \<in> set (waiters_of i s)"
      then have "\<not> sv_next_chan s \<le> ch" using service_invD(5) [OF assms] by fastforce
      with calculation(2) obtain j where "j \<noteq> i" "ch \<in> set (waiters_of j s)"
        by (auto simp: waiters_of_notify split: if_splits)
      with w show False using service_invD(6) [OF assms] by blast
    qed
    ultimately show "sv_chans (notifyWaiters i r s) ch = None" by (simp add: send_all_untouched)
  qed (simp_all add: waiters_of_notify)
qed (simp_all add: store_of_def)

lemma store_delete_inv:
  assumes "service_inv L s" shows "service_inv L (store_delete i s)"
proof (rule service_invI [OF assms])
  show "sv_store (store_delete i s) \<noteq> None"
    using service_invD(1) [OF assms] by (simp add: store_delete_def)
  fix j r assume "store_of (store_delete i s) j = Some r"
  then show "store_of s j = Some r" by (simp add: mem_delete_def split: if_splits)
qed (auto simp: store_delete_def)

lemma webhooks_inv: assumes "service_inv L s" shows "service_inv L (s\<lparr>sv_webhooks := w\<rparr>)"
  by (rule service_invI [OF assms]) (use service_invD(1) [OF assms] in \<open>auto simp: store_of_def setVerdict_def\<close>)

lemma postWebhook_inv:
  "service_inv L s \<Longrightarrow> service_inv L (run_state (postWebhook E now req okay reason s))"
  by (cases rule: postWebhook_cases [of req E now okay reason s]) (simp_all add: webhooks_inv)

lemmas piece_inv = setVerdict_inv notifyWaiters_inv store_delete_inv postWebhook_inv

text \<open>A verdict, a webhook and the notification, the tail of every final answer.\<close>

lemma verdict_tail_inv:
  assumes "service_inv L s"
  shows "service_inv L (run_state (case postWebhook E now req okay reason s of
      Panicked s1 \<Rightarrow> Panicked s1 | Done u s1 \<Rightarrow> Done x (notifyWaiters i r s1)))"
proof -
  have "service_inv L (run_state (postWebhook E now req okay reason s))" by (rule postWebhook_inv [OF assms])
  then show ?thesis by (cases "postWebhook E now req okay reason s") (simp_all add: notifyWaiters_inv)
qed

lemma recordFail_inv: "service_inv L s \<Longrightarrow> service_inv L (run_state (recordFail E clk req reason s))"
  unfolding recordFail_def by (intro verdict_tail_inv setVerdict_inv)

lemma accept_inv: "service_inv L s \<Longrightarrow> service_inv L (run_state (accept_submission E clk req i s))"
  unfolding accept_submission_def by (intro verdict_tail_inv setVerdict_inv store_delete_inv)

lemma VerifySubmission_inv:
  "service_inv L s \<Longrightarrow> service_inv L (run_state (VerifySubmission E clk sub s))"
  unfolding VerifySubmission_def
  by (auto intro!: recordFail_inv accept_inv store_delete_inv split: option.split)

lemma MockVerify_inv: "service_inv L s \<Longrightarrow> service_inv L (run_state (MockVerify E clk i s))"
  unfolding MockVerify_def
  by (auto intro!: verdict_tail_inv setVerdict_inv store_delete_inv split: option.split)

lemma ensureVK_cases:
  assumes "ensureVKForSchema L B wvk wpk clk canon s = (r, s')"
  obtains (failed) e where "r = Inl e" "s' = s"
  | (cached) "r = Inr (schema_hash_of L canon)" "s' = s" "schema_hash_of L canon \<in> dom (sv_vk_cache s)"
  | (fresh) vkb pkb where "r = Inr (schema_hash_of L canon)"
      "s' = s\<lparr>sv_vk_cache := (sv_vk_cache s)(schema_hash_of L canon \<mapsto> vkb),
              sv_pk_cache := (sv_pk_cache s)(schema_hash_of L canon \<mapsto> pkb),
              sv_schema_cache := (sv_schema_cache s)(schema_hash_of L canon \<mapsto> canon)\<rparr>"
  using assms unfolding ensureVKForSchema_def Let_def
  by (auto split: if_splits sum.splits prod.splits)

lemma ensureVK_inv:
  assumes "service_inv L s" and "ensureVKForSchema L B wvk wpk clk canon s = (r, s')"
  shows "service_inv L s'" and "r = Inr h \<Longrightarrow> h \<in> dom (sv_vk_cache s')"
    and "store_of s' = store_of s"
  using assms
  by (cases rule: ensureVK_cases [OF assms(2)];
      force simp: service_inv_def request_ok_def caches_ok_def store_of_def)+

text \<open>What a successful creation returns and stores.\<close>

lemma CreateRequest_cases:
  assumes "CreateRequestFromSchema E B wvk wpk clk cur i n json now s = (r, s')"
  obtains (failed) e where "r = Inl e" "s' = s"
  | (made) req canon s1 where "r = Inr req" "ensureVKForSchema (en_lib E) B wvk wpk clk canon s = (Inr (pr_schema_hash req), s1)"
      "canonicalJSON E json = Inr canon" "pr_request_id req = i"
      "pr_public_inputs req = defaultPublicInputs cur n now s1"
      "pr_expires_at req = (gt_nanos now + defaultTTL s1) div 1000000000"
      "pr_callback_url req = []" "sv_store s \<noteq> None"
      "s' = s1\<lparr>sv_store := map_option (mem_save req) (sv_store s1)\<rparr>"
proof (cases "sv_store s = None \<or> \<not> sv_allow_adhoc s \<or> \<not> ok (canonicalJSON E json)")
  case True
  then have "(\<exists>e. r = Inl e) \<and> s' = s"
    using assms by (auto simp: CreateRequestFromSchema_def ok_def split: option.splits sum.splits if_splits)
  then show ?thesis using failed by blast
next
  case False
  then obtain canon where canon: "canonicalJSON E json = Inr canon" by (auto simp: ok_iff)
  obtain q s1 where q: "ensureVKForSchema (en_lib E) B wvk wpk clk canon s = (q, s1)" by fastforce
  show ?thesis
  proof (cases q)
    case (Inl e)
    then have "s1 = s" by (cases rule: ensureVK_cases [OF q]) auto
    with Inl q canon False assms have "(\<exists>e. r = Inl e) \<and> s' = s"
      by (auto simp: CreateRequestFromSchema_def)
    then show ?thesis using failed by blast
  next
    case (Inr h)
    show ?thesis
      by (rule made [of "\<lparr>pr_request_id = i, pr_schema_json = canon, pr_schema_hash = h,
                      pr_public_inputs = defaultPublicInputs cur n now s1,
                      pr_response_uri = sv_response_uri s1,
                      pr_expires_at = (gt_nanos now + defaultTTL s1) div 1000000000,
                      pr_callback_url = [], pr_callback_secret = []\<rparr>" canon s1])
        (use Inr q canon False assms in \<open>auto simp: CreateRequestFromSchema_def Let_def\<close>)
  qed
qed

lemma store_save_inv:
  assumes "service_inv L s" and "request_ok s (pr_request_id req) req"
  shows "service_inv L (s\<lparr>sv_store := map_option (mem_save req) (sv_store s)\<rparr>)"
proof -
  let ?s = "s\<lparr>sv_store := map_option (mem_save req) (sv_store s)\<rparr>"
  have ok: "request_ok ?s i r = request_ok s i r" for i r by (simp add: request_ok_def)
  have "store_of ?s = mem_save req (store_of s)"
    using service_invD(1) [OF assms(1)] by (auto simp: store_of_def)
  then have "store_of ?s i = Some r \<Longrightarrow> request_ok ?s i r" for i r
    using service_invD(2) [OF assms(1), of i r] assms(2) unfolding ok
    by (auto simp: mem_save_def split: if_splits)
  then show ?thesis
    using assms(1) by (auto simp: service_inv_def caches_ok_def)
qed

lemma store_of_save:
  "sv_store s \<noteq> None \<Longrightarrow>
   store_of (s\<lparr>sv_store := map_option (mem_save req) (sv_store s)\<rparr>) = mem_save req (store_of s)"
  by (auto simp: store_of_def)

lemma CreateRequest_inv:
  assumes inv: "service_inv (en_lib E) s"
    and c: "CreateRequestFromSchema E B wvk wpk clk cur i n json now s = (r, s')"
  shows "service_inv (en_lib E) s'"
    and "r = Inr req \<Longrightarrow> pr_request_id req = i \<and> store_of s' = (store_of s)(i \<mapsto> req)"
    and "r = Inl e \<Longrightarrow> store_of s' = store_of s"
proof -
  have *: "service_inv (en_lib E) s'
      \<and> (\<forall>q. r = Inr q \<longrightarrow> pr_request_id q = i \<and> store_of s' = (store_of s)(i \<mapsto> q))
      \<and> (\<forall>e. r = Inl e \<longrightarrow> store_of s' = store_of s)"
    using c
  proof (cases rule: CreateRequest_cases)
    case failed
    with inv show ?thesis by simp
  next
    case (made q canon s1)
    note e = ensureVK_inv [OF inv made(2)]
    have "request_ok s1 i q"
      using made e(2) by (simp add: request_ok_def defaultPublicInputs_def Let_def)
    then show ?thesis
      using store_save_inv [OF e(1), of q] made e(3) service_invD(1) [OF e(1)]
      by (simp add: store_of_save mem_save_def)
  qed
  then show "service_inv (en_lib E) s'"
    "r = Inr req \<Longrightarrow> pr_request_id req = i \<and> store_of s' = (store_of s)(i \<mapsto> req)"
    "r = Inl e \<Longrightarrow> store_of s' = store_of s" by auto
qed

lemma attach_callback_inv:
  assumes "service_inv L s"
  shows "service_inv L (attach_callback i b s)"
proof (cases "ci_callback_url b = [] \<or> store_of s i = None")
  case True
  with assms show ?thesis by (auto simp: attach_callback_def mem_load_def)
next
  case False
  then obtain r where r: "store_of s i = Some r" "ci_callback_url b \<noteq> []" by auto
  have "request_ok s i r" using service_invD(2) [OF assms r(1)] .
  then have "service_inv L (s\<lparr>sv_store := map_option (mem_save (r
      \<lparr>pr_callback_url := ci_callback_url b, pr_callback_secret := ci_callback_secret b\<rparr>)) (sv_store s)\<rparr>)"
    by (intro store_save_inv [OF assms]) (simp add: request_ok_def)
  with r show ?thesis by (simp add: attach_callback_def mem_load_def)
qed

lemma CreatePresentation_inv:
  assumes "service_inv (en_lib E) s"
  shows "service_inv (en_lib E) (snd (CreatePresentation W E B wvk wpk clk now i n b s))"
proof (cases b)
  case (Inl e)
  with assms show ?thesis by (simp add: CreatePresentation_def)
next
  case (Inr inp)
  obtain r s1 where c: "CreateRequestFromSchema E B wvk wpk clk now i n (ci_schema_json inp) now s = (r, s1)"
    by fastforce
  note inv1 = CreateRequest_inv(1) [OF assms c]
  show ?thesis using inv1 Inr c
    by (cases r) (auto simp: CreatePresentation_def attach_callback_inv split: prod.split)
qed

lemma waiters_of_register:
  "waiters_of j (snd (wait_register i s)) = (if j = i then waiters_of i s @ [sv_next_chan s] else waiters_of j s)"
  by (simp add: wait_register_def waiters_of_def)

lemma wait_register_inv:
  assumes "service_inv L s" shows "service_inv L (snd (wait_register i s))"
proof (rule service_invI [OF assms])
  assume ok: "channels_ok s"
  then have old: "ch < sv_next_chan s" if "ch \<in> set (waiters_of j s)" for ch j
    using that unfolding channels_ok_def by blast
  then have new: "sv_next_chan s \<notin> set (waiters_of j s)" for j by blast
  show "channels_ok (snd (wait_register i s))"
    unfolding channels_ok_def waiters_of_register
  proof (intro conjI allI impI ballI)
    fix j k
    show "distinct (if j = i then waiters_of i s @ [sv_next_chan s] else waiters_of j s)"
      using ok new by (simp add: channels_ok_def)
    assume "j \<noteq> k"
    then show "set (if j = i then waiters_of i s @ [sv_next_chan s] else waiters_of j s)
        \<inter> set (if k = i then waiters_of i s @ [sv_next_chan s] else waiters_of k s) = {}"
      using ok new by (simp add: channels_ok_def)
  qed (use ok in \<open>auto simp: wait_register_def channels_ok_def less_Suc_eq split: if_splits\<close>)
qed (use service_invD(1) [OF assms] in \<open>simp_all add: wait_register_def store_of_def\<close>)

lemma VerifyBlocking_inv:
  assumes "service_inv (en_lib E) s"
  shows "service_inv (en_lib E) (snd (VerifyBlocking_begin W E B wvk wpk clk now i n b s))"
proof (cases b)
  case (Inl e)
  with assms show ?thesis by (simp add: VerifyBlocking_begin_def)
next
  case (Inr inp)
  obtain json t where inp: "inp = (json, t)" by fastforce
  obtain r s1 where c: "CreateRequestFromSchema E B wvk wpk clk now i n json now s = (r, s1)"
    by fastforce
  note inv1 = CreateRequest_inv(1) [OF assms c]
  show ?thesis using inv1 wait_register_inv [OF inv1] Inr c inp
    by (cases r) (simp_all add: VerifyBlocking_begin_def case_prod_beta)
qed

lemma timer_inv: assumes "service_inv L s" shows "service_inv L (timer_fires k s)"
  by (rule service_invI [OF assms])
    (use service_invD(1) [OF assms] in \<open>auto simp: timer_fires_def store_of_def\<close>)

lemma receive_inv:
  assumes "service_inv L s" and "wait_receive ch s = Some (r, s')" shows "service_inv L s'"
proof (rule service_invI [OF assms(1)])
  show "channels_ok s \<Longrightarrow> channels_ok s'"
    using assms(2) by (elim channels_okI) (auto simp: wait_receive_def waiters_of_def split: option.splits)
qed (use service_invD(1) [OF assms(1)] assms(2) in \<open>auto simp: wait_receive_def store_of_def split: option.splits\<close>)

lemma waiters_of_timeout:
  "waiters_of j (snd (wait_timeout i ch s)) = (if j = i then filter (\<lambda>c. c \<noteq> ch) (waiters_of i s) else waiters_of j s)"
  by (simp add: wait_timeout_def Let_def waiters_of_def)

lemma timeout_inv: assumes "service_inv L s" shows "service_inv L (snd (wait_timeout i ch s))"
proof (rule service_invI [OF assms])
  show "channels_ok s \<Longrightarrow> channels_ok (snd (wait_timeout i ch s))"
    by (elim channels_okI) (auto simp: waiters_of_timeout, simp_all add: wait_timeout_def Let_def)
qed (use service_invD(1) [OF assms] in \<open>auto simp: wait_timeout_def Let_def store_of_def\<close>)

lemma VerifyPresentation_state:
  "snd (VerifyPresentation W E clk t b s) =
     (case b of Inl e \<Rightarrow> s | Inr sub \<Rightarrow> run_state (VerifySubmission E clk sub s))"
  by (simp add: VerifyPresentation_def run_state_def split: sum.split run.split)

lemma act_inv: "service_inv (en_lib (wd_env D)) s \<Longrightarrow> service_inv (en_lib (wd_env D)) (act D a s)"
proof (cases a)
  case (AVerify clk t b)
  assume inv: "service_inv (en_lib (wd_env D)) s"
  then show ?thesis
    using AVerify by (simp add: VerifyPresentation_state VerifySubmission_inv split: sum.split)
qed (auto intro: CreatePresentation_inv VerifyBlocking_inv MockVerify_inv timer_inv timeout_inv receive_inv
    split: option.split)

lemma acts_inv: "service_inv (en_lib (wd_env D)) s \<Longrightarrow> service_inv (en_lib (wd_env D)) (acts D as s)"
  by (induction D as s rule: acts.induct) (auto intro: act_inv)

lemma api_service_inv: "service_inv L (api_service base)"
  by (simp add: service_inv_def api_service_def NewService_def store_of_def caches_ok_def channels_ok_def waiters_of_def)

section \<open>Consumed requests\<close>

lemma tail_store:
  "store_of (run_state (case postWebhook E now req okay reason s of
      Panicked s1 \<Rightarrow> Panicked s1 | Done u s1 \<Rightarrow> Done x (notifyWaiters i r s1))) = store_of s"
  by (cases rule: postWebhook_cases [of req E now okay reason s]) (simp_all add: store_of_def)

lemma store_of_setVerdict [simp]: "store_of (setVerdict t i v s) = store_of s"
  by (simp add: store_of_def)

text \<open>A call on the store of a submission is at most the deletion of its own request.\<close>

lemma VerifySubmission_store:
  "store_of (run_state (VerifySubmission E clk sub s)) = store_of s
   \<or> store_of (run_state (VerifySubmission E clk sub s)) = mem_delete (sub_request_id sub) (store_of s)"
  unfolding VerifySubmission_def recordFail_def accept_submission_def
  by (auto simp: tail_store split: option.split)

lemma MockVerify_store:
  "store_of (run_state (MockVerify E clk i s)) = store_of s
   \<or> store_of (run_state (MockVerify E clk i s)) = mem_delete i (store_of s)"
  unfolding MockVerify_def by (auto simp: tail_store split: option.split)

lemma act_keeps_absent:
  assumes inv: "service_inv (en_lib (wd_env D)) s" and none: "mem_load i (store_of s) = None"
    and new: "creates a \<noteq> Some i"
  shows "mem_load i (store_of (act D a s)) = None"
proof (cases a)
  case (ACreate now j n b)
  show ?thesis
  proof (cases b)
    case (Inl e)
    with ACreate none show ?thesis by (simp add: CreatePresentation_def)
  next
    case (Inr inp)
    obtain r s1 where c: "CreateRequestFromSchema (wd_env D) (wd_groth D) (wd_write_vk D) (wd_write_pk D)
        (wd_clock D) now j n (ci_schema_json inp) now s = (r, s1)" by fastforce
    note C = CreateRequest_inv [OF inv c]
    have j: "j \<noteq> i" using new ACreate by simp
    have att: "mem_load i (store_of (attach_callback j inp s1)) = mem_load i (store_of s1)"
    proof (cases "ci_callback_url inp = [] \<or> store_of s1 j = None")
      case True
      then show ?thesis by (auto simp: attach_callback_def mem_load_def)
    next
      case False
      then obtain r1 where r1: "store_of s1 j = Some r1" by auto
      then have "pr_request_id r1 = j" using service_invD(2) [OF C(1)] by (simp add: request_ok_def)
      with r1 False j show ?thesis
        using store_of_save [OF service_invD(1) [OF C(1)]] by (simp add: attach_callback_def mem_load_def mem_save_def)
    qed
    show ?thesis
    proof (cases r)
      case (Inl e)
      then show ?thesis using ACreate Inr c C(3) none by (simp add: CreatePresentation_def)
    next
      case r: (Inr req)
      then show ?thesis using ACreate \<open>b = Inr inp\<close> c C(2) none att j
        by (simp add: CreatePresentation_def case_prod_beta mem_load_def)
    qed
  qed
next
  case (ABlocking now j n b)
  show ?thesis
  proof (cases b)
    case (Inl e)
    with ABlocking none show ?thesis by (simp add: VerifyBlocking_begin_def)
  next
    case (Inr inp)
    obtain json t where inp: "inp = (json, t)" by fastforce
    obtain r s1 where c: "CreateRequestFromSchema (wd_env D) (wd_groth D) (wd_write_vk D) (wd_write_pk D)
        (wd_clock D) now j n json now s = (r, s1)" by fastforce
    note C = CreateRequest_inv [OF inv c]
    show ?thesis
    proof (cases r)
      case (Inl e)
      then show ?thesis using ABlocking Inr inp c C(3) none by (simp add: VerifyBlocking_begin_def)
    next
      case r: (Inr req)
      then show ?thesis using ABlocking \<open>b = Inr inp\<close> inp c C(2) none new
        by (simp add: VerifyBlocking_begin_def case_prod_beta mem_load_def wait_register_def store_of_def)
    qed
  qed
next
  case (AVerify clk t b)
  then show ?thesis
    using none VerifySubmission_store [of "wd_env D" clk _ s] mem.load_delete
    by (auto simp: VerifyPresentation_state split: sum.split) (metis mem.load_delete)
next
  case (AMock clk j)
  then show ?thesis using none MockVerify_store [of "wd_env D" clk j s] mem.load_delete by (auto split: if_splits)
next
  case (AReceive ch)
  then show ?thesis using none by (auto simp: wait_receive_def store_of_def split: option.split)
qed (use none in \<open>simp_all add: timer_fires_def wait_timeout_def Let_def store_of_def\<close>)

lemma acts_keep_absent:
  "service_inv (en_lib (wd_env D)) s \<Longrightarrow> mem_load i (store_of s) = None \<Longrightarrow> \<forall>a\<in>set as. creates a \<noteq> Some i \<Longrightarrow>
   mem_load i (store_of (acts D as s)) = None"
  by (induction D as s rule: acts.induct) (simp_all add: act_inv act_keeps_absent)

section \<open>Channels of other requests\<close>

text \<open>The actions that submit for a request.\<close>

fun submits_for :: "string \<Rightarrow> action \<Rightarrow> bool" where
  "submits_for i (AVerify clk t (Inr sub)) = (sub_request_id sub = i)"
| "submits_for i (AMock clk j) = (j = i)"
| "submits_for i a = False"

definition only_waits_for :: "string \<Rightarrow> nat \<Rightarrow> service \<Rightarrow> bool" where
  "only_waits_for i ch s =
     (sv_chans s ch = None \<and> ch < sv_next_chan s \<and> (\<forall>j. j \<noteq> i \<longrightarrow> ch \<notin> set (waiters_of j s)))"

lemma only_waits_cong:
  "sv_chans s' = sv_chans s \<Longrightarrow> sv_next_chan s' = sv_next_chan s \<Longrightarrow> sv_waiters s' = sv_waiters s \<Longrightarrow>
   only_waits_for i ch s' = only_waits_for i ch s"
  by (simp add: only_waits_for_def waiters_of_def)

lemma only_waits_notify:
  "only_waits_for i ch s \<Longrightarrow> j \<noteq> i \<Longrightarrow> only_waits_for i ch (notifyWaiters j r s)"
  by (auto simp: only_waits_for_def send_all_untouched) (auto simp: waiters_of_def split: if_splits)

lemma only_waits_tail:
  assumes "only_waits_for i ch s" and "j \<noteq> i"
  shows "only_waits_for i ch (run_state (case postWebhook E now req okay reason s of
      Panicked s1 \<Rightarrow> Panicked s1 | Done u s1 \<Rightarrow> Done x (notifyWaiters j r s1)))"
proof -
  have "only_waits_for i ch (s\<lparr>sv_webhooks := w\<rparr>)" for w
    using assms(1) only_waits_cong [of "s\<lparr>sv_webhooks := w\<rparr>" s] by simp
  then show ?thesis
    by (cases rule: postWebhook_cases [of req E now okay reason s]) (simp_all add: assms only_waits_notify)
qed

lemma only_waits_verdict [simp]: "only_waits_for i ch (setVerdict t j v s) = only_waits_for i ch s"
  and only_waits_delete [simp]: "only_waits_for i ch (store_delete j s) = only_waits_for i ch s"
  by (simp_all add: only_waits_for_def waiters_of_def)

lemma VerifySubmission_only_waits:
  assumes "service_inv L s" and "only_waits_for i ch s" and "sub_request_id sub \<noteq> i"
  shows "only_waits_for i ch (run_state (VerifySubmission E clk sub s))"
proof (cases "mem_load (sub_request_id sub) (store_of s)")
  case None
  with assms show ?thesis by (simp add: VerifySubmission_def)
next
  case (Some req)
  then have "pr_request_id req \<noteq> i"
    using service_invD(2) [OF assms(1)] assms(3) by (auto simp: mem_load_def request_ok_def)
  with Some assms show ?thesis
    unfolding VerifySubmission_def recordFail_def accept_submission_def
    by (auto intro!: only_waits_tail split: option.split)
qed

lemma CreateRequest_only_waits:
  assumes "CreateRequestFromSchema E B wvk wpk clk cur k n json now s = (r, s')"
  shows "only_waits_for i ch s' = only_waits_for i ch s"
  using assms
proof (cases rule: CreateRequest_cases)
  case (made req canon s1)
  have "sv_chans s1 = sv_chans s \<and> sv_next_chan s1 = sv_next_chan s \<and> sv_waiters s1 = sv_waiters s"
    by (cases rule: ensureVK_cases [OF made(2)]) auto
  with made show ?thesis by (intro only_waits_cong) simp_all
qed simp

lemma only_waits_attach: "only_waits_for i ch (attach_callback k inp s) = only_waits_for i ch s"
  by (rule only_waits_cong) (auto simp: attach_callback_def split: option.split)

lemma only_waits_register:
  "only_waits_for i ch s \<Longrightarrow> only_waits_for i ch (snd (wait_register k s))"
  by (auto simp: only_waits_for_def wait_register_def waiters_of_def split: if_splits)

lemma act_only_waits:
  assumes inv: "service_inv (en_lib (wd_env D)) s" and w: "only_waits_for i ch s"
    and a: "\<not> submits_for i a"
  shows "only_waits_for i ch (act D a s)"
proof (cases a)
  case (ACreate now k n b)
  show ?thesis
  proof (cases b)
    case (Inl e)
    with ACreate w show ?thesis by (simp add: CreatePresentation_def)
  next
    case (Inr inp)
    obtain r s1 where c: "CreateRequestFromSchema (wd_env D) (wd_groth D) (wd_write_vk D) (wd_write_pk D)
        (wd_clock D) now k n (ci_schema_json inp) now s = (r, s1)" by fastforce
    then have "only_waits_for i ch s1" using w CreateRequest_only_waits by blast
    then show ?thesis using ACreate Inr c
      by (cases r) (simp_all add: CreatePresentation_def case_prod_beta only_waits_attach)
  qed
next
  case (ABlocking now k n b)
  show ?thesis
  proof (cases b)
    case (Inl e)
    with ABlocking w show ?thesis by (simp add: VerifyBlocking_begin_def)
  next
    case (Inr inp)
    obtain json t where inp: "inp = (json, t)" by fastforce
    obtain r s1 where c: "CreateRequestFromSchema (wd_env D) (wd_groth D) (wd_write_vk D) (wd_write_pk D)
        (wd_clock D) now k n json now s = (r, s1)" by fastforce
    then have "only_waits_for i ch s1" using w CreateRequest_only_waits by blast
    then show ?thesis using ABlocking Inr inp c only_waits_register
      by (cases r) (simp_all add: VerifyBlocking_begin_def case_prod_beta)
  qed
next
  case (AVerify clk t b)
  then show ?thesis
    using VerifySubmission_only_waits [OF inv w] w a by (auto simp: VerifyPresentation_state split: sum.splits)
next
  case (AMock clk j)
  with w a show ?thesis
    by (auto simp: MockVerify_def intro!: only_waits_tail split: option.split)
next
  case (AReceive c)
  then show ?thesis using w
    by (auto simp: wait_receive_def only_waits_for_def waiters_of_def split: option.split)
next
  case (ATimeout j c)
  then show ?thesis using w
    by (auto simp: wait_timeout_def Let_def only_waits_for_def waiters_of_def split: option.splits if_splits)
next
  case (ATimer k)
  then show ?thesis using w only_waits_cong [of "timer_fires k s" s] by (simp add: timer_fires_def)
qed

lemma acts_only_waits:
  "service_inv (en_lib (wd_env D)) s \<Longrightarrow> only_waits_for i ch s \<Longrightarrow> \<forall>a\<in>set as. \<not> submits_for i a \<Longrightarrow>
   only_waits_for i ch (acts D as s)"
  by (induction D as s rule: acts.induct) (simp_all add: act_inv act_only_waits)

section \<open>A concrete service\<close>

definition demo_env :: "(string, string, string) env" where
  "demo_env =
     \<lparr>en_lib = plain_lib, en_encode = \<lambda>v. Some [],
      en_codec = \<lparr>pc_write_proof = Inr, pc_read_proof = Inr, pc_write_witness = Inr, pc_read_witness = Inr,
        pc_borsh = \<lambda>p. Inr (fst p), pc_unborsh = \<lambda>b. Inr (b, [])\<rparr>,
      en_read_vk = Inr, en_verify = \<lambda>prf vk pub. prf = ''good'', en_url_ok = \<lambda>u. False,
      en_hmac = \<lambda>k m. m, en_format = \<lambda>t. []\<rparr>"

definition demo_time :: "nat \<Rightarrow> gotime" where
  "demo_time k = \<lparr>gt_nanos = 0, gt_date = \<lparr>d_year = 1970, d_month = 1, d_day = 1\<rparr>, gt_is_zero = False\<rparr>"

definition demo_request :: "string \<Rightarrow> string \<Rightarrow> presentation_request" where
  "demo_request i url = \<lparr>pr_request_id = i, pr_schema_json = [], pr_schema_hash = ''sha256:'',
     pr_public_inputs = [''nonce'' \<mapsto> GStr (''n'' @ i)], pr_response_uri = [], pr_expires_at = 100,
     pr_callback_url = url, pr_callback_secret = []\<rparr>"

definition demo_service :: service where
  "demo_service = (api_service ''aud'')
     \<lparr>sv_store := Some [''r1'' \<mapsto> demo_request ''r1'' [], ''r2'' \<mapsto> demo_request ''r2'' [],
                     ''r3'' \<mapsto> demo_request ''r3'' ''::''],
      sv_vk_cache := [''sha256:'' \<mapsto> ''k''], sv_pk_cache := [''sha256:'' \<mapsto> ''k''],
      sv_schema_cache := [''sha256:'' \<mapsto> []]\<rparr>"

definition demo_sub :: "string \<Rightarrow> string \<Rightarrow> (string \<times> gval) list \<Rightarrow> submission" where
  "demo_sub i blob inputs =
     \<lparr>sub_request_id = i, sub_blob = blob, sub_public_inputs = inputs, sub_challenge = []\<rparr>"

lemmas demo_defs = demo_env_def demo_time_def demo_request_def demo_service_def demo_sub_def
  api_service_def NewService_def plain_lib_def store_of_def mem_load_def

lemma demo_service_inv: "service_inv (en_lib demo_env) demo_service"
  by (auto simp: service_inv_def request_ok_def caches_ok_def channels_ok_def waiters_of_def schema_hash_of_def demo_defs
      split: if_splits)

lemma demo_acceptable:
  "acceptable demo_env demo_time (demo_sub ''r1'' ''good'' []) demo_service (demo_request ''r1'' [])"
  "acceptable demo_env demo_time (demo_sub ''r3'' ''good'' []) demo_service (demo_request ''r3'' ''::'')"
  by (simp_all add: acceptable_def refusal_None ReconstructZkpResult_def gt_unix_def) (simp_all add: demo_defs)

lemma demo_verifies:
  obtains s1 where "VerifySubmission demo_env demo_time (demo_sub ''r1'' ''good'' []) demo_service
    = Done (Inr (demo_request ''r1'' [])) s1"
proof -
  have "webhook_ok demo_env (demo_request ''r1'' [])" by (simp add: webhook_ok_def demo_request_def)
  with demo_acceptable(1) VerifySubmission_accepts that show ?thesis by blast
qed

section \<open>Properties\<close>

text \<open>
  C1. A submission is accepted exactly when it names a pending request that has not expired, its
  blob is a proof package that verifies under the key cached for the schema of the request, and,
  when it comes with public inputs at all, these echo the audience of the service and the nonce
  of the request. (The call of the webhook must not panic.)
\<close>

theorem VerifySubmission_accepts_iff:
  "(\<exists>s'. VerifySubmission E clk sub s = Done (Inr req) s') \<longleftrightarrow>
     sub_request_id sub \<noteq> [] \<and> sub_blob sub \<noteq> []
     \<and> mem_load (sub_request_id sub) (store_of s) = Some req \<and> gt_unix (clk 0) \<le> pr_expires_at req
     \<and> (sub_public_inputs sub = []
        \<or> sprint (en_lib E) (index_any (map_of (sub_public_inputs sub)) ''aud'') = sv_audience s
          \<and> sprint (en_lib E) (index_any (map_of (sub_public_inputs sub)) ''nonce'')
              = sprint (en_lib E) (index_any (pr_public_inputs req) ''nonce'')
          \<and> sprint (en_lib E) (index_any (pr_public_inputs req) ''nonce'') \<noteq> [])
     \<and> (\<exists>raw pkg vkb vk. gl_b64_decode (en_lib E) (sub_blob sub) = Some raw
          \<and> ReconstructZkpResult (en_codec E) raw = Inr pkg
          \<and> sv_vk_cache s (pr_schema_hash req) = Some vkb \<and> vkb \<noteq> [] \<and> en_read_vk E vkb = Inr vk
          \<and> en_verify E (pf_proof pkg) vk (pf_public_witness pkg))
     \<and> (pr_callback_url req = [] \<or> en_url_ok E (pr_callback_url req))"
  unfolding VerifySubmission_accepts acceptable_def refusal_None webhook_ok_def by blast

text \<open>
  C2. In every state the API can reach, each pending request is stored under its own identifier,
  carries a nonce, and the verifying key, the proving key and the schema of its hash are cached; every
  channel on which a caller waits is registered once and for one request only, was given out, and is
  empty, so that the answer sent to it is not dropped.
\<close>

theorem service_invariant:
  "service_inv (en_lib (wd_env D)) (acts D as (api_service base))"
  by (intro acts_inv api_service_inv)

text \<open>
  C3. A request is consumed once: after an accepted submission, and whatever the service does
  afterwards short of giving a new request the same identifier, every submission for it is
  refused as not found or already used.
\<close>

theorem accepted_request_is_consumed:
  assumes "service_inv (en_lib (wd_env D)) s"
    and "VerifySubmission (wd_env D) clk sub s = Done (Inr req) s1"
    and "\<forall>a\<in>set as. creates a \<noteq> Some (sub_request_id sub)"
    and "sub_request_id sub' = sub_request_id sub" and "sub_blob sub' \<noteq> []"
  shows "VerifySubmission (wd_env D) clk' sub' (acts D as s1)
    = Done (Inl (Msg ''request not found or already used'')) (acts D as s1)"
proof -
  have acc: "acceptable (wd_env D) clk sub s req" using assms(2) VerifySubmission_accepts by blast
  have "run_state (VerifySubmission (wd_env D) clk sub s) = run_state (accept_submission (wd_env D) clk req (sub_request_id sub) s)"
    using acc by (simp add: acceptable_def VerifySubmission_def not_less)
  then have "store_of s1 = mem_delete (sub_request_id sub) (store_of s)"
    using assms(2) accept_state(1) [of "wd_env D" clk req "sub_request_id sub" s] by simp
  then have "mem_load (sub_request_id sub) (store_of s1) = None" by (simp add: mem.load_delete)
  moreover have "service_inv (en_lib (wd_env D)) s1"
    using VerifySubmission_inv [OF assms(1), of "wd_env D" clk sub] assms(2) by simp
  ultimately have "mem_load (sub_request_id sub) (store_of (acts D as s1)) = None"
    using acts_keep_absent assms(3) by blast
  then show ?thesis
    using acc assms(4,5) by (simp add: VerifySubmission_def acceptable_def)
qed

definition demo_world :: "(unit, unit, string, string, unit, string, string) world" where
  "demo_world =
     \<lparr>wd_web = \<lparr>wb_lib_text = id, wb_query_escape = id, wb_qr_png = id\<rparr>, wd_env = demo_env,
      wd_groth = \<lparr>gr_api = \<lparr>gk_add = \<lambda>x y. x, gk_sub = \<lambda>x y. x, gk_is_zero = id, gk_select = \<lambda>b x y. x,
          gk_and = \<lambda>x y. x\<rparr>, gr_secret_wire = \<lambda>i. (), gr_public_wire = \<lambda>i. (),
        gr_compile = \<lambda>as. Inr (), gr_setup = \<lambda>c. Inr ([], []), gr_witness = \<lambda>x y. Inr (),
        gr_prove = \<lambda>c k w. Inr [], gr_public = \<lambda>w. Inr []\<rparr>,
      wd_write_vk = Inr, wd_write_pk = Inr, wd_clock = \<lambda>k. 0\<rparr>"

theorem accepted_request_is_consumed_witness:
  "\<exists>s1. VerifySubmission demo_env demo_time (demo_sub ''r1'' ''good'' []) (acts demo_world [AMock demo_time ''r2''] s1)
     = Done (Inl (Msg ''request not found or already used'')) (acts demo_world [AMock demo_time ''r2''] s1)"
proof -
  have d: "wd_env demo_world = demo_env" by (simp add: demo_world_def)
  obtain s1 where v: "VerifySubmission demo_env demo_time (demo_sub ''r1'' ''good'' []) demo_service
    = Done (Inr (demo_request ''r1'' [])) s1" by (rule demo_verifies)
  from accepted_request_is_consumed [of demo_world demo_service demo_time "demo_sub ''r1'' ''good'' []" _ s1
      "[AMock demo_time ''r2'']" "demo_sub ''r1'' ''good'' []" demo_time, unfolded d, OF demo_service_inv v]
  show ?thesis by (simp add: demo_sub_def) blast
qed

text \<open>
  C24. What the echo check does not bind: the nonce of a request enters neither the key nor the
  proof, and a submission without public inputs skips the check. So an accepted proof is
  accepted again, unchanged, for every other pending request with the same schema.
\<close>

theorem accepted_proof_replays:
  assumes "VerifySubmission E clk sub s = Done (Inr req) s1"
    and "mem_load j (store_of s1) = Some req2" and "j \<noteq> []"
    and "pr_schema_hash req2 = pr_schema_hash req" and "gt_unix (clk2 0) \<le> pr_expires_at req2"
    and "webhook_ok E req2"
  shows "\<exists>s2. VerifySubmission E clk2
      \<lparr>sub_request_id = j, sub_blob = sub_blob sub, sub_public_inputs = [], sub_challenge = []\<rparr> s1
    = Done (Inr req2) s2"
proof -
  have acc: "acceptable E clk sub s req" using assms(1) VerifySubmission_accepts by blast
  have "run_state (VerifySubmission E clk sub s) = run_state (accept_submission E clk req (sub_request_id sub) s)"
    using acc by (simp add: acceptable_def VerifySubmission_def not_less)
  then have "sv_vk_cache s1 = sv_vk_cache s"
    using assms(1) accept_state(2) [of s E clk req "sub_request_id sub"] by (simp add: same_caches_def)
  moreover from acc have "sub_blob sub \<noteq> []" "refusal E s req sub = None" by (simp_all add: acceptable_def)
  ultimately have "acceptable E clk2 \<lparr>sub_request_id = j, sub_blob = sub_blob sub, sub_public_inputs = [],
      sub_challenge = []\<rparr> s1 req2"
    using assms(2-5) by (simp add: acceptable_def refusal_None)
  then show ?thesis using assms(6) VerifySubmission_accepts by blast
qed

theorem accepted_proof_replays_witness:
  "\<exists>s1 s2. VerifySubmission demo_env demo_time (demo_sub ''r1'' ''good'' []) demo_service
      = Done (Inr (demo_request ''r1'' [])) s1
    \<and> VerifySubmission demo_env demo_time (demo_sub ''r2'' ''good'' []) s1
      = Done (Inr (demo_request ''r2'' [])) s2"
proof -
  obtain s1 where v: "VerifySubmission demo_env demo_time (demo_sub ''r1'' ''good'' []) demo_service
    = Done (Inr (demo_request ''r1'' [])) s1" by (rule demo_verifies)
  have "s1 = run_state (accept_submission demo_env demo_time (demo_request ''r1'' []) ''r1'' demo_service)"
    using v demo_acceptable(1) by (simp add: acceptable_def VerifySubmission_def demo_sub_def not_less
        run_state_def split: run.splits)
  then have "mem_load ''r2'' (store_of s1) = Some (demo_request ''r2'' [])"
    by (simp add: accept_state(1) mem.load_delete) (simp add: demo_defs)
  from accepted_proof_replays [OF v this, of demo_time] v show ?thesis
    by (auto simp: demo_sub_def demo_request_def demo_time_def gt_unix_def webhook_ok_def)
qed

text \<open>
  A refused submission does not end the request: the right proof is still accepted. But it is
  reported as final, to the verdict table and to every blocked caller; so anyone who knows the
  identifier makes the relying party see a failure.
\<close>

theorem refused_submission_is_not_final:
  assumes "acceptable E clk2 good s req" and "webhook_ok E req"
    and "sub_request_id bad = sub_request_id good" and "sub_blob bad \<noteq> []"
    and "gt_unix (clk 0) \<le> pr_expires_at req" and "refusal E s req bad = Some reason"
    and "pr_request_id req = sub_request_id good"
  shows "\<exists>s1 s2. VerifySubmission E clk bad s = Done (Inl (Msg reason)) s1
    \<and> map_option vd_state (getVerdict (sub_request_id good) s1) = Some ''failed''
    \<and> waiters_of (sub_request_id good) s1 = []
    \<and> VerifySubmission E clk2 good s1 = Done (Inr req) s2
    \<and> map_option vd_state (getVerdict (sub_request_id good) s2) = Some ''verified''"
proof -
  have bad: "VerifySubmission E clk bad s = recordFail E clk req reason s"
    using assms(1,3-6) by (simp add: VerifySubmission_def acceptable_def not_less)
  obtain s1 where s1: "recordFail E clk req reason s = Done (Inl (Msg reason)) s1"
    "map_option vd_state (getVerdict (pr_request_id req) s1) = Some ''failed''"
    "waiters_of (pr_request_id req) s1 = []" "sv_store s1 = sv_store s" "sv_vk_cache s1 = sv_vk_cache s"
    "sv_audience s1 = sv_audience s"
    by (cases rule: postWebhook_cases [of req E "clk 2" False reason "setVerdict (gt_nanos (clk 1)) (pr_request_id req)
        \<lparr>vd_ok = False, vd_reason = reason, vd_state = ''failed'', vd_verified_at = None\<rparr> s"])
      (use assms(2) in \<open>auto simp: recordFail_def webhook_ok_def getVerdict_def waiters_of_def\<close>)
  have "acceptable E clk2 good s1 req"
    using assms(1) s1(4-6) by (simp add: acceptable_def refusal_None store_of_def)
  then obtain s2 where s2: "accept_submission E clk2 req (sub_request_id good) s1 = Done (Inr req) s2"
    "VerifySubmission E clk2 good s1 = Done (Inr req) s2"
    using accept_result [of E req clk2 "sub_request_id good" s1] assms(2)
    by (auto simp: VerifySubmission_def acceptable_def)
  have "map_option vd_state (getVerdict (pr_request_id req) s2) = Some ''verified''"
    by (cases rule: postWebhook_cases [of req E "clk2 2" True "[]" "setVerdict (gt_nanos (clk2 1)) (pr_request_id req)
        \<lparr>vd_ok = True, vd_reason = [], vd_state = ''verified'', vd_verified_at = Some (clk2 1)\<rparr>
        (store_delete (sub_request_id good) s1)"])
      (use s2(1) assms(2) in \<open>auto simp: accept_submission_def webhook_ok_def getVerdict_def\<close>)
  then show ?thesis using bad s1 s2(2) assms(7) by auto
qed

theorem refused_submission_is_not_final_witness:
  "\<exists>s1 s2. VerifySubmission demo_env demo_time (demo_sub ''r1'' ''bad'' []) demo_service
      = Done (Inl (Msg ''verify failed'')) s1
    \<and> VerifySubmission demo_env demo_time (demo_sub ''r1'' ''good'' []) s1 = Done (Inr (demo_request ''r1'' [])) s2"
proof -
  have "refusal demo_env demo_service (demo_request ''r1'' []) (demo_sub ''r1'' ''bad'' []) = Some ''verify failed''"
    by (simp add: refusal_def ReconstructZkpResult_def demo_defs)
  from refused_submission_is_not_final [OF demo_acceptable(1) _ _ _ _ this, of demo_time]
  show ?thesis by (auto simp: demo_sub_def demo_request_def demo_time_def gt_unix_def webhook_ok_def)
qed

text \<open>
  A caller blocked on a request is told: when the proof for it is accepted while the caller
  waits, the result is in the caller's channel.
\<close>

theorem blocked_caller_is_told:
  assumes "service_inv (en_lib E) s"
    and "VerifyBlocking_begin W E B wvk wpk zclk now i n b s = (Waiting i ch t, s1)"
    and "VerifySubmission E clk sub s1 = Done (Inr req) s2" and "sub_request_id sub = i"
  shows "map_option fst (wait_receive ch s2) = Some \<lparr>vr_ok = True, vr_reason = []\<rparr>"
proof -
  have inv1: "service_inv (en_lib E) s1" using VerifyBlocking_inv [OF assms(1)] assms(2) by (metis snd_conv)
  from assms(2) obtain s0 req0 where w: "wait_register i s0 = (ch, s1)" "service_inv (en_lib E) s0"
    using CreateRequest_inv(1) [OF assms(1)]
    by (auto simp: VerifyBlocking_begin_def split: sum.splits prod.splits) blast
  then have ch: "ch \<in> set (waiters_of i s1)" "sv_chans s1 ch = None"
    using service_invD(4) [OF w(2), of "sv_next_chan s0"] by (auto simp: wait_register_def waiters_of_def)
  have acc: "acceptable E clk sub s1 req" "webhook_ok E req" using assms(3) VerifySubmission_accepts by blast+
  have i: "pr_request_id req = i"
    using service_invD(2) [OF inv1, of i req] acc(1) assms(4)
    by (simp add: acceptable_def request_ok_def mem_load_def)
  have "accept_submission E clk req i s1 = Done (Inr req) s2"
    using assms(3,4) acc(1) by (simp add: acceptable_def VerifySubmission_def not_less)
  moreover have "sv_chans (run_state (accept_submission E clk req i s1)) = send_all (waiters_of i s1)
      \<lparr>vr_ok = True, vr_reason = []\<rparr> (sv_chans s1)"
    by (cases rule: postWebhook_cases [of req E "clk 2" True "[]" "setVerdict (gt_nanos (clk 1)) (pr_request_id req)
        \<lparr>vd_ok = True, vd_reason = [], vd_state = ''verified'', vd_verified_at = Some (clk 1)\<rparr> (store_delete i s1)"])
      (use acc(2) i in \<open>auto simp: accept_submission_def webhook_ok_def waiters_of_def\<close>)
  ultimately show ?thesis using send_all_delivers [where m = "sv_chans s1", OF ch] by (simp add: wait_receive_def)
qed

theorem blocked_caller_is_told_witness:
  "\<exists>s1 s2. VerifyBlocking_begin (wd_web demo_world) demo_env (wd_groth demo_world) Inr Inr (\<lambda>k. 0)
      (demo_time 0) ''r9'' ''n9'' (Inr ([], 60)) demo_service = (Waiting ''r9'' 0 60000000000, s1)
    \<and> map_option fst (wait_receive 0 s2) = Some \<lparr>vr_ok = True, vr_reason = []\<rparr>"
proof -
  obtain req s1 where b: "VerifyBlocking_begin (wd_web demo_world) demo_env (wd_groth demo_world) Inr Inr (\<lambda>k. 0)
      (demo_time 0) ''r9'' ''n9'' (Inr ([], 60)) demo_service = (Waiting ''r9'' 0 60000000000, s1)"
    "mem_load ''r9'' (store_of s1) = Some req" "pr_expires_at req = 300" "pr_schema_hash req = ''sha256:''"
    "pr_callback_url req = []" "sv_vk_cache s1 = [''sha256:'' \<mapsto> ''k'']"
    by (simp add: VerifyBlocking_begin_def CreateRequestFromSchema_def canonicalJSON_def chop_newline_def
        ensureVKForSchema_def schema_hash_of_def Let_def wait_register_def blocking_timeout_def
        mem_save_def defaultTTL_def five_minutes_def demo_defs)
  have "acceptable demo_env demo_time (demo_sub ''r9'' ''good'' []) s1 req"
    using b(2-4,6) by (simp add: acceptable_def refusal_None ReconstructZkpResult_def gt_unix_def)
      (simp add: demo_env_def demo_sub_def demo_time_def plain_lib_def)
  moreover have "webhook_ok demo_env req" by (simp add: webhook_ok_def b(5))
  ultimately obtain s2 where "VerifySubmission demo_env demo_time (demo_sub ''r9'' ''good'' []) s1 = Done (Inr req) s2"
    using VerifySubmission_accepts by blast
  from blocked_caller_is_told [OF demo_service_inv b(1) this] b(1) show ?thesis
    by (auto simp: demo_sub_def)
qed

text \<open>
  The webhook can take the answer with it: for a request whose callback URL is malformed, a
  correct proof is consumed and recorded as verified, yet the wallet is answered 500 and the
  blocked callers are never told.
\<close>

theorem malformed_callback_panics:
  assumes "acceptable E clk sub s req" and "\<not> webhook_ok E req" and "pr_request_id req = sub_request_id sub"
    and "VerifyPresentation W E clk t (Inr sub) s = (answer, s')"
  shows "rs_status answer = 500 \<and> mem_load (sub_request_id sub) (store_of s') = None
    \<and> map_option vd_state (getVerdict (sub_request_id sub) s') = Some ''verified''
    \<and> sv_waiters s' = sv_waiters s \<and> sv_chans s' = sv_chans s"
proof -
  let ?v = "\<lparr>vd_ok = True, vd_reason = [], vd_state = ''verified'', vd_verified_at = Some (clk 1)\<rparr>"
  have "VerifySubmission E clk sub s
      = Panicked (setVerdict (gt_nanos (clk 1)) (pr_request_id req) ?v (store_delete (sub_request_id sub) s))"
    using assms(1,2) by (simp add: VerifySubmission_def acceptable_def not_less accept_submission_def
        webhook_ok_def postWebhook_def)
  then show ?thesis
    using assms(3,4)
    by (auto simp: VerifyPresentation_def recovered_def resp_def mem.load_delete getVerdict_def)
qed

theorem malformed_callback_panics_witness:
  "rs_status (fst (VerifyPresentation (wd_web demo_world) demo_env demo_time (demo_time 5)
     (Inr (demo_sub ''r3'' ''good'' [])) demo_service)) = 500"
  using malformed_callback_panics [OF demo_acceptable(2) _ _ prod.collapse [symmetric],
      of "wd_web demo_world" "demo_time 5"]
  by (simp add: demo_defs webhook_ok_def)

text \<open>
  A verdict can be forgotten early: the goroutine of an earlier failure deletes the later
  success when its own fifteen minutes are over, and \<open>Result\<close> then answers \<open>unknown\<close>.
\<close>

theorem verdict_is_forgotten_early:
  assumes "s2 = setVerdict t2 i v2 (setVerdict t1 i v1 s)" and "mem_load i (store_of s) = None"
  shows "getVerdict i s2 = Some v2 \<and> sv_timers s2 ! length (sv_timers s) = (i, t1 + fifteen_minutes)
    \<and> rs_body (Result E now i (timer_fires (length (sv_timers s)) s2)) = jobj [(''state'', GStr ''unknown'')]"
  using assms
  by (simp add: getVerdict_def setVerdict_def timer_fires_def nth_append Result_def store_of_def resp_def)

theorem verdict_is_forgotten_early_witness:
  "rs_body (Result demo_env (demo_time 0) ''r9'' (timer_fires 0
     (setVerdict 800 ''r9'' \<lparr>vd_ok = True, vd_reason = [], vd_state = ''verified'', vd_verified_at = Some (demo_time 0)\<rparr>
       (setVerdict 0 ''r9'' \<lparr>vd_ok = False, vd_reason = [], vd_state = ''failed'', vd_verified_at = None\<rparr> demo_service))))
   = jobj [(''state'', GStr ''unknown'')]"
proof -
  have r9: "mem_load ''r9'' (store_of demo_service) = None" "length (sv_timers demo_service) = 0"
    by (simp_all add: demo_defs)
  show ?thesis
    by (rule verdict_is_forgotten_early [OF refl r9(1), unfolded r9(2), THEN conjunct2, THEN conjunct2])
qed

text \<open>
  C32. The blocking endpoint answers nothing before its wait is over, so nobody learns the identifier
  of the request it made; and as long as no submission names that identifier the wait can only
  time out, with the answer 401.
\<close>

theorem blocking_endpoint_times_out:
  assumes "service_inv (en_lib (wd_env D)) s"
    and "VerifyBlocking_begin (wd_web D) (wd_env D) (wd_groth D) (wd_write_vk D) (wd_write_pk D) (wd_clock D)
      now i n b s = (Waiting i ch t, s1)"
    and "\<forall>a\<in>set as. \<not> submits_for i a"
  shows "wait_receive ch (acts D as s1) = None
    \<and> rs_status (VerifyBlocking_end i (fst (wait_timeout i ch (acts D as s1)))) = 401"
proof -
  have inv1: "service_inv (en_lib (wd_env D)) s1" using VerifyBlocking_inv [OF assms(1)] assms(2) by (metis snd_conv)
  from assms(2) obtain s0 where w: "wait_register i s0 = (ch, s1)" "service_inv (en_lib (wd_env D)) s0"
    using CreateRequest_inv(1) [OF assms(1)]
    by (auto simp: VerifyBlocking_begin_def split: sum.splits prod.splits) blast
  have "ch \<notin> set (waiters_of j s0)" for j
    using service_invD(5) [OF w(2), of ch j] w(1) by (auto simp: wait_register_def)
  then have "only_waits_for i ch s1"
    using w service_invD(4) [OF w(2), of ch]
    by (auto simp: only_waits_for_def wait_register_def waiters_of_def)
  then have "only_waits_for i ch (acts D as s1)" by (rule acts_only_waits [OF inv1 _ assms(3)])
  then show ?thesis
    by (simp add: only_waits_for_def wait_receive_def VerifyBlocking_end_def wait_timeout_def Let_def resp_def)
qed

theorem blocking_endpoint_times_out_witness:
  "\<exists>s1. VerifyBlocking_begin (wd_web demo_world) (wd_env demo_world) (wd_groth demo_world)
      (wd_write_vk demo_world) (wd_write_pk demo_world) (wd_clock demo_world)
      (demo_time 0) ''r9'' ''n9'' (Inr ([], 60)) demo_service = (Waiting ''r9'' 0 60000000000, s1)
    \<and> wait_receive 0 (acts demo_world [AMock demo_time ''r1'', ATimer 0] s1) = None"
proof -
  obtain s1 where b: "VerifyBlocking_begin (wd_web demo_world) (wd_env demo_world) (wd_groth demo_world)
      (wd_write_vk demo_world) (wd_write_pk demo_world) (wd_clock demo_world)
      (demo_time 0) ''r9'' ''n9'' (Inr ([], 60)) demo_service = (Waiting ''r9'' 0 60000000000, s1)"
    by (simp add: VerifyBlocking_begin_def CreateRequestFromSchema_def canonicalJSON_def chop_newline_def
        ensureVKForSchema_def schema_hash_of_def Let_def wait_register_def blocking_timeout_def
        mem_save_def defaultTTL_def five_minutes_def demo_world_def demo_defs)
  have "service_inv (en_lib (wd_env demo_world)) demo_service"
    using demo_service_inv by (simp add: demo_world_def)
  from blocking_endpoint_times_out [OF this b, of "[AMock demo_time ''r1'', ATimer 0]"]
  show ?thesis using b by auto
qed

end
