(* ===== verification/PresentationRace.thy ===== *)
theory PresentationRace
  imports PresentationProps
begin

text \<open>
  Concurrent submissions. The service takes no lock around \<open>VerifySubmission\<close>: the request is loaded
  first and deleted only after the proof has been verified. The step relation interleaves any
  number of calls at that point; each half is one step.
\<close>

section \<open>Interleaved submissions\<close>

datatype thread =
    Started submission
  | Verified submission presentation_request
  | Finished "presentation_request res"

inductive vstep ::
    "('pub, 'prf, 'vk) env \<Rightarrow> (nat \<Rightarrow> gotime) \<Rightarrow> service \<times> thread list \<Rightarrow> service \<times> thread list \<Rightarrow> bool"
  for E :: "('pub, 'prf, 'vk) env" and clk :: "nat \<Rightarrow> gotime" where
  verified: "k < length ts \<Longrightarrow> ts ! k = Started sub \<Longrightarrow> acceptable E clk sub s req \<Longrightarrow>
    vstep E clk (s, ts) (s, ts[k := Verified sub req])"
| refused: "k < length ts \<Longrightarrow> ts ! k = Started sub \<Longrightarrow> VerifySubmission E clk sub s = Done (Inl e) s' \<Longrightarrow>
    vstep E clk (s, ts) (s', ts[k := Finished (Inl e)])"
| consumed: "k < length ts \<Longrightarrow> ts ! k = Verified sub req \<Longrightarrow>
    accept_submission E clk req (sub_request_id sub) s = Done r s' \<Longrightarrow>
    vstep E clk (s, ts) (s', ts[k := Finished r])"

inductive_cases vstepE: "vstep E clk (s, ts) (s', ts')"

inductive_simps vstep_nil: "vstep E clk (s, []) c"

inductive vsteps ::
    "('pub, 'prf, 'vk) env \<Rightarrow> (nat \<Rightarrow> gotime) \<Rightarrow> service \<times> thread list \<Rightarrow> service \<times> thread list \<Rightarrow> bool"
  for E :: "('pub, 'prf, 'vk) env" and clk :: "nat \<Rightarrow> gotime" where
  vrefl: "vsteps E clk c c"
| vtrans: "vsteps E clk c c' \<Longrightarrow> vstep E clk c' c'' \<Longrightarrow> vsteps E clk c c''"

section \<open>What every interleaving respects\<close>

lemma accept_done_Inr:
  "accept_submission E clk req i s = Done r s' \<Longrightarrow> r = Inr req"
  by (auto simp: accept_submission_def split: run.splits)

lemma vstep_store: "vstep E clk (s, ts) (s', ts') \<Longrightarrow> store_of s' \<subseteq>\<^sub>m store_of s"
proof (erule vstepE)
  fix k sub req assume "s' = s"
  then show "store_of s' \<subseteq>\<^sub>m store_of s" by simp
next
  fix k sub e assume "VerifySubmission E clk sub s = Done (Inl e) s'"
  then show "store_of s' \<subseteq>\<^sub>m store_of s"
    using VerifySubmission_store [of E clk sub s] by (auto simp: map_le_def mem_delete_def split: if_splits)
next
  fix k sub req r assume "accept_submission E clk req (sub_request_id sub) s = Done r s'"
  then show "store_of s' \<subseteq>\<^sub>m store_of s"
    using accept_state(1) [of E clk req "sub_request_id sub" s] by (auto simp: map_le_def mem_delete_def split: if_splits)
qed

definition sound_threads :: "mem_store \<Rightarrow> thread list \<Rightarrow> bool" where
  "sound_threads m ts =
     ((\<forall>sub req. Verified sub req \<in> set ts \<longrightarrow> m (sub_request_id sub) = Some req)
      \<and> (\<forall>req. Finished (Inr req) \<in> set ts \<longrightarrow> req \<in> ran m))"

lemma set_update_cases: "x \<in> set (ts[k := y]) \<Longrightarrow> x = y \<or> x \<in> set ts"
  using set_update_subset_insert [of ts k y] by blast

lemma sound_update:
  assumes "sound_threads m ts"
    and "\<And>sub req. y = Verified sub req \<Longrightarrow> m (sub_request_id sub) = Some req"
    and "\<And>req. y = Finished (Inr req) \<Longrightarrow> req \<in> ran m"
  shows "sound_threads m (ts[k := y])"
  unfolding sound_threads_def
proof (intro conjI allI impI)
  fix sub req assume "Verified sub req \<in> set (ts[k := y])"
  then have "Verified sub req = y \<or> Verified sub req \<in> set ts" by (rule set_update_cases)
  then show "m (sub_request_id sub) = Some req"
    using assms(1) assms(2) [of sub req] unfolding sound_threads_def by fastforce
next
  fix req :: presentation_request assume "Finished (Inr req) \<in> set (ts[k := y])"
  then have "Finished (Inr req) = y \<or> Finished (Inr req) \<in> set ts" by (rule set_update_cases)
  then show "req \<in> ran m"
    using assms(1) assms(3) [of req] unfolding sound_threads_def by fastforce
qed

lemma vstep_sound:
  assumes "vstep E clk (s, ts) (s', ts')" and "store_of s \<subseteq>\<^sub>m m" and "sound_threads m ts"
  shows "sound_threads m ts'"
  using assms(1)
proof (rule vstepE)
  fix k sub req
  assume k: "ts' = ts[k := Verified sub req]" "acceptable E clk sub s req"
  then have "m (sub_request_id sub) = Some req"
    using assms(2) by (auto simp: acceptable_def mem_load_def map_le_def dom_def)
  then show ?thesis unfolding k(1) by (intro sound_update [OF assms(3)]) auto
next
  fix k sub e
  assume k: "ts' = ts[k := Finished (Inl e)]"
  show ?thesis unfolding k by (intro sound_update [OF assms(3)]) auto
next
  fix k sub req r
  assume k: "ts' = ts[k := Finished r]" "k < length ts" "ts ! k = Verified sub req"
    "accept_submission E clk req (sub_request_id sub) s = Done r s'"
  have "Verified sub req \<in> set ts" using k(2,3) by (metis nth_mem)
  then have "req \<in> ran m" using assms(3) by (auto simp: sound_threads_def intro: ranI)
  then show ?thesis unfolding k(1)
    using accept_done_Inr [OF k(4)] by (intro sound_update [OF assms(3)]) auto
qed

lemma vsteps_sound:
  assumes "vsteps E clk c c'"
  shows "store_of (fst c) \<subseteq>\<^sub>m m \<Longrightarrow> sound_threads m (snd c) \<Longrightarrow>
    store_of (fst c') \<subseteq>\<^sub>m m \<and> sound_threads m (snd c')"
  using assms
proof (induction rule: vsteps.induct)
  case (vrefl c)
  then show ?case by simp
next
  case (vtrans c c' c'')
  obtain s ts s' ts' where c: "c' = (s, ts)" "c'' = (s', ts')" by (cases c', cases c'')
  with vtrans have "store_of s \<subseteq>\<^sub>m m" "sound_threads m ts" "vstep E clk (s, ts) (s', ts')" by auto
  then show ?case
    using c vstep_store vstep_sound by (metis fst_conv map_le_trans snd_conv)
qed

section \<open>Properties\<close>

text \<open>
  However submissions interleave, one is answered with success only for a request that was
  pending at the beginning.
\<close>

theorem concurrent_success_needs_request:
  assumes "vsteps E clk (s, map Started subs) (s', ts)" and "Finished (Inr req) \<in> set ts"
  shows "req \<in> ran (store_of s)"
proof -
  have "sound_threads (store_of s) (map Started subs)" by (auto simp: sound_threads_def)
  then show ?thesis
    using vsteps_sound [OF assms(1), of "store_of s"] assms(2) by (simp add: sound_threads_def)
qed

text \<open>
  C23. A request is not consumed once when submissions run concurrently: two calls that both load it
  before either deletes it are both answered with success, where one after the other the second
  is refused.
\<close>

theorem concurrent_submissions_both_succeed:
  assumes "acceptable E clk sub s req" and "webhook_ok E req"
  shows "\<exists>s'. vsteps E clk (s, [Started sub, Started sub]) (s', [Finished (Inr req), Finished (Inr req)])"
proof -
  let ?i = "sub_request_id sub"
  have 1: "vstep E clk (s, [Started sub, Started sub]) (s, [Verified sub req, Started sub])"
    using vstep.verified [of 0 "[Started sub, Started sub]" sub E clk s req] assms(1) by simp
  have 2: "vstep E clk (s, [Verified sub req, Started sub]) (s, [Verified sub req, Verified sub req])"
    using vstep.verified [of 1 "[Verified sub req, Started sub]" sub E clk s req] assms(1) by simp
  obtain s1 where s1: "accept_submission E clk req ?i s = Done (Inr req) s1"
    using accept_result [of E req clk ?i s] assms(2) by blast
  have 3: "vstep E clk (s, [Verified sub req, Verified sub req]) (s1, [Finished (Inr req), Verified sub req])"
    using vstep.consumed [of 0 "[Verified sub req, Verified sub req]" sub req E clk s, OF _ _ s1] by simp
  obtain s2 where s2: "accept_submission E clk req ?i s1 = Done (Inr req) s2"
    using accept_result [of E req clk ?i s1] assms(2) by blast
  have 4: "vstep E clk (s1, [Finished (Inr req), Verified sub req]) (s2, [Finished (Inr req), Finished (Inr req)])"
    using vstep.consumed [of 1 "[Finished (Inr req), Verified sub req]" sub req E clk s1, OF _ _ s2] by simp
  show ?thesis using vtrans [OF vtrans [OF vtrans [OF vtrans [OF vrefl 1] 2] 3] 4] by blast
qed

theorem concurrent_submissions_both_succeed_witness:
  "\<exists>s'. vsteps demo_env demo_time
      (demo_service, [Started (demo_sub ''r1'' ''good'' []), Started (demo_sub ''r1'' ''good'' [])])
      (s', [Finished (Inr (demo_request ''r1'' [])), Finished (Inr (demo_request ''r1'' []))])"
  by (rule concurrent_submissions_both_succeed [OF demo_acceptable(1)])
    (simp add: webhook_ok_def demo_request_def)

theorem concurrent_success_needs_request_witness:
  "demo_request ''r1'' [] \<in> ran (store_of demo_service)"
proof -
  obtain s1 where v: "VerifySubmission demo_env demo_time (demo_sub ''r1'' ''good'' []) demo_service
    = Done (Inr (demo_request ''r1'' [])) s1" by (rule demo_verifies)
  let ?sub = "demo_sub ''r1'' ''good'' []"
  have "vstep demo_env demo_time (demo_service, [Started ?sub]) (demo_service, [Verified ?sub (demo_request ''r1'' [])])"
    using vstep.verified [of 0 "[Started ?sub]" ?sub demo_env demo_time demo_service] demo_acceptable(1) by simp
  moreover have "accept_submission demo_env demo_time (demo_request ''r1'' []) (sub_request_id ?sub) demo_service
      = Done (Inr (demo_request ''r1'' [])) s1"
    using v demo_acceptable(1) by (simp add: acceptable_def VerifySubmission_def not_less)
  then have "vstep demo_env demo_time (demo_service, [Verified ?sub (demo_request ''r1'' [])])
      (s1, [Finished (Inr (demo_request ''r1'' []))])"
    using vstep.consumed [of 0 "[Verified ?sub (demo_request ''r1'' [])]" ?sub "demo_request ''r1'' []"
        demo_env demo_time demo_service] by simp
  ultimately have "vsteps demo_env demo_time (demo_service, map Started [?sub])
      (s1, [Finished (Inr (demo_request ''r1'' []))])"
    using vtrans [OF vtrans [OF vrefl]] by simp
  then show ?thesis by (rule concurrent_success_needs_request) simp
qed

end
