(* ===== verification/Messaging.thy ===== *)
theory Messaging
  imports GoValues Schema
begin

text \<open>
  \<open>pkg/rabbitmq\<close>, \<open>pkg/dto_common\<close> and \<open>pkg/utilities\<close>: how the services reach the broker, the
  registries of publishers and consumers, publishing and consuming, and the messages that go over
  the queues with their JSON. The broker itself (queues, bindings) is not modelled: what is
  published is recorded in order.
\<close>

section \<open>Connecting\<close>

text \<open>
  \<open>dial i\<close> is the outcome of the \<open>i\<close>-th attempt; the second component lists the seconds slept. The
  first number is the attempts made, the second those left.
\<close>

fun dial_loop :: "(nat \<Rightarrow> 'c res) \<Rightarrow> nat \<Rightarrow> nat \<Rightarrow> int \<Rightarrow> goerr \<Rightarrow> 'c res \<times> int list" where
  "dial_loop dial i 0 waitTime err = (Inl err, [])"
| "dial_loop dial i (Suc n) waitTime err =
     (case dial i of
        Inr conn \<Rightarrow> (Inr conn, [])
      | Inl e \<Rightarrow> apsnd (Cons waitTime) (dial_loop dial (Suc i) n (2 ^ Suc i) e))"

definition ConnectToRabbitmq :: "(nat \<Rightarrow> 'c res) \<Rightarrow> 'c res \<times> int list" where
  "ConnectToRabbitmq dial = dial_loop dial 0 7 1 (LibErr [])"

section \<open>Registries\<close>

record publisher =
  pb_exchange :: string
  pb_routing_key :: string

record consumer =
  cs_queue :: string
  cs_tag :: string

record publisher_config =
  pc_alias :: string
  pc_exchange :: string
  pc_routing_key :: string

record consumer_config =
  cc_alias :: string
  cc_tag :: string
  cc_queue :: string

text \<open>
  One entry after the other; \<open>chans\<close> says for each whether the connection gives a channel, and the
  initialisation panics (\<open>None\<close>) when it does not. A later entry replaces one with the same alias.
\<close>

fun register :: "('e \<Rightarrow> string \<times> 'p) \<Rightarrow> (nat \<Rightarrow> bool) \<Rightarrow> nat \<Rightarrow> 'e list \<Rightarrow> (string \<rightharpoonup> 'p) \<Rightarrow> (string \<rightharpoonup> 'p) option" where
  "register f chans i [] reg = Some reg"
| "register f chans i (e # es) reg =
     (if chans i then register f chans (Suc i) es (reg(fst (f e) \<mapsto> snd (f e))) else None)"

text \<open>\<open>sync.Once\<close>: an initialised registry stays as it is. The outer \<open>None\<close> is the panic.\<close>

definition InitializePublisherRegistry ::
    "(nat \<Rightarrow> bool) \<Rightarrow> publisher_config list \<Rightarrow> (string \<rightharpoonup> publisher) option \<Rightarrow> (string \<rightharpoonup> publisher) option option" where
  "InitializePublisherRegistry chans cfg state =
     (case state of
        Some reg \<Rightarrow> Some (Some reg)
      | None \<Rightarrow> map_option Some (register
          (\<lambda>c. (pc_alias c, \<lparr>pb_exchange = pc_exchange c, pb_routing_key = pc_routing_key c\<rparr>)) chans 0 cfg Map.empty))"

definition InitializeConsumerRegistry ::
    "(nat \<Rightarrow> bool) \<Rightarrow> consumer_config list \<Rightarrow> (string \<rightharpoonup> consumer) option \<Rightarrow> (string \<rightharpoonup> consumer) option option" where
  "InitializeConsumerRegistry chans cfg state =
     (case state of
        Some reg \<Rightarrow> Some (Some reg)
      | None \<Rightarrow> map_option Some (register
          (\<lambda>c. (cc_alias c, \<lparr>cs_queue = cc_queue c, cs_tag = cc_tag c\<rparr>)) chans 0 cfg Map.empty))"

text \<open>
  Before the initialisation a lookup panics (\<open>None\<close>); an alias that is not configured gives the nil
  interface (\<open>Some None\<close>), on which every call panics.
\<close>

definition GetPublisher :: "(string \<rightharpoonup> publisher) option \<Rightarrow> string \<Rightarrow> publisher option option" where
  "GetPublisher state alias = map_option (\<lambda>reg. reg alias) state"

definition GetConsumer :: "(string \<rightharpoonup> consumer) option \<Rightarrow> string \<Rightarrow> consumer option option" where
  "GetConsumer state alias = map_option (\<lambda>reg. reg alias) state"

section \<open>Publishing and consuming\<close>

text \<open>
  What was published (exchange, routing key, body), the latest last, and which of the next
  publications fail.
\<close>

record broker =
  br_sent :: "(string \<times> string \<times> string) list"
  br_faults :: "bool list"

definition channel_publish :: "publisher \<Rightarrow> string \<Rightarrow> broker \<Rightarrow> unit res \<times> broker" where
  "channel_publish p b br =
     (case br_faults br of
        True # fs \<Rightarrow> (Inl (LibErr ''amqp''), br\<lparr>br_faults := fs\<rparr>)
      | fs \<Rightarrow> (Inr (), br\<lparr>br_sent := br_sent br @ [(pb_exchange p, pb_routing_key p, b)], br_faults := tl fs\<rparr>))"

definition Serialize :: "golib \<Rightarrow> gval \<Rightarrow> string res" where
  "Serialize L v = (case gl_json_text L v of None \<Rightarrow> Inl (LibErr ''json'') | Some t \<Rightarrow> Inr t)"

definition Publish :: "golib \<Rightarrow> publisher \<Rightarrow> gval \<Rightarrow> broker \<Rightarrow> unit res \<times> broker" where
  "Publish L p v br =
     (case Serialize L v of Inl e \<Rightarrow> (Inl e, br) | Inr b \<Rightarrow> channel_publish p b br)"

text \<open>
  The loop over the deliveries. A handler returns whether it came back (\<open>False\<close>: it panicked) and
  the state it left. The loop runs in a goroutine of its own, which the deferred \<open>recover\<close> does not
  cover, so that a panic ends the process; the deliveries are acknowledged as they are handed out.
\<close>

fun StartConsuming :: "('m \<Rightarrow> 's \<Rightarrow> bool \<times> 's) \<Rightarrow> 'm list \<Rightarrow> 's \<Rightarrow> bool \<times> 's" where
  "StartConsuming messageHandler [] s = (True, s)"
| "StartConsuming messageHandler (d # ds) s =
     (if fst (messageHandler d s) then StartConsuming messageHandler ds (snd (messageHandler d s))
      else messageHandler d s)"

section \<open>Messages\<close>

text \<open>A slice of bytes is a base64 text in JSON.\<close>

definition decode_bytes :: "golib \<Rightarrow> string \<Rightarrow> (string \<times> json) list \<Rightarrow> string res" where
  "decode_bytes L f kvs =
     each_res (\<lambda>j b. case j of
         JStr t \<Rightarrow> (case gl_b64_decode L t of None \<Rightarrow> Inl (LibErr ''json'') | Some x \<Rightarrow> Inr x)
       | JNull \<Rightarrow> Inr []
       | _ \<Rightarrow> Inl (LibErr ''json''))
       (members_of f kvs) []"

text \<open>\<open>json.Unmarshal\<close> into a struct whose members \<open>dec\<close> decodes.\<close>

definition unmarshal :: "golib \<Rightarrow> (json \<Rightarrow> 'a res) \<Rightarrow> string \<Rightarrow> 'a res" where
  "unmarshal L dec b = (case gl_json_parse L b of None \<Rightarrow> Inl (LibErr ''json'') | Some j \<Rightarrow> dec j)"

datatype reason_code = ErrUnmarshal | ErrVerifierResolution | ErrProofGeneration | ErrSolana

fun reason_text :: "reason_code \<Rightarrow> string" where
  "reason_text ErrUnmarshal = ''UnmarshalError''"
| "reason_text ErrVerifierResolution = ''VerifierResolutionError''"
| "reason_text ErrProofGeneration = ''ProofGenerationError''"
| "reason_text ErrSolana = ''SolanaBlockchainError''"

record proof_result_dto =
  rd_event_id :: string
  rd_signature :: string
  rd_account_id :: string

record proof_failure_dto =
  fl_event_id :: string
  fl_request_body :: string
  fl_error :: string
  fl_reason_code :: string

definition result_json :: "proof_result_dto \<Rightarrow> gval" where
  "result_json r =
     GMap [(''event_id'', GStr (rd_event_id r)), (''signature'', GStr (rd_signature r)),
           (''account_id'', GStr (rd_account_id r))]"

definition failure_json :: "golib \<Rightarrow> proof_failure_dto \<Rightarrow> gval" where
  "failure_json L f =
     GMap [(''event_id'', GStr (fl_event_id f)), (''request_body'', GStr (gl_b64_encode L (fl_request_body f))),
           (''error'', GStr (fl_error f)), (''reason_code'', GStr (fl_reason_code f))]"

definition decode_result :: "json \<Rightarrow> proof_result_dto res" where
  "decode_result j =
     and_then (members j) (\<lambda>kvs.
     and_then (decode_string ''event_id'' kvs) (\<lambda>e.
     and_then (decode_string ''signature'' kvs) (\<lambda>s.
     and_then (decode_string ''account_id'' kvs) (\<lambda>a.
     Inr \<lparr>rd_event_id = e, rd_signature = s, rd_account_id = a\<rparr>))))"

definition decode_failure :: "golib \<Rightarrow> json \<Rightarrow> proof_failure_dto res" where
  "decode_failure L j =
     and_then (members j) (\<lambda>kvs.
     and_then (decode_string ''event_id'' kvs) (\<lambda>e.
     and_then (decode_bytes L ''request_body'' kvs) (\<lambda>b.
     and_then (decode_string ''error'' kvs) (\<lambda>m.
     and_then (decode_string ''reason_code'' kvs) (\<lambda>r.
     Inr \<lparr>fl_event_id = e, fl_request_body = b, fl_error = m, fl_reason_code = r\<rparr>)))))"

text \<open>The factory of failure messages: the event and the delivery it stands for.\<close>

definition CreateErrorDto :: "string \<Rightarrow> string \<Rightarrow> string \<Rightarrow> reason_code \<Rightarrow> proof_failure_dto" where
  "CreateErrorDto eventId requestBody err reasonCode =
     \<lparr>fl_event_id = eventId, fl_request_body = requestBody, fl_error = err, fl_reason_code = reason_text reasonCode\<rparr>"

definition CreateInfoDto :: "string \<Rightarrow> string \<Rightarrow> reason_code \<Rightarrow> proof_failure_dto" where
  "CreateInfoDto eventId requestBody reasonCode =
     \<lparr>fl_event_id = eventId, fl_request_body = requestBody, fl_error = [], fl_reason_code = reason_text reasonCode\<rparr>"

record logger_message =
  lm_level :: string
  lm_message :: string
  lm_timestamp :: int

definition logger_json :: "logger_message \<Rightarrow> gval" where
  "logger_json m =
     GMap [(''level'', GStr (lm_level m)), (''message'', GStr (lm_message m)),
           (''timestamp'', GMap [(''T'', GInt KInt64 (lm_timestamp m))])]"

text \<open>The sink of the logger; the error of the publication is only logged.\<close>

definition rabbitmq_sink :: "golib \<Rightarrow> publisher \<Rightarrow> string \<Rightarrow> string \<Rightarrow> int \<Rightarrow> broker \<Rightarrow> broker" where
  "rabbitmq_sink L p msg level timestamp br =
     snd (Publish L p (logger_json \<lparr>lm_level = level, lm_message = msg, lm_timestamp = timestamp\<rparr>) br)"

section \<open>Facts\<close>

lemma StartConsuming_append:
  "StartConsuming h (xs @ ys) s =
     (if fst (StartConsuming h xs s) then StartConsuming h ys (snd (StartConsuming h xs s)) else StartConsuming h xs s)"
  by (induction xs arbitrary: s) auto

lemma StartConsuming_invariant:
  assumes "P s" and "\<And>d t. d \<in> set ds \<Longrightarrow> P t \<Longrightarrow> P (snd (h d t))"
  shows "P (snd (StartConsuming h ds s))"
  using assms by (induction ds arbitrary: s) auto

lemma register_lookup:
  assumes "register f chans i es reg = Some reg'"
  shows "reg' a = (case map_of (rev (map f es)) a of None \<Rightarrow> reg a | Some p \<Rightarrow> Some p)"
  using assms
proof (induction es arbitrary: i reg)
  case Nil
  then show ?case by simp
next
  case (Cons e es)
  then have "reg' a = (case map_of (rev (map f es)) a of None \<Rightarrow> (reg(fst (f e) \<mapsto> snd (f e))) a | Some p \<Rightarrow> Some p)"
    by (auto split: if_splits)
  then show ?case by (auto simp: map_add_def split: option.splits)
qed

lemma publish_sent:
  "br_sent (snd (Publish L p v br)) = br_sent br @
     (case Serialize L v of Inl e \<Rightarrow> []
      | Inr b \<Rightarrow> if ok (fst (Publish L p v br)) then [(pb_exchange p, pb_routing_key p, b)] else [])"
  by (auto simp: Publish_def channel_publish_def split: sum.splits list.splits bool.splits)

end
