(* ===== verification/Verifier.thy ===== *)
theory Verifier
  imports Prelude "HOL-Library.Multiset"
begin

text \<open>
  What the three services that verify submissions promise, as a locale: the pending requests of a
  state, and a \<open>verify\<close> that tells whether it accepted. From the two laws alone a request is
  accepted at most once in any sequence of submissions.
\<close>

fun verify_all :: "('sub \<Rightarrow> 's \<Rightarrow> bool \<times> 's) \<Rightarrow> 'sub list \<Rightarrow> 's \<Rightarrow> ('sub \<times> bool) list" where
  "verify_all verify [] s = []"
| "verify_all verify (x # xs) s =
     (case verify x s of (b, s') \<Rightarrow> (x, b) # verify_all verify xs s')"

definition accepted_for :: "('sub \<Rightarrow> string) \<Rightarrow> string \<Rightarrow> ('sub \<times> bool) list \<Rightarrow> nat" where
  "accepted_for sid i rs = length (filter (\<lambda>(x, b). b \<and> sid x = i) rs)"

locale verifier =
  fixes verify :: "'sub \<Rightarrow> 's \<Rightarrow> bool \<times> 's" and pending :: "'s \<Rightarrow> string set" and sid :: "'sub \<Rightarrow> string"
  assumes accepts: "verify x s = (True, s') \<Longrightarrow> sid x \<in> pending s \<and> pending s' = pending s - {sid x}"
    and refuses: "verify x s = (False, s') \<Longrightarrow> pending s' \<subseteq> pending s"
begin

lemma not_pending_never_accepted:
  "i \<notin> pending s \<Longrightarrow> accepted_for sid i (verify_all verify xs s) = 0"
proof (induction xs arbitrary: s)
  case Nil
  show ?case by (simp add: accepted_for_def)
next
  case (Cons x xs)
  obtain b s' where v: "verify x s = (b, s')" by fastforce
  have "i \<notin> pending s'" and "\<not> (b \<and> sid x = i)"
    using v accepts [of x s s'] refuses [of x s s'] Cons.prems by (cases b; auto)+
  then show ?case using Cons.IH v by (simp add: accepted_for_def)
qed

lemma accepted_at_most_once: "accepted_for sid i (verify_all verify xs s) \<le> 1"
proof (induction xs arbitrary: s)
  case Nil
  show ?case by (simp add: accepted_for_def)
next
  case (Cons x xs)
  obtain b s' where v: "verify x s = (b, s')" by fastforce
  show ?case
  proof (cases "b \<and> sid x = i")
    case True
    then have "i \<notin> pending s'" using v accepts [of x s s'] by auto
    then show ?thesis
      using not_pending_never_accepted [of i s' xs] v True by (simp add: accepted_for_def)
  next
    case False
    then show ?thesis using Cons.IH [of s'] v by (auto simp: accepted_for_def)
  qed
qed

end

end
