(* ===== verification/BlockchainRequest.thy ===== *)
theory BlockchainRequest
  imports PresentationProps Verifier
begin

text \<open>
  The presentation services of \<open>blockchain-client/src/zkprequest\<close> (service, helpers, storage, routes)
  and of the wallet (\<open>zk-wallet-go/internal/app/zkprequest\<close>). Both keep less state than the API's
  service: no verdicts, no waiters and no webhooks, so that their methods cannot panic.
\<close>

section \<open>The service of the blockchain client\<close>

record bc_request =
  bp_request_id :: string
  bp_circuit_id :: string
  bp_schema_json :: string
  bp_schema_hash :: string
  bp_public_inputs :: "string \<rightharpoonup> gval"
  bp_response_uri :: string
  bp_expires_at :: int

record bc_submission =
  bs_request_id :: string
  bs_blob :: string
  bs_public_inputs :: "(string \<times> gval) list"

definition bc_save :: "bc_request \<Rightarrow> (string \<rightharpoonup> bc_request) \<Rightarrow> (string \<rightharpoonup> bc_request)" where
  "bc_save req m = m(bp_request_id req \<mapsto> req)"

definition bc_load :: "string \<Rightarrow> (string \<rightharpoonup> bc_request) \<Rightarrow> bc_request option" where
  "bc_load i m = m i"

definition bc_delete :: "string \<Rightarrow> (string \<rightharpoonup> bc_request) \<Rightarrow> (string \<rightharpoonup> bc_request)" where
  "bc_delete i m = m(i := None)"

interpretation bcs: request_store bc_save bc_load bc_delete bp_request_id
  by unfold_locales (auto simp: bc_save_def bc_load_def bc_delete_def)

record bc_service =
  bv_store :: "(string \<rightharpoonup> bc_request) option"
  bv_audience :: string
  bv_response_uri :: string
  bv_ttl :: int
  bv_vk_cache :: "string \<rightharpoonup> string"
  bv_allow_adhoc :: bool

definition bc_NewService ::
    "(string \<rightharpoonup> bc_request) option \<Rightarrow> (bc_service \<Rightarrow> bc_service) list \<Rightarrow> bc_service" where
  "bc_NewService store opts =
     foldl (\<lambda>s o'. o' s)
       \<lparr>bv_store = store, bv_audience = ''http://localhost'',
        bv_response_uri = ''http://localhost/presentations/verify'', bv_ttl = five_minutes,
        bv_vk_cache = Map.empty, bv_allow_adhoc = True\<rparr> opts"

definition bc_defaultTTL :: "bc_service \<Rightarrow> int" where
  "bc_defaultTTL s = (if bv_ttl s \<le> 0 then five_minutes else bv_ttl s)"

definition bc_defaultPublicInputs :: "gotime \<Rightarrow> string \<Rightarrow> gotime \<Rightarrow> bc_service \<Rightarrow> (string \<rightharpoonup> gval)" where
  "bc_defaultPublicInputs current nonce now s =
     (let d = gt_date (if gt_is_zero now then current else now)
      in [''current_year'' \<mapsto> GInt KInt (d_year d), ''current_month'' \<mapsto> GInt KInt (d_month d),
          ''current_day'' \<mapsto> GInt KInt (d_day d), ''aud'' \<mapsto> GStr (bv_audience s), ''nonce'' \<mapsto> GStr nonce])"

text \<open>Only the verifying key is kept; the proving key of the setup is dropped.\<close>

definition bc_ensureVKForSchema ::
    "golib \<Rightarrow> ('w, 'ccs, 'pk, 'vk, 'wit, 'pub, 'prf) groth \<Rightarrow> ('vk \<Rightarrow> string res)
      \<Rightarrow> (nat \<Rightarrow> int64) \<Rightarrow> string \<Rightarrow> bc_service \<Rightarrow> string res \<times> bc_service" where
  "bc_ensureVKForSchema L B wvk clk canon s =
     (let hash = schema_hash_of L canon
      in if bv_vk_cache s hash \<noteq> None then (Inr hash, s)
         else case and_then (ParseSchema L canon) (\<lambda>schema.
                   and_then (NewDynamicCircuit (Some schema)) (\<lambda>circ.
                   and_then (and_then (Define L (gr_api B) clk (wired B circ)) (gr_compile B)) (\<lambda>ccs.
                   and_then (gr_setup B ccs) (\<lambda>keys. wvk (snd keys))))) of
                Inl e \<Rightarrow> (Inl e, s)
              | Inr buf \<Rightarrow> (Inr hash, s\<lparr>bv_vk_cache := (bv_vk_cache s)(hash \<mapsto> buf)\<rparr>))"

definition bc_CreateRequestFromSchema ::
    "('pub, 'prf, 'vk) env \<Rightarrow> ('w, 'ccs, 'pk, 'vk, 'wit, 'pub, 'prf) groth \<Rightarrow> ('vk \<Rightarrow> string res)
      \<Rightarrow> (nat \<Rightarrow> int64) \<Rightarrow> gotime \<Rightarrow> string \<Rightarrow> string \<Rightarrow> string \<Rightarrow> gotime
      \<Rightarrow> bc_service \<Rightarrow> bc_request res \<times> bc_service" where
  "bc_CreateRequestFromSchema E B wvk clk current requestID nonce schemaJSON now s =
     (if bv_store s = None then (Inl (Msg ''service not initialized''), s)
      else if \<not> bv_allow_adhoc s then (Inl (Msg ''ad-hoc schema disabled''), s)
      else case canonicalJSON E schemaJSON of Inl e \<Rightarrow> (Inl (Wrap ''invalid schema_json'' e), s) | Inr canon \<Rightarrow>
      case bc_ensureVKForSchema (en_lib E) B wvk clk canon s of
        (Inl e, s1) \<Rightarrow> (Inl (Wrap ''setup failed'' e), s1)
      | (Inr schemaHash, s1) \<Rightarrow>
          (let req = \<lparr>bp_request_id = requestID, bp_circuit_id = [], bp_schema_json = canon,
                      bp_schema_hash = schemaHash,
                      bp_public_inputs = bc_defaultPublicInputs current nonce now s1,
                      bp_response_uri = bv_response_uri s1,
                      bp_expires_at = (gt_nanos now + bc_defaultTTL s1) div 1000000000\<rparr>
           in (Inr req, s1\<lparr>bv_store := map_option (bc_save req) (bv_store s1)\<rparr>)))"

definition bc_store_of :: "bc_service \<Rightarrow> (string \<rightharpoonup> bc_request)" where
  "bc_store_of s = (case bv_store s of None \<Rightarrow> Map.empty | Some m \<Rightarrow> m)"

definition bc_store_delete :: "string \<Rightarrow> bc_service \<Rightarrow> bc_service" where
  "bc_store_delete i s = s\<lparr>bv_store := map_option (bc_delete i) (bv_store s)\<rparr>"

text \<open>The error of each check; the texts of the echo errors are shorter than the API's.\<close>

definition bc_refusal ::
    "('pub, 'prf, 'vk) env \<Rightarrow> bc_service \<Rightarrow> bc_request \<Rightarrow> bc_submission \<Rightarrow> string option" where
  "bc_refusal E s req sub =
     (let L = en_lib E; wantAud = bv_audience s;
          gotAud = sprint L (index_any (map_of (bs_public_inputs sub)) ''aud'');
          wantNonce = sprint L (index_any (bp_public_inputs req) ''nonce'');
          gotNonce = sprint L (index_any (map_of (bs_public_inputs sub)) ''nonce'')
      in if bs_public_inputs sub \<noteq> [] \<and> wantAud \<noteq> gotAud then Some ''aud mismatch''
         else if bs_public_inputs sub \<noteq> [] \<and> (wantNonce = [] \<or> gotNonce = [] \<or> wantNonce \<noteq> gotNonce)
         then Some ''nonce mismatch''
         else case gl_b64_decode L (bs_blob sub) of None \<Rightarrow> Some ''invalid zkp_blob_b64'' | Some raw \<Rightarrow>
         case ReconstructZkpResult (en_codec E) raw of Inl e \<Rightarrow> Some ''invalid proof package'' | Inr pkg \<Rightarrow>
         (let vkb = (case bv_vk_cache s (bp_schema_hash req) of None \<Rightarrow> [] | Some b \<Rightarrow> b)
          in if vkb = [] then Some ''server VK not found''
             else case en_read_vk E vkb of Inl e \<Rightarrow> Some ''cannot load server VK'' | Inr vk \<Rightarrow>
             if en_verify E (pf_proof pkg) vk (pf_public_witness pkg) then None else Some ''verify failed''))"

definition bc_VerifySubmission ::
    "('pub, 'prf, 'vk) env \<Rightarrow> gotime \<Rightarrow> bc_submission \<Rightarrow> bc_service \<Rightarrow> bc_request res \<times> bc_service" where
  "bc_VerifySubmission E now sub s =
     (if bs_request_id sub = [] \<or> bs_blob sub = []
      then (Inl (Msg ''missing request_id or zkp_blob_b64''), s)
      else case bc_load (bs_request_id sub) (bc_store_of s) of
        None \<Rightarrow> (Inl (Msg ''request not found or already used''), s)
      | Some req \<Rightarrow>
          if bp_expires_at req < gt_unix now
          then (Inl (Msg ''request expired''), bc_store_delete (bs_request_id sub) s)
          else case bc_refusal E s req sub of
                 Some reason \<Rightarrow> (Inl (Msg reason), s)
               | None \<Rightarrow> (Inr req, bc_store_delete (bs_request_id sub) s))"

section \<open>Its routes\<close>

text \<open>\<open>None\<close> is a body the JSON decoder refuses; \<open>http.Error\<close> answers with a plain text.\<close>

definition HandleCreatePresentation ::
    "web \<Rightarrow> ('pub, 'prf, 'vk) env \<Rightarrow> ('w, 'ccs, 'pk, 'vk, 'wit, 'pub, 'prf) groth \<Rightarrow> ('vk \<Rightarrow> string res)
      \<Rightarrow> (nat \<Rightarrow> int64) \<Rightarrow> gotime \<Rightarrow> string \<Rightarrow> string \<Rightarrow> bool \<Rightarrow> string option
      \<Rightarrow> bc_service \<Rightarrow> (response + bc_request) \<times> bc_service" where
  "HandleCreatePresentation W E B wvk clk now requestID nonce is_post schema s =
     (if \<not> is_post then (Inl (resp 405 (Plain ''method not allowed'')), s)
      else case schema of
        None \<Rightarrow> (Inl (resp 400 (Plain ''bad json'')), s)
      | Some schemaJSON \<Rightarrow>
          if schemaJSON = [] then (Inl (resp 400 (Plain ''schema_json required'')), s)
          else case bc_CreateRequestFromSchema E B wvk clk now requestID nonce schemaJSON now s of
                 (Inl e, s1) \<Rightarrow> (Inl (resp 400 (Plain (error_text (wb_lib_text W) e))), s1)
               | (Inr req, s1) \<Rightarrow> (Inr req, s1))"

definition HandleVerifyPresentation ::
    "web \<Rightarrow> ('pub, 'prf, 'vk) env \<Rightarrow> gotime \<Rightarrow> gotime \<Rightarrow> bool \<Rightarrow> bc_submission option
      \<Rightarrow> bc_service \<Rightarrow> response \<times> bc_service" where
  "HandleVerifyPresentation W E now later is_post inp s =
     (if \<not> is_post then (resp 405 (Plain ''method not allowed''), s)
      else case inp of
        None \<Rightarrow> (resp 400 (Plain ''bad json''), s)
      | Some sub \<Rightarrow>
          (case bc_VerifySubmission E now sub s of
             (Inl e, s1) \<Rightarrow> (resp 401 (Plain (error_text (wb_lib_text W) e)), s1)
           | (Inr req, s1) \<Rightarrow>
               (resp 200 (jobj [(''ok'', GBool True), (''request_id'', GStr (bp_request_id req)),
                  (''verified_at'', GStr (en_format E later))]), s1)))"

section \<open>The service of the wallet\<close>

record wallet_request =
  wr_request_id :: string
  wr_circuit_id :: string
  wr_schema_json :: string
  wr_public_inputs :: "string \<rightharpoonup> gval"
  wr_response_uri :: string
  wr_expires_at :: int

definition wr_save :: "wallet_request \<Rightarrow> (string \<rightharpoonup> wallet_request) \<Rightarrow> (string \<rightharpoonup> wallet_request)" where
  "wr_save req m = m(wr_request_id req \<mapsto> req)"

definition wr_load :: "string \<Rightarrow> (string \<rightharpoonup> wallet_request) \<Rightarrow> wallet_request option" where
  "wr_load i m = m i"

definition wr_delete :: "string \<Rightarrow> (string \<rightharpoonup> wallet_request) \<Rightarrow> (string \<rightharpoonup> wallet_request)" where
  "wr_delete i m = m(i := None)"

interpretation wrs: request_store wr_save wr_load wr_delete wr_request_id
  by unfold_locales (auto simp: wr_save_def wr_load_def wr_delete_def)

record wallet_service =
  wv_store :: "(string \<rightharpoonup> wallet_request) option"
  wv_circuits :: "static_registry option"
  wv_audience :: string
  wv_response_uri :: string
  wv_ttl :: int

text \<open>The options are applied in the order they are given; the caches of the record are never read.\<close>

definition wallet_NewService ::
    "(string \<rightharpoonup> wallet_request) option \<Rightarrow> static_registry option \<Rightarrow> (wallet_service \<Rightarrow> wallet_service) list \<Rightarrow> wallet_service" where
  "wallet_NewService store circuits opts =
     fold (\<lambda>f s. f s) opts
       \<lparr>wv_store = store, wv_circuits = circuits, wv_audience = ''http://localhost'',
        wv_response_uri = ''http://localhost/v1/presentations/verify'', wv_ttl = 300 * 1000000000\<rparr>"

definition wallet_defaultTTL :: "wallet_service \<Rightarrow> int" where
  "wallet_defaultTTL s = (if wv_ttl s \<le> 0 then five_minutes else wv_ttl s)"

definition wallet_defaultPublicInputs :: "gotime \<Rightarrow> string \<Rightarrow> gotime \<Rightarrow> wallet_service \<Rightarrow> (string \<rightharpoonup> gval)" where
  "wallet_defaultPublicInputs current nonce now s =
     (let d = gt_date (if gt_is_zero now then current else now)
      in [''current_year'' \<mapsto> GInt KInt (d_year d), ''current_month'' \<mapsto> GInt KInt (d_month d),
          ''current_day'' \<mapsto> GInt KInt (d_day d), ''aud'' \<mapsto> GStr (wv_audience s), ''nonce'' \<mapsto> GStr nonce])"

text \<open>The clock is read once for the inputs and once for the expiry.\<close>

definition wallet_CreateRequest ::
    "(nat \<Rightarrow> gotime) \<Rightarrow> string \<Rightarrow> string \<Rightarrow> string \<Rightarrow> bool \<Rightarrow> wallet_service
      \<Rightarrow> wallet_request res \<times> wallet_service" where
  "wallet_CreateRequest clk requestID nonce circuitID includeSchema s =
     (if wv_store s = None \<or> wv_circuits s = None then (Inl (Msg ''service not initialized''), s)
      else (let schema = (if includeSchema then (case registry_schema (wv_circuits s) circuitID of
                                                   None \<Rightarrow> [] | Some j \<Rightarrow> j) else []);
                req = \<lparr>wr_request_id = requestID, wr_circuit_id = circuitID, wr_schema_json = schema,
                       wr_public_inputs = wallet_defaultPublicInputs (clk 0) nonce (clk 0) s,
                       wr_response_uri = wv_response_uri s,
                       wr_expires_at = (gt_nanos (clk 1) + wallet_defaultTTL s) div 1000000000\<rparr>
            in (Inr req, s\<lparr>wv_store := map_option (wr_save req) (wv_store s)\<rparr>)))"

definition wallet_store_of :: "wallet_service \<Rightarrow> (string \<rightharpoonup> wallet_request)" where
  "wallet_store_of s = (case wv_store s of None \<Rightarrow> Map.empty | Some m \<Rightarrow> m)"

definition wallet_store_delete :: "string \<Rightarrow> wallet_service \<Rightarrow> wallet_service" where
  "wallet_store_delete i s = s\<lparr>wv_store := map_option (wr_delete i) (wv_store s)\<rparr>"

text \<open>
  Here the package is read first and the public inputs are compared as JSON texts: \<open>marshal\<close> is
  \<open>json.Marshal\<close> of a map, which orders the keys, with the empty text for an error.
\<close>

definition wallet_refusal ::
    "('pub, 'prf, 'vk) env \<Rightarrow> ((string \<rightharpoonup> gval) \<Rightarrow> string) \<Rightarrow> wallet_service \<Rightarrow> wallet_request
      \<Rightarrow> bc_submission \<Rightarrow> string option" where
  "wallet_refusal E marshal s req sub =
     (case gl_b64_decode (en_lib E) (bs_blob sub) of None \<Rightarrow> Some ''invalid zkp_blob_b64'' | Some blob \<Rightarrow>
      case ReconstructZkpResult (en_codec E) blob of Inl e \<Rightarrow> Some ''invalid proof package'' | Inr pkg \<Rightarrow>
      if bs_public_inputs sub \<noteq> [] \<and> marshal (wr_public_inputs req) \<noteq> marshal (map_of (bs_public_inputs sub))
      then Some ''public inputs mismatch''
      else case registry_vk (wv_circuits s) (wr_circuit_id req) of
             None \<Rightarrow> Some ''server VK not found for circuit''
           | Some vkBytes \<Rightarrow>
               (case en_read_vk E vkBytes of Inl e \<Rightarrow> Some ''cannot load server VK'' | Inr vk \<Rightarrow>
                if en_verify E (pf_proof pkg) vk (pf_public_witness pkg) then None else Some ''verify failed''))"

definition wallet_VerifySubmission ::
    "('pub, 'prf, 'vk) env \<Rightarrow> ((string \<rightharpoonup> gval) \<Rightarrow> string) \<Rightarrow> gotime \<Rightarrow> bc_submission \<Rightarrow> wallet_service
      \<Rightarrow> wallet_request res \<times> wallet_service" where
  "wallet_VerifySubmission E marshal now sub s =
     (if bs_request_id sub = [] \<or> bs_blob sub = []
      then (Inl (Msg ''missing request_id or zkp_blob_b64''), s)
      else case wr_load (bs_request_id sub) (wallet_store_of s) of
        None \<Rightarrow> (Inl (Msg ''request not found or already used''), s)
      | Some req \<Rightarrow>
          if wr_expires_at req < gt_unix now
          then (Inl (Msg ''request expired''), wallet_store_delete (bs_request_id sub) s)
          else case wallet_refusal E marshal s req sub of
                 Some reason \<Rightarrow> (Inl (Msg reason), s)
               | None \<Rightarrow> (Inr req, wallet_store_delete (bs_request_id sub) s))"

section \<open>All three are verifiers\<close>

definition api_verify ::
    "('pub, 'prf, 'vk) env \<Rightarrow> (nat \<Rightarrow> gotime) \<Rightarrow> submission \<Rightarrow> service \<Rightarrow> bool \<times> service" where
  "api_verify E clk sub s =
     (case VerifySubmission E clk sub s of
        Done r s' \<Rightarrow> (ok r, s')
      | Panicked s' \<Rightarrow> (False, s'))"

definition bc_verify ::
    "('pub, 'prf, 'vk) env \<Rightarrow> gotime \<Rightarrow> bc_submission \<Rightarrow> bc_service \<Rightarrow> bool \<times> bc_service" where
  "bc_verify E now sub s = (case bc_VerifySubmission E now sub s of (r, s') \<Rightarrow> (ok r, s'))"

definition wallet_verify ::
    "('pub, 'prf, 'vk) env \<Rightarrow> ((string \<rightharpoonup> gval) \<Rightarrow> string) \<Rightarrow> gotime \<Rightarrow> bc_submission \<Rightarrow> wallet_service
      \<Rightarrow> bool \<times> wallet_service" where
  "wallet_verify E marshal now sub s =
     (case wallet_VerifySubmission E marshal now sub s of (r, s') \<Rightarrow> (ok r, s'))"

lemma bc_store_of_delete [simp]: "bc_store_of (bc_store_delete i s) = bc_delete i (bc_store_of s)"
  by (cases "bv_store s") (simp_all add: bc_store_of_def bc_store_delete_def bc_delete_def)

lemma wallet_store_of_delete [simp]:
  "wallet_store_of (wallet_store_delete i s) = wr_delete i (wallet_store_of s)"
  by (cases "wv_store s") (simp_all add: wallet_store_of_def wallet_store_delete_def wr_delete_def)

interpretation api_verifier: verifier "api_verify E clk" "\<lambda>s. dom (store_of s)" sub_request_id for E clk
proof
  fix sub s s' assume "api_verify E clk sub s = (True, s')"
  then obtain req where v: "VerifySubmission E clk sub s = Done (Inr req) s'"
    by (auto simp: api_verify_def ok_iff split: run.splits)
  then have acc: "acceptable E clk sub s req" using VerifySubmission_accepts by blast
  then have "run_state (VerifySubmission E clk sub s)
      = run_state (accept_submission E clk req (sub_request_id sub) s)"
    by (simp add: acceptable_def VerifySubmission_def not_less)
  then have "store_of s' = mem_delete (sub_request_id sub) (store_of s)"
    using v accept_state(1) [of E clk req "sub_request_id sub" s] by simp
  then show "sub_request_id sub \<in> dom (store_of s) \<and> dom (store_of s') = dom (store_of s) - {sub_request_id sub}"
    using acc by (auto simp: mem_delete_def acceptable_def mem_load_def)
next
  fix sub s s' assume "api_verify E clk sub s = (False, s')"
  then have "s' = run_state (VerifySubmission E clk sub s)"
    by (auto simp: api_verify_def split: run.splits)
  then show "dom (store_of s') \<subseteq> dom (store_of s)"
    using VerifySubmission_store [of E clk sub s] by (auto simp: mem_delete_def split: if_splits)
qed

interpretation bc_verifier: verifier "bc_verify E now" "\<lambda>s. dom (bc_store_of s)" bs_request_id for E now
  by unfold_locales
    (auto simp: bc_verify_def bc_VerifySubmission_def bc_delete_def bc_load_def
      split: if_splits option.splits)

interpretation wallet_verifier:
    verifier "wallet_verify E marshal now" "\<lambda>s. dom (wallet_store_of s)" bs_request_id for E marshal now
  by unfold_locales
    (auto simp: wallet_verify_def wallet_VerifySubmission_def wr_delete_def wr_load_def
      split: if_splits option.splits)

section \<open>The blockchain client refines the API\<close>

text \<open>Forgetting verdicts, waiters, webhooks and the two other caches.\<close>

definition abs_request :: "presentation_request \<Rightarrow> bc_request" where
  "abs_request r =
     \<lparr>bp_request_id = pr_request_id r, bp_circuit_id = [], bp_schema_json = pr_schema_json r,
      bp_schema_hash = pr_schema_hash r, bp_public_inputs = pr_public_inputs r,
      bp_response_uri = pr_response_uri r, bp_expires_at = pr_expires_at r\<rparr>"

definition abs_service :: "service \<Rightarrow> bc_service" where
  "abs_service s =
     \<lparr>bv_store = map_option (\<lambda>m. map_option abs_request \<circ> m) (sv_store s), bv_audience = sv_audience s,
      bv_response_uri = sv_response_uri s, bv_ttl = sv_ttl s, bv_vk_cache = sv_vk_cache s,
      bv_allow_adhoc = sv_allow_adhoc s\<rparr>"

definition abs_submission :: "submission \<Rightarrow> bc_submission" where
  "abs_submission sub =
     \<lparr>bs_request_id = sub_request_id sub, bs_blob = sub_blob sub,
      bs_public_inputs = sub_public_inputs sub\<rparr>"

lemma abs_simps [simp]:
  "bc_load i (bc_store_of (abs_service s)) = map_option abs_request (mem_load i (store_of s))"
  "bp_expires_at (abs_request r) = pr_expires_at r" "bp_schema_hash (abs_request r) = pr_schema_hash r"
  "bp_public_inputs (abs_request r) = pr_public_inputs r" "bv_audience (abs_service s) = sv_audience s"
  "bv_vk_cache (abs_service s) = sv_vk_cache s" "bs_request_id (abs_submission sub) = sub_request_id sub"
  "bs_blob (abs_submission sub) = sub_blob sub" "bs_public_inputs (abs_submission sub) = sub_public_inputs sub"
  by (cases "sv_store s"; simp add: abs_service_def abs_request_def abs_submission_def bc_load_def
      mem_load_def bc_store_of_def store_of_def)+

lemma abs_refusal: "bc_refusal E (abs_service s) (abs_request req) (abs_submission sub) = None \<longleftrightarrow>
    refusal E s req sub = None"
  unfolding bc_refusal_def refusal_def Let_def abs_simps
  by (auto split: option.split sum.split)

lemma abs_service_cong:
  "sv_store s' = sv_store s \<Longrightarrow> sv_audience s' = sv_audience s \<Longrightarrow> sv_response_uri s' = sv_response_uri s \<Longrightarrow>
   sv_ttl s' = sv_ttl s \<Longrightarrow> sv_vk_cache s' = sv_vk_cache s \<Longrightarrow> sv_allow_adhoc s' = sv_allow_adhoc s \<Longrightarrow>
   abs_service s' = abs_service s"
  by (simp add: abs_service_def)

lemma abs_pieces [simp]:
  "abs_service (setVerdict t i v s) = abs_service s" "abs_service (notifyWaiters i r s) = abs_service s"
  "abs_service (s\<lparr>sv_webhooks := w\<rparr>) = abs_service s"
  by (rule abs_service_cong; simp add: setVerdict_def notifyWaiters_def)+

lemma abs_delete [simp]: "abs_service (store_delete i s) = bc_store_delete i (abs_service s)"
  by (cases "sv_store s")
    (auto simp: abs_service_def store_delete_def bc_store_delete_def mem_delete_def bc_delete_def fun_eq_iff)

lemma abs_tail:
  "abs_service (run_state (case postWebhook E now req okay reason s of
      Panicked s1 \<Rightarrow> Panicked s1 | Done u s1 \<Rightarrow> Done x (notifyWaiters i r s1))) = abs_service s"
  by (cases rule: postWebhook_cases [of req E now okay reason s]) simp_all

lemma abs_VerifySubmission_state:
  "snd (bc_VerifySubmission E (clk 0) (abs_submission sub) (abs_service s))
   = abs_service (run_state (VerifySubmission E clk sub s))"
proof (cases "mem_load (sub_request_id sub) (store_of s)")
  case None
  then show ?thesis by (simp add: bc_VerifySubmission_def VerifySubmission_def)
next
  case (Some req)
  show ?thesis
    unfolding bc_VerifySubmission_def VerifySubmission_def recordFail_def accept_submission_def
    using Some abs_refusal [of E s req sub]
    by (auto simp: abs_tail split: option.split)
qed

section \<open>Properties\<close>

text \<open>
  C6. In any sequence of submissions, whatever they contain, each service accepts at most one per
  request.
\<close>

theorem each_request_accepted_once:
  "accepted_for sub_request_id i (verify_all (api_verify E clk) subs s) \<le> 1
   \<and> accepted_for bs_request_id i (verify_all (bc_verify E now) bsubs b) \<le> 1
   \<and> accepted_for bs_request_id i (verify_all (wallet_verify E marshal now) bsubs w) \<le> 1"
  by (intro conjI api_verifier.accepted_at_most_once bc_verifier.accepted_at_most_once
      wallet_verifier.accepted_at_most_once)

text \<open>
  C9. The service of the blockchain client refines the API's: on corresponding states it leaves
  corresponding states behind, and it accepts what the API accepts unless the API's webhook
  panics.
\<close>

theorem blockchain_refines_api:
  "snd (bc_VerifySubmission E (clk 0) (abs_submission sub) (abs_service s))
     = abs_service (run_state (VerifySubmission E clk sub s))
   \<and> (ok (fst (bc_VerifySubmission E (clk 0) (abs_submission sub) (abs_service s)))
      \<longleftrightarrow> (\<exists>req. acceptable E clk sub s req))"
proof -
  have "ok (fst (bc_VerifySubmission E (clk 0) (abs_submission sub) (abs_service s)))
      \<longleftrightarrow> (\<exists>req. acceptable E clk sub s req)"
  proof (cases "mem_load (sub_request_id sub) (store_of s)")
    case None
    then show ?thesis by (simp add: bc_VerifySubmission_def acceptable_def)
  next
    case (Some req)
    then show ?thesis using abs_refusal [of E s req sub]
      by (auto simp: bc_VerifySubmission_def acceptable_def not_less split: option.split)
  qed
  then show ?thesis using abs_VerifySubmission_state by blast
qed

end
