(* ===== verification/ChainWorkers.thy ===== *)
theory ChainWorkers
  imports Messaging BlockchainCircuit BlockchainRequest
begin

text \<open>
  \<open>blockchain-client/src/workers\<close> and \<open>external/solana_reader.go\<close>: the consumers that answer the
  verifiers' messages, put proofs on the chain and log messages beside them, and the endpoint that
  checks a proof read from the chain. The node of the chain is a parameter with a state \<open>'s\<close>.
\<close>

section \<open>The chain\<close>

text \<open>An account of an instruction: its key, whether it is writable, whether it signs.\<close>

record instruction =
  in_program :: string
  in_accounts :: "(string \<times> bool \<times> bool) list"
  in_data :: string

text \<open>
  The client of a Solana node: the rent for a size, a new key pair (its public key), the latest
  block hash, the building and the signing of a transaction (a private key for each public key that
  has to sign, \<open>None\<close> when there is none), its simulation (the error of the call, then the error of
  the program), its sending, and the instruction of the system program that makes an account.
\<close>

record ('s, 'tx) solana =
  so_rent :: "64 word \<Rightarrow> 's \<Rightarrow> 64 word res \<times> 's"
  so_new_key :: "'s \<Rightarrow> string res \<times> 's"
  so_blockhash :: "'s \<Rightarrow> string res \<times> 's"
  so_transaction :: "instruction list \<Rightarrow> string \<Rightarrow> string \<Rightarrow> 'tx res"
  so_sign :: "'tx \<Rightarrow> (string \<Rightarrow> string option) \<Rightarrow> 'tx res"
  so_simulate :: "'tx \<Rightarrow> 's \<Rightarrow> string option res \<times> 's"
  so_send :: "'tx \<Rightarrow> 's \<Rightarrow> string res \<times> 's"
  so_create_account :: "64 word \<Rightarrow> 64 word \<Rightarrow> string \<Rightarrow> string \<Rightarrow> string \<Rightarrow> instruction"
  so_private :: "string \<Rightarrow> string"

record chain_keys =
  ck_contract :: string
  ck_payer :: string
  ck_payer_private :: string

text \<open>
  The product with 1.5 is taken in floating point, which is exact below \<open>2 ^ 52\<close>, and no slice is as
  long as that.
\<close>

definition calculateRequiredAccountSpace :: "string \<Rightarrow> 64 word" where
  "calculateRequiredAccountSpace data =
     (let dataSize = int (length data);
          totalSize = (if dataSize > 10000 then dataSize * 3 div 2
                       else if dataSize > 1000 then dataSize + 2048 else dataSize + 1024);
          rounded = (if totalSize mod 8 \<noteq> 0 then totalSize + (8 - totalSize mod 8) else totalSize)
      in word_of_int (if rounded < 2048 then 2048 else rounded))"

text \<open>The two accounts of a \<open>NewAccountMeta(key, writable, signer)\<close>.\<close>

definition zkp_instruction :: "chain_keys \<Rightarrow> string \<Rightarrow> string \<Rightarrow> instruction" where
  "zkp_instruction K newAccount zkpData =
     \<lparr>in_program = ck_contract K, in_accounts = [(newAccount, False, True), (ck_payer K, True, True)],
      in_data = zkpData\<rparr>"

text \<open>The private keys at hand when signing.\<close>

definition signing_keys :: "('s, 'tx) solana \<Rightarrow> chain_keys \<Rightarrow> string \<Rightarrow> string \<Rightarrow> string option" where
  "signing_keys S K newAccount pk =
     (if pk = ck_payer K then Some (ck_payer_private K)
      else if pk = newAccount then Some (so_private S newAccount) else None)"

text \<open>The texts name the step in an error.\<close>

definition simulate_and_send :: "('s, 'tx) solana \<Rightarrow> string \<Rightarrow> string \<Rightarrow> 'tx \<Rightarrow> 's \<Rightarrow> string res \<times> 's" where
  "simulate_and_send S callText errText tx s =
     bind_st (map_prod (wrapped callText) id (so_simulate S tx s)) (\<lambda>sim s.
     case sim of Some e \<Rightarrow> (Inl (Msg (errText @ '': '' @ e)), s) | None \<Rightarrow> so_send S tx s)"

text \<open>The signature of the transaction and the new account.\<close>

definition createAndPopulateZkpAccount ::
    "('s, 'tx) solana \<Rightarrow> chain_keys \<Rightarrow> string \<Rightarrow> 's \<Rightarrow> (string \<times> string) res \<times> 's" where
  "createAndPopulateZkpAccount S K zkpData s =
     (let space = calculateRequiredAccountSpace zkpData in
      bind_st (so_rent S space s) (\<lambda>rent s.
      bind_st (so_new_key S s) (\<lambda>newAccount s.
      bind_st (so_blockhash S s) (\<lambda>latest s.
      bind_st (so_transaction S
          [so_create_account S rent space (ck_contract K) (ck_payer K) newAccount,
           zkp_instruction K newAccount zkpData] latest (ck_payer K), s) (\<lambda>tx s.
      bind_st (so_sign S tx (signing_keys S K newAccount), s) (\<lambda>tx s.
      bind_st (simulate_and_send S ''simulate call'' ''simulate err'' tx s) (\<lambda>sig s.
        (Inr (sig, newAccount), s))))))))"

text \<open>Creating the account alone; nothing calls it.\<close>

definition createZkpAccount ::
    "('s, 'tx) solana \<Rightarrow> chain_keys \<Rightarrow> string \<Rightarrow> 's \<Rightarrow> string res \<times> 's" where
  "createZkpAccount S K zkpData s =
     (let space = calculateRequiredAccountSpace zkpData in
      bind_st (so_rent S space s) (\<lambda>rent s.
      bind_st (so_new_key S s) (\<lambda>newAccount s.
      bind_st (so_blockhash S s) (\<lambda>latest s.
      bind_st (so_transaction S [so_create_account S rent space (ck_contract K) (ck_payer K) newAccount]
          latest (ck_payer K), s) (\<lambda>tx s.
      bind_st (so_sign S tx (signing_keys S K newAccount), s) (\<lambda>tx s.
      bind_st (so_send S tx s) (\<lambda>sig s. (Inr newAccount, s))))))))"

section \<open>The proof package of this service\<close>

text \<open>It carries the verifying key too; the serialisers and Borsh are parameters.\<close>

record ('vk, 'pub, 'prf) bc_codec =
  bk_write_proof :: "'prf \<Rightarrow> string res"
  bk_read_proof :: "string \<Rightarrow> 'prf res"
  bk_write_vk :: "'vk \<Rightarrow> string res"
  bk_read_vk :: "string \<Rightarrow> 'vk res"
  bk_write_witness :: "'pub \<Rightarrow> string res"
  bk_read_witness :: "string \<Rightarrow> 'pub res"
  bk_borsh :: "string \<times> string \<times> string \<Rightarrow> string res"
  bk_unborsh :: "string \<Rightarrow> (string \<times> string \<times> string) res"

definition bc_SerializeBorsh :: "('vk, 'pub, 'prf) bc_codec \<Rightarrow> ('vk, 'pub, 'prf) zkp_result \<Rightarrow> string res" where
  "bc_SerializeBorsh C zr =
     and_then (bk_write_proof C (zr_proof zr)) (\<lambda>proofBuf.
     and_then (bk_write_vk C (zr_verifying_key zr)) (\<lambda>vkBuf.
     and_then (bk_write_witness C (zr_public_witness zr)) (\<lambda>witnessBuf.
     bk_borsh C (proofBuf, vkBuf, witnessBuf))))"

definition bc_ReconstructZkpResult ::
    "('vk, 'pub, 'prf) bc_codec \<Rightarrow> string \<Rightarrow> ('vk, 'pub, 'prf) zkp_result res" where
  "bc_ReconstructZkpResult C serializedZkp =
     and_then (bk_unborsh C serializedZkp) (\<lambda>des.
     and_then (bk_read_proof C (fst des)) (\<lambda>proof'.
     and_then (bk_read_vk C (fst (snd des))) (\<lambda>vk.
     and_then (bk_read_witness C (snd (snd des))) (\<lambda>witness.
     Inr \<lparr>zr_proof = proof', zr_verifying_key = vk, zr_public_witness = witness, zr_tx_hash = []\<rparr>))))"

section \<open>The consumers\<close>

text \<open>The two messages of the verifiers have the same members.\<close>

record resolved_value =
  rv_key :: string
  rv_value :: string
  rv_type :: string
  rv_positive :: bool

record verified_dto =
  vd_event_id :: string
  vd_resolved_values :: "resolved_value list"

definition decode_resolved :: "json \<Rightarrow> resolved_value res" where
  "decode_resolved j =
     and_then (members j) (\<lambda>kvs.
     and_then (decode_string ''key'' kvs) (\<lambda>k.
     and_then (decode_string ''value'' kvs) (\<lambda>v.
     and_then (decode_string ''type'' kvs) (\<lambda>t.
     and_then (decode_bool ''verification_positive'' kvs) (\<lambda>p.
     Inr \<lparr>rv_key = k, rv_value = v, rv_type = t, rv_positive = p\<rparr>)))))"

definition decode_verified :: "json \<Rightarrow> verified_dto res" where
  "decode_verified j =
     and_then (members j) (\<lambda>kvs.
     and_then (decode_string ''event_id'' kvs) (\<lambda>e.
     and_then (decode_slice decode_resolved ''resolved_values'' kvs) (\<lambda>vs.
     Inr \<lparr>vd_event_id = e, vd_resolved_values = vs\<rparr>)))"

text \<open>
  What the workers have at hand: the library, the two publishers, the texts of errors, the node and
  its keys, the proving of \<open>CreateZKP\<close> and the serialisers. A worker always comes back.
\<close>

record ('s, 'tx, 'vk, 'pub, 'prf) worker_env =
  we_lib :: golib
  we_failures :: publisher
  we_results :: publisher
  we_text :: "goerr \<Rightarrow> string"
  we_chain :: "('s, 'tx) solana"
  we_keys :: chain_keys
  we_create :: "circuit_base \<Rightarrow> ('vk, 'pub, 'prf) zkp_result res"
  we_codec :: "('vk, 'pub, 'prf) bc_codec"

definition publish_failure ::
    "('s, 'tx, 'vk, 'pub, 'prf) worker_env \<Rightarrow> proof_failure_dto \<Rightarrow> broker \<Rightarrow> broker" where
  "publish_failure E f br = snd (Publish (we_lib E) (we_failures E) (failure_json (we_lib E) f) br)"

definition negative_worker ::
    "('s, 'tx, 'vk, 'pub, 'prf) worker_env \<Rightarrow> string \<Rightarrow> broker \<Rightarrow> broker" where
  "negative_worker E body br =
     (case unmarshal (we_lib E) decode_verified body of
        Inl e \<Rightarrow> publish_failure E (CreateErrorDto [] body (we_text E e) ErrUnmarshal) br
      | Inr m \<Rightarrow> publish_failure E (CreateInfoDto (vd_event_id m) body ErrVerifierResolution) br)"

text \<open>
  \<open>publishZkpToSolana\<close> sends its outcome over one of two channels of its own and the worker takes
  the one that comes; at most one does.
\<close>

definition publishZkpToSolana ::
    "('s, 'tx, 'vk, 'pub, 'prf) worker_env \<Rightarrow> ('vk, 'pub, 'prf) zkp_result \<Rightarrow> 's \<Rightarrow> (string \<times> string) res \<times> 's" where
  "publishZkpToSolana E zr s =
     bind_st (bc_SerializeBorsh (we_codec E) zr, s) (\<lambda>data s.
       createAndPopulateZkpAccount (we_chain E) (we_keys E) data s)"

definition empty_base :: circuit_base where
  "empty_base = \<lparr>cb_schema_json = [], cb_verified_values = []\<rparr>"

definition positive_worker ::
    "('s, 'tx, 'vk, 'pub, 'prf) worker_env \<Rightarrow> string \<Rightarrow> 's \<times> broker \<Rightarrow> 's \<times> broker" where
  "positive_worker E body st =
     (case unmarshal (we_lib E) decode_verified body of
        Inl e \<Rightarrow> (fst st, publish_failure E (CreateErrorDto [] body (we_text E e) ErrUnmarshal) (snd st))
      | Inr m \<Rightarrow>
      (case we_create E empty_base of
        Inl e \<Rightarrow> (fst st, publish_failure E (CreateErrorDto (vd_event_id m) body (we_text E e) ErrProofGeneration) (snd st))
      | Inr zr \<Rightarrow>
      (case publishZkpToSolana E zr (fst st) of
        (Inl e, s) \<Rightarrow> (s, publish_failure E (CreateErrorDto (vd_event_id m) body (we_text E e) ErrSolana) (snd st))
      | (Inr (sig, account), s) \<Rightarrow>
          (s, snd (Publish (we_lib E) (we_results E)
                (result_json \<lparr>rd_event_id = vd_event_id m, rd_signature = sig, rd_account_id = account\<rparr>) (snd st))))))"

section \<open>Logging to the chain\<close>

definition decode_timestamp :: "(string \<times> json) list \<Rightarrow> int res" where
  "decode_timestamp kvs =
     each_res (\<lambda>j i. case j of
         JNum t \<Rightarrow> (case parse_int64 t of None \<Rightarrow> Inl (LibErr ''json'') | Some w \<Rightarrow> Inr (sint w))
       | JNull \<Rightarrow> Inr i
       | _ \<Rightarrow> Inl (LibErr ''json''))
       (members_of ''T'' kvs) 0"

definition decode_logger_message :: "json \<Rightarrow> logger_message res" where
  "decode_logger_message j =
     and_then (members j) (\<lambda>kvs.
     and_then (decode_string ''level'' kvs) (\<lambda>l.
     and_then (decode_string ''message'' kvs) (\<lambda>m.
     and_then (each_res (\<lambda>j acc. case j of JObj x \<Rightarrow> Inr (acc @ x) | JNull \<Rightarrow> Inr acc | _ \<Rightarrow> Inl (LibErr ''json''))
                 (members_of ''timestamp'' kvs) []) (\<lambda>ts.
     and_then (decode_timestamp ts) (\<lambda>t.
     Inr \<lparr>lm_level = l, lm_message = m, lm_timestamp = t\<rparr>)))))"

definition log_instruction :: "chain_keys \<Rightarrow> string \<Rightarrow> instruction" where
  "log_instruction K logData =
     \<lparr>in_program = ck_contract K, in_accounts = [(ck_payer K, True, True)], in_data = ''LOG:'' @ logData\<rparr>"

definition storeLogToSolana ::
    "golib \<Rightarrow> ('s, 'tx) solana \<Rightarrow> chain_keys \<Rightarrow> logger_message \<Rightarrow> 's \<Rightarrow> unit res \<times> 's" where
  "storeLogToSolana L S K msg s =
     bind_st (wrapped ''failed to serialize log message'' (Serialize L (logger_json msg)), s) (\<lambda>logData s.
     bind_st (map_prod (wrapped ''failed to get latest blockhash'') id (so_blockhash S s)) (\<lambda>latest s.
     bind_st (wrapped ''failed to create transaction''
                (so_transaction S [log_instruction K logData] latest (ck_payer K)), s) (\<lambda>tx s.
     bind_st (wrapped ''failed to sign transaction''
                (so_sign S tx (\<lambda>pk. if pk = ck_payer K then Some (ck_payer_private K) else None)), s) (\<lambda>tx s.
     bind_st (map_prod (wrapped ''simulate call failed'') id (so_simulate S tx s)) (\<lambda>sim s.
     case sim of
       Some e \<Rightarrow> (Inl (Msg (''simulation failed: '' @ e)), s)
     | None \<Rightarrow> bind_st (map_prod (wrapped ''failed to send transaction'') id (so_send S tx s)) (\<lambda>sig s. (Inr (), s)))))))"

text \<open>Every error is dropped.\<close>

definition chain_log_worker ::
    "golib \<Rightarrow> ('s, 'tx) solana \<Rightarrow> chain_keys \<Rightarrow> string \<Rightarrow> 's \<Rightarrow> 's" where
  "chain_log_worker L S K body s =
     (case unmarshal L decode_logger_message body of
        Inl e \<Rightarrow> s
      | Inr m \<Rightarrow> snd (storeLogToSolana L S K m s))"

section \<open>Checking a proof on the chain\<close>

text \<open>
  The base58 readers, the node (the transaction of a signature, the data of an account), the
  verifier of Groth16, the texts of errors and the JSON of a result.
\<close>

record ('s, 'vk, 'pub, 'prf) reader_env =
  re_signature :: "string \<Rightarrow> string res"
  re_public_key :: "string \<Rightarrow> string res"
  re_transaction :: "string \<Rightarrow> 's \<Rightarrow> unit res \<times> 's"
  re_account :: "string \<Rightarrow> 's \<Rightarrow> string option res \<times> 's"
  re_codec :: "('vk, 'pub, 'prf) bc_codec"
  re_verify :: "'prf \<Rightarrow> 'vk \<Rightarrow> 'pub \<Rightarrow> unit res"
  re_text :: "goerr \<Rightarrow> string"
  re_json :: "('vk, 'pub, 'prf) zkp_result \<Rightarrow> gval"

text \<open>From the data of the account to the answer; a negative size makes the slice panic.\<close>

definition check_account :: "('s, 'vk, 'pub, 'prf) reader_env \<Rightarrow> string \<Rightarrow> int \<Rightarrow> string \<Rightarrow> response" where
  "check_account R accountStr proofLen data =
     (if int (length data) < proofLen
      then resp 500 (jerror (''Account data too short: expected at least '' @ int_str proofLen
             @ '' bytes, got '' @ int_str (int (length data))))
      else if proofLen < 0 then recovered
      else case bc_ReconstructZkpResult (re_codec R) (take (nat proofLen) data) of
        Inl e \<Rightarrow> resp 500 (jerror (''Failed to deserialize proof: '' @ re_text R e))
      | Inr zr \<Rightarrow>
      (case re_verify R (zr_proof zr) (zr_verifying_key zr) (zr_public_witness zr) of
        Inl e \<Rightarrow> resp 500 (jerror (''Failed to verify proof: '' @ re_text R e))
      | Inr u \<Rightarrow> resp 200 (jobj [(''proof'', re_json R zr), (''account'', GStr accountStr),
                                  (''size'', GInt KInt proofLen)])))"

definition SolanaReader_Verify ::
    "('s, 'vk, 'pub, 'prf) reader_env \<Rightarrow> string \<Rightarrow> string \<Rightarrow> string \<Rightarrow> 's \<Rightarrow> response \<times> 's" where
  "SolanaReader_Verify R signature accountStr proofSize s =
     (if signature = [] \<or> proofSize = [] \<or> accountStr = []
      then (resp 400 (jerror ''Invalid request: signature, account, or size param is empty''), s)
      else case parse_int64 proofSize of
        None \<Rightarrow> (resp 422 (jerror (''Could not parse proof size: '' @ re_text R (LibErr ''atoi''))), s)
      | Some proofLen \<Rightarrow>
      (case re_signature R signature of
        Inl e \<Rightarrow> (resp 422 (jerror (''Could not parse signature: '' @ re_text R e)), s)
      | Inr sig \<Rightarrow>
      (case re_public_key R accountStr of
        Inl e \<Rightarrow> (resp 422 (jerror (''Could not parse account pubkey: '' @ re_text R e)), s)
      | Inr accountKey \<Rightarrow>
      (case re_transaction R sig s of
        (Inl e, s1) \<Rightarrow> (resp 404 (jerror (''Could not retrieve transaction from solana: '' @ re_text R e)), s1)
      | (Inr u, s1) \<Rightarrow>
      (case re_account R accountKey s1 of
        (Inl e, s2) \<Rightarrow> (resp 404 (jerror (''Could not fetch account info: '' @ re_text R e)), s2)
      | (Inr None, s2) \<Rightarrow> (resp 404 (jerror ''Account not found''), s2)
      | (Inr (Some data), s2) \<Rightarrow> (check_account R accountStr (sint proofLen) data, s2))))))"

end
