(* ===== verification/Outbox.thy ===== *)
theory Outbox
  imports Messaging
begin

text \<open>
  The tables of the API (\<open>api/src/model\<close>) and the outbox (\<open>api/src/outbox\<close>). GORM and Postgres are
  libraries; what the code relies on is modelled: a table is the list of its rows in the order of
  the primary key, a statement may fail for reasons of its own (\<open>db_faults\<close>), a column of type
  \<open>uuid\<close> rejects a text that is not one, a unique index rejects a second row, an error in a
  transaction undoes it.
\<close>

section \<open>Tables\<close>

record identity_row =
  id_id :: int
  id_identity_id :: string
  id_identity_name :: string
  id_parent_id :: "int option"

record verified_schema =
  vs_id :: int
  vs_schema_id :: string
  vs_super_identity_id :: int
  vs_schema :: string

record zkp_row =
  zp_id :: int
  zp_schema :: int
  zp_super_identity_id :: int
  zp_proof_reference :: string
  zp_account_id :: string

record failure_row =
  pf_id :: int
  pf_event_id :: string
  pf_request_body :: string
  pf_error :: string
  pf_reason_code :: string

record outbox_event =
  oe_id :: int
  oe_event_id :: string
  oe_identity_id :: string
  oe_schema_id :: string
  oe_retry :: int
  oe_to_process :: bool
  oe_request_message :: string
  oe_processed_at :: "int option"

record log_row =
  lg_id :: int
  lg_level :: string
  lg_message :: string
  lg_timestamp :: int
  lg_service :: string

text \<open>
  \<open>db_schemas_relation\<close> stands for the relation \<open>schemas\<close>, which the code queries and its migrations
  do not create: \<open>None\<close> when it does not exist, else the ids in it. \<open>db_faults\<close> says of each
  statement to come whether it fails.
\<close>

record database =
  db_identities :: "identity_row list"
  db_verified_schemas :: "verified_schema list"
  db_zkps :: "zkp_row list"
  db_failures :: "failure_row list"
  db_events :: "outbox_event list"
  db_logs :: "log_row list"
  db_schemas_relation :: "string list option"
  db_faults :: "bool list"

definition empty_database :: database where
  "empty_database = \<lparr>db_identities = [], db_verified_schemas = [], db_zkps = [], db_failures = [], db_events = [],
     db_logs = [], db_schemas_relation = None, db_faults = []\<rparr>"

text \<open>
  How \<open>google/uuid\<close> reads a text and how Postgres does for a column, both to the canonical form. The
  laws: a canonical form is read as itself, and a UUID has 32 hexadecimal digits at least.
\<close>

record uuid_lib =
  ul_parse :: "string \<Rightarrow> string option"
  ul_column :: "string \<Rightarrow> string option"

definition uuid_laws :: "uuid_lib \<Rightarrow> bool" where
  "uuid_laws U =
     ((\<forall>t u. ul_parse U t = Some u \<longrightarrow> ul_parse U u = Some u \<and> ul_column U u = Some u)
      \<and> (\<forall>t u. ul_column U t = Some u \<longrightarrow> ul_parse U u = Some u \<and> ul_column U u = Some u)
      \<and> (\<forall>t. length t < 32 \<longrightarrow> ul_parse U t = None \<and> ul_column U t = None))"

definition record_not_found :: goerr where
  "record_not_found = Msg ''record not found''"

text \<open>One statement; and the beginning of a transaction, its body, its commit.\<close>

definition statement :: "(database \<Rightarrow> 'a res \<times> database) \<Rightarrow> database \<Rightarrow> 'a res \<times> database" where
  "statement f db =
     (case db_faults db of
        [] \<Rightarrow> f db
      | x # xs \<Rightarrow> if x then (Inl (LibErr ''db''), db\<lparr>db_faults := xs\<rparr>) else f (db\<lparr>db_faults := xs\<rparr>))"

definition rollback :: "database \<Rightarrow> 'a res \<times> database \<Rightarrow> 'a res \<times> database" where
  "rollback db r = (if ok (fst r) then r else (fst r, db\<lparr>db_faults := db_faults (snd r)\<rparr>))"

definition transaction :: "(database \<Rightarrow> 'a res \<times> database) \<Rightarrow> database \<Rightarrow> 'a res \<times> database" where
  "transaction body db =
     bind_st (statement (\<lambda>d. (Inr (), d)) db) (\<lambda>_ d.
       rollback d (bind_st (body d) (\<lambda>v e. statement (\<lambda>x. (Inr v, x)) e)))"

text \<open>A transaction inside another sets a savepoint and has no commit of its own.\<close>

definition savepoint :: "(database \<Rightarrow> 'a res \<times> database) \<Rightarrow> database \<Rightarrow> 'a res \<times> database" where
  "savepoint body db = bind_st (statement (\<lambda>d. (Inr (), d)) db) (\<lambda>_ d. rollback d (body d))"

definition first_row :: "('r \<Rightarrow> bool) \<Rightarrow> 'r list \<Rightarrow> 'r res" where
  "first_row P rows = (case List.find P rows of None \<Rightarrow> Inl record_not_found | Some r \<Rightarrow> Inr r)"

text \<open>A comparison with a column of type \<open>uuid\<close>.\<close>

definition uuid_param :: "uuid_lib \<Rightarrow> string \<Rightarrow> string res" where
  "uuid_param U t = (case ul_column U t of None \<Rightarrow> Inl (LibErr ''invalid input syntax for type uuid'') | Some u \<Rightarrow> Inr u)"

text \<open>The ids of a serial column, without the gaps that failed insertions leave.\<close>

definition next_id :: "'r list \<Rightarrow> int" where
  "next_id rows = int (length rows) + 1"

section \<open>The outbox\<close>

definition MaxRetries :: int where
  "MaxRetries = 5"

definition zero_event :: outbox_event where
  "zero_event = \<lparr>oe_id = 0, oe_event_id = [], oe_identity_id = [], oe_schema_id = [], oe_retry = 0,
     oe_to_process = False, oe_request_message = [], oe_processed_at = None\<rparr>"

definition open_event :: "string \<Rightarrow> outbox_event \<Rightarrow> bool" where
  "open_event u ev = (oe_event_id ev = u \<and> oe_processed_at ev = None)"

definition GetEvent :: "uuid_lib \<Rightarrow> string \<Rightarrow> database \<Rightarrow> outbox_event res \<times> database" where
  "GetEvent U eventId =
     statement (\<lambda>db. (and_then (uuid_param U eventId) (\<lambda>u. first_row (open_event u) (db_events db)), db))"

text \<open>\<open>fresh\<close> is what \<open>uuid.NewRandom\<close> returned.\<close>

definition create_event ::
    "uuid_lib \<Rightarrow> string \<Rightarrow> string \<Rightarrow> string \<Rightarrow> string \<Rightarrow> database \<Rightarrow> string res \<times> database" where
  "create_event U e i s msg db =
     (case and_then (uuid_param U e) (\<lambda>e. and_then (uuid_param U i) (\<lambda>i. and_then (uuid_param U s) (\<lambda>s. Inr (e, i, s)))) of
        Inl err \<Rightarrow> (Inl err, db)
      | Inr (e, i, s) \<Rightarrow>
          if \<exists>ev\<in>set (db_events db). oe_event_id ev = e then (Inl (LibErr ''duplicate key''), db)
          else (Inr e, db\<lparr>db_events := db_events db @
             [\<lparr>oe_id = next_id (db_events db), oe_event_id = e, oe_identity_id = i, oe_schema_id = s, oe_retry = 0,
               oe_to_process = False, oe_request_message = msg, oe_processed_at = None\<rparr>]\<rparr>))"

definition NewEvent ::
    "uuid_lib \<Rightarrow> string res \<Rightarrow> string \<Rightarrow> string \<Rightarrow> string \<Rightarrow> database \<Rightarrow> string res \<times> database" where
  "NewEvent U fresh identityId schemaId msg db =
     (case fresh of Inl err \<Rightarrow> (Inl err, db)
      | Inr eventId \<Rightarrow> statement (create_event U eventId identityId schemaId msg) db)"

definition GetUnprocessedEvents :: "database \<Rightarrow> outbox_event list res \<times> database" where
  "GetUnprocessedEvents =
     statement (\<lambda>db. (Inr (filter (\<lambda>ev. oe_to_process ev \<and> oe_processed_at ev = None) (db_events db)), db))"

text \<open>An update leaves the rows alone that are soft-deleted.\<close>

definition update_event :: "uuid_lib \<Rightarrow> string \<Rightarrow> (outbox_event \<Rightarrow> outbox_event) \<Rightarrow> database \<Rightarrow> unit res \<times> database" where
  "update_event U eventId f =
     statement (\<lambda>db. case uuid_param U eventId of Inl e \<Rightarrow> (Inl e, db)
       | Inr u \<Rightarrow> (Inr (), db\<lparr>db_events := map (\<lambda>ev. if open_event u ev then f ev else ev) (db_events db)\<rparr>))"

definition mark_body :: "uuid_lib \<Rightarrow> int \<Rightarrow> string \<Rightarrow> database \<Rightarrow> unit res \<times> database" where
  "mark_body U now eventId db =
     bind_st (GetEvent U eventId db) (\<lambda>_ d. update_event U eventId (\<lambda>ev. ev\<lparr>oe_processed_at := Some now\<rparr>) d)"

definition MarkEventAsProcessed :: "uuid_lib \<Rightarrow> int \<Rightarrow> string \<Rightarrow> database \<Rightarrow> unit res \<times> database" where
  "MarkEventAsProcessed U now eventId = transaction (mark_body U now eventId)"

definition UpdateRetryValue :: "uuid_lib \<Rightarrow> int \<Rightarrow> string \<Rightarrow> database \<Rightarrow> unit res \<times> database" where
  "UpdateRetryValue U now eventId =
     transaction (\<lambda>db.
       bind_st (GetEvent U eventId db) (\<lambda>ev d.
       bind_st (update_event U eventId (\<lambda>x. x\<lparr>oe_retry := oe_retry ev + 1\<rparr>) d) (\<lambda>_ d.
       if oe_retry ev \<ge> MaxRetries then savepoint (mark_body U now eventId) d else (Inr (), d))))"

section \<open>The worker\<close>

definition verification_json :: "string \<Rightarrow> string \<Rightarrow> gval" where
  "verification_json eventId msg = GMap [(''event_id'', GStr eventId), (''data'', GStr msg)]"

text \<open>A failed read leaves no events; a failed publication is only logged.\<close>

definition processOutboxEvents :: "golib \<Rightarrow> publisher \<Rightarrow> database \<times> broker \<Rightarrow> database \<times> broker" where
  "processOutboxEvents L p st =
     (case GetUnprocessedEvents (fst st) of (r, db) \<Rightarrow>
        (db, fold (\<lambda>ev br. snd (Publish L p (verification_json (oe_event_id ev) (oe_request_message ev)) br))
               (case r of Inl e \<Rightarrow> [] | Inr evs \<Rightarrow> evs) (snd st)))"

end
