(* ===== verification/OutboxProps.thy ===== *)
theory OutboxProps
  imports Outbox
begin

text \<open>
  The outbox as a table of pending events: the interface its clients rely on, what transactions
  and faults leave, and the bound on retries.
\<close>

section \<open>The interface\<close>

text \<open>
  A store of pending entries. Reading does not change what is pending; closing succeeds only for a
  pending entry, which is pending no longer; a retry counts up or closes. What fails changes nothing.
\<close>

locale event_store =
  fixes get :: "'k \<Rightarrow> 's \<Rightarrow> 'e res \<times> 's"
    and mark :: "'k \<Rightarrow> 's \<Rightarrow> unit res \<times> 's"
    and retry :: "'k \<Rightarrow> 's \<Rightarrow> unit res \<times> 's"
    and pending :: "'s \<Rightarrow> 'k \<Rightarrow> 'e option"
    and bump :: "'e \<Rightarrow> 'e option"
    and valid :: "'k \<Rightarrow> bool"
  assumes get_pending: "valid k \<Longrightarrow> get k s = (Inr e, s') \<Longrightarrow> pending s k = Some e"
    and get_keeps: "valid k \<Longrightarrow> pending (snd (get k s')) = pending s'"
    and mark_closes: "valid k \<Longrightarrow> mark k s = (Inr (), s') \<Longrightarrow> pending s k \<noteq> None \<and> pending s' = (pending s)(k := None)"
    and mark_fails: "valid k \<Longrightarrow> mark k s = (Inl err, s') \<Longrightarrow> pending s' = pending s"
    and retry_bumps: "valid k \<Longrightarrow> retry k s = (Inr (), s') \<Longrightarrow>
      \<exists>e. pending s k = Some e \<and> pending s' = (pending s)(k := bump e)"
    and retry_fails: "valid k \<Longrightarrow> retry k s = (Inl err, s') \<Longrightarrow> pending s' = pending s"
begin

text \<open>A closed entry stays closed, whatever is done.\<close>

lemma closed_stays:
  assumes "valid k" and "valid k'" and "pending s k = None"
  shows "pending (snd (get k' s)) k = None" "pending (snd (mark k' s)) k = None" "pending (snd (retry k' s)) k = None"
proof -
  show "pending (snd (get k' s)) k = None" using get_keeps assms by simp
  obtain r1 s1 where m: "mark k' s = (r1, s1)" by fastforce
  show "pending (snd (mark k' s)) k = None"
    using mark_closes [OF assms(2), of s s1] mark_fails [OF assms(2), of s _ s1] m assms(3)
    by (cases r1) auto
  obtain r2 s2 where t: "retry k' s = (r2, s2)" by fastforce
  show "pending (snd (retry k' s)) k = None"
    using retry_bumps [OF assms(2), of s s2] retry_fails [OF assms(2), of s _ s2] t assms(3)
    by (cases r2) fastforce+
qed

lemma closed_refuses:
  assumes "valid k" and "pending s k = None"
  shows "\<not> ok (fst (get k s))" "\<not> ok (fst (mark k s))" "\<not> ok (fst (retry k s))"
proof -
  show "\<not> ok (fst (get k s))" using get_pending [OF assms(1), of s] assms(2) by (cases "get k s") (fastforce simp: ok_iff)
  show "\<not> ok (fst (mark k s))" using mark_closes [OF assms(1), of s] assms(2) by (cases "mark k s") (fastforce simp: ok_iff)
  show "\<not> ok (fst (retry k s))" using retry_bumps [OF assms(1), of s] assms(2) by (cases "retry k s") (fastforce simp: ok_iff)
qed

lemma mark_once:
  assumes "valid k" and "mark k s = (Inr (), s')"
  shows "\<not> ok (fst (mark k s'))" "\<not> ok (fst (get k s'))"
  using mark_closes [OF assms] closed_refuses [OF assms(1), of s'] by simp_all

text \<open>An entry is retried as often as its successor chain is long, and then it is closed.\<close>

lemma retry_chain:
  assumes "valid k" and "retry k s = (Inr (), s')" and "pending s k = Some e"
  shows "pending s' k = bump e"
  using retry_bumps [OF assms(1,2)] assms(3) by auto

end

section \<open>Statements and transactions\<close>

text \<open>Databases that differ in the coming faults only.\<close>

definition same_data :: "database \<Rightarrow> database \<Rightarrow> bool" where
  "same_data d e = (d\<lparr>db_faults := []\<rparr> = e\<lparr>db_faults := []\<rparr>)"

lemma same_data_refl [simp]: "same_data d d"
  by (simp add: same_data_def)

lemma same_data_faults [simp]: "same_data (d\<lparr>db_faults := fs\<rparr>) e = same_data d e" "same_data d (e\<lparr>db_faults := fs\<rparr>) = same_data d e"
  by (simp_all add: same_data_def)

lemma same_data_trans: "same_data a b \<Longrightarrow> same_data b c \<Longrightarrow> same_data a c"
  by (simp add: same_data_def)

lemma same_data_tables:
  assumes "same_data d e"
  shows "db_events d = db_events e" "db_identities d = db_identities e" "db_zkps d = db_zkps e"
    "db_verified_schemas d = db_verified_schemas e" "db_failures d = db_failures e" "db_logs d = db_logs e"
    "db_schemas_relation d = db_schemas_relation e"
  using assms unfolding same_data_def by (cases d; cases e; simp)+

lemma statement_cases:
  obtains (fault) fs where "statement f db = (Inl (LibErr ''db''), db\<lparr>db_faults := fs\<rparr>)"
    | (run) fs where "statement f db = f (db\<lparr>db_faults := fs\<rparr>)"
proof (cases "db_faults db")
  case Nil
  then have eq: "db\<lparr>db_faults := []\<rparr> = db" by simp
  have "statement f db = f (db\<lparr>db_faults := []\<rparr>)" unfolding eq using Nil by (simp add: statement_def)
  then show ?thesis by (rule run)
next
  case (Cons x xs)
  then show ?thesis using fault [of xs] run [of xs] by (cases x) (simp_all add: statement_def)
qed

lemma statement_Inr:
  assumes "statement f db = (Inr v, d)"
  obtains e where "same_data db e" "f e = (Inr v, d)"
  using assms by (rule_tac f = f and db = db in statement_cases) (auto intro: that [of "db\<lparr>db_faults := _\<rparr>"])

lemma statement_read:
  assumes "\<And>d. snd (f d) = d"
  shows "same_data db (snd (statement f db))"
  using assms by (rule_tac f = f and db = db in statement_cases) auto

lemma rollback_Inr: "rollback d r = (Inr v, e) \<longleftrightarrow> r = (Inr v, e)"
  by (cases r) (auto simp: rollback_def ok_iff)

lemma rollback_Inl: "rollback d r = (Inl x, e) \<Longrightarrow> fst r = Inl x \<and> same_data d e"
  by (cases r; cases "fst r") (auto simp: rollback_def)

lemma begin_data: "same_data db (snd (statement (\<lambda>d. (Inr v, d)) db))"
  by (rule statement_read) simp

lemma transaction_Inr:
  assumes "transaction body db = (Inr v, d)"
  obtains d1 e where "same_data db d1" "body d1 = (Inr v, e)" "same_data e d"
proof -
  from assms obtain d1 where b: "statement (\<lambda>d. (Inr (), d)) db = (Inr (), d1)"
    and r: "bind_st (body d1) (\<lambda>v e. statement (\<lambda>x. (Inr v, x)) e) = (Inr v, d)"
    by (auto simp: transaction_def bind_st_Inr rollback_Inr)
  from r obtain w e where w: "body d1 = (Inr w, e)" "statement (\<lambda>x. (Inr w, x)) e = (Inr v, d)"
    by (auto simp: bind_st_Inr)
  have "w = v" using w(2) by (rule_tac f = "\<lambda>x. (Inr w, x)" and db = e in statement_cases) auto
  moreover have "same_data db d1" using begin_data [of db "()"] b by simp
  moreover have "same_data e d" using begin_data [of e w] w(2) by simp
  ultimately show ?thesis using that w(1) by blast
qed

lemma transaction_Inl:
  assumes "transaction body db = (Inl x, d)"
  shows "same_data db d"
proof -
  obtain r1 d1 where s: "statement (\<lambda>d. (Inr (), d)) db = (r1, d1)" by fastforce
  have "same_data db d1" using begin_data [of db "()"] s by simp
  then show ?thesis
    using assms s rollback_Inl [of d1 "bind_st (body d1) (\<lambda>v. statement (Pair (Inr v)))" x d]
    by (cases r1) (auto simp: transaction_def intro: same_data_trans)
qed

lemma savepoint_Inr:
  assumes "savepoint body db = (Inr v, d)"
  obtains d1 where "same_data db d1" "body d1 = (Inr v, d)"
proof -
  from assms obtain d1 where b: "statement (\<lambda>d. (Inr (), d)) db = (Inr (), d1)" and r: "body d1 = (Inr v, d)"
    by (auto simp: savepoint_def bind_st_Inr rollback_Inr)
  have "same_data db d1" using begin_data [of db "()"] b by simp
  then show ?thesis using that r by blast
qed

section \<open>The outbox is an event store\<close>

definition pending_event :: "database \<Rightarrow> string \<Rightarrow> outbox_event option" where
  "pending_event db u = List.find (open_event u) (db_events db)"

text \<open>The sixth failure closes an event.\<close>

definition bump_event :: "outbox_event \<Rightarrow> outbox_event option" where
  "bump_event ev = (if oe_retry ev \<ge> MaxRetries then None else Some (ev\<lparr>oe_retry := oe_retry ev + 1\<rparr>))"

definition canonical :: "uuid_lib \<Rightarrow> string \<Rightarrow> bool" where
  "canonical U k = (ul_column U k = Some k)"

lemma pending_same_data: "same_data d e \<Longrightarrow> pending_event d = pending_event e"
  by (rule ext) (simp add: pending_event_def same_data_tables)

lemma find_update_other:
  assumes "k \<noteq> u" and "\<And>ev. oe_event_id (f ev) = oe_event_id ev"
  shows "List.find (open_event u) (map (\<lambda>ev. if open_event k ev then f ev else ev) evs) = List.find (open_event u) evs"
  using assms by (induction evs) (auto simp: open_event_def)

lemma find_update_closed:
  assumes "\<And>ev. oe_processed_at (f ev) \<noteq> None"
  shows "List.find (open_event k) (map (\<lambda>ev. if open_event k ev then f ev else ev) evs) = None"
  using assms by (induction evs) (auto simp: open_event_def)

lemma find_update_open:
  assumes "\<And>ev. oe_event_id (f ev) = oe_event_id ev" and "\<And>ev. oe_processed_at (f ev) = oe_processed_at ev"
  shows "List.find (open_event k) (map (\<lambda>ev. if open_event k ev then f ev else ev) evs)
    = map_option f (List.find (open_event k) evs)"
  using assms by (induction evs) (auto simp: open_event_def)

lemma GetEvent_data: "same_data db (snd (GetEvent U k db))"
  unfolding GetEvent_def by (rule statement_read) simp

lemma GetEvent_Inr:
  assumes "canonical U k" and "GetEvent U k db = (Inr ev, d)"
  shows "pending_event db k = Some ev" "same_data db d"
proof -
  show d: "same_data db d" using GetEvent_data [of db U k] assms(2) by simp
  from assms(2) obtain e where "same_data db e" "first_row (open_event k) (db_events e) = Inr ev"
    using assms(1) by (auto simp: GetEvent_def canonical_def uuid_param_def elim!: statement_Inr)
  then show "pending_event db k = Some ev"
    by (auto simp: pending_event_def first_row_def same_data_tables split: option.splits)
qed

lemma update_event_Inr:
  assumes "canonical U k" and "update_event U k f db = (Inr u, d)"
  shows "db_events d = map (\<lambda>ev. if open_event k ev then f ev else ev) (db_events db)"
  using assms
  by (auto simp: update_event_def canonical_def uuid_param_def same_data_tables elim!: statement_Inr)

text \<open>The tables other than the outbox are not touched.\<close>

definition same_others :: "database \<Rightarrow> database \<Rightarrow> bool" where
  "same_others d e = same_data (d\<lparr>db_events := []\<rparr>) (e\<lparr>db_events := []\<rparr>)"

lemma same_data_others: "same_data d e \<Longrightarrow> same_others d e"
  unfolding same_others_def same_data_def by (cases d; cases e; simp)

lemma same_others_upd [simp]:
  "same_others db (db\<lparr>db_faults := fs\<rparr>)" "same_others db (db\<lparr>db_faults := fs, db_events := evs\<rparr>)"
  unfolding same_others_def same_data_def by (cases db; simp)+

lemma same_others_trans: "same_others a b \<Longrightarrow> same_others b c \<Longrightarrow> same_others a c"
  by (simp add: same_others_def same_data_def)

lemma same_others_tables:
  assumes "same_others d e"
  shows "db_identities d = db_identities e" "db_zkps d = db_zkps e"
    "db_verified_schemas d = db_verified_schemas e" "db_failures d = db_failures e" "db_logs d = db_logs e"
    "db_schemas_relation d = db_schemas_relation e"
  using assms unfolding same_others_def same_data_def by (cases d; cases e; simp)+

lemma update_event_others: "same_others db (snd (update_event U k f db))"
  unfolding update_event_def
  by (rule_tac f = "\<lambda>db. case uuid_param U k of Inl e \<Rightarrow> (Inl e, db)
       | Inr u \<Rightarrow> (Inr (), db\<lparr>db_events := map (\<lambda>ev. if open_event u ev then f ev else ev) (db_events db)\<rparr>)"
      and db = db in statement_cases) (auto split: sum.splits)

text \<open>What a success does to the rows.\<close>

definition closed_at :: "int \<Rightarrow> outbox_event \<Rightarrow> outbox_event" where
  "closed_at now x = x\<lparr>oe_processed_at := Some now\<rparr>"

definition retried :: "int \<Rightarrow> int \<Rightarrow> outbox_event \<Rightarrow> outbox_event" where
  "retried now n x =
     (if n \<ge> MaxRetries then closed_at now (x\<lparr>oe_retry := n + 1\<rparr>) else x\<lparr>oe_retry := n + 1\<rparr>)"

definition on_open :: "string \<Rightarrow> (outbox_event \<Rightarrow> outbox_event) \<Rightarrow> outbox_event list \<Rightarrow> outbox_event list" where
  "on_open k f = map (\<lambda>x. if open_event k x then f x else x)"

lemma mark_body_Inr:
  assumes "canonical U k" and "mark_body U now k db = (Inr u, d)"
  shows "pending_event db k \<noteq> None \<and> db_events d = on_open k (closed_at now) (db_events db) \<and> same_others db d"
proof -
  from assms(2) obtain ev e where g: "GetEvent U k db = (Inr ev, e)"
    and m: "update_event U k (\<lambda>ev. ev\<lparr>oe_processed_at := Some now\<rparr>) e = (Inr u, d)"
    by (auto simp: mark_body_def bind_st_Inr)
  note G = GetEvent_Inr [OF assms(1) g]
  have "same_others e d" using update_event_others [of e U k] m by (metis snd_conv)
  then show ?thesis
    using G same_others_trans [OF same_data_others [OF G(2)]] update_event_Inr [OF assms(1) m]
    by (auto simp: on_open_def closed_at_def same_data_tables)
qed

lemma MarkEventAsProcessed_Inr:
  assumes "canonical U k" and "MarkEventAsProcessed U now k db = (Inr u, d)"
  shows "pending_event db k \<noteq> None \<and> db_events d = on_open k (closed_at now) (db_events db) \<and> same_others db d"
proof -
  from transaction_Inr [OF assms(2) [unfolded MarkEventAsProcessed_def]]
  obtain d1 e where d: "same_data db d1" "mark_body U now k d1 = (Inr u, e)" "same_data e d" by blast
  from mark_body_Inr [OF assms(1) d(2)] show ?thesis
    using pending_same_data [OF d(1)] same_data_tables(1) [OF d(1)] same_data_tables(1) [OF d(3)]
      same_others_trans [OF same_data_others [OF d(1)] same_others_trans [OF _ same_data_others [OF d(3)]]]
    by auto
qed

lemma UpdateRetryValue_Inr:
  assumes "canonical U k" and "UpdateRetryValue U now k db = (Inr u, d)"
  shows "\<exists>ev. pending_event db k = Some ev \<and> db_events d = on_open k (retried now (oe_retry ev)) (db_events db)
    \<and> same_others db d"
proof -
  let ?body = "\<lambda>db. bind_st (GetEvent U k db) (\<lambda>ev d.
       bind_st (update_event U k (\<lambda>x. x\<lparr>oe_retry := oe_retry ev + 1\<rparr>) d) (\<lambda>_ d.
       if oe_retry ev \<ge> MaxRetries then savepoint (mark_body U now k) d else (Inr (), d)))"
  obtain d1 d4 where d14: "same_data db d1" "?body d1 = (Inr u, d4)" "same_data d4 d"
    using assms(2) unfolding UpdateRetryValue_def by (elim transaction_Inr) (rule that)
  from d14(2) obtain ev d2 d3 where get: "GetEvent U k d1 = (Inr ev, d2)"
    and up: "update_event U k (\<lambda>x. x\<lparr>oe_retry := oe_retry ev + 1\<rparr>) d2 = (Inr (), d3)"
    and last: "(if oe_retry ev \<ge> MaxRetries then savepoint (mark_body U now k) d3 else (Inr (), d3)) = (Inr u, d4)"
    by (auto simp: bind_st_Inr)
  note G = GetEvent_Inr [OF assms(1) get]
  let ?f = "\<lambda>x. x\<lparr>oe_retry := oe_retry ev + 1\<rparr>"
  have e3: "db_events d3 = on_open k ?f (db_events db)"
    using update_event_Inr [OF assms(1) up] same_data_tables(1) [OF G(2)] same_data_tables(1) [OF d14(1)]
    by (simp add: on_open_def)
  have o3: "same_others db d3"
    using update_event_others [of d2 U k ?f] up same_data_others [OF d14(1)] same_data_others [OF G(2)]
    by (metis same_others_trans snd_conv)
  have "db_events d4 = on_open k (retried now (oe_retry ev)) (db_events db) \<and> same_others d3 d4"
  proof (cases "oe_retry ev \<ge> MaxRetries")
    case True
    from last have sp: "savepoint (mark_body U now k) d3 = (Inr u, d4)" using True by simp
    obtain d5 where d5: "same_data d3 d5" "mark_body U now k d5 = (Inr u, d4)" using savepoint_Inr [OF sp] by blast
    have "on_open k (closed_at now) (on_open k ?f evs) = on_open k (retried now (oe_retry ev)) evs" for evs
      using True by (simp add: on_open_def retried_def open_event_def)
    moreover have "db_events d5 = on_open k ?f (db_events db)" using e3 same_data_tables(1) [OF d5(1)] by simp
    ultimately show ?thesis
      using mark_body_Inr [OF assms(1) d5(2)] same_others_trans [OF same_data_others [OF d5(1)]] by simp
  next
    case False
    then have "retried now (oe_retry ev) = ?f" by (rule_tac ext) (simp add: retried_def)
    then show ?thesis using last e3 False by (auto simp: same_data_others)
  qed
  then show ?thesis
    using o3 G(1) pending_same_data [OF d14(1)] same_data_tables(1) [OF d14(3)]
      same_others_trans [OF same_others_trans [OF o3] same_data_others [OF d14(3)]] by auto
qed

lemma pending_closed: "db_events d = on_open k (closed_at now) (db_events db) \<Longrightarrow> pending_event d = (pending_event db)(k := None)"
proof
  fix x assume e: "db_events d = on_open k (closed_at now) (db_events db)"
  show "pending_event d x = ((pending_event db)(k := None)) x"
    unfolding pending_event_def e on_open_def
    using find_update_closed [of "closed_at now" k] find_update_other [of k x "closed_at now"]
    by (auto simp: closed_at_def pending_event_def)
qed

lemma pending_retried:
  assumes "pending_event db k = Some ev" and "db_events d = on_open k (retried now (oe_retry ev)) (db_events db)"
  shows "pending_event d = (pending_event db)(k := bump_event ev)"
proof
  fix x
  let ?f = "retried now (oe_retry ev)"
  have "List.find (open_event k) (on_open k ?f (db_events db)) = bump_event ev"
  proof (cases "oe_retry ev \<ge> MaxRetries")
    case True
    then show ?thesis
      unfolding on_open_def by (subst find_update_closed) (simp_all add: retried_def closed_at_def bump_event_def)
  next
    case False
    then show ?thesis
      using assms(1) unfolding on_open_def
      by (subst find_update_open) (simp_all add: retried_def bump_event_def pending_event_def)
  qed
  moreover have "x \<noteq> k \<Longrightarrow> List.find (open_event x) (on_open k ?f (db_events db)) = List.find (open_event x) (db_events db)"
    unfolding on_open_def by (rule find_update_other) (simp_all add: retried_def closed_at_def)
  ultimately show "pending_event d x = ((pending_event db)(k := bump_event ev)) x"
    by (auto simp: pending_event_def assms(2))
qed

lemma outbox_fails:
  "MarkEventAsProcessed U now k db = (Inl e, d) \<Longrightarrow> same_data db d"
  "UpdateRetryValue U now k db = (Inl e, d) \<Longrightarrow> same_data db d"
  by (simp_all add: MarkEventAsProcessed_def UpdateRetryValue_def transaction_Inl)

interpretation outbox: event_store "GetEvent U" "MarkEventAsProcessed U now" "UpdateRetryValue U now"
  pending_event bump_event "canonical U" for U now
proof (unfold_locales, goal_cases)
  case (1 k s e s')
  then show ?case by (rule GetEvent_Inr(1))
next
  case (2 k s')
  show ?case by (rule pending_same_data [symmetric]) (rule GetEvent_data)
next
  case (3 k s s')
  then show ?case using MarkEventAsProcessed_Inr pending_closed by metis
next
  case (4 k s err s')
  then show ?case using outbox_fails(1) pending_same_data by metis
next
  case (5 k s s')
  then show ?case using UpdateRetryValue_Inr pending_retried by metis
next
  case (6 k s err s')
  then show ?case using outbox_fails(2) pending_same_data by metis
qed

end
