(* ===== verification/ProofResults.thy ===== *)
theory ProofResults
  imports Outbox
begin

text \<open>
  \<open>api/src/zkp/results\<close> and \<open>api/src/zkp/failed\<close>: what the API does with the messages about proofs
  that come back over the queues. A call that panics returns \<open>None\<close> beside the state it left.
\<close>

section \<open>Results\<close>

definition GetIdentityByUUID :: "uuid_lib \<Rightarrow> string \<Rightarrow> database \<Rightarrow> identity_row res \<times> database" where
  "GetIdentityByUUID U i =
     statement (\<lambda>db. (and_then (uuid_param U i) (\<lambda>u. first_row (\<lambda>r. id_identity_id r = u) (db_identities db)), db))"

text \<open>\<open>fresh\<close> is the UUID that \<open>uuid.New\<close> makes.\<close>

definition create_schema :: "string \<Rightarrow> string \<Rightarrow> int \<Rightarrow> database \<Rightarrow> verified_schema res \<times> database" where
  "create_schema fresh schemaStr superIdentityId db =
     (if \<exists>r\<in>set (db_verified_schemas db). vs_schema_id r = fresh then (Inl (LibErr ''duplicate key''), db)
      else let r = \<lparr>vs_id = next_id (db_verified_schemas db), vs_schema_id = fresh,
                    vs_super_identity_id = superIdentityId, vs_schema = schemaStr\<rparr>
           in (Inr r, db\<lparr>db_verified_schemas := db_verified_schemas db @ [r]\<rparr>))"

definition FindOrCreateVerifiedSchema ::
    "string \<Rightarrow> string \<Rightarrow> int \<Rightarrow> database \<Rightarrow> verified_schema res \<times> database" where
  "FindOrCreateVerifiedSchema fresh schemaStr superIdentityId db =
     (case statement (\<lambda>d. (first_row (\<lambda>r. vs_schema r = schemaStr) (db_verified_schemas d), d)) db of
        (Inr r, d) \<Rightarrow> (Inr r, d)
      | (Inl e, d) \<Rightarrow> if e = record_not_found then statement (create_schema fresh schemaStr superIdentityId) d
                     else (Inl e, d))"

definition SaveZeroKnowledgeProof :: "int \<Rightarrow> int \<Rightarrow> string \<Rightarrow> string \<Rightarrow> database \<Rightarrow> unit res \<times> database" where
  "SaveZeroKnowledgeProof schema super reference account =
     statement (\<lambda>db. (Inr (), db\<lparr>db_zkps := db_zkps db @
       [\<lparr>zp_id = next_id (db_zkps db), zp_schema = schema, zp_super_identity_id = super,
         zp_proof_reference = reference, zp_account_id = account\<rparr>]\<rparr>))"

text \<open>\<open>uuid.MustParse\<close> panics for a text that is not a UUID.\<close>

definition must_parse :: "uuid_lib \<Rightarrow> string \<Rightarrow> (string \<Rightarrow> 's \<Rightarrow> 'r option \<times> 's) \<Rightarrow> 's \<Rightarrow> 'r option \<times> 's" where
  "must_parse U t f s = (case ul_parse U t of None \<Rightarrow> (None, s) | Some u \<Rightarrow> f u s)"

text \<open>The three steps after the event has been read; the error of that read is overwritten.\<close>

definition store_proof ::
    "uuid_lib \<Rightarrow> string \<Rightarrow> outbox_event \<Rightarrow> proof_result_dto \<Rightarrow> database \<Rightarrow> unit res \<times> database" where
  "store_proof U fresh event rsp db =
     bind_st (GetIdentityByUUID U (oe_identity_id event) db) (\<lambda>ident d.
     bind_st (FindOrCreateVerifiedSchema fresh (oe_schema_id event) (id_id ident) d) (\<lambda>schema d.
     SaveZeroKnowledgeProof (vs_id schema) (id_id ident) (rd_signature rsp) (rd_account_id rsp) d))"

definition ProcessVerificationResult ::
    "uuid_lib \<Rightarrow> string \<Rightarrow> int \<Rightarrow> proof_result_dto \<Rightarrow> database \<Rightarrow> unit res option \<times> database" where
  "ProcessVerificationResult U fresh now rsp =
     must_parse U (rd_event_id rsp) (\<lambda>eventId db.
       case GetEvent U eventId db of (r, d) \<Rightarrow>
       (let event = (case r of Inl e \<Rightarrow> zero_event | Inr ev \<Rightarrow> ev) in
        case store_proof U fresh event rsp d of
          (Inl e, d') \<Rightarrow> (Some (Inl e), d')
        | (Inr u, d') \<Rightarrow> must_parse U (oe_event_id event) (\<lambda>i s. apfst Some (MarkEventAsProcessed U now i s)) d'))"

text \<open>The consumer: it comes back unless the service panics.\<close>

definition results_handler ::
    "golib \<Rightarrow> uuid_lib \<Rightarrow> string \<Rightarrow> int \<Rightarrow> string \<Rightarrow> database \<Rightarrow> bool \<times> database" where
  "results_handler L U fresh now b db =
     (case unmarshal L decode_result b of
        Inl e \<Rightarrow> (True, db)
      | Inr rsp \<Rightarrow> apfst (\<lambda>r. r \<noteq> None) (ProcessVerificationResult U fresh now rsp db))"

section \<open>Failures\<close>

definition SaveFailedProof :: "proof_failure_dto \<Rightarrow> database \<Rightarrow> unit res \<times> database" where
  "SaveFailedProof f =
     statement (\<lambda>db. (Inr (), db\<lparr>db_failures := db_failures db @
       [\<lparr>pf_id = next_id (db_failures db), pf_event_id = fl_event_id f, pf_request_body = fl_request_body f,
         pf_error = fl_error f, pf_reason_code = fl_reason_code f\<rparr>]\<rparr>))"

definition SaveFailedAndUpdateOutbox ::
    "uuid_lib \<Rightarrow> int \<Rightarrow> proof_failure_dto \<Rightarrow> database \<Rightarrow> unit res option \<times> database" where
  "SaveFailedAndUpdateOutbox U now f db =
     (case SaveFailedProof f db of
        (Inl e, d) \<Rightarrow> (Some (Inl e), d)
      | (Inr u, d) \<Rightarrow> must_parse U (fl_event_id f) (\<lambda>i s. apfst Some (UpdateRetryValue U now i s)) d)"

definition failed_handler :: "golib \<Rightarrow> uuid_lib \<Rightarrow> int \<Rightarrow> string \<Rightarrow> database \<Rightarrow> bool \<times> database" where
  "failed_handler L U now b db =
     (case unmarshal L (decode_failure L) b of
        Inl e \<Rightarrow> (True, db)
      | Inr f \<Rightarrow> apfst (\<lambda>r. r \<noteq> None) (SaveFailedAndUpdateOutbox U now f db))"

end
