(* ===== verification/Identity.thy ===== *)
theory Identity
  imports Outbox PresentationHTTP
begin

text \<open>
  \<open>api/src/identity\<close>: identities and the queueing of verifications, with the handlers.
\<close>

section \<open>The repository\<close>

definition Create :: "uuid_lib \<Rightarrow> string \<Rightarrow> string \<Rightarrow> int option \<Rightarrow> database \<Rightarrow> identity_row res \<times> database" where
  "Create U i name parent =
     statement (\<lambda>db. case uuid_param U i of
         Inl e \<Rightarrow> (Inl e, db)
       | Inr u \<Rightarrow>
           if \<exists>r\<in>set (db_identities db). id_identity_id r = u then (Inl (LibErr ''duplicate key''), db)
           else let r = \<lparr>id_id = next_id (db_identities db), id_identity_id = u, id_identity_name = name,
                         id_parent_id = parent\<rparr>
                in (Inr r, db\<lparr>db_identities := db_identities db @ [r]\<rparr>))"

definition GetById :: "uuid_lib \<Rightarrow> string \<Rightarrow> database \<Rightarrow> identity_row res \<times> database" where
  "GetById U i =
     statement (\<lambda>db. (and_then (uuid_param U i) (\<lambda>u. first_row (\<lambda>r. id_identity_id r = u) (db_identities db)), db))"

definition GetByName :: "string \<Rightarrow> database \<Rightarrow> identity_row res \<times> database" where
  "GetByName name = statement (\<lambda>db. (first_row (\<lambda>r. id_identity_name r = name) (db_identities db), db))"

definition GetSubIdentities :: "int \<Rightarrow> database \<Rightarrow> identity_row list res \<times> database" where
  "GetSubIdentities parentId =
     statement (\<lambda>db. (Inr (filter (\<lambda>r. id_parent_id r = Some parentId) (db_identities db)), db))"

text \<open>The query goes to the relation \<open>schemas\<close>; of the row only its presence is used.\<close>

definition GetSchemaById :: "string \<Rightarrow> database \<Rightarrow> unit res \<times> database" where
  "GetSchemaById i =
     statement (\<lambda>db. (case db_schemas_relation db of
         None \<Rightarrow> Inl (LibErr ''relation does not exist'')
       | Some ids \<Rightarrow> if i \<in> set ids then Inr () else Inl record_not_found, db))"

section \<open>The service\<close>

text \<open>\<open>fresh\<close> is the UUID that \<open>uuid.New\<close> makes. The parent is looked up by the decimal text of its id.\<close>

definition CreateIdentity ::
    "uuid_lib \<Rightarrow> string \<Rightarrow> string \<Rightarrow> int option \<Rightarrow> database \<Rightarrow> identity_row res \<times> database" where
  "CreateIdentity U fresh name parentId db =
     (case parentId of
        None \<Rightarrow> Create U fresh name None db
      | Some p \<Rightarrow>
          (case GetById U (int_str p) db of
             (Inl e, d) \<Rightarrow> (Inl (Msg (''parent identity with Id '' @ int_str p @ '' does not exist'')), d)
           | (Inr parent, d) \<Rightarrow> Create U fresh name (Some p) d))"

record verification_request =
  vq_identity_id :: string
  vq_schema_id :: string
  vq_fields :: "(string \<times> gval) list"

definition validateSchema :: "verification_request \<Rightarrow> bool" where
  "validateSchema request = True"

text \<open>A field that cannot be serialised gives the empty text.\<close>

definition field_text :: "golib \<Rightarrow> string \<times> gval \<Rightarrow> string" where
  "field_text L f =
     (case Serialize L (GMap [(''key'', GStr (fst f)), (''value'', snd f)]) of Inl e \<Rightarrow> [] | Inr t \<Rightarrow> t)"

definition request_text :: "golib \<Rightarrow> verification_request \<Rightarrow> string" where
  "request_text L req = str_join '', '' (map (field_text L) (vq_fields req))"

text \<open>Both ids are parsed from the schema's id.\<close>

definition QueueVerification_service ::
    "golib \<Rightarrow> uuid_lib \<Rightarrow> string res \<Rightarrow> publisher \<Rightarrow> verification_request \<Rightarrow> database \<times> broker
      \<Rightarrow> unit res \<times> database \<times> broker" where
  "QueueVerification_service L U fresh p req st =
     (case st of (db, br) \<Rightarrow>
      case ul_parse U (vq_schema_id req) of None \<Rightarrow> (Inl (LibErr ''uuid''), db, br) | Some schemaId \<Rightarrow>
      case ul_parse U (vq_schema_id req) of None \<Rightarrow> (Inl (LibErr ''uuid''), db, br) | Some identityId \<Rightarrow>
      (case GetSchemaById schemaId db of
         (Inl e, d) \<Rightarrow> (Inl e, d, br)
       | (Inr u, d) \<Rightarrow>
      if \<not> validateSchema req then (Inl (Msg ''Schema validation failed, types are incorrect''), d, br)
      else case NewEvent U fresh identityId schemaId (request_text L req) d of
         (Inl e, d') \<Rightarrow> (Inl e, d', br)
       | (Inr eventId, d') \<Rightarrow>
           (case Publish L p (verification_json eventId (request_text L req)) br of (r, br') \<Rightarrow> (r, d', br'))))"

section \<open>The handlers\<close>

text \<open>
  \<open>bound\<close> is what the library made of the body. With a parent the handler follows \<open>identity.Parent\<close>,
  which no code sets: a panic, answered 500 by the recovery middleware.
\<close>

definition CreateIdentity_handler ::
    "(string \<Rightarrow> string) \<Rightarrow> uuid_lib \<Rightarrow> string \<Rightarrow> (string \<times> int option) option \<Rightarrow> database \<Rightarrow> response \<times> database" where
  "CreateIdentity_handler lt U fresh bound db =
     (case bound of None \<Rightarrow> (resp 400 (jerror ''Invalid request''), db)
      | Some (name, parentId) \<Rightarrow>
      if name = [] then (resp 400 (jerror ''Invalid request''), db)
      else case CreateIdentity U fresh name parentId db of
        (Inl e, d) \<Rightarrow> (resp 500 (jerror (''Could not create identity: '' @ error_text lt e)), d)
      | (Inr ident, d) \<Rightarrow>
          if id_parent_id ident \<noteq> None then (recovered, d)
          else (resp 201 (jobj [(''identity_id'', GStr (id_identity_id ident)),
                 (''identity_name'', GStr (id_identity_name ident)), (''parent_id'', GNil)]), d))"

definition GetIdentity :: "uuid_lib \<Rightarrow> string \<Rightarrow> database \<Rightarrow> response \<times> database" where
  "GetIdentity U i db =
     (case GetById U i db of
        (Inl e, d) \<Rightarrow> (resp 404 (jerror ''Identity not found''), d)
      | (Inr ident, d) \<Rightarrow> (resp 200 (jobj [(''identity_id'', GStr (id_identity_id ident)),
            (''identity_name'', GStr (id_identity_name ident))]), d))"

definition QueueVerification ::
    "golib \<Rightarrow> uuid_lib \<Rightarrow> string res \<Rightarrow> publisher \<Rightarrow> verification_request option \<Rightarrow> database \<times> broker
      \<Rightarrow> response \<times> database \<times> broker" where
  "QueueVerification L U fresh p bound st =
     (case bound of None \<Rightarrow> (resp 400 (jerror ''Invalid JSON''), st)
      | Some req \<Rightarrow>
          (case QueueVerification_service L U fresh p req st of
             (Inl e, st') \<Rightarrow> (resp 500 (jerror ''Failed to queue verification''), st')
           | (Inr u, st') \<Rightarrow> (resp 202 (jobj [(''status'', GStr ''queued'')]), st')))"

end
