(* ===== verification/VerificationFlow.thy ===== *)
theory VerificationFlow
  imports OutboxProps ProofResults Identity
begin

text \<open>
  What happens to a verification in the API, from the queueing over the outbox to the messages that
  come back: the invariant of the tables, the bound on retries, proofs are saved once, and the paths
  on which a verification gets lost.
\<close>

section \<open>Runs of the API\<close>

text \<open>The operations on the database, each with what the environment supplies; the last sets the faults to come.\<close>

datatype api_op =
    OpResult string int proof_result_dto
  | OpFailure int proof_failure_dto
  | OpQueue "string res" verification_request
  | OpCreate string string "int option"
  | OpOutbox
  | OpFaults "bool list"

fun api_step :: "golib \<Rightarrow> uuid_lib \<Rightarrow> publisher \<Rightarrow> api_op \<Rightarrow> database \<times> broker \<Rightarrow> database \<times> broker" where
  "api_step L U p (OpResult fresh now r) st = (snd (ProcessVerificationResult U fresh now r (fst st)), snd st)"
| "api_step L U p (OpFailure now f) st = (snd (SaveFailedAndUpdateOutbox U now f (fst st)), snd st)"
| "api_step L U p (OpQueue fresh req) st = snd (QueueVerification_service L U fresh p req st)"
| "api_step L U p (OpCreate fresh name parent) st = (snd (CreateIdentity U fresh name parent (fst st)), snd st)"
| "api_step L U p OpOutbox st = processOutboxEvents L p st"
| "api_step L U p (OpFaults fs) st = ((fst st)\<lparr>db_faults := fs\<rparr>, snd st)"

definition api_run :: "golib \<Rightarrow> uuid_lib \<Rightarrow> publisher \<Rightarrow> api_op list \<Rightarrow> database \<times> broker \<Rightarrow> database \<times> broker" where
  "api_run L U p ops st = fold (api_step L U p) ops st"

section \<open>What the operations do to the outbox\<close>

text \<open>
  Every operation leaves the rows alone, closes or retries the pending row of one event, or adds a
  row under a new id.
\<close>

inductive outbox_step :: "uuid_lib \<Rightarrow> outbox_event list \<Rightarrow> outbox_event list \<Rightarrow> bool" for U where
  keep: "outbox_step U evs evs"
| close: "canonical U k \<Longrightarrow> outbox_step U evs (on_open k (closed_at now) evs)"
| retry: "canonical U k \<Longrightarrow> List.find (open_event k) evs = Some ev \<Longrightarrow>
    outbox_step U evs (on_open k (retried now (oe_retry ev)) evs)"
| add: "canonical U (oe_event_id ev) \<Longrightarrow> oe_event_id ev \<notin> oe_event_id ` set evs \<Longrightarrow> oe_retry ev = 0 \<Longrightarrow>
    \<not> oe_to_process ev \<Longrightarrow> oe_processed_at ev = None \<Longrightarrow> outbox_step U evs (evs @ [ev])"

inductive_cases outbox_stepE: "outbox_step U evs evs'"

lemma statement_events:
  assumes "\<And>d. db_events (snd (f d)) = db_events d"
  shows "db_events (snd (statement f db)) = db_events db"
  using assms by (rule_tac f = f and db = db in statement_cases) auto

lemma read_events [simp]:
  "db_events (snd (GetEvent U k db)) = db_events db"
  "db_events (snd (GetIdentityByUUID U i db)) = db_events db"
  "db_events (snd (GetById U i db)) = db_events db"
  "db_events (snd (GetSchemaById i db)) = db_events db"
  "db_events (snd (GetUnprocessedEvents db)) = db_events db"
  "db_events (snd (SaveZeroKnowledgeProof a b c e db)) = db_events db"
  "db_events (snd (SaveFailedProof f db)) = db_events db"
  unfolding GetEvent_def GetIdentityByUUID_def GetById_def GetSchemaById_def GetUnprocessedEvents_def
    SaveZeroKnowledgeProof_def SaveFailedProof_def by (rule statement_events, simp)+

lemma schema_events [simp]: "db_events (snd (FindOrCreateVerifiedSchema fresh s i db)) = db_events db"
proof -
  have c: "db_events (snd (statement (create_schema fresh s i) d)) = db_events d" for d
    by (rule statement_events) (simp add: create_schema_def Let_def)
  have f: "db_events (snd (statement (\<lambda>d. (first_row (\<lambda>r. vs_schema r = s) (db_verified_schemas d), d)) db)) = db_events db"
    by (rule statement_events) simp
  show ?thesis
    using c f unfolding FindOrCreateVerifiedSchema_def
    by (cases "statement (\<lambda>d. (first_row (\<lambda>r. vs_schema r = s) (db_verified_schemas d), d)) db") (auto split: sum.splits)
qed

lemma create_events [simp]: "db_events (snd (Create U i n p db)) = db_events db"
  unfolding Create_def by (rule statement_events) (auto simp: Let_def split: sum.splits)

lemma bind_st_snd: "snd (bind_st r f) = (case fst r of Inl e \<Rightarrow> snd r | Inr v \<Rightarrow> snd (f v (snd r)))"
  by (auto simp: bind_st_def split: sum.splits)

lemma store_proof_events [simp]: "db_events (snd (store_proof U fresh ev r db)) = db_events db"
  by (auto simp: store_proof_def bind_st_snd split: sum.splits)

lemma uuid_canonical:
  assumes "uuid_laws U"
  shows "ul_parse U t = Some u \<Longrightarrow> canonical U u" "uuid_param U t = Inr u \<Longrightarrow> canonical U u"
proof -
  show "ul_parse U t = Some u \<Longrightarrow> canonical U u" using assms unfolding uuid_laws_def canonical_def by blast
  assume "uuid_param U t = Inr u"
  then have "ul_column U t = Some u" by (simp add: uuid_param_def split: option.splits)
  then show "canonical U u" using assms unfolding uuid_laws_def canonical_def by blast
qed

lemma mark_step:
  assumes "canonical U k"
  shows "outbox_step U (db_events db) (db_events (snd (MarkEventAsProcessed U now k db)))"
proof -
  obtain r d where m: "MarkEventAsProcessed U now k db = (r, d)" by fastforce
  show ?thesis
  proof (cases r)
    case (Inl e)
    then have "db_events d = db_events db" using outbox_fails(1) m same_data_tables(1) by metis
    then show ?thesis by (simp add: m outbox_step.keep)
  next
    case (Inr u)
    then have "db_events d = on_open k (closed_at now) (db_events db)"
      using MarkEventAsProcessed_Inr [OF assms] m by metis
    then show ?thesis by (simp add: m outbox_step.close assms)
  qed
qed

lemma retry_step:
  assumes "canonical U k"
  shows "outbox_step U (db_events db) (db_events (snd (UpdateRetryValue U now k db)))"
proof -
  obtain r d where m: "UpdateRetryValue U now k db = (r, d)" by fastforce
  show ?thesis
  proof (cases r)
    case (Inl e)
    then have "db_events d = db_events db" using outbox_fails(2) m same_data_tables(1) by metis
    then show ?thesis by (simp add: m outbox_step.keep)
  next
    case (Inr u)
    then obtain ev where "pending_event db k = Some ev" "db_events d = on_open k (retried now (oe_retry ev)) (db_events db)"
      using UpdateRetryValue_Inr [OF assms] m by metis
    then show ?thesis by (simp add: m outbox_step.retry assms pending_event_def)
  qed
qed

lemma new_event_step:
  assumes "uuid_laws U"
  shows "outbox_step U (db_events db) (db_events (snd (NewEvent U fresh i s msg db)))"
proof (cases fresh)
  case (Inr e)
  have c: "outbox_step U (db_events d) (db_events (snd (create_event U e i s msg d)))" for d
    using uuid_canonical(2) [OF assms]
    by (auto simp: create_event_def Let_def and_then_Inr split: sum.splits prod.splits
        intro!: outbox_step.keep outbox_step.add)
  show ?thesis
  proof (rule statement_cases [of "create_event U e i s msg" db])
    fix fs assume "statement (create_event U e i s msg) db = (Inl (LibErr ''db''), db\<lparr>db_faults := fs\<rparr>)"
    then show ?thesis by (simp add: NewEvent_def Inr outbox_step.keep)
  next
    fix fs assume "statement (create_event U e i s msg) db = create_event U e i s msg (db\<lparr>db_faults := fs\<rparr>)"
    then show ?thesis using c [of "db\<lparr>db_faults := fs\<rparr>"] by (simp add: NewEvent_def Inr)
  qed
qed (simp add: NewEvent_def outbox_step.keep)

text \<open>Every operation is at most one such step.\<close>

lemma api_step_outbox:
  assumes "uuid_laws U"
  shows "outbox_step U (db_events (fst st)) (db_events (fst (api_step L U p a st)))"
proof (cases a)
  case (OpResult fresh now r)
  show ?thesis
  proof (cases "ul_parse U (rd_event_id r)")
    case None
    then show ?thesis by (simp add: OpResult ProcessVerificationResult_def must_parse_def outbox_step.keep)
  next
    case (Some e)
    obtain g d where g: "GetEvent U e (fst st) = (g, d)" by fastforce
    have d: "db_events d = db_events (fst st)" using read_events(1) [of U e "fst st"] g by simp
    let ?ev = "case g of Inl e \<Rightarrow> zero_event | Inr ev \<Rightarrow> ev"
    obtain q d' where q: "store_proof U fresh ?ev r d = (q, d')" by fastforce
    have d': "db_events d' = db_events (fst st)" using store_proof_events [of U fresh ?ev r d] q d by simp
    show ?thesis
      using d' mark_step [OF uuid_canonical(1) [OF assms], of "oe_event_id ?ev" _ d' now]
      by (auto simp: OpResult ProcessVerificationResult_def must_parse_def Some g q apfst_def map_prod_def Let_def
          split: sum.splits option.splits prod.splits intro: outbox_step.keep)
  qed
next
  case (OpFailure now f)
  obtain g d where g: "SaveFailedProof f (fst st) = (g, d)" by fastforce
  have d: "db_events d = db_events (fst st)" using read_events(7) [of f "fst st"] g by simp
  show ?thesis
    using d retry_step [OF uuid_canonical(1) [OF assms], of "fl_event_id f" _ d now]
    by (auto simp: OpFailure SaveFailedAndUpdateOutbox_def must_parse_def g apfst_def map_prod_def
        split: sum.splits option.splits prod.splits intro: outbox_step.keep)
next
  case (OpQueue fresh req)
  show ?thesis
  proof (cases "ul_parse U (vq_schema_id req)")
    case None
    then show ?thesis
      by (cases st) (simp add: OpQueue QueueVerification_service_def outbox_step.keep)
  next
    case (Some u)
    obtain g d where g: "GetSchemaById u (fst st) = (g, d)" by fastforce
    have d: "db_events d = db_events (fst st)" using read_events(4) [of u "fst st"] g by simp
    obtain h d' where h: "NewEvent U fresh u u (request_text L req) d = (h, d')" by fastforce
    have "outbox_step U (db_events (fst st)) (db_events d')"
      using new_event_step [OF assms, of d fresh u u "request_text L req"] h d by simp
    then show ?thesis
      using g d h
      by (cases st) (auto simp: OpQueue QueueVerification_service_def Some validateSchema_def
          split: sum.splits prod.splits intro: outbox_step.keep)
  qed
next
  case (OpCreate fresh name parent)
  have "db_events (snd (CreateIdentity U fresh name parent (fst st))) = db_events (fst st)"
  proof (cases parent)
    case (Some q)
    obtain g d where g: "GetById U (int_str q) (fst st) = (g, d)" by fastforce
    have d: "db_events d = db_events (fst st)" using read_events(3) [of U "int_str q" "fst st"] g by simp
    then show ?thesis by (auto simp: CreateIdentity_def Some g split: sum.splits)
  qed (simp add: CreateIdentity_def)
  then show ?thesis by (simp add: OpCreate outbox_step.keep)
next
  case OpOutbox
  obtain g d where g: "GetUnprocessedEvents (fst st) = (g, d)" by fastforce
  have "db_events d = db_events (fst st)" using read_events(5) [of "fst st"] g by simp
  then show ?thesis by (simp add: OpOutbox processOutboxEvents_def g outbox_step.keep)
next
  case (OpFaults fs)
  then show ?thesis by (simp add: outbox_step.keep)
qed

section \<open>The invariant of the outbox\<close>

definition events_ok :: "uuid_lib \<Rightarrow> outbox_event list \<Rightarrow> bool" where
  "events_ok U evs =
     (distinct (map oe_event_id evs)
      \<and> (\<forall>ev\<in>set evs. canonical U (oe_event_id ev) \<and> \<not> oe_to_process ev \<and> 0 \<le> oe_retry ev
           \<and> oe_retry ev \<le> (if oe_processed_at ev = None then MaxRetries else MaxRetries + 1)))"

lemma on_open_ids [simp]:
  "(\<And>x. oe_event_id (f x) = oe_event_id x) \<Longrightarrow> map oe_event_id (on_open k f evs) = map oe_event_id evs"
  by (induction evs) (auto simp: on_open_def)

lemma row_ids [simp]:
  "oe_event_id (closed_at now x) = oe_event_id x" "oe_event_id (retried now n x) = oe_event_id x"
  "oe_to_process (closed_at now x) = oe_to_process x" "oe_to_process (retried now n x) = oe_to_process x"
  by (simp_all add: closed_at_def retried_def)

lemma find_SomeD: "List.find P xs = Some x \<Longrightarrow> x \<in> set xs \<and> P x"
  by (induction xs) (auto split: if_splits)

lemma find_open_distinct:
  assumes "distinct (map oe_event_id evs)" and "List.find (open_event k) evs = Some ev" and "x \<in> set evs" and "open_event k x"
  shows "x = ev"
proof -
  have "ev \<in> set evs" "oe_event_id ev = k" using assms(2) by (auto simp: find_Some_iff open_event_def)
  then show ?thesis using assms(1,3,4) by (auto simp: distinct_map inj_on_def open_event_def)
qed

lemma events_ok_step:
  assumes "outbox_step U evs evs'" and "events_ok U evs"
  shows "events_ok U evs'"
  using assms(1)
proof cases
  case keep
  then show ?thesis using assms(2) by simp
next
  case (close k now)
  have "distinct (map oe_event_id evs')" using assms(2) unfolding close(1) by (simp add: events_ok_def)
  moreover have "\<forall>y\<in>set evs'. canonical U (oe_event_id y) \<and> \<not> oe_to_process y \<and> 0 \<le> oe_retry y
      \<and> oe_retry y \<le> (if oe_processed_at y = None then MaxRetries else MaxRetries + 1)"
    using assms(2) unfolding close(1)
    by (auto simp: events_ok_def on_open_def closed_at_def open_event_def split: if_splits)
  ultimately show ?thesis by (simp add: events_ok_def)
next
  case (retry k ev now)
  have "canonical U (oe_event_id y) \<and> \<not> oe_to_process y \<and> 0 \<le> oe_retry y
      \<and> oe_retry y \<le> (if oe_processed_at y = None then MaxRetries else MaxRetries + 1)"
    if y: "y \<in> set evs'" for y
  proof -
    from y obtain x where x: "x \<in> set evs" "y = (if open_event k x then retried now (oe_retry ev) x else x)"
      unfolding retry(1) on_open_def by auto
    show ?thesis
    proof (cases "open_event k x")
      case True
      then have "x = ev" using find_open_distinct assms(2) retry(3) x(1) by (auto simp: events_ok_def)
      then show ?thesis
        using x True assms(2) by (auto simp: events_ok_def retried_def closed_at_def open_event_def)
    next
      case False
      then show ?thesis using x assms(2) by (auto simp: events_ok_def)
    qed
  qed
  moreover have "distinct (map oe_event_id evs')"
    using assms(2) unfolding retry(1) by (simp add: events_ok_def)
  ultimately show ?thesis by (simp add: events_ok_def)
next
  case (add ev)
  then show ?thesis using assms(2) by (auto simp: events_ok_def MaxRetries_def)
qed

text \<open>What every step keeps, every run keeps.\<close>

lemma api_run_invariant:
  assumes "uuid_laws U" and "P (db_events (fst st))"
    and "\<And>evs evs'. outbox_step U evs evs' \<Longrightarrow> P evs \<Longrightarrow> P evs'"
  shows "P (db_events (fst (api_run L U p ops st)))"
  using assms(2)
proof (induction ops arbitrary: st)
  case Nil
  then show ?case by (simp add: api_run_def)
next
  case (Cons a ops)
  have "P (db_events (fst (api_step L U p a st)))" using assms(3) [OF api_step_outbox [OF assms(1)] Cons.prems] .
  from Cons.IH [OF this] show ?case by (simp add: api_run_def)
qed

text \<open>A closed event: its row is there and is not pending. It stays so.\<close>

definition closed_event :: "string \<Rightarrow> outbox_event list \<Rightarrow> bool" where
  "closed_event k evs = (k \<in> oe_event_id ` set evs \<and> List.find (open_event k) evs = None)"

lemma closed_event_step:
  assumes "outbox_step U evs evs'" and "closed_event k evs"
  shows "closed_event k evs'"
proof -
  have ids: "oe_event_id ` set (on_open k' f evs) = oe_event_id ` set evs" if "\<And>x. oe_event_id (f x) = oe_event_id x" for k' f
    using on_open_ids [of f k' evs, OF that] by (metis set_map)
  have stays: "List.find (open_event k) (on_open k' f evs) = None" if "\<And>x. oe_event_id (f x) = oe_event_id x" for k' f
  proof (cases "k' = k")
    case True
    have "\<forall>x\<in>set evs. \<not> open_event k x" using assms(2) by (simp add: closed_event_def find_None_iff)
    then have "on_open k f evs = evs" unfolding on_open_def by (intro map_idI) simp
    then show ?thesis using True assms(2) by (simp add: closed_event_def)
  next
    case False
    then show ?thesis using assms(2) find_update_other [of k' k f evs] that by (simp add: on_open_def closed_event_def)
  qed
  from assms(1) show ?thesis
  proof cases
    case (add ev)
    then show ?thesis using assms(2) by (auto simp: closed_event_def find_None_iff open_event_def)
  qed (use assms(2) ids stays in \<open>auto simp: closed_event_def\<close>)
qed

section \<open>Without faults\<close>

lemma statement_quiet: "db_faults db = [] \<Longrightarrow> statement f db = f db"
  by (simp add: statement_def)

lemma quiet_retry:
  assumes "canonical U k" and "db_faults db = []" and "pending_event db k = Some ev"
  shows "\<exists>d. UpdateRetryValue U now k db = (Inr (), d) \<and> db_faults d = []"
  using assms
  by (auto simp: UpdateRetryValue_def transaction_def savepoint_def mark_body_def GetEvent_def update_event_def statement_quiet
      canonical_def uuid_param_def first_row_def pending_event_def rollback_def find_update_open split: option.splits)

lemma quiet_refusal:
  assumes "canonical U k" and "db_faults db = []" and "pending_event db k = None"
  shows "\<exists>e. UpdateRetryValue U now k db = (Inl e, db)"
  using assms
  by (auto simp: UpdateRetryValue_def transaction_def GetEvent_def statement_quiet
      canonical_def uuid_param_def first_row_def pending_event_def rollback_def split: option.splits)

section \<open>Texts that are no UUID\<close>

lemma uuid_short:
  assumes "uuid_laws U" and "length t < 32"
  shows "ul_parse U t = None" "uuid_param U t = Inl (LibErr ''invalid input syntax for type uuid'')"
proof -
  show "ul_parse U t = None" using assms unfolding uuid_laws_def by blast
  have "ul_column U t = None" using assms unfolding uuid_laws_def by blast
  then show "uuid_param U t = Inl (LibErr ''invalid input syntax for type uuid'')" by (simp add: uuid_param_def)
qed

lemma length_int_str: "in_int64 i \<Longrightarrow> length (int_str i) < 32"
proof -
  assume i: "in_int64 i"
  have "length (nat_str n) \<le> 19" if "n \<le> 2 ^ 63" for n
    using that by (intro length_nat_str) simp_all
  from this [of "nat i"] this [of "nat (- i)"] show ?thesis
    using i by (auto simp: int_str_def in_int64_def nat_le_iff)
qed

lemma orphan_result:
  assumes "uuid_laws U" and "store_proof U fresh zero_event r db = (x, d)"
  shows "\<exists>e. x = Inl e" "db_zkps d = db_zkps db"
proof -
  obtain g e where g: "GetIdentityByUUID U [] db = (g, e)" by fastforce
  have "(\<exists>err. g = Inl err) \<and> db_zkps e = db_zkps db"
    using g uuid_short(2) [OF assms(1), of "[]"] unfolding GetIdentityByUUID_def
    by (rule_tac f = "\<lambda>db. (and_then (uuid_param U []) (\<lambda>u. first_row (\<lambda>r. id_identity_id r = u) (db_identities db)), db)"
        and db = db in statement_cases) auto
  then show "\<exists>e. x = Inl e" "db_zkps d = db_zkps db"
    using assms(2) g by (auto simp: store_proof_def zero_event_def)
qed

section \<open>A library for the witnesses\<close>

definition demo_uuids :: uuid_lib where
  "demo_uuids = \<lparr>ul_parse = \<lambda>t. if length t < 32 then None else Some t, ul_column = \<lambda>t. if length t < 32 then None else Some t\<rparr>"

lemma demo_uuid_laws: "uuid_laws demo_uuids"
  by (auto simp: uuid_laws_def demo_uuids_def split: if_splits)

definition demo_uuid :: "char \<Rightarrow> string" where
  "demo_uuid c = replicate 36 c"

lemma demo_uuid_simps [simp]:
  "ul_parse demo_uuids (demo_uuid c) = Some (demo_uuid c)" "uuid_param demo_uuids (demo_uuid c) = Inr (demo_uuid c)"
  "canonical demo_uuids (demo_uuid c)" "demo_uuid c = demo_uuid d \<longleftrightarrow> c = d"
  by (auto simp: demo_uuids_def demo_uuid_def canonical_def uuid_param_def list_eq_iff_nth_eq numeral_eq_Suc)

definition demo_event :: "char \<Rightarrow> char \<Rightarrow> outbox_event" where
  "demo_event e s = \<lparr>oe_id = 1, oe_event_id = demo_uuid e, oe_identity_id = demo_uuid s, oe_schema_id = demo_uuid s,
     oe_retry = 0, oe_to_process = False, oe_request_message = [], oe_processed_at = None\<rparr>"

definition demo_outbox :: database where
  "demo_outbox = empty_database\<lparr>db_events := [demo_event CHR ''e'' CHR ''s'']\<rparr>"

definition demo_publisher :: publisher where
  "demo_publisher = \<lparr>pb_exchange = ''verifiers'', pb_routing_key = ''unverified.#''\<rparr>"

section \<open>Properties\<close>

text \<open>
  C10. The outbox, from any database whose events keep the invariant, an empty outbox for one, and
  whatever else the database holds, a relation \<open>schemas\<close> included. Whatever is done and whatever
  fails: events have distinct ids, are retried six times at most, five while they are open, and none is
  ever marked for processing. So the worker of the outbox, which looks for marked events, never
  publishes anything.
\<close>

theorem outbox_invariant:
  assumes "uuid_laws U" and "events_ok U (db_events db0)" and "api_run L U p ops (db0, br) = (db, br')"
  shows "events_ok U (db_events db) \<and> snd (processOutboxEvents L p (db, br'')) = br''"
proof -
  have "events_ok U (db_events (fst (api_run L U p ops (db0, br))))"
    by (rule api_run_invariant [OF assms(1)]) (simp_all add: assms(2) events_ok_step)
  then have inv: "events_ok U (db_events db)" using assms(3) by simp
  then have "\<And>d. db_events d = db_events db \<Longrightarrow> filter (\<lambda>ev. oe_to_process ev \<and> oe_processed_at ev = None) (db_events d) = []"
    by (auto simp: events_ok_def filter_empty_conv)
  then have "fst (GetUnprocessedEvents db) = Inl (LibErr ''db'') \<or> fst (GetUnprocessedEvents db) = Inr []"
    unfolding GetUnprocessedEvents_def
    by (rule_tac f = "\<lambda>db. (Inr (filter (\<lambda>ev. oe_to_process ev \<and> oe_processed_at ev = None) (db_events db)), db)"
        and db = db in statement_cases) auto
  then show ?thesis using inv by (cases "GetUnprocessedEvents db") (auto simp: processOutboxEvents_def)
qed

text \<open>With a relation \<open>schemas\<close> a verification is queued; it then fails once.\<close>

definition schemas_database :: database where
  "schemas_database = empty_database\<lparr>db_schemas_relation := Some [demo_uuid CHR ''s'']\<rparr>"

definition queue_and_fail :: "api_op list" where
  "queue_and_fail =
     [OpQueue (Inr (demo_uuid CHR ''e'')) \<lparr>vq_identity_id = [], vq_schema_id = demo_uuid CHR ''s'', vq_fields = []\<rparr>,
      OpFailure 7 \<lparr>fl_event_id = demo_uuid CHR ''e'', fl_request_body = [], fl_error = [], fl_reason_code = []\<rparr>]"

lemma queue_and_fail_events:
  "db_events (fst (api_run plain_lib demo_uuids demo_publisher queue_and_fail (schemas_database, \<lparr>br_sent = [], br_faults = []\<rparr>)))
   = [(demo_event CHR ''e'' CHR ''s'')\<lparr>oe_retry := 1\<rparr>]"
  by (simp add: api_run_def queue_and_fail_def schemas_database_def QueueVerification_service_def GetSchemaById_def validateSchema_def
      NewEvent_def create_event_def statement_def empty_database_def SaveFailedAndUpdateOutbox_def SaveFailedProof_def
      must_parse_def UpdateRetryValue_def transaction_def rollback_def bind_st_def GetEvent_def update_event_def first_row_def
      open_event_def MaxRetries_def demo_event_def next_id_def request_text_def split: prod.split sum.split)

theorem outbox_invariant_witness:
  "db_events (fst (api_run plain_lib demo_uuids demo_publisher queue_and_fail (schemas_database, \<lparr>br_sent = [], br_faults = []\<rparr>)))
     = [(demo_event CHR ''e'' CHR ''s'')\<lparr>oe_retry := 1\<rparr>]
   \<and> events_ok demo_uuids [(demo_event CHR ''e'' CHR ''s'')\<lparr>oe_retry := 1\<rparr>]
   \<and> snd (processOutboxEvents plain_lib demo_publisher
       (fst (api_run plain_lib demo_uuids demo_publisher queue_and_fail (schemas_database, \<lparr>br_sent = [], br_faults = []\<rparr>)), \<lparr>br_sent = [([], [], ''kept'')], br_faults = []\<rparr>))
     = \<lparr>br_sent = [([], [], ''kept'')], br_faults = []\<rparr>"
proof -
  obtain d b where st: "api_run plain_lib demo_uuids demo_publisher queue_and_fail
      (schemas_database, \<lparr>br_sent = [], br_faults = []\<rparr>) = (d, b)" by fastforce
  have "events_ok demo_uuids (db_events schemas_database)" by (simp add: schemas_database_def empty_database_def events_ok_def)
  from outbox_invariant [OF demo_uuid_laws this st] queue_and_fail_events show ?thesis by (simp add: st)
qed

text \<open>
  C17. An event is closed by its sixth failure: after \<open>n\<close> failures, with a database that works, it
  is open with \<open>n\<close> retries when \<open>n\<close> is five at most, and closed afterwards.
\<close>

theorem sixth_failure_closes:
  assumes "canonical U k" and "db_faults db = []" and "pending_event db k = Some ev" and "oe_retry ev = 0"
  shows "pending_event (((\<lambda>d. snd (UpdateRetryValue U now k d)) ^^ n) db) k
    = (if n \<le> 5 then Some (ev\<lparr>oe_retry := int n\<rparr>) else None)"
proof -
  let ?f = "\<lambda>d. snd (UpdateRetryValue U now k d)"
  have "db_faults ((?f ^^ n) db) = []
    \<and> pending_event ((?f ^^ n) db) k = (if n \<le> 5 then Some (ev\<lparr>oe_retry := int n\<rparr>) else None)"
  proof (induction n)
    case 0
    have "ev\<lparr>oe_retry := 0\<rparr> = ev" using assms(4) by simp
    then show ?case using assms(2,3) by simp
  next
    case (Suc n)
    let ?d = "(?f ^^ n) db"
    show ?case
    proof (cases "n \<le> 5")
      case True
      then have p: "pending_event ?d k = Some (ev\<lparr>oe_retry := int n\<rparr>)" using Suc by simp
      obtain d where d: "UpdateRetryValue U now k ?d = (Inr (), d)" "db_faults d = []"
        using quiet_retry [OF assms(1) _ p] Suc by blast
      have "pending_event d k = bump_event (ev\<lparr>oe_retry := int n\<rparr>)"
        using outbox.retry_chain [OF assms(1) d(1) p] .
      then show ?thesis using d True by (auto simp: bump_event_def MaxRetries_def)
    next
      case False
      then have p: "pending_event ?d k = None" using Suc by simp
      obtain e where "UpdateRetryValue U now k ?d = (Inl e, ?d)"
        using quiet_refusal [OF assms(1) _ p] Suc by blast
      then show ?thesis using Suc False by simp
    qed
  qed
  then show ?thesis by blast
qed

theorem sixth_failure_closes_witness:
  "pending_event (((\<lambda>d. snd (UpdateRetryValue demo_uuids 0 (demo_uuid CHR ''e'') d)) ^^ 6) demo_outbox) (demo_uuid CHR ''e'') = None"
proof -
  have "db_faults demo_outbox = []" "pending_event demo_outbox (demo_uuid CHR ''e'') = Some (demo_event CHR ''e'' CHR ''s'')"
      "oe_retry (demo_event CHR ''e'' CHR ''s'') = 0"
    by (simp_all add: demo_outbox_def empty_database_def pending_event_def open_event_def demo_event_def)
  from sixth_failure_closes [OF demo_uuid_simps(3) this, where now = 0 and n = 6] show ?thesis by simp
qed

text \<open>
  C11. A proof is saved once for an event: when a result has been processed without an error, every
  later result for the event, after whatever else was done, is refused and saves nothing.
\<close>

theorem proof_saved_once:
  assumes "uuid_laws U" and "ul_parse U (rd_event_id r) = Some k" and "ul_parse U (rd_event_id r') = Some k"
    and "ProcessVerificationResult U fresh now r (fst st) = (Some (Inr ()), db)"
    and "api_run L U p ops (db, snd st) = (db', br')"
    and "ProcessVerificationResult U fresh' now' r' db' = (answer, db'')"
  shows "(\<exists>e. answer = Some (Inl e)) \<and> db_zkps db'' = db_zkps db'"
proof -
  have can: "canonical U k" and pk: "ul_parse U k = Some k"
    using uuid_canonical(1) [OF assms(1,2)] assms(1,2) unfolding uuid_laws_def by blast+
  obtain g d where g: "GetEvent U k (fst st) = (g, d)" by fastforce
  let ?ev = "case g of Inl e \<Rightarrow> zero_event | Inr ev \<Rightarrow> ev"
  obtain q d' where q: "store_proof U fresh ?ev r d = (q, d')" by fastforce
  from assms(4) obtain v where "q = Inr v"
    by (cases q) (simp_all add: ProcessVerificationResult_def must_parse_def assms(2) g q Let_def)
  with orphan_result(1) [OF assms(1), of fresh r d q d'] q obtain ev where ev: "g = Inr ev" by (cases g) auto
  then have "oe_event_id ev = k"
    using GetEvent_Inr(1) [OF can] g by (auto simp: pending_event_def find_Some_iff open_event_def)
  with assms(4) have m: "MarkEventAsProcessed U now k d' = (Inr (), db)"
    using q \<open>q = Inr v\<close> by (auto simp: ProcessVerificationResult_def must_parse_def assms(2) g ev pk Let_def
        apfst_def map_prod_def split: prod.splits)
  have ne: "pending_event d' k \<noteq> None" and e: "db_events db = on_open k (closed_at now) (db_events d')"
    using MarkEventAsProcessed_Inr [OF can m] by simp_all
  have "closed_event k (db_events db)"
  proof -
    have "k \<in> oe_event_id ` set (db_events d')"
      using ne find_SomeD [of "open_event k" "db_events d'"] by (auto simp: pending_event_def open_event_def)
    then have "k \<in> oe_event_id ` set (db_events db)"
      unfolding e using on_open_ids [of "closed_at now" k "db_events d'"] by (metis row_ids(1) set_map)
    moreover have "pending_event db k = None" using pending_closed [OF e] by simp
    ultimately show ?thesis by (simp add: closed_event_def pending_event_def)
  qed
  then have "closed_event k (db_events (fst (api_run L U p ops (db, snd st))))"
    using api_run_invariant [OF assms(1), of "closed_event k"] closed_event_step by simp
  then have "pending_event db' k = None" using assms(5) by (simp add: closed_event_def pending_event_def)
  then obtain x d2 where x: "GetEvent U k db' = (Inl x, d2)"
    using outbox.closed_refuses(1) [OF can] by (metis ok_simps(1) prod.collapse sumE)
  have z: "db_zkps d2 = db_zkps db'" using GetEvent_data [of db' U k] x by (simp add: same_data_tables)
  obtain y d3 where y: "store_proof U fresh' zero_event r' d2 = (y, d3)" by fastforce
  show ?thesis
    using assms(6) orphan_result [OF assms(1) y] z
    by (auto simp: ProcessVerificationResult_def must_parse_def assms(3) x y Let_def)
qed

definition demo_identity_row :: identity_row where
  "demo_identity_row = \<lparr>id_id = 1, id_identity_id = demo_uuid CHR ''s'', id_identity_name = ''x'', id_parent_id = None\<rparr>"

definition demo_result :: proof_result_dto where
  "demo_result = \<lparr>rd_event_id = demo_uuid CHR ''e'', rd_signature = ''sig'', rd_account_id = ''acc''\<rparr>"

theorem proof_saved_once_witness:
  "\<exists>e. fst (ProcessVerificationResult demo_uuids (demo_uuid CHR ''v'') 1 demo_result
     (snd (ProcessVerificationResult demo_uuids (demo_uuid CHR ''w'') 0 demo_result
        (demo_outbox\<lparr>db_identities := [demo_identity_row]\<rparr>)))) = Some (Inl e)"
proof -
  let ?db = "demo_outbox\<lparr>db_identities := [demo_identity_row]\<rparr>"
  obtain o1 d1 where a: "ProcessVerificationResult demo_uuids (demo_uuid CHR ''w'') 0 demo_result ?db = (o1, d1)" by fastforce
  have "o1 = Some (Inr ())"
    using a
    by (auto simp: ProcessVerificationResult_def must_parse_def demo_result_def GetEvent_def statement_def demo_outbox_def
        empty_database_def first_row_def open_event_def demo_event_def store_proof_def GetIdentityByUUID_def
        demo_identity_row_def FindOrCreateVerifiedSchema_def record_not_found_def create_schema_def Let_def
        SaveZeroKnowledgeProof_def MarkEventAsProcessed_def transaction_def mark_body_def update_event_def rollback_def
        split: prod.splits)
  then have a': "ProcessVerificationResult demo_uuids (demo_uuid CHR ''w'') 0 demo_result (fst (?db, \<lparr>br_sent = [], br_faults = []\<rparr>))
      = (Some (Inr ()), d1)" using a by simp
  obtain o2 d2 where b: "ProcessVerificationResult demo_uuids (demo_uuid CHR ''v'') 1 demo_result d1 = (o2, d2)" by fastforce
  have k: "ul_parse demo_uuids (rd_event_id demo_result) = Some (demo_uuid CHR ''e'')" by (simp add: demo_result_def)
  have "api_run plain_lib demo_uuids demo_publisher [] (d1, \<lparr>br_sent = [], br_faults = []\<rparr>) = (d1, \<lparr>br_sent = [], br_faults = []\<rparr>)"
    by (simp add: api_run_def)
  then show ?thesis
    using proof_saved_once [OF demo_uuid_laws k k a' _ b] a b by auto
qed

text \<open>
  The result of a queued verification is lost. The event is written with the id of the schema in
  place of the identity's, so that a result for it finds no identity: it is refused, no proof is
  saved and the event stays open, unless an identity happens to have the id of the schema.
\<close>

theorem result_of_queued_verification_is_lost:
  assumes "uuid_laws U" and "ul_parse U (vq_schema_id req) = Some s" and "canonical U e"
    and "QueueVerification_service L U (Inr e) p req (db, br) = (Inr (), db1, br1)"
    and "\<forall>ident\<in>set (db_identities db1). id_identity_id ident \<noteq> s"
    and "ul_parse U (rd_event_id r) = Some e"
    and "ProcessVerificationResult U fresh now r db1 = (answer, db2)"
  shows "(\<exists>err. answer = Some (Inl err)) \<and> db_zkps db2 = db_zkps db1 \<and> pending_event db2 e \<noteq> None"
proof -
  have cs: "uuid_param U s = Inr s" "uuid_param U e = Inr e"
    using uuid_canonical(1) [OF assms(1,2)] assms(3) by (simp_all add: canonical_def uuid_param_def)
  obtain d u where d: "GetSchemaById s db = (Inr u, d)" "NewEvent U (Inr e) s s (request_text L req) d = (Inr e, db1)"
  proof -
    obtain g d h d' where gh: "GetSchemaById s db = (g, d)" "NewEvent U (Inr e) s s (request_text L req) d = (h, d')" by fastforce
    from assms(4) obtain u v where "g = Inr u" "h = Inr v" "d' = db1"
      using gh by (auto simp: QueueVerification_service_def assms(2) validateSchema_def split: sum.splits prod.splits)
    moreover have "v = e"
      using gh(2) \<open>h = Inr v\<close>
      by (rule_tac f = "create_event U e s s (request_text L req)" and db = d in statement_cases)
         (auto simp: NewEvent_def create_event_def cs split: if_splits)
    ultimately show ?thesis using that gh by simp
  qed
  obtain new where new: "db_events db1 = db_events d @ [new]" "oe_event_id new = e" "oe_identity_id new = s"
      "oe_processed_at new = None" "\<forall>ev\<in>set (db_events d). oe_event_id ev \<noteq> e"
    using d(2)
    by (rule_tac f = "create_event U e s s (request_text L req)" and db = d in statement_cases)
       (auto simp: NewEvent_def create_event_def cs split: if_splits)
  have pend: "pending_event db1 e = Some new"
  proof -
    have "List.find (open_event e) (evs @ [new]) = Some new" if "\<forall>ev\<in>set evs. oe_event_id ev \<noteq> e" for evs
      using that new(2,4) by (induction evs) (auto simp: open_event_def)
    then show ?thesis using new by (simp add: pending_event_def)
  qed
  obtain g d2 where g: "GetEvent U e db1 = (g, d2)" by fastforce
  have same: "same_data db1 d2" using GetEvent_data [of db1 U e] g by simp
  let ?ev = "case g of Inl e \<Rightarrow> zero_event | Inr ev \<Rightarrow> ev"
  obtain q d3 where q: "store_proof U fresh ?ev r d2 = (q, d3)" by fastforce
  have "(\<exists>err. q = Inl err) \<and> db_zkps d3 = db_zkps d2"
  proof (cases g)
    case (Inl x)
    then show ?thesis using orphan_result [OF assms(1), of fresh r d2 q d3] q by simp
  next
    case (Inr ev)
    then have "ev = new" using GetEvent_Inr(1) [OF assms(3)] g pend by simp
    obtain i d4 where i: "GetIdentityByUUID U s d2 = (i, d4)" by fastforce
    have "(\<exists>err. i = Inl err) \<and> db_zkps d4 = db_zkps d2"
      using i assms(5) same_data_tables(2) [OF same] unfolding GetIdentityByUUID_def
      by (rule_tac f = "\<lambda>db. (and_then (uuid_param U s) (\<lambda>u. first_row (\<lambda>r. id_identity_id r = u) (db_identities db)), db)"
          and db = d2 in statement_cases)
         (auto simp: cs first_row_def split: option.splits dest: find_SomeD)
    then show ?thesis using q Inr \<open>ev = new\<close> new(3) i by (auto simp: store_proof_def)
  qed
  moreover have "db_events d3 = db_events db1"
    using store_proof_events [of U fresh ?ev r d2] q same_data_tables(1) [OF same] by simp
  ultimately show ?thesis
    using assms(7) pend same_data_tables(3) [OF same]
    by (auto simp: ProcessVerificationResult_def must_parse_def assms(6) g q Let_def pending_event_def)
qed

definition demo_request :: verification_request where
  "demo_request = \<lparr>vq_identity_id = demo_uuid CHR ''i'', vq_schema_id = demo_uuid CHR ''s'', vq_fields = []\<rparr>"

theorem result_of_queued_verification_is_lost_witness:
  "\<exists>err. fst (ProcessVerificationResult demo_uuids (demo_uuid CHR ''v'') 0 demo_result
     (fst (snd (QueueVerification_service plain_lib demo_uuids (Inr (demo_uuid CHR ''e'')) demo_publisher demo_request
        (empty_database\<lparr>db_schemas_relation := Some [demo_uuid CHR ''s'']\<rparr>, \<lparr>br_sent = [], br_faults = []\<rparr>))))) = Some (Inl err)"
proof -
  let ?db = "empty_database\<lparr>db_schemas_relation := Some [demo_uuid CHR ''s'']\<rparr>"
  obtain x db1 br1 where q: "QueueVerification_service plain_lib demo_uuids (Inr (demo_uuid CHR ''e'')) demo_publisher demo_request
      (?db, \<lparr>br_sent = [], br_faults = []\<rparr>) = (x, db1, br1)" by (metis prod.exhaust)
  have x: "x = Inr () \<and> db_identities db1 = []"
    using q by (auto simp: QueueVerification_service_def demo_request_def GetSchemaById_def statement_def empty_database_def
        validateSchema_def NewEvent_def create_event_def Publish_def Serialize_def plain_lib_def channel_publish_def)
  obtain o2 d2 where b: "ProcessVerificationResult demo_uuids (demo_uuid CHR ''v'') 0 demo_result db1 = (o2, d2)" by fastforce
  have s: "ul_parse demo_uuids (vq_schema_id demo_request) = Some (demo_uuid CHR ''s'')" by (simp add: demo_request_def)
  have k: "ul_parse demo_uuids (rd_event_id demo_result) = Some (demo_uuid CHR ''e'')" by (simp add: demo_result_def)
  show ?thesis
    using result_of_queued_verification_is_lost [OF demo_uuid_laws s demo_uuid_simps(3) [where c = "CHR ''e''"] _ _ k b] q x b by auto
qed

text \<open>
  No identity is ever created under a parent: the parent is looked up by the decimal text of its
  number in a column of UUIDs, so that every request with a parent is answered 500.
\<close>

theorem sub_identity_never_created:
  assumes "uuid_laws U" and "in_int64 parent" and "name \<noteq> []"
    and "CreateIdentity_handler lt U fresh (Some (name, Some parent)) db = (r, db')"
  shows "rs_status r = 500 \<and> db_identities db' = db_identities db"
proof -
  obtain g d where g: "GetById U (int_str parent) db = (g, d)" by fastforce
  have "(\<exists>e. g = Inl e) \<and> db_identities d = db_identities db"
    using g uuid_short(2) [OF assms(1) length_int_str [OF assms(2)]] unfolding GetById_def
    by (rule_tac f = "\<lambda>db. (and_then (uuid_param U (int_str parent)) (\<lambda>u. first_row (\<lambda>r. id_identity_id r = u) (db_identities db)), db)"
        and db = db in statement_cases) auto
  then show ?thesis
    using assms(3,4) by (auto simp: CreateIdentity_handler_def CreateIdentity_def g resp_def)
qed

theorem sub_identity_never_created_witness:
  "rs_status (fst (CreateIdentity_handler (\<lambda>t. t) demo_uuids (demo_uuid CHR ''i'') (Some (''child'', Some 1))
     (empty_database\<lparr>db_identities := [demo_identity_row]\<rparr>))) = 500"
proof -
  obtain r d where r: "CreateIdentity_handler (\<lambda>t. t) demo_uuids (demo_uuid CHR ''i'') (Some (''child'', Some 1))
     (empty_database\<lparr>db_identities := [demo_identity_row]\<rparr>) = (r, d)" by fastforce
  from sub_identity_never_created [OF demo_uuid_laws _ _ r] show ?thesis by (simp add: r in_int64_def)
qed

section \<open>On the tables that the migrations make\<close>

text \<open>No operation makes the relation \<open>schemas\<close>.\<close>

lemma statement_schemas:
  assumes "\<And>d. db_schemas_relation (snd (f d)) = db_schemas_relation d"
  shows "db_schemas_relation (snd (statement f db)) = db_schemas_relation db"
  using assms by (rule_tac f = f and db = db in statement_cases) auto

lemma read_schemas [simp]:
  "db_schemas_relation (snd (GetEvent U k db)) = db_schemas_relation db"
  "db_schemas_relation (snd (GetIdentityByUUID U i db)) = db_schemas_relation db"
  "db_schemas_relation (snd (GetById U i db)) = db_schemas_relation db"
  "db_schemas_relation (snd (GetSchemaById i db)) = db_schemas_relation db"
  "db_schemas_relation (snd (GetUnprocessedEvents db)) = db_schemas_relation db"
  "db_schemas_relation (snd (SaveZeroKnowledgeProof a b c e db)) = db_schemas_relation db"
  "db_schemas_relation (snd (SaveFailedProof f db)) = db_schemas_relation db"
  "db_schemas_relation (snd (statement (create_schema fresh s n) db)) = db_schemas_relation db"
  unfolding GetEvent_def GetIdentityByUUID_def GetById_def GetSchemaById_def GetUnprocessedEvents_def
    SaveZeroKnowledgeProof_def SaveFailedProof_def
  by (rule statement_schemas, simp add: create_schema_def Let_def)+

lemma write_schemas [simp]:
  "db_schemas_relation (snd (FindOrCreateVerifiedSchema fresh s i db)) = db_schemas_relation db"
  "db_schemas_relation (snd (Create U j n p db)) = db_schemas_relation db"
proof -
  have f: "db_schemas_relation (snd (statement (\<lambda>d. (first_row (\<lambda>r. vs_schema r = s) (db_verified_schemas d), d)) db)) = db_schemas_relation db"
    by (rule statement_schemas) simp
  then show "db_schemas_relation (snd (FindOrCreateVerifiedSchema fresh s i db)) = db_schemas_relation db"
    unfolding FindOrCreateVerifiedSchema_def
    by (cases "statement (\<lambda>d. (first_row (\<lambda>r. vs_schema r = s) (db_verified_schemas d), d)) db") (auto split: sum.splits)
  show "db_schemas_relation (snd (Create U j n p db)) = db_schemas_relation db"
    unfolding Create_def by (rule statement_schemas) (auto simp: Let_def split: sum.splits)
qed

lemma outbox_schemas:
  assumes "canonical U k"
  shows "db_schemas_relation (snd (MarkEventAsProcessed U now k db)) = db_schemas_relation db"
    "db_schemas_relation (snd (UpdateRetryValue U now k db)) = db_schemas_relation db"
proof -
  obtain r d where m: "MarkEventAsProcessed U now k db = (r, d)" by fastforce
  show "db_schemas_relation (snd (MarkEventAsProcessed U now k db)) = db_schemas_relation db"
    using outbox_fails(1) [of U now k db] MarkEventAsProcessed_Inr [OF assms, of now db] m
    by (cases r) (auto simp: same_data_tables(7) [symmetric] dest: same_others_tables(6))
  obtain r d where m: "UpdateRetryValue U now k db = (r, d)" by fastforce
  show "db_schemas_relation (snd (UpdateRetryValue U now k db)) = db_schemas_relation db"
    using outbox_fails(2) [of U now k db] UpdateRetryValue_Inr [OF assms, of now db] m
    by (cases r) (auto simp: same_data_tables(7) [symmetric] dest: same_others_tables(6))
qed

lemma store_proof_schemas [simp]: "db_schemas_relation (snd (store_proof U fresh ev r db)) = db_schemas_relation db"
  by (auto simp: store_proof_def bind_st_snd split: sum.splits)

text \<open>The state that the migrations leave to the outbox: nothing queued, no such relation, nothing published.\<close>

definition nothing_queued :: "broker \<Rightarrow> database \<times> broker \<Rightarrow> bool" where
  "nothing_queued br st = (db_schemas_relation (fst st) = None \<and> db_events (fst st) = [] \<and> snd st = br)"

lemma no_schema:
  assumes "db_schemas_relation db = None"
  shows "\<exists>e. fst (GetSchemaById i db) = Inl e"
  using assms unfolding GetSchemaById_def
  by (rule_tac f = "\<lambda>db. (case db_schemas_relation db of None \<Rightarrow> Inl (LibErr ''relation does not exist'')
       | Some ids \<Rightarrow> if i \<in> set ids then Inr () else Inl record_not_found, db)" and db = db in statement_cases) auto

lemma step_queues_nothing:
  assumes "uuid_laws U" and "nothing_queued br st"
  shows "nothing_queued br (api_step L U p a st)"
proof (cases a)
  case (OpResult fresh now r)
  show ?thesis
  proof (cases "ul_parse U (rd_event_id r)")
    case None
    then show ?thesis using assms(2) by (simp add: OpResult ProcessVerificationResult_def must_parse_def nothing_queued_def)
  next
    case (Some e)
    obtain g d where g: "GetEvent U e (fst st) = (g, d)" by fastforce
    have d: "db_events d = []" "db_schemas_relation d = None"
      using read_events(1) [of U e "fst st"] read_schemas(1) [of U e "fst st"] g assms(2) by (simp_all add: nothing_queued_def)
    let ?ev = "case g of Inl e \<Rightarrow> zero_event | Inr ev \<Rightarrow> ev"
    obtain q d' where q: "store_proof U fresh ?ev r d = (q, d')" by fastforce
    have d': "db_events d' = []" "db_schemas_relation d' = None"
      using store_proof_events [of U fresh ?ev r d] store_proof_schemas [of U fresh ?ev r d] q d by simp_all
    have m: "db_events (snd (MarkEventAsProcessed U now k d')) = [] \<and> db_schemas_relation (snd (MarkEventAsProcessed U now k d')) = None"
      if "ul_parse U t = Some k" for k t
    proof -
      note c = uuid_canonical(1) [OF assms(1) that]
      obtain r e where u: "MarkEventAsProcessed U now k d' = (r, e)" by fastforce
      have "pending_event d' k = None" using d'(1) by (simp add: pending_event_def)
      then have "db_events e = []"
        using u MarkEventAsProcessed_Inr [OF c, of now d'] outbox_fails(1) [of U now k d'] same_data_tables(1) [of d' e] d'(1)
        by (cases r) fastforce+
      then have "db_events (snd (MarkEventAsProcessed U now k d')) = []" by (simp add: u)
      then show ?thesis using outbox_schemas(1) [OF c, of now d'] d'(2) by simp
    qed
    have m': "db_events e = [] \<and> db_schemas_relation e = None" if "ul_parse U t = Some k" "MarkEventAsProcessed U now k d' = (r, e)" for k t r e
      using m [OF that(1)] that(2) by simp
    show ?thesis
      using d' assms(2)
      by (auto simp: OpResult ProcessVerificationResult_def must_parse_def Some g q apfst_def map_prod_def Let_def nothing_queued_def
          split: sum.splits option.splits prod.splits dest: m')
  qed
next
  case (OpFailure now f)
  obtain g d where g: "SaveFailedProof f (fst st) = (g, d)" by fastforce
  have d: "db_events d = []" "db_schemas_relation d = None"
    using read_events(7) [of f "fst st"] read_schemas(7) [of f "fst st"] g assms(2) by (simp_all add: nothing_queued_def)
  have m: "db_events (snd (UpdateRetryValue U now k d)) = [] \<and> db_schemas_relation (snd (UpdateRetryValue U now k d)) = None"
    if "ul_parse U t = Some k" for k t
  proof -
    note c = uuid_canonical(1) [OF assms(1) that]
    obtain r e where u: "UpdateRetryValue U now k d = (r, e)" by fastforce
    have "pending_event d k = None" using d(1) by (simp add: pending_event_def)
    then have "db_events e = []"
      using u UpdateRetryValue_Inr [OF c, of now d] outbox_fails(2) [of U now k d] same_data_tables(1) [of d e] d(1)
      by (cases r) fastforce+
    then show ?thesis using outbox_schemas(2) [OF c, of now d] d(2) u by simp
  qed
  have m': "db_events e = [] \<and> db_schemas_relation e = None" if "ul_parse U t = Some k" "UpdateRetryValue U now k d = (r, e)" for k t r e
    using m [OF that(1)] that(2) by simp
  show ?thesis
    using d assms(2)
    by (auto simp: OpFailure SaveFailedAndUpdateOutbox_def must_parse_def g apfst_def map_prod_def nothing_queued_def
        split: sum.splits option.splits prod.splits dest: m')
next
  case (OpQueue fresh req)
  obtain db where st: "st = (db, br)" "db_schemas_relation db = None" "db_events db = []"
    using assms(2) by (cases st) (simp add: nothing_queued_def)
  show ?thesis
  proof (cases "ul_parse U (vq_schema_id req)")
    case None
    then show ?thesis using st by (simp add: OpQueue QueueVerification_service_def nothing_queued_def)
  next
    case (Some u)
    obtain e d where "GetSchemaById u db = (Inl e, d)" using no_schema [OF st(2), of u] by (metis prod.collapse)
    then show ?thesis
      using st read_events(4) [of u db] read_schemas(4) [of u db]
      by (simp add: OpQueue QueueVerification_service_def Some nothing_queued_def)
  qed
next
  case (OpCreate fresh name parent)
  have "db_events (snd (CreateIdentity U fresh name parent (fst st))) = db_events (fst st)
      \<and> db_schemas_relation (snd (CreateIdentity U fresh name parent (fst st))) = db_schemas_relation (fst st)"
  proof (cases parent)
    case (Some q)
    obtain g d where g: "GetById U (int_str q) (fst st) = (g, d)" by fastforce
    have "db_events d = db_events (fst st)" "db_schemas_relation d = db_schemas_relation (fst st)"
      using read_events(3) [of U "int_str q" "fst st"] read_schemas(3) [of U "int_str q" "fst st"] g by simp_all
    then show ?thesis by (auto simp: CreateIdentity_def Some g split: sum.splits)
  qed (simp add: CreateIdentity_def)
  then show ?thesis using assms(2) by (simp add: OpCreate nothing_queued_def)
next
  case OpOutbox
  obtain g d where g: "GetUnprocessedEvents (fst st) = (g, d)" by fastforce
  have "db_events d = []" "db_schemas_relation d = None"
    using read_events(5) [of "fst st"] read_schemas(5) [of "fst st"] g assms(2) by (simp_all add: nothing_queued_def)
  moreover have "(case g of Inl e \<Rightarrow> [] | Inr evs \<Rightarrow> evs) = []"
    using g assms(2) unfolding GetUnprocessedEvents_def nothing_queued_def
    by (rule_tac f = "\<lambda>db. (Inr (filter (\<lambda>ev. oe_to_process ev \<and> oe_processed_at ev = None) (db_events db)), db)"
        and db = "fst st" in statement_cases) auto
  ultimately show ?thesis
    using assms(2) by (simp add: OpOutbox processOutboxEvents_def g nothing_queued_def)
next
  case (OpFaults fs)
  then show ?thesis using assms(2) by (simp add: nothing_queued_def)
qed

text \<open>
  C34. On the tables that the migrations make nothing is ever queued: the check of a schema reads a
  relation \<open>schemas\<close> that none of them makes, so that, whatever is done and whatever fails, there is
  never an event in the outbox and never a message for the verifiers.
\<close>

theorem verification_never_queued:
  assumes "uuid_laws U"
  shows "db_events (fst (api_run L U p ops (empty_database, br))) = [] \<and> snd (api_run L U p ops (empty_database, br)) = br"
proof -
  have "nothing_queued br (api_run L U p ops st)" if "nothing_queued br st" for st
    using that by (induction ops arbitrary: st) (simp_all add: api_run_def step_queues_nothing [OF assms])
  then have "nothing_queued br (api_run L U p ops (empty_database, br))" by (simp add: nothing_queued_def empty_database_def)
  then show ?thesis by (simp add: nothing_queued_def)
qed

theorem verification_never_queued_witness:
  "db_events (fst (api_run plain_lib demo_uuids demo_publisher [OpQueue (Inr (demo_uuid CHR ''e'')) demo_request, OpOutbox]
     (empty_database, \<lparr>br_sent = [], br_faults = []\<rparr>))) = []"
  by (rule conjunct1 [OF verification_never_queued [OF demo_uuid_laws]])

end
