(* ===== verification/LogAudit.thy ===== *)
theory LogAudit
  imports Outbox ChainWorkers PresentationHTTP "HOL-Library.Multiset"
begin

text \<open>
  \<open>api/src/log_audit\<close>: log messages from the queue go into a table and come out in pages. The order
  among rows of the same second is the database's: \<open>by_time\<close> is the listing it makes.
\<close>

section \<open>Storing\<close>

definition apiServiceName :: string where
  "apiServiceName = ''api''"

text \<open>
  A level has ten characters at most; a byte that continues a character does not count. No text of
  Postgres has a NUL byte.
\<close>

definition char_count :: "string \<Rightarrow> nat" where
  "char_count s = length (filter (\<lambda>c. \<not> (128 \<le> (of_char c :: nat) \<and> (of_char c :: nat) < 192)) s)"

definition CreateLogEntry :: "string \<Rightarrow> string \<Rightarrow> int \<Rightarrow> string \<Rightarrow> database \<Rightarrow> unit res \<times> database" where
  "CreateLogEntry level msg ts service =
     statement (\<lambda>db. if char_count level > 10 then (Inl (LibErr ''value too long''), db)
       else if CHR 0x00 \<in> set (level @ msg @ service) then (Inl (LibErr ''invalid byte sequence''), db)
       else (Inr (), db\<lparr>db_logs := db_logs db @
          [\<lparr>lg_id = next_id (db_logs db), lg_level = level, lg_message = msg, lg_timestamp = ts, lg_service = service\<rparr>]\<rparr>))"

definition ProcessLogMessage :: "logger_message \<Rightarrow> database \<Rightarrow> unit res \<times> database" where
  "ProcessLogMessage m = CreateLogEntry (lm_level m) (lm_message m) (lm_timestamp m) apiServiceName"

text \<open>The worker drops what it cannot read and what the database refuses.\<close>

definition log_sink_worker :: "golib \<Rightarrow> string \<Rightarrow> database \<Rightarrow> database" where
  "log_sink_worker L body db =
     (case unmarshal L decode_logger_message body of
        Inl e \<Rightarrow> db
      | Inr m \<Rightarrow> snd (ProcessLogMessage m db))"

section \<open>Reading\<close>

text \<open>A negative limit is none, an offset that is not positive is none.\<close>

definition page :: "int \<Rightarrow> int \<Rightarrow> 'r list \<Rightarrow> 'r list" where
  "page limit offset rows = (let r = drop (nat offset) rows in if limit < 0 then r else take (nat limit) r)"

definition query_logs ::
    "(log_row list \<Rightarrow> log_row list) \<Rightarrow> (log_row \<Rightarrow> bool) \<Rightarrow> int \<Rightarrow> int \<Rightarrow> database \<Rightarrow> log_row list res \<times> database" where
  "query_logs by_time P limit offset =
     statement (\<lambda>db. (Inr (page limit offset (by_time (filter P (db_logs db)))), db))"

definition repo_GetLogEntries where
  "repo_GetLogEntries by_time limit offset = query_logs by_time (\<lambda>r. True) limit offset"

definition repo_GetLogEntriesByService where
  "repo_GetLogEntriesByService by_time service limit offset = query_logs by_time (\<lambda>r. lg_service r = service) limit offset"

definition repo_GetLogEntriesByLevel where
  "repo_GetLogEntriesByLevel by_time level limit offset = query_logs by_time (\<lambda>r. lg_level r = level) limit offset"

section \<open>The handlers\<close>

text \<open>
  \<open>strconv.Atoi\<close> with the error dropped: a text that is no number gives 0, a number out of range the
  nearest in range.
\<close>

definition atoi_value :: "string \<Rightarrow> int" where
  "atoi_value s =
     (case split_sign s of (neg, ds) \<Rightarrow>
        (case parse_nat ds of
           None \<Rightarrow> 0
         | Some n \<Rightarrow> max (- (2 ^ 63)) (min (2 ^ 63 - 1) (if neg then - int n else int n))))"

definition DefaultQuery :: "string option \<Rightarrow> string \<Rightarrow> string" where
  "DefaultQuery v d = (case v of None \<Rightarrow> d | Some s \<Rightarrow> s)"

definition log_json :: "log_row \<Rightarrow> gval" where
  "log_json r =
     GMap [(''id'', GInt KUint (lg_id r)), (''level'', GStr (lg_level r)), (''message'', GStr (lg_message r)),
           (''timestamp'', GTime (lg_timestamp r)), (''service'', GStr (lg_service r))]"

text \<open>The three handlers differ in the query; the two times of the bookkeeping are left out of the answer.\<close>

definition log_response ::
    "string option \<Rightarrow> string option \<Rightarrow> (int \<Rightarrow> int \<Rightarrow> database \<Rightarrow> log_row list res \<times> database)
      \<Rightarrow> database \<Rightarrow> response \<times> database" where
  "log_response limit_param offset_param get db =
     (let limit = atoi_value (DefaultQuery limit_param ''50'');
          offset = atoi_value (DefaultQuery offset_param ''0'')
      in if limit > 1000 then (resp 400 (jerror ''limit cannot exceed 1000''), db)
         else (case get limit offset db of
             (Inl e, d) \<Rightarrow> (resp 500 (jerror ''Failed to retrieve log entries''), d)
           | (Inr rows, d) \<Rightarrow> (resp 200 (Json (GList (map log_json rows))), d)))"

definition GetLogEntries where
  "GetLogEntries by_time limit offset = log_response limit offset (repo_GetLogEntries by_time)"

definition GetLogEntriesByService where
  "GetLogEntriesByService by_time service limit offset = log_response limit offset (repo_GetLogEntriesByService by_time service)"

definition GetLogEntriesByLevel where
  "GetLogEntriesByLevel by_time level limit offset = log_response limit offset (repo_GetLogEntriesByLevel by_time level)"

section \<open>Properties\<close>

text \<open>A listing of the database: the same rows, the latest first.\<close>

definition listing :: "(log_row list \<Rightarrow> log_row list) \<Rightarrow> bool" where
  "listing by_time = (\<forall>rows. mset (by_time rows) = mset rows \<and> sorted_wrt (\<lambda>a b. lg_timestamp a \<ge> lg_timestamp b) (by_time rows))"

lemma listing_length: "listing by_time \<Longrightarrow> length (by_time rows) = length rows"
  using mset_eq_length by (auto simp: listing_def)

lemma atoi_int_str: "in_int64 i \<Longrightarrow> atoi_value (int_str i) = i"
proof -
  assume i: "in_int64 i"
  then have "parse_int64 (int_str i) = Some (word_of_int i)" by (rule parse_int64_str)
  then obtain neg ds n where s: "split_sign (int_str i) = (neg, ds)" "parse_nat ds = Some n"
      "in_int64 (if neg then - int n else int n)" "word_of_int (if neg then - int n else int n) = (word_of_int i :: int64)"
    by (auto simp: parse_int64_def Let_def split: prod.splits option.splits if_splits)
  then have "(if neg then - int n else int n) = i" using sint_int64 [OF i] sint_int64 [OF s(3)] by metis
  then show ?thesis using s i by (auto simp: atoi_value_def in_int64_def)
qed

text \<open>
  A page of the log has the rows after the offset, the latest first, and a thousand of them at
  most, unless the limit is negative: then the cap is passed and every row after the offset is given.
\<close>

theorem log_page:
  assumes "listing by_time" and "db_faults db = []" and "in_int64 limit" and "0 \<le> offset" and "in_int64 offset"
    and "GetLogEntries by_time (Some (int_str limit)) (Some (int_str offset)) db = (r, db')"
  shows "if limit > 1000 then rs_status r = 400
    else \<exists>rows. r = resp 200 (Json (GList (map log_json rows)))
      \<and> sorted_wrt (\<lambda>a b. lg_timestamp a \<ge> lg_timestamp b) rows
      \<and> set rows \<subseteq> set (db_logs db)
      \<and> int (length rows) = (let left = max 0 (int (length (db_logs db)) - offset)
                             in if limit < 0 then left else min limit left)"
proof (cases "limit > 1000")
  case True
  then show ?thesis using assms(6)
    by (auto simp: GetLogEntries_def log_response_def DefaultQuery_def atoi_int_str [OF assms(3)] resp_def)
next
  case False
  let ?all = "by_time (db_logs db)" and ?rows = "page limit offset (by_time (db_logs db))"
  have all: "sorted_wrt (\<lambda>a b. lg_timestamp a \<ge> lg_timestamp b) ?all" "set ?all = set (db_logs db)"
      "length ?all = length (db_logs db)"
    using assms(1) listing_length [OF assms(1)] mset_eq_setD by (auto simp: listing_def) blast+
  have r: "r = resp 200 (Json (GList (map log_json ?rows)))"
    using assms(2,6) False
    by (auto simp: GetLogEntries_def log_response_def DefaultQuery_def atoi_int_str [OF assms(3)] atoi_int_str [OF assms(5)]
        repo_GetLogEntries_def query_logs_def statement_def)
  have "sorted_wrt (\<lambda>a b. lg_timestamp a \<ge> lg_timestamp b) ?rows"
    using all(1) by (auto simp: page_def Let_def sorted_wrt_take sorted_wrt_drop)
  moreover have "set ?rows \<subseteq> set (db_logs db)"
    using all(2) by (auto simp: page_def Let_def dest!: in_set_takeD in_set_dropD split: if_splits)
  moreover have "int (length ?rows) = (let left = max 0 (int (length (db_logs db)) - offset)
                             in if limit < 0 then left else min limit left)"
    using assms(4) all(3) by (auto simp: page_def Let_def)
  ultimately show ?thesis using r False by (auto simp: if_not_P)
qed

definition latest_first :: "log_row list \<Rightarrow> log_row list" where
  "latest_first rows = rev (sort_key lg_timestamp rows)"

lemma latest_first_listing: "listing latest_first"
proof -
  have "sorted_wrt (\<lambda>a b. lg_timestamp a \<ge> lg_timestamp b) (rev (sort_key lg_timestamp rows))"
    for rows :: "log_row list"
    using sorted_sort_key [of lg_timestamp rows] by (simp add: sorted_wrt_rev sorted_map)
  then show ?thesis by (simp add: listing_def latest_first_def)
qed

definition demo_logs :: database where
  "demo_logs = empty_database\<lparr>db_logs :=
     map (\<lambda>t. \<lparr>lg_id = t, lg_level = ''info'', lg_message = [], lg_timestamp = t, lg_service = ''api''\<rparr>) [1..1001]\<rparr>"

theorem log_page_witness:
  "\<exists>rows. fst (GetLogEntries latest_first (Some (int_str (- 1))) (Some (int_str 0)) demo_logs)
       = resp 200 (Json (GList (map log_json rows))) \<and> length rows = 1001"
proof -
  obtain r db' where r: "GetLogEntries latest_first (Some (int_str (- 1))) (Some (int_str 0)) demo_logs = (r, db')"
    by fastforce
  have f: "db_faults demo_logs = []" by (simp add: demo_logs_def empty_database_def)
  have "length (db_logs demo_logs) = 1001" by (simp add: demo_logs_def)
  then show ?thesis
    using log_page [OF latest_first_listing f _ _ _ r] r by (auto simp: in_int64_def Let_def)
qed

end
