(* ===== verification/Urls.thy ===== *)
theory Urls
  imports GoStrings
begin

text \<open>
  \<open>normalizeWeirdURL\<close> of \<open>zk-wallet-go/internal/app/handlers/zkp_descriptor.go\<close>: its three loops
  replace a pattern by a shorter one as long as it occurs, so they end; what it does to a URL
  with repeated schemes.
\<close>

section \<open>The function\<close>

text \<open>\<open>for strings.Contains(u, old) { u = strings.ReplaceAll(u, old, new) }\<close>, for a shorter \<open>new\<close>.\<close>

function squeeze :: "string \<Rightarrow> string \<Rightarrow> string \<Rightarrow> string" where
  "squeeze old new s =
     (if length new < length old \<and> str_contains s old then squeeze old new (replace_all old new s) else s)"
  by pat_completeness auto
termination
  by (relation "measure (\<lambda>(old, new, s). length s)") (auto intro: length_replace_all_less)

declare squeeze.simps [simp del]

text \<open>\<open>strings.SplitN(u, "://", 2)\<close> splits at the first occurrence.\<close>

definition normalizeWeirdURL :: "string \<Rightarrow> string" where
  "normalizeWeirdURL raw =
     (let u = trim_space raw
      in if u = [] then u
         else let u1 = squeeze ''http://http://'' ''http://'' u;
                  u2 = squeeze ''https://http://'' ''https://'' u1
              in case find_sub ''://'' u2 of
                   None \<Rightarrow> u2
                 | Some i \<Rightarrow> take i u2 @ ''://'' @ squeeze ''//'' ''/'' (drop (i + 3) u2))"

section \<open>What the loops leave behind\<close>

lemma squeeze_absent: "\<not> str_contains s old \<Longrightarrow> squeeze old new s = s"
  by (simp add: squeeze.simps)

lemma squeeze_step:
  "length new < length old \<Longrightarrow> str_contains s old \<Longrightarrow> squeeze old new s = squeeze old new (replace_all old new s)"
  by (subst squeeze.simps) simp

lemma squeeze_done: "length new < length old \<Longrightarrow> \<not> str_contains (squeeze old new s) old"
proof (induction old new s rule: squeeze.induct)
  case (1 old new s)
  show ?case
  proof (cases "str_contains s old")
    case True
    with 1 show ?thesis by (simp add: squeeze_step)
  next
    case False
    then show ?thesis by (simp add: squeeze_absent)
  qed
qed

text \<open>The part of a URL after its scheme.\<close>

definition url_rest :: "string \<Rightarrow> string" where
  "url_rest u = (case find_sub ''://'' u of None \<Rightarrow> [] | Some i \<Rightarrow> drop (i + 3) u)"

lemma find_sub_prefix:
  assumes "find_sub sub s = Some i" and "sub \<noteq> []"
  shows "find_sub sub (take i s @ sub @ t) = Some i"
proof (cases "find_sub sub (take i s @ sub @ t)")
  case None
  then have "take i s @ sub @ t \<noteq> take i s @ sub @ t" unfolding find_sub_None_iff by blast
  then show ?thesis by simp
next
  case (Some j)
  have i: "i + length sub \<le> length s"
  proof -
    from find_sub_Some [OF assms(1)] have "length s = min (length s) i + length sub + (length s - (i + length sub))"
      by (metis length_append length_drop length_take min.commute add.assoc)
    moreover have "0 < length sub" using assms(2) by simp
    ultimately show ?thesis by linarith
  qed
  have "j \<le> i" using find_sub_first [OF Some, of "take i s" t] i by simp
  moreover have "i \<le> j"
  proof (rule ccontr)
    assume "\<not> i \<le> j"
    then have ji: "j < i" by simp
    define w where "w = take i s @ sub"
    have lw: "length w = i + length sub" using i by (simp add: w_def)
    have pre: "s = w @ drop (i + length sub) s" using find_sub_Some [OF assms(1)] by (simp add: w_def)
    from find_sub_Some [OF Some] have e: "w @ t = take j (w @ t) @ sub @ drop (j + length sub) (w @ t)"
      unfolding w_def append_assoc .
    define a where "a = take j (w @ t)"
    have la: "length a = j" using ji lw by (simp add: a_def)
    from e obtain b where "w @ t = (a @ sub) @ b" by (auto simp: a_def)
    then obtain us where "w = (a @ sub) @ us \<or> w @ us = a @ sub" unfolding append_eq_append_conv2 by blast
    moreover have "w @ us \<noteq> a @ sub"
    proof
      assume "w @ us = a @ sub"
      from arg_cong [OF this, of length] lw la ji show False by simp
    qed
    ultimately have "s = a @ sub @ (us @ drop (i + length sub) s)" using pre by simp
    from find_sub_first [OF assms(1) this] la ji show False by simp
  qed
  ultimately show ?thesis using Some by simp
qed

text \<open>After the scheme no slash is doubled.\<close>

lemma normalised_rest: "\<not> str_contains (url_rest (normalizeWeirdURL raw)) ''//''"
proof (cases "trim_space raw = []")
  case True
  then show ?thesis by (simp add: normalizeWeirdURL_def url_rest_def str_contains_def)
next
  case False
  define u2 where "u2 = squeeze ''https://http://'' ''https://'' (squeeze ''http://http://'' ''http://'' (trim_space raw))"
  show ?thesis
  proof (cases "find_sub ''://'' u2")
    case None
    then show ?thesis using False by (simp add: normalizeWeirdURL_def url_rest_def Let_def u2_def str_contains_def)
  next
    case (Some i)
    have n: "normalizeWeirdURL raw = take i u2 @ ''://'' @ squeeze ''//'' ''/'' (drop (i + 3) u2)"
      using False Some by (simp add: normalizeWeirdURL_def Let_def u2_def)
    have i: "i \<le> length u2" using arg_cong [OF find_sub_Some [OF Some], of length] by simp
    show ?thesis
      using find_sub_prefix [OF Some, of "squeeze ''//'' ''/'' (drop (i + 3) u2)"] i
      by (simp add: n url_rest_def squeeze_done)
  qed
qed

section \<open>Repeated schemes\<close>

lemma find_ws_None:
  "strip_front ws (length s) s = s \<Longrightarrow> \<forall>w\<in>set ws. w \<noteq> [] \<Longrightarrow> List.find (has_prefix s) ws = None"
  using strip_front_fixed [of s "length s" ws] by simp

lemma trim_space_fixed:
  assumes "trim_space u = u"
  shows "trim_left u = u" and "trim_right u = u"
proof -
  obtain p where p: "u = p @ trim_left u"
    using strip_front_suffix [of u ws_runes "length u"] by (auto simp: trim_left_def)
  obtain q where q: "rev (trim_left u) = q @ rev (trim_space u)"
    using strip_front_suffix [of "rev (trim_left u)" "map rev ws_runes" "length (trim_left u)"]
    by (auto simp: trim_right_def trim_space_def)
  have "length u = length p + length (trim_left u)" using arg_cong [OF p, of length] by simp
  moreover have "length (trim_left u) = length q + length u" using arg_cong [OF q, of length] assms by simp
  ultimately have "p = []" by simp
  with p show l: "trim_left u = u" by simp
  with assms show "trim_right u = u" by (simp add: trim_space_def)
qed

lemma ws_runes_short: "w \<in> set ws_runes \<Longrightarrow> w \<noteq> [] \<and> length w \<le> 3 \<and> hd w \<noteq> CHR ''h''"
  by (auto simp: ws_runes_def char_of_def bit_simps)

text \<open>Something that starts like a scheme can be put before a trimmed text of three bytes or more.\<close>

lemma trim_space_before:
  assumes "trim_space u = u" and "3 \<le> length u" and "p @ u = CHR ''h'' # r"
  shows "trim_space (p @ u) = p @ u"
proof -
  have "\<not> has_prefix (p @ u) w" if "w \<in> set ws_runes" for w
    using ws_runes_short [OF that] assms(3) by (cases w) (auto simp: has_prefix_def)
  then have l: "trim_left (p @ u) = p @ u"
    unfolding trim_left_def by (intro strip_front_stop) (auto simp: find_None_iff)
  have "strip_front (map rev ws_runes) (length (rev u)) (rev u) = rev u"
    using trim_space_fixed(2) [OF assms(1)] by (simp add: trim_right_def rev_swap)
  then have n: "List.find (has_prefix (rev u)) (map rev ws_runes) = None"
    by (rule find_ws_None) (auto dest: ws_runes_short)
  have "\<not> has_prefix (rev (p @ u)) w" if "w \<in> set (map rev ws_runes)" for w
  proof -
    have "length w \<le> 3" using that ws_runes_short by auto
    moreover have "\<not> has_prefix (rev u) w" using n that by (auto simp: find_None_iff)
    ultimately show ?thesis using assms(2) by (auto simp: has_prefix_def)
  qed
  then have "trim_right (p @ u) = p @ u"
    unfolding trim_right_def by (subst strip_front_stop) (auto simp: find_None_iff)
  with l show ?thesis by (simp add: trim_space_def)
qed

text \<open>A text is trimmed when its first and its last byte are printable ASCII.\<close>

definition printable :: "char \<Rightarrow> bool" where
  "printable c = (32 < (of_char c :: nat) \<and> (of_char c :: nat) < 127)"

lemma ws_runes_unprintable: "w \<in> set ws_runes \<Longrightarrow> w \<noteq> [] \<and> \<not> printable (hd w) \<and> \<not> printable (last w)"
  by (auto simp: ws_runes_def printable_def)

lemma trim_space_printable:
  assumes "printable (hd u)" and "printable (last u)" and "u \<noteq> []"
  shows "trim_space u = u"
proof -
  have "\<not> has_prefix u w" if "w \<in> set ws_runes" for w
    using ws_runes_unprintable [OF that] assms by (cases w; cases u) (auto simp: has_prefix_def)
  then have l: "trim_left u = u"
    unfolding trim_left_def by (intro strip_front_stop) (auto simp: find_None_iff)
  have "\<not> has_prefix (rev u) (rev w)" if "w \<in> set ws_runes" for w
    using ws_runes_unprintable [OF that] assms
    by (cases w rule: rev_cases; cases u rule: rev_cases) (auto simp: has_prefix_def)
  then have "trim_right u = u"
    unfolding trim_right_def by (subst strip_front_stop) (auto simp: find_None_iff)
  with l show ?thesis by (simp add: trim_space_def)
qed

abbreviation http :: string where "http \<equiv> ''http://''"

definition https_n :: "nat \<Rightarrow> string" where
  "https_n n = concat (replicate n http)"

lemma https_n_simps [simp]: "https_n 0 = []" "https_n (Suc n) = http @ https_n n"
  by (simp_all add: https_n_def)

lemma no_slashes:
  assumes "\<not> str_contains t ''//''"
  shows "\<not> str_contains t (p @ ''//'' @ q)"
    and "7 \<le> length y \<Longrightarrow> \<not> str_contains (http @ t) (y @ ''//'')"
proof -
  show "\<not> str_contains t (p @ ''//'' @ q)"
    using assms unfolding contains_iff by (metis append.assoc)
  assume y: "7 \<le> length y"
  show "\<not> str_contains (http @ t) (y @ ''//'')"
  proof
    assume "str_contains (http @ t) (y @ ''//'')"
    then obtain a b where ab: "http @ t = (a @ y) @ ''//'' @ b" unfolding contains_iff by auto
    from y have "t = drop 7 (a @ y) @ ''//'' @ b"
      using arg_cong [OF ab, of "drop 7"] by (simp only: drop_append) simp
    with assms show False unfolding contains_iff by blast
  qed
qed

lemma one_scheme:
  assumes "\<not> str_contains t ''//''"
  shows "\<not> str_contains (http @ t) (http @ http)" "\<not> str_contains (http @ t) (''https://'' @ http)"
    "\<not> str_contains t (http @ http)"
  using no_slashes(2) [OF assms, of "http @ ''http:''"] no_slashes(2) [OF assms, of "''https://http:''"]
    no_slashes(1) [OF assms, of "''http:''" http] by simp_all

lemma replace_https_n:
  assumes "\<not> str_contains t ''//''"
  shows "replace_all (http @ http) http (https_n n @ t) = https_n (Suc n div 2) @ t"
proof (induction n rule: nat_less_induct)
  case (1 n)
  consider "n = 0" | "n = 1" | m where "n = Suc (Suc m)" by (metis One_nat_def not0_implies_Suc)
  then show ?case
  proof cases
    case 1
    then show ?thesis using one_scheme(3) [OF assms] by (simp add: replace_all_absent)
  next
    case 2
    then show ?thesis using one_scheme(1) [OF assms] by (simp add: replace_all_absent)
  next
    case 3
    then have "replace_all (http @ http) http (https_n n @ t)
        = http @ replace_all (http @ http) http (https_n m @ t)"
      by (simp add: replace_all.simps(2) has_prefix_def)
    then show ?thesis using 1 3 by simp
  qed
qed

lemma squeeze_https_n:
  assumes t: "\<not> str_contains t ''//''"
  shows "squeeze (http @ http) http (https_n (Suc n) @ t) = http @ t"
proof (induction n rule: nat_less_induct)
  case (1 n)
  show ?case
  proof (cases n)
    case 0
    then show ?thesis using one_scheme(1) [OF t] by (simp add: squeeze_absent)
  next
    case (Suc m)
    have "str_contains (https_n (Suc n) @ t) (http @ http)"
      unfolding contains_iff Suc by (rule exI [of _ "[]"], rule exI [of _ "https_n m @ t"]) simp
    then have "squeeze (http @ http) http (https_n (Suc n) @ t)
        = squeeze (http @ http) http (https_n (Suc (Suc n) div 2) @ t)"
      by (simp add: squeeze_step replace_https_n [OF t, of "Suc n", simplified])
    also have "Suc (Suc n) div 2 = Suc (n div 2)" by simp
    finally have "squeeze (http @ http) http (https_n (Suc n) @ t)
        = squeeze (http @ http) http (https_n (Suc (n div 2)) @ t)" .
    moreover have "n div 2 < n" using Suc by simp
    with 1 have "squeeze (http @ http) http (https_n (Suc (n div 2)) @ t) = http @ t" by blast
    ultimately show ?thesis by (rule trans)
  qed
qed

lemma trim_https_n:
  assumes "trim_space (http @ t) = http @ t"
  shows "trim_space (https_n n @ http @ t) = https_n n @ http @ t"
proof (cases n)
  case 0
  with assms show ?thesis by simp
next
  case (Suc m)
  show ?thesis
    by (rule trim_space_before [OF assms, where r = "tl (https_n n @ http @ t)"]) (simp_all add: Suc)
qed

lemma normalizeWeirdURL_https_n:
  assumes "trim_space (http @ t) = http @ t" and "\<not> str_contains t ''//''"
  shows "normalizeWeirdURL (https_n n @ http @ t) = http @ t"
proof -
  have "https_n n @ http = http @ https_n n" by (induction n) simp_all
  then have e: "https_n n @ http @ t = https_n (Suc n) @ t" by (metis append.assoc https_n_simps(2))
  have "squeeze (http @ http) http (https_n n @ http @ t) = http @ t"
    unfolding e by (rule squeeze_https_n [OF assms(2)])
  moreover have "squeeze (''https://'' @ http) ''https://'' (http @ t) = http @ t"
    using one_scheme(2) [OF assms(2)] by (rule squeeze_absent)
  moreover have "squeeze ''//'' ''/'' t = t" using assms(2) by (rule squeeze_absent)
  ultimately show ?thesis
    using trim_https_n [OF assms(1), of n] by (simp add: normalizeWeirdURL_def Let_def has_prefix_def)
qed

lemmas normalizeWeirdURL_clean = normalizeWeirdURL_https_n [of _ 0, simplified https_n_simps append_Nil]

text \<open>
  A URL that has one scheme and no doubled slash after it is left as it is, and so is what
  remains of it after any number of superfluous \<open>http://\<close> in front; whatever the input, no slash is
  doubled behind the scheme of the result. A doubled \<open>https://\<close> is not repaired but broken.
\<close>

theorem normalizeWeirdURL_repairs:
  assumes "trim_space (http @ t) = http @ t" and "\<not> str_contains t ''//''"
  shows "normalizeWeirdURL (https_n n @ http @ t) = http @ t
    \<and> \<not> str_contains (url_rest (normalizeWeirdURL raw)) ''//''
    \<and> normalizeWeirdURL ''https://https://a'' = ''https://https:/a''"
proof (intro conjI)
  show "normalizeWeirdURL (https_n n @ http @ t) = http @ t" by (rule normalizeWeirdURL_https_n [OF assms])
  have "squeeze ''//'' ''/'' ''https://a'' = ''https:/a''"
    by (simp add: squeeze.simps str_contains_def has_prefix_def replace_all.simps(2))
  then show "normalizeWeirdURL ''https://https://a'' = ''https://https:/a''"
    by (simp add: normalizeWeirdURL_def trim_space_printable printable_def squeeze_absent
        str_contains_def has_prefix_def)
qed (rule normalised_rest)

theorem normalizeWeirdURL_repairs_witness:
  "normalizeWeirdURL ''http://http://http://api:9000/v1'' = ''http://api:9000/v1''"
proof -
  have "trim_space (http @ ''api:9000/v1'') = http @ ''api:9000/v1''"
    by (simp add: trim_space_printable printable_def)
  moreover have "\<not> str_contains ''api:9000/v1'' ''//''"
    by (simp add: str_contains_def has_prefix_def)
  ultimately show ?thesis
    using normalizeWeirdURL_repairs [of "''api:9000/v1''" 2] by (simp add: numeral_2_eq_2)
qed

end
