(* ===== verification/WalletZkp.thy ===== *)
theory WalletZkp
  imports PresentationHTTP Urls
begin

text \<open>
  \<open>zk-wallet-go/internal/app/handlers/zkp_prove.go\<close> and \<open>zkp_descriptor.go\<close>: the wallet's side of a
  presentation. A handler that talks to another server takes the server as a parameter: the
  record \<open>http\<close> answers a GET or a POST and may change the server's state \<open>'s\<close>.
\<close>

section \<open>The HTTP client\<close>

text \<open>
  An answer is a status and a body; the transport may fail. \<open>rp_read_error\<close> is set when reading the
  body stops early, with \<open>rp_body\<close> what was read.
\<close>

record reply =
  rp_status :: int
  rp_body :: string
  rp_read_error :: "goerr option"

record 's http =
  ht_get :: "string \<Rightarrow> 's \<Rightarrow> reply res \<times> 's"
  ht_post :: "string \<Rightarrow> string option \<Rightarrow> string \<Rightarrow> 's \<Rightarrow> reply res \<times> 's"

text \<open>
  The libraries of the wallet: the first JSON value of a text, the payload of a compact JWS with
  and without checking its signature, the status texts.
\<close>

record wallet_lib =
  wl_base :: golib
  wl_first_json :: "string \<Rightarrow> json option"
  wl_jws_parse :: "string \<Rightarrow> string res"
  wl_jws_verify :: "string \<Rightarrow> string res"
  wl_status_text :: "int \<Rightarrow> string"
  wl_url_ok :: "string \<Rightarrow> bool"
  wl_url_query :: "string \<Rightarrow> (string \<Rightarrow> string) option"
  wl_url_scheme :: "string \<Rightarrow> string option"
  wl_b64url :: "string \<Rightarrow> string"
  wl_lib_text :: "string \<Rightarrow> string"

text \<open>
  The helpers of \<open>util/http_helpers.go\<close>: a status outside 200 to 299 is an error, then the first JSON
  value of the body is decoded (by the caller, into its own type).
\<close>

definition json_reply :: "wallet_lib \<Rightarrow> string \<Rightarrow> reply \<Rightarrow> json res" where
  "json_reply W u r =
     (if rp_status r div 100 \<noteq> 2
      then Inl (Msg (''HTTP '' @ wl_status_text W (rp_status r) @ '' for '' @ u))
      else case wl_first_json W (rp_body r) of None \<Rightarrow> Inl (LibErr ''json'') | Some j \<Rightarrow> Inr j)"

definition json_text :: "wallet_lib \<Rightarrow> gval \<Rightarrow> string" where
  "json_text W b = (case gl_json_text (wl_base W) b of None \<Rightarrow> [] | Some t \<Rightarrow> t)"

definition HttpGetJSON :: "wallet_lib \<Rightarrow> 's http \<Rightarrow> string \<Rightarrow> 's \<Rightarrow> json res \<times> 's" where
  "HttpGetJSON W H u s = bind_st (ht_get H u s) (\<lambda>r s. (json_reply W u r, s))"

definition HttpPostJSON :: "wallet_lib \<Rightarrow> 's http \<Rightarrow> string \<Rightarrow> gval \<Rightarrow> 's \<Rightarrow> json res \<times> 's" where
  "HttpPostJSON W H u b s = bind_st (ht_post H u None (json_text W b) s) (\<lambda>r s. (json_reply W u r, s))"

definition HttpPostAuthJSON ::
    "wallet_lib \<Rightarrow> 's http \<Rightarrow> string \<Rightarrow> string \<Rightarrow> gval \<Rightarrow> 's \<Rightarrow> json res \<times> 's" where
  "HttpPostAuthJSON W H u accessToken b s =
     bind_st (ht_post H u (Some (''Bearer '' @ accessToken)) (json_text W b) s) (\<lambda>r s. (json_reply W u r, s))"

section \<open>The descriptor\<close>

record presentation_descriptor =
  pd_request_id :: string
  pd_audience :: string
  pd_expires_at :: int
  pd_challenge :: string
  pd_nonce :: string
  pd_schema_hash :: string
  pd_schema_uri :: string
  pd_vk_url :: string
  pd_pk_url :: string
  pd_submit_url :: string

text \<open>A member of an inner struct: the objects given for it, in order, fill the same struct.\<close>

definition decode_inner :: "string \<Rightarrow> (string \<times> json) list \<Rightarrow> (string \<times> json) list res" where
  "decode_inner f kvs =
     each_res (\<lambda>j acc. case j of JObj m \<Rightarrow> Inr (acc @ m) | JNull \<Rightarrow> Inr acc | _ \<Rightarrow> Inl (LibErr ''json''))
       (members_of f kvs) []"

definition decode_int :: "string \<Rightarrow> (string \<times> json) list \<Rightarrow> int res" where
  "decode_int f kvs =
     each_res (\<lambda>j i. case j of
         JNum t \<Rightarrow> (case parse_int64 t of None \<Rightarrow> Inl (LibErr ''json'') | Some w \<Rightarrow> Inr (sint w))
       | JNull \<Rightarrow> Inr i
       | _ \<Rightarrow> Inl (LibErr ''json''))
       (members_of f kvs) 0"

definition decode_descriptor :: "json \<Rightarrow> presentation_descriptor res" where
  "decode_descriptor j =
     and_then (members j) (\<lambda>kvs.
     and_then (decode_string ''request_id'' kvs) (\<lambda>i.
     and_then (decode_string ''audience'' kvs) (\<lambda>aud.
     and_then (decode_int ''expires_at'' kvs) (\<lambda>e.
     and_then (decode_string ''challenge'' kvs) (\<lambda>ch.
     and_then (decode_string ''nonce'' kvs) (\<lambda>n.
     and_then (decode_inner ''schema'' kvs) (\<lambda>sc.
     and_then (decode_string ''hash'' sc) (\<lambda>h.
     and_then (decode_string ''uri'' sc) (\<lambda>uri.
     and_then (decode_inner ''artifacts'' kvs) (\<lambda>ar.
     and_then (decode_string ''vk_url'' ar) (\<lambda>vk.
     and_then (decode_string ''pk_url'' ar) (\<lambda>pk.
     and_then (decode_string ''submit_url'' kvs) (\<lambda>sub.
     Inr \<lparr>pd_request_id = i, pd_audience = aud, pd_expires_at = e, pd_challenge = ch, pd_nonce = n,
          pd_schema_hash = h, pd_schema_uri = uri, pd_vk_url = vk, pd_pk_url = pk,
          pd_submit_url = sub\<rparr>)))))))))))))"

section \<open>Fetching\<close>

text \<open>The status check of the three fetches: a body that cannot be read is only an error at 200.\<close>

definition fetched :: "string \<Rightarrow> reply \<Rightarrow> string res" where
  "fetched what r =
     (if rp_status r \<noteq> 200
      then Inl (Msg (what @ '' fetch: status '' @ int_str (rp_status r) @ '': '' @ rp_body r))
      else Inr (rp_body r))"

definition read_all :: "string \<Rightarrow> reply \<Rightarrow> string res" where
  "read_all what r =
     and_then (fetched what r) (\<lambda>b.
     case rp_read_error r of None \<Rightarrow> Inr b | Some e \<Rightarrow> Inl (Wrap (what @ '' read'') e))"

definition get_text :: "'s http \<Rightarrow> string \<Rightarrow> string \<Rightarrow> 's \<Rightarrow> string res \<times> 's" where
  "get_text H what u s =
     bind_st (map_prod (wrapped (what @ '' fetch'')) id (ht_get H u s)) (\<lambda>r s. (read_all what r, s))"

definition normalize_descriptor :: "presentation_descriptor \<Rightarrow> presentation_descriptor" where
  "normalize_descriptor d =
     d\<lparr>pd_schema_uri := normalizeWeirdURL (pd_schema_uri d),
       pd_submit_url := normalizeWeirdURL (pd_submit_url d),
       pd_vk_url := normalizeWeirdURL (pd_vk_url d),
       pd_pk_url := normalizeWeirdURL (pd_pk_url d),
       pd_audience := normalizeWeirdURL (pd_audience d)\<rparr>"

definition descriptor_url :: "string \<Rightarrow> string \<Rightarrow> string" where
  "descriptor_url base i = trim_right_slash base @ ''/v1/presentations/'' @ i @ ''/descriptor''"

definition get_descriptor ::
    "wallet_lib \<Rightarrow> 's http \<Rightarrow> string \<Rightarrow> string \<Rightarrow> 's \<Rightarrow> presentation_descriptor res \<times> 's" where
  "get_descriptor W H base requestID s =
     bind_st (map_prod (wrapped ''descriptor fetch'') id (ht_get H (descriptor_url base requestID) s)) (\<lambda>r s.
     (and_then (fetched ''descriptor'' r) (\<lambda>b.
        wrapped ''descriptor json''
          (case wl_first_json W b of None \<Rightarrow> Inl (LibErr ''json'') | Some j \<Rightarrow> decode_descriptor j)), s))"

definition fetchDescriptorSchemaAndPK ::
    "wallet_lib \<Rightarrow> 's http \<Rightarrow> string \<Rightarrow> string \<Rightarrow> 's
      \<Rightarrow> (presentation_descriptor \<times> string \<times> string) res \<times> 's" where
  "fetchDescriptorSchemaAndPK W H base requestID s =
     bind_st (get_descriptor W H base requestID s) (\<lambda>d0 s.
     let d = normalize_descriptor d0
     in if trim_space (pd_schema_uri d) = [] then (Inl (Msg ''descriptor has empty schema.uri''), s)
        else if trim_space (pd_pk_url d) = [] then (Inl (Msg ''descriptor has empty artifacts.pk_url''), s)
        else bind_st (get_text H ''schema'' (pd_schema_uri d) s) (\<lambda>schema s.
             bind_st (get_text H ''pk'' (pd_pk_url d) s) (\<lambda>pk s. (Inr (d, schema, pk), s))))"

section \<open>Reading claims\<close>

fun walk :: "gval \<Rightarrow> string list \<Rightarrow> gval option" where
  "walk cur [] = Some cur"
| "walk cur (p # ps) = (case gmap_get cur p of None \<Rightarrow> None | Some v \<Rightarrow> walk v ps)"

text \<open>A nil map has no entries, so the check for nil adds nothing.\<close>

definition getByPath :: "gval \<Rightarrow> string \<Rightarrow> gval option" where
  "getByPath m p = walk m (split_on CHR ''.'' p)"

definition extractCredentialSubject :: "gval \<Rightarrow> gval option" where
  "extractCredentialSubject claims =
     (case gmap_get claims ''vc'' of
        Some (GMap vc) \<Rightarrow>
          (case map_of vc ''credentialSubject'' of Some (GMap cs) \<Rightarrow> Some (GMap cs) | _ \<Rightarrow> None)
      | _ \<Rightarrow> None)"

text \<open>
  The claims of a stored credential: \<open>None\<close> when the JWS or its payload cannot be parsed. A payload
  \<open>null\<close> leaves the map nil, which is \<open>GNil\<close> here.
\<close>

definition claims_of :: "wallet_lib \<Rightarrow> credential \<Rightarrow> gval option" where
  "claims_of W vc =
     (case wl_jws_parse W (vc_raw vc) of Inl e \<Rightarrow> None | Inr payload \<Rightarrow>
      case gl_json_parse (wl_base W) payload of None \<Rightarrow> None | Some j \<Rightarrow>
      case decode_any (wl_base W) False j of
        Some (GMap m) \<Rightarrow> Some (GMap m)
      | Some GNil \<Rightarrow> Some GNil
      | _ \<Rightarrow> None)"

text \<open>One field of the schema against the claims of one credential (lines 272 to 293).\<close>

definition field_claim :: "gval \<Rightarrow> string \<Rightarrow> gval option" where
  "field_claim claims n =
     (case gmap_get claims n of Some v \<Rightarrow> Some v | None \<Rightarrow>
      case (case extractCredentialSubject claims of None \<Rightarrow> None | Some cs \<Rightarrow> gmap_get cs n) of
        Some v \<Rightarrow> Some v
      | None \<Rightarrow> getByPath claims n)"

definition reserved :: "string \<Rightarrow> bool" where
  "reserved n = (n = ''aud'' \<or> n = ''nonce'')"

definition assign_field :: "gval \<Rightarrow> field_def \<Rightarrow> (string \<rightharpoonup> gval) \<Rightarrow> (string \<rightharpoonup> gval)" where
  "assign_field claims f m =
     (if reserved (fd_name f) \<or> m (fd_name f) \<noteq> None then m
      else case field_claim claims (fd_name f) of None \<Rightarrow> m | Some v \<Rightarrow> m(fd_name f \<mapsto> v))"

definition assign_credential ::
    "wallet_lib \<Rightarrow> schema_def \<Rightarrow> credential \<Rightarrow> (string \<rightharpoonup> gval) \<Rightarrow> (string \<rightharpoonup> gval)" where
  "assign_credential W schema vc m =
     (case claims_of W vc of None \<Rightarrow> m
      | Some claims \<Rightarrow> fold (assign_field claims) (sd_fields schema) m)"

text \<open>Lines 297 to 305: the audience and the nonce of the descriptor.\<close>

definition assign_reserved ::
    "schema_def \<Rightarrow> presentation_descriptor \<Rightarrow> (string \<rightharpoonup> gval) \<Rightarrow> (string \<rightharpoonup> gval)" where
  "assign_reserved schema d m =
     (let m1 = (if ok (wallet_FieldDefinition schema ''aud'') \<and> pd_audience d \<noteq> []
                then m(''aud'' \<mapsto> GStr (pd_audience d)) else m)
      in if ok (wallet_FieldDefinition schema ''nonce'') \<and> pd_nonce d \<noteq> []
         then m1(''nonce'' \<mapsto> GStr (pd_nonce d)) else m1)"

definition build_assignments ::
    "wallet_lib \<Rightarrow> schema_def \<Rightarrow> presentation_descriptor \<Rightarrow> credential list \<Rightarrow> (string \<rightharpoonup> gval)" where
  "build_assignments W schema d vcs =
     assign_reserved schema d (fold (assign_credential W schema) vcs Map.empty)"

definition missing_fields :: "schema_def \<Rightarrow> (string \<rightharpoonup> gval) \<Rightarrow> string list" where
  "missing_fields schema m =
     filter (\<lambda>n. \<not> reserved n \<and> m n = None) (map fd_name (sd_fields schema))"

definition public_inputs_of :: "schema_def \<Rightarrow> (string \<rightharpoonup> gval) \<Rightarrow> (string \<times> gval) list" where
  "public_inputs_of schema m =
     List.map_filter (\<lambda>f. if fd_public f then map_option (Pair (fd_name f)) (m (fd_name f)) else None)
       (sd_fields schema)"

section \<open>Creating a proof\<close>

text \<open>
  What proving needs: the Groth16 backend, the reader of proving keys, the order in which the
  runtime visits the map of inputs, the clock of \<open>Define\<close> and the serialisers of the package.
\<close>

record ('w, 'ccs, 'pk, 'vk, 'wit, 'pub, 'prf) prover =
  pv_groth :: "('w, 'ccs, 'pk, 'vk, 'wit, 'pub, 'prf) groth"
  pv_read_pk :: "string \<Rightarrow> 'pk res"
  pv_visit :: "(string \<rightharpoonup> gval) \<Rightarrow> (string \<times> gval) list"
  pv_revisit :: "(string \<times> gval) list \<Rightarrow> (string \<times> gval) list"
  pv_clock :: "nat \<Rightarrow> int64"
  pv_codec :: "('pub, 'prf) package_codec"

definition http_error :: "int \<Rightarrow> string \<Rightarrow> response" where
  "http_error st t = resp st (Plain t)"

definition verify_payload ::
    "presentation_descriptor \<Rightarrow> string \<Rightarrow> (string \<times> gval) list \<Rightarrow> gval" where
  "verify_payload d b64 inputs =
     GMap [(''request_id'', GStr (pd_request_id d)), (''zkp_blob_b64'', GStr b64),
           (''public_inputs'', GMap inputs), (''challenge'', GStr (pd_challenge d))]"

text \<open>
  From the schema and the stored credentials to the proof, its base64 text and the public inputs
  (lines 217 to 363); an error is the response.
\<close>

definition make_proof ::
    "wallet_lib \<Rightarrow> ('w, 'ccs, 'pk, 'vk, 'wit, 'pub, 'prf) prover \<Rightarrow> presentation_descriptor \<Rightarrow> string
      \<Rightarrow> string \<Rightarrow> credential list \<Rightarrow> response + (string \<times> string \<times> (string \<times> gval) list)" where
  "make_proof W P d schemaJSON pkBytes vcs =
     (let L = wl_base W; txt = error_text (wl_lib_text W) in
      case wallet_ParseSchema L schemaJSON of
        Inl e \<Rightarrow> Inl (http_error 400 (''schema parse failed: '' @ txt e))
      | Inr schema \<Rightarrow>
      if vcs = [] then Inl (http_error 400 (''no credentials in wallet '' @ [CHR 0xE2, CHR 0x80, CHR 0x93]
             @ '' import a VC first''))
      else let m = build_assignments W schema d vcs; missing = missing_fields schema m in
      if missing \<noteq> []
      then Inl (http_error 400 (''no credentials available to satisfy schema; missing fields: ''
             @ str_join '', '' missing))
      else case ProveDynamicFromSchema L (pv_groth P) (pv_read_pk P) (pv_revisit P) (pv_clock P)
                  schemaJSON (pv_visit P m) pkBytes of
        Inl e \<Rightarrow> Inl (http_error 500 (''zkp prove failed: '' @ txt e))
      | Inr zkpResult \<Rightarrow>
      (case SerializeBorsh (pv_codec P) zkpResult of
        Inl e \<Rightarrow> Inl (http_error 500 (''zkp serialize failed: '' @ txt e))
      | Inr blob \<Rightarrow> Inr (blob, gl_b64_encode L blob, public_inputs_of schema m)))"

text \<open>The submission to the verifier, and the answer of the endpoint when it has been accepted.\<close>

definition submit_proof ::
    "wallet_lib \<Rightarrow> 's http \<Rightarrow> presentation_descriptor \<Rightarrow> string \<Rightarrow> string \<Rightarrow> (string \<times> gval) list \<Rightarrow> 's \<Rightarrow> response \<times> 's" where
  "submit_proof W H d blob b64 inputs s =
     (case HttpPostJSON W H (pd_submit_url d) (verify_payload d b64 inputs) s of
        (Inl e, s1) \<Rightarrow> (http_error 400 (''digital identity verify failed: '' @ error_text (wl_lib_text W) e), s1)
      | (Inr j, s1) \<Rightarrow>
          (case decode_any (wl_base W) False j of
             None \<Rightarrow> (http_error 400 (''digital identity verify failed: '' @ wl_lib_text W ''json''), s1)
           | Some v \<Rightarrow>
               (resp 200 (jobj
                  ([(''request_id'', GStr (pd_request_id d)), (''schema_hash'', GStr (pd_schema_hash d)),
                    (''schema_uri'', GStr (pd_schema_uri d)), (''audience'', GStr (pd_audience d)),
                    (''expires_at'', GInt KInt64 (pd_expires_at d)), (''submit_url'', GStr (pd_submit_url d)),
                    (''zkp_borsh_base64'', GStr b64), (''proof_length'', GInt KInt (int (length blob))),
                    (''public_witness_ok'', GBool True)]
                   @ (if is_nil v then [] else [(''verifier_response'', v)]))), s1)))"

text \<open>\<open>bound\<close> is the request body: the error of the decoder or its \<open>request_id\<close>.\<close>

definition HandleZkpCreate ::
    "wallet_lib \<Rightarrow> ('w, 'ccs, 'pk, 'vk, 'wit, 'pub, 'prf) prover \<Rightarrow> 's http \<Rightarrow> string \<Rightarrow> bool
      \<Rightarrow> string + string \<Rightarrow> credential list \<Rightarrow> 's \<Rightarrow> response \<times> 's" where
  "HandleZkpCreate W P H base is_post bound vcs s =
     (let txt = error_text (wl_lib_text W) in
      if \<not> is_post then (http_error 405 ''method not allowed'', s)
      else case bound of Inl err \<Rightarrow> (http_error 400 (''bad json: '' @ err), s)
      | Inr requestID \<Rightarrow>
      if trim_space requestID = [] then (http_error 400 ''missing request_id'', s)
      else case fetchDescriptorSchemaAndPK W H base (trim_space requestID) s of
        (Inl e, s1) \<Rightarrow> (http_error 400 (''descriptor/schema/pk fetch failed: '' @ txt e), s1)
      | (Inr (d, schemaJSON, pkBytes), s1) \<Rightarrow>
      (case make_proof W P d schemaJSON pkBytes vcs of
        Inl r \<Rightarrow> (r, s1)
      | Inr (blob, b64, inputs) \<Rightarrow> submit_proof W H d blob b64 inputs s1))"

section \<open>The other endpoints\<close>

text \<open>
  The answer with the raw schema in it; when the schema is not JSON the encoder fails and the
  body stays empty. The proving key's URL is the only one this endpoint does not repair.
\<close>

definition descriptor_json :: "presentation_descriptor \<Rightarrow> gval" where
  "descriptor_json d =
     GMap [(''request_id'', GStr (pd_request_id d)), (''audience'', GStr (pd_audience d)),
           (''expires_at'', GInt KInt64 (pd_expires_at d)), (''challenge'', GStr (pd_challenge d)),
           (''nonce'', GStr (pd_nonce d)),
           (''schema'', GMap [(''hash'', GStr (pd_schema_hash d)), (''uri'', GStr (pd_schema_uri d))]),
           (''artifacts'', GMap [(''vk_url'', GStr (pd_vk_url d)), (''pk_url'', GStr (pd_pk_url d))]),
           (''submit_url'', GStr (pd_submit_url d))]"

definition fetch_response :: "golib \<Rightarrow> presentation_descriptor \<Rightarrow> string \<Rightarrow> response" where
  "fetch_response L d schema =
     resp 200 (case (case gl_json_parse L schema of None \<Rightarrow> None | Some j \<Rightarrow> decode_any L True j) of
                 None \<Rightarrow> Plain []
               | Some v \<Rightarrow> jobj [(''descriptor'', descriptor_json d), (''schema_json'', v)])"

definition HandleFetchDescriptor ::
    "wallet_lib \<Rightarrow> 's http \<Rightarrow> string \<Rightarrow> bool \<Rightarrow> string + string \<Rightarrow> 's \<Rightarrow> response \<times> 's" where
  "HandleFetchDescriptor W H base is_post bound s =
     (let txt = error_text (wl_lib_text W) in
      if \<not> is_post then (http_error 405 ''method not allowed'', s)
      else case bound of Inl err \<Rightarrow> (http_error 400 (''bad json: '' @ err), s)
      | Inr requestID \<Rightarrow>
      if trim_space requestID = [] then (http_error 400 ''missing request_id'', s)
      else case ht_get H (descriptor_url base (trim_space requestID)) s of
        (Inl e, s1) \<Rightarrow> (http_error 502 (''descriptor fetch failed: '' @ txt e), s1)
      | (Inr r, s1) \<Rightarrow>
      if rp_status r \<noteq> 200
      then (http_error 502 (''descriptor fetch failed: status '' @ int_str (rp_status r) @ '': '' @ rp_body r), s1)
      else case (case wl_first_json W (rp_body r) of None \<Rightarrow> Inl (LibErr ''json'') | Some j \<Rightarrow> decode_descriptor j) of
        Inl e \<Rightarrow> (http_error 400 (''descriptor json error: '' @ txt e), s1)
      | Inr d0 \<Rightarrow>
      (let d = (normalize_descriptor d0)\<lparr>pd_pk_url := pd_pk_url d0\<rparr> in
       if trim_space (pd_schema_uri d) = [] then (http_error 400 ''descriptor has empty schema.uri'', s1)
       else case ht_get H (pd_schema_uri d) s1 of
         (Inl e, s2) \<Rightarrow> (http_error 502 (''schema fetch failed: '' @ txt e), s2)
       | (Inr r2, s2) \<Rightarrow>
       if rp_status r2 \<noteq> 200
       then (http_error 502 (''schema fetch failed: status '' @ int_str (rp_status r2) @ '': '' @ rp_body r2), s2)
       else case rp_read_error r2 of
              Some e \<Rightarrow> (http_error 400 (''schema read failed: '' @ txt e), s2)
            | None \<Rightarrow> (fetch_response (wl_base W) d (rp_body r2), s2)))"

text \<open>The proxy of a submission; the headers of the answer are passed on and not modelled.\<close>

record verify_proxy_request =
  vp_request_id :: string
  vp_blob :: string
  vp_public_inputs :: "(string \<times> gval) list"
  vp_challenge :: string

definition proxy_payload :: "verify_proxy_request \<Rightarrow> gval" where
  "proxy_payload inp =
     GMap ([(''request_id'', GStr (trim_space (vp_request_id inp))),
            (''zkp_blob_b64'', GStr (trim_space (vp_blob inp)))]
        @ (if vp_public_inputs inp = [] then [] else [(''public_inputs'', GMap (vp_public_inputs inp))])
        @ (if trim_space (vp_challenge inp) = [] then []
           else [(''challenge'', GStr (trim_space (vp_challenge inp)))]))"

definition HandleVerifyProxy ::
    "wallet_lib \<Rightarrow> 's http \<Rightarrow> string \<Rightarrow> bool \<Rightarrow> string + verify_proxy_request \<Rightarrow> 's \<Rightarrow> response \<times> 's" where
  "HandleVerifyProxy W H base is_post bound s =
     (if \<not> is_post then (http_error 405 ''method not allowed'', s)
      else case bound of Inl err \<Rightarrow> (http_error 400 (''bad json: '' @ err), s)
      | Inr inp \<Rightarrow>
      if trim_space (vp_request_id inp) = [] then (http_error 400 ''missing request_id'', s)
      else if trim_space (vp_blob inp) = [] then (http_error 400 ''missing zkp_blob_b64'', s)
      else let target = trim_right_slash base @ ''/v1/presentations/verify'' in
      case gl_json_text (wl_base W) (proxy_payload inp) of
        None \<Rightarrow> (http_error 500 (''cannot marshal payload: '' @ wl_lib_text W ''json''), s)
      | Some body \<Rightarrow>
      if \<not> wl_url_ok W target then (http_error 500 (''cannot create request: '' @ wl_lib_text W ''url''), s)
      else case ht_post H target None body s of
        (Inl e, s1) \<Rightarrow> (http_error 502 (''verify proxy failed: '' @ error_text (wl_lib_text W) e), s1)
      | (Inr r, s1) \<Rightarrow> (resp (rp_status r) (Plain (rp_body r)), s1))"

text \<open>The claims of one stored credential, for the wallet's pages.\<close>

definition HandleWalletClaims :: "wallet_lib \<Rightarrow> string \<Rightarrow> vc_store \<Rightarrow> response" where
  "HandleWalletClaims W url_path st =
     (case vc_get (path_base url_path) st of None \<Rightarrow> http_error 404 ''not found'' | Some vc \<Rightarrow>
      case wl_jws_parse W (vc_raw vc) of
        Inl e \<Rightarrow> http_error 400 (''jws parse error: '' @ error_text (wl_lib_text W) e)
      | Inr payload \<Rightarrow>
      (case claims_of W vc of
        None \<Rightarrow> http_error 400 (''payload json error: '' @ wl_lib_text W ''json'')
      | Some claims \<Rightarrow>
          resp 200 (jobj [(''id'', GStr (vc_id vc)), (''format'', GStr (vc_format vc)),
            (''display_name'', GStr (vc_id vc)), (''issuer_meta'', GStr (vc_issuer vc)),
            (''subject_meta'', GStr (vc_subject vc)), (''types_meta'', GList (map GStr (vc_types vc))),
            (''claims'', claims)])))"

end
