(* ===== verification/WalletCredentials.thy ===== *)
theory WalletCredentials
  imports WalletZkp
begin

text \<open>
  \<open>zk-wallet-go/internal/app/handlers/wallet_handlers.go\<close> and \<open>wallet_ingest.go\<close>: how credentials get
  into the wallet's store, by redeeming an offer or directly, and how they are shown and checked.
  A handler that panics gives no answer (\<open>None\<close>): the server drops the connection.
\<close>

section \<open>Redeeming an offer\<close>

definition grant_key :: string where
  "grant_key = ''urn:ietf:params:oauth:grant-type:pre-authorized_code''"

text \<open>A JSON object decoded into a Go map: the entries of a later object replace earlier ones.\<close>

definition decode_map :: "golib \<Rightarrow> string \<Rightarrow> (string \<times> json) list \<Rightarrow> (string \<times> gval) list res" where
  "decode_map L f kvs =
     each_res (\<lambda>j acc. case j of
         JObj m \<Rightarrow> (case decode_any L False (JObj m) of Some (GMap es) \<Rightarrow> Inr (es @ acc) | _ \<Rightarrow> Inl (LibErr ''json''))
       | JNull \<Rightarrow> Inr []
       | _ \<Rightarrow> Inl (LibErr ''json''))
       (members_of f kvs) []"

record credential_offer =
  co_issuer :: string
  co_configuration_ids :: "string list"
  co_grants :: "(string \<times> gval) list"

definition decode_offer :: "golib \<Rightarrow> json \<Rightarrow> credential_offer res" where
  "decode_offer L j =
     and_then (members j) (\<lambda>kvs.
     and_then (decode_string ''credential_issuer'' kvs) (\<lambda>i.
     and_then (decode_slice decode_name ''credential_configuration_ids'' kvs) (\<lambda>ids.
     and_then (decode_map L ''grants'' kvs) (\<lambda>g.
     Inr \<lparr>co_issuer = i, co_configuration_ids = ids, co_grants = g\<rparr>))))"

text \<open>Two type assertions with comma-ok: anything but a map with a string in it gives the empty code.\<close>

definition preauth_code :: "credential_offer \<Rightarrow> string" where
  "preauth_code offer =
     (case map_of (co_grants offer) grant_key of
        Some (GMap g) \<Rightarrow> (case map_of g ''pre-authorized_code'' of Some (GStr p) \<Rightarrow> p | _ \<Rightarrow> [])
      | _ \<Rightarrow> [])"

definition decode_token :: "json \<Rightarrow> string res" where
  "decode_token j =
     and_then (members j) (\<lambda>kvs.
     and_then (decode_string ''access_token'' kvs) (\<lambda>t.
     and_then (decode_string ''token_type'' kvs) (\<lambda>ty.
     and_then (decode_int ''expires_in'' kvs) (\<lambda>e.
     and_then (decode_string ''c_nonce'' kvs) (\<lambda>n. Inr t)))))"

definition decode_credential :: "json \<Rightarrow> (string \<times> string) res" where
  "decode_credential j =
     and_then (members j) (\<lambda>kvs.
     and_then (decode_string ''format'' kvs) (\<lambda>f.
     and_then (decode_string ''credential'' kvs) (\<lambda>c. Inr (f, c))))"

definition token_request :: "string \<Rightarrow> gval" where
  "token_request pre = GMap [(''grant_type'', GStr grant_key), (''pre-authorized_code'', GStr pre)]"

text \<open>
  The three calls, in order, with the text each error is reported with. The constructor of the
  last request is not checked for an error; the token call, to the same issuer, has succeeded.
\<close>

definition redeem ::
    "wallet_lib \<Rightarrow> 's http \<Rightarrow> string \<Rightarrow> 's \<Rightarrow> (string \<times> string) res \<times> 's" where
  "redeem W H offerURL s =
     bind_st (map_prod (\<lambda>r. wrapped ''offer fetch failed'' (and_then r (decode_offer (wl_base W)))) id
                (HttpGetJSON W H offerURL s)) (\<lambda>offer s.
     if preauth_code offer = [] then (Inl (Msg ''offer missing pre-authorized_code''), s)
     else bind_st (map_prod (\<lambda>r. wrapped ''token failed'' (and_then r decode_token)) id
            (HttpPostJSON W H (co_issuer offer @ ''/oidc4vci/token'') (token_request (preauth_code offer)) s))
            (\<lambda>token s.
          map_prod (\<lambda>r. wrapped ''credential failed'' (and_then r decode_credential)) id
            (HttpPostAuthJSON W H (co_issuer offer @ ''/oidc4vci/credential'') token (GMap []) s)))"

section \<open>What is read from a credential\<close>

text \<open>
  The errors of \<open>json.Unmarshal\<close> are dropped, and it goes on after a member of the wrong type: each
  member that fits is taken. A nil slice and an empty one are not told apart.
\<close>

definition lenient_string :: "string \<Rightarrow> (string \<times> json) list \<Rightarrow> string" where
  "lenient_string f kvs = fold (\<lambda>j s. case j of JStr t \<Rightarrow> t | _ \<Rightarrow> s) (members_of f kvs) []"

definition lenient_strings :: "string \<Rightarrow> (string \<times> json) list \<Rightarrow> string list" where
  "lenient_strings f kvs =
     fold (\<lambda>j ss. case j of
         JArr xs \<Rightarrow> map (\<lambda>x. case x of JStr t \<Rightarrow> t | _ \<Rightarrow> []) xs
       | JNull \<Rightarrow> []
       | _ \<Rightarrow> ss) (members_of f kvs) []"

definition lenient_inner :: "string \<Rightarrow> (string \<times> json) list \<Rightarrow> (string \<times> json) list" where
  "lenient_inner f kvs = fold (\<lambda>j acc. case j of JObj m \<Rightarrow> acc @ m | _ \<Rightarrow> acc) (members_of f kvs) []"

record vc_meta =
  vm_issuer :: string
  vm_subject :: string
  vm_types :: "string list"

definition meta_of :: "golib \<Rightarrow> string \<Rightarrow> vc_meta" where
  "meta_of L payload =
     (case gl_json_parse L payload of
        Some (JObj kvs) \<Rightarrow>
          \<lparr>vm_issuer = lenient_string ''iss'' kvs, vm_subject = lenient_string ''sub'' kvs,
           vm_types = lenient_strings ''type'' (lenient_inner ''vc'' kvs)\<rparr>
      | _ \<Rightarrow> \<lparr>vm_issuer = [], vm_subject = [], vm_types = []\<rparr>)"

text \<open>\<open>json.Unmarshal\<close> into an \<open>any\<close> with the error dropped.\<close>

definition payload_value :: "golib \<Rightarrow> string \<Rightarrow> gval" where
  "payload_value L payload =
     (case (case gl_json_parse L payload of None \<Rightarrow> None | Some j \<Rightarrow> decode_any L False j) of
        None \<Rightarrow> GNil
      | Some v \<Rightarrow> v)"

text \<open>The payload of a credential whose signature is good, and the empty text otherwise.\<close>

definition verified_payload :: "wallet_lib \<Rightarrow> string \<Rightarrow> string" where
  "verified_payload W jws = (case wl_jws_verify W jws of Inl e \<Rightarrow> [] | Inr p \<Rightarrow> p)"

definition Sha256hex :: "wallet_lib \<Rightarrow> string \<Rightarrow> string" where
  "Sha256hex W b = wl_b64url W (gl_sha256 (wl_base W) b)"

definition new_credential :: "wallet_lib \<Rightarrow> string \<Rightarrow> string \<Rightarrow> int \<Rightarrow> credential" where
  "new_credential W fmt jws now =
     (let m = meta_of (wl_base W) (verified_payload W jws)
      in \<lparr>vc_id = Sha256hex W jws, vc_format = fmt, vc_raw = jws, vc_issuer = vm_issuer m,
          vc_subject = vm_subject m, vc_types = vm_types m, vc_created_at = now\<rparr>)"

section \<open>Importing\<close>

definition deeplink :: string where
  "deeplink = ''openid-credential-offer://''"

definition HandleWalletImportOffer ::
    "wallet_lib \<Rightarrow> 's http \<Rightarrow> int \<Rightarrow> string + string \<Rightarrow> vc_store \<times> 's \<Rightarrow> response option \<times> vc_store \<times> 's" where
  "HandleWalletImportOffer W H now bound st =
     (case st of (vcs, s) \<Rightarrow>
      let txt = error_text (wl_lib_text W) in
      case bound of Inl err \<Rightarrow> (Some (http_error 400 (''bad json: '' @ err)), vcs, s)
      | Inr offer \<Rightarrow>
      if offer = [] then (Some (http_error 400 ''missing offer''), vcs, s)
      else case (if has_prefix offer deeplink
                 then (case wl_url_query W offer of
                         None \<Rightarrow> Inl None
                       | Some q \<Rightarrow> if q ''credential_offer_uri'' = []
                           then Inl (Some (http_error 400 ''deeplink without credential_offer_uri''))
                           else Inr (q ''credential_offer_uri''))
                 else Inr offer) of
        Inl r \<Rightarrow> (r, vcs, s)
      | Inr offerURL \<Rightarrow>
      (case redeem W H offerURL s of
        (Inl e, s1) \<Rightarrow> (Some (http_error 400 (txt e)), vcs, s1)
      | (Inr (fmt, jws), s1) \<Rightarrow>
          (let vc = new_credential W fmt jws now
           in (Some (resp 200 (jobj [(''vc_id'', GStr (vc_id vc)), (''issuer'', GStr (vc_issuer vc)),
                 (''types'', GList (map GStr (vc_types vc))), (''stored'', GBool True)])),
               vc_save vc vcs, s1))))"

definition normalizeOfferToURI :: "wallet_lib \<Rightarrow> string \<Rightarrow> string res" where
  "normalizeOfferToURI W inp =
     and_then
       (if has_prefix inp deeplink
        then (case wl_url_query W inp of
                None \<Rightarrow> Inl (LibErr ''url'')
              | Some q \<Rightarrow> if q ''credential_offer_uri'' = [] then Inl (Msg ''invalid credential offer input'')
                          else Inr (q ''credential_offer_uri''))
        else Inr inp) (\<lambda>u.
     case wl_url_scheme W u of
       None \<Rightarrow> Inl (LibErr ''url'')
     | Some sch \<Rightarrow> if sch \<noteq> ''http'' \<and> sch \<noteq> ''https'' then Inl (Msg ''invalid credential offer input'') else Inr u)"

record ingest_request =
  ir_credential :: string
  ir_offer :: string
  ir_store :: "bool option"

text \<open>The credential to ingest and where it came from; an error is the response.\<close>

definition ingest_source ::
    "wallet_lib \<Rightarrow> 's http \<Rightarrow> ingest_request \<Rightarrow> 's \<Rightarrow> (response + string \<times> string) \<times> 's" where
  "ingest_source W H inp s =
     (let txt = error_text (wl_lib_text W) in
      if trim_space (ir_credential inp) \<noteq> [] then (Inr (ir_credential inp, ''credential''), s)
      else if trim_space (ir_offer inp) \<noteq> []
      then (case normalizeOfferToURI W (ir_offer inp) of
              Inl e \<Rightarrow> (Inl (http_error 400 (''invalid offer: '' @ txt e)), s)
            | Inr u \<Rightarrow>
                (case redeem W H u s of
                   (Inl e, s1) \<Rightarrow> (Inl (http_error 400 (txt e)), s1)
                 | (Inr (fmt, jws), s1) \<Rightarrow> (Inr (jws, ''offer''), s1)))
      else (Inl (http_error 400 (''provide either '' @ quoted ''credential'' @ '' or '' @ quoted ''offer'')), s))"

definition HandleWalletIngest ::
    "wallet_lib \<Rightarrow> 's http \<Rightarrow> int \<Rightarrow> bool \<Rightarrow> string + ingest_request \<Rightarrow> vc_store \<times> 's
      \<Rightarrow> response \<times> vc_store \<times> 's" where
  "HandleWalletIngest W H now is_post bound st =
     (case st of (vcs, s) \<Rightarrow>
      if \<not> is_post then (http_error 405 ''method not allowed'', vcs, s)
      else case bound of Inl err \<Rightarrow> (http_error 400 (''bad json: '' @ err), vcs, s)
      | Inr inp \<Rightarrow>
      (case ingest_source W H inp s of
        (Inl r, s1) \<Rightarrow> (r, vcs, s1)
      | (Inr (jws, source), s1) \<Rightarrow>
          (let store = (case ir_store inp of None \<Rightarrow> True | Some b \<Rightarrow> b);
               vc = new_credential W ''jwt_vc_json'' jws now;
               payload = payload_value (wl_base W) (verified_payload W jws)
           in (resp 200 (jobj
                 ([(''source'', GStr source), (''valid'', GBool (ok (wl_jws_verify W jws)))]
                  @ (if vc_id vc = [] then [] else [(''vc_id'', GStr (vc_id vc))])
                  @ (if vc_issuer vc = [] then [] else [(''issuer'', GStr (vc_issuer vc))])
                  @ (if vc_types vc = [] then [] else [(''types'', GList (map GStr (vc_types vc)))])
                  @ [(''stored'', GBool store)]
                  @ (if is_nil payload then [] else [(''payload'', payload)]))),
               (if store then vc_save vc vcs else vcs), s1))))"

section \<open>Showing and checking\<close>

definition credential_json :: "credential \<Rightarrow> gval" where
  "credential_json vc =
     GMap [(''id'', GStr (vc_id vc)), (''format'', GStr (vc_format vc)), (''raw'', GStr (vc_raw vc)),
           (''issuer'', GStr (vc_issuer vc)), (''subject'', GStr (vc_subject vc)),
           (''types'', GList (map GStr (vc_types vc))), (''created_at'', GTime (vc_created_at vc))]"

definition HandleWalletList :: "credential list \<Rightarrow> response" where
  "HandleWalletList vcs = resp 200 (Json (GList (map credential_json vcs)))"

text \<open>The payload, taken without the check when the signature is bad.\<close>

definition shown_payload :: "wallet_lib \<Rightarrow> string \<Rightarrow> string" where
  "shown_payload W jws =
     (case wl_jws_verify W jws of
        Inr p \<Rightarrow> p
      | Inl e \<Rightarrow> (case wl_jws_parse W jws of Inr p \<Rightarrow> p | Inl e' \<Rightarrow> []))"

definition HandleWalletShow :: "wallet_lib \<Rightarrow> string \<Rightarrow> vc_store \<Rightarrow> response" where
  "HandleWalletShow W url_path vcs =
     (case vc_get (path_base url_path) vcs of
        None \<Rightarrow> http_error 404 ''not found''
      | Some vc \<Rightarrow>
          resp 200 (jobj [(''meta'', credential_json vc),
            (''payload'', payload_value (wl_base W) (shown_payload W (vc_raw vc))),
            (''valid'', GBool (ok (wl_jws_verify W (vc_raw vc))))]))"

definition HandleWalletVerify :: "wallet_lib \<Rightarrow> string + string \<Rightarrow> response" where
  "HandleWalletVerify W bound =
     (case bound of Inl err \<Rightarrow> http_error 400 (''bad json: '' @ err)
      | Inr jws \<Rightarrow>
      if jws = [] then http_error 400 ''missing credential''
      else resp 200 (jobj [(''valid'', GBool (ok (wl_jws_verify W jws))),
             (''payload'', payload_value (wl_base W) (shown_payload W jws)),
             (''error'', GStr (case wl_jws_verify W jws of
                                 Inl e \<Rightarrow> error_text (wl_lib_text W) e | Inr p \<Rightarrow> []))]))"

end
