(* ===== verification/Issuer.thy ===== *)
theory Issuer
  imports WalletCredentials
begin

text \<open>
  The issuer that runs in the wallet's server: the stores of \<open>internal/app/config/config.go\<close>, the
  session lookup of \<open>server/reqctx.go\<close>, the login flow of \<open>handlers/auth_handlers.go\<close>, the issuing
  endpoints of \<open>handlers/vci_handlers.go\<close>, and \<open>oidcissuer/issuer_metadata.go\<close>.
\<close>

section \<open>Random strings\<close>

definition alphabet :: string where
  "alphabet = ''abcdefghijklmnopqrstuvwxyzABCDEFGHIJKLMNOPQRSTUVWXYZ0123456789''"

text \<open>\<open>bs\<close> are the bytes drawn: zeros when the generator fails.\<close>

definition RandomString :: "8 word list \<Rightarrow> string" where
  "RandomString bs = map (\<lambda>b. alphabet ! (unat b mod length alphabet)) bs"

section \<open>The state\<close>

record session =
  ss_sub :: string
  ss_email :: string
  ss_name :: string

record preauth =
  pa_code :: string
  pa_user :: session
  pa_expires_at :: int

record access_rec =
  ac_token :: string
  ac_user :: session
  ac_cnonce :: string
  ac_exp :: int

record issuer =
  is_sessions :: "string \<rightharpoonup> session"
  is_preauth :: "string \<rightharpoonup> preauth"
  is_access :: "string \<rightharpoonup> access_rec"
  is_pkce :: "string \<rightharpoonup> string"

text \<open>The configuration set by \<open>main\<close>.\<close>

record issuer_config =
  ig_base_url :: string
  ig_redirect_uri :: string
  ig_dsnet_logout :: string
  ig_end_session :: string
  ig_scopes :: "string list"
  ig_key_id :: string

definition CookieNameSession :: string where "CookieNameSession = ''sid''"
definition CookieNamePKCE :: string where "CookieNamePKCE = ''pkce_verifier''"
definition CookieNameState :: string where "CookieNameState = ''oidc_state''"
definition CookieNameNonce :: string where "CookieNameNonce = ''oidc_nonce''"

text \<open>A cookie of a response: name, value and maximal age (0 for none given, negative to delete).\<close>

record cookie =
  ck_name :: string
  ck_value :: string
  ck_max_age :: int

definition set_cookie :: "string \<Rightarrow> string \<Rightarrow> cookie" where
  "set_cookie n v = \<lparr>ck_name = n, ck_value = v, ck_max_age = 0\<rparr>"

definition clear_cookie :: "string \<Rightarrow> cookie" where
  "clear_cookie n = \<lparr>ck_name = n, ck_value = [], ck_max_age = - 1\<rparr>"

text \<open>A redirect shows its location as the body.\<close>

definition redirect :: "string \<Rightarrow> response" where
  "redirect u = resp 302 (Plain u)"

text \<open>\<open>cookies\<close> are the cookies of the request, by name.\<close>

definition CurrentSession :: "(string \<rightharpoonup> string) \<Rightarrow> issuer \<Rightarrow> session res" where
  "CurrentSession cookies s =
     (case cookies CookieNameSession of
        None \<Rightarrow> Inl (Msg ''no cookie'')
      | Some sid \<Rightarrow> (case is_sessions s sid of None \<Rightarrow> Inl (Msg ''not found'') | Some u \<Rightarrow> Inr u))"

section \<open>Login\<close>

text \<open>
  The identity provider and the URL functions of the libraries: the URL of the authorization
  request for its parameters, the exchange of a code, the check of an ID token, its claims, the
  user info, the setting of a query parameter, escaping.
\<close>

record id_claims =
  ic_sub :: string
  ic_email :: string
  ic_name :: string
  ic_nonce :: string

record oidc =
  od_auth_url :: "(string \<times> string) list \<Rightarrow> string"
  od_exchange :: "(string \<times> string) list \<Rightarrow> string option res"
  od_verify :: "string \<Rightarrow> unit res"
  od_claims :: "string \<Rightarrow> id_claims res"
  od_userinfo :: "session res"
  od_set_query :: "string \<Rightarrow> string \<Rightarrow> string \<Rightarrow> string option"
  od_escape :: "string \<Rightarrow> string"
  od_error_text :: "goerr \<Rightarrow> string"

definition HandleLogin ::
    "wallet_lib \<Rightarrow> oidc \<Rightarrow> issuer_config \<Rightarrow> 8 word list \<Rightarrow> 8 word list \<Rightarrow> 8 word list \<Rightarrow> bool
      \<Rightarrow> issuer \<Rightarrow> (response \<times> cookie list) \<times> issuer" where
  "HandleLogin W D C ver_bytes nonce_bytes state_bytes is_get s =
     (if \<not> is_get then ((http_error 405 ''method not allowed'', []), s)
      else let ver = RandomString ver_bytes;
               challenge = wl_b64url W (gl_sha256 (wl_base W) ver);
               nonce = RandomString nonce_bytes;
               state = RandomString state_bytes
           in ((redirect (od_auth_url D
                  [(''state'', state), (''code_challenge'', challenge), (''code_challenge_method'', ''S256''),
                   (''prompt'', ''login''), (''max_age'', ''0''), (''nonce'', nonce),
                   (''scope'', str_join '' '' (ig_scopes C))]),
                [set_cookie CookieNamePKCE ver, set_cookie CookieNameState state, set_cookie CookieNameNonce nonce]),
               s\<lparr>is_pkce := (is_pkce s)(state \<mapsto> ver)\<rparr>))"

text \<open>The PKCE verifier: from the cookie, else from the store under the state of the query.\<close>

definition pkce_verifier :: "(string \<rightharpoonup> string) \<Rightarrow> string \<Rightarrow> issuer \<Rightarrow> string" where
  "pkce_verifier cookies state s =
     (case cookies CookieNamePKCE of
        Some v \<Rightarrow> if v \<noteq> [] then v else (case is_pkce s state of None \<Rightarrow> [] | Some w \<Rightarrow> w)
      | None \<Rightarrow> (case is_pkce s state of None \<Rightarrow> [] | Some w \<Rightarrow> w))"

text \<open>Who logs in, given the ID token of the token response (lines 139 to 190).\<close>

definition login_user :: "oidc \<Rightarrow> string option \<Rightarrow> string option \<Rightarrow> response + session" where
  "login_user D nonce_cookie id_token =
     (if id_token \<noteq> None \<and> id_token \<noteq> Some []
      then (let raw = (case id_token of None \<Rightarrow> [] | Some t \<Rightarrow> t) in
            case od_verify D raw of
              Inl e \<Rightarrow> Inl (http_error 400 (''id_token verify failed: '' @ od_error_text D e))
            | Inr u \<Rightarrow>
            (case od_claims D raw of
              Inl e \<Rightarrow> Inl (http_error 400 (''claims parse: '' @ od_error_text D e))
            | Inr cl \<Rightarrow>
            if nonce_cookie \<noteq> None \<and> ic_nonce cl \<noteq> [] \<and> nonce_cookie \<noteq> Some (ic_nonce cl)
            then Inl (http_error 400 ''nonce mismatch'')
            else Inr \<lparr>ss_sub = ic_sub cl, ss_email = ic_email cl, ss_name = ic_name cl\<rparr>))
      else (case od_userinfo D of
              Inl e \<Rightarrow> Inl (http_error 400 (''userinfo fetch failed: '' @ od_error_text D e))
            | Inr u \<Rightarrow> if ss_sub u = [] then Inl (http_error 400 ''userinfo missing sub'') else Inr u))"

text \<open>\<open>code\<close> and \<open>state\<close> are the query parameters, empty when absent.\<close>

definition HandleCallback ::
    "oidc \<Rightarrow> issuer_config \<Rightarrow> 8 word list \<Rightarrow> bool \<Rightarrow> string \<Rightarrow> string \<Rightarrow> (string \<rightharpoonup> string)
      \<Rightarrow> issuer \<Rightarrow> (response \<times> cookie list) \<times> issuer" where
  "HandleCallback D C sid_bytes is_get code state cookies s =
     (if \<not> is_get then ((http_error 405 ''method not allowed'', []), s)
      else if code = [] then ((http_error 400 ''missing code'', []), s)
      else let pkceVal = pkce_verifier cookies state s in
      if pkceVal = [] then ((http_error 400 ''missing pkce verifier'', []), s)
      else case od_exchange D [(''code'', code), (''code_verifier'', pkceVal), (''redirect_uri'', ig_redirect_uri C)] of
        Inl e \<Rightarrow> ((http_error 400 (''token exchange failed: '' @ od_error_text D e), []), s)
      | Inr id_token \<Rightarrow>
      (case login_user D (cookies CookieNameNonce) id_token of
        Inl r \<Rightarrow> ((r, []), s)
      | Inr u \<Rightarrow>
          (let sid = RandomString sid_bytes
           in ((redirect ''/offer.html'',
                [clear_cookie CookieNamePKCE, clear_cookie CookieNameState, clear_cookie CookieNameNonce,
                 \<lparr>ck_name = CookieNameSession, ck_value = sid, ck_max_age = 3600\<rparr>]),
               s\<lparr>is_sessions := (is_sessions s)(sid \<mapsto> u), is_pkce := (is_pkce s)(state := None)\<rparr>))))"

text \<open>A logout URL that cannot be parsed panics: no answer.\<close>

definition HandleLogout ::
    "oidc \<Rightarrow> issuer_config \<Rightarrow> bool \<Rightarrow> (string \<rightharpoonup> string) \<Rightarrow> issuer
      \<Rightarrow> (response option \<times> cookie list) \<times> issuer" where
  "HandleLogout D C get_or_post cookies s =
     (if \<not> get_or_post then ((Some (http_error 405 ''method not allowed''), []), s)
      else let s1 = (case cookies CookieNameSession of None \<Rightarrow> s
                     | Some sid \<Rightarrow> s\<lparr>is_sessions := (is_sessions s)(sid := None)\<rparr>);
               gone = map clear_cookie [CookieNameSession, CookieNamePKCE, CookieNameState, CookieNameNonce]
           in if ig_dsnet_logout C \<noteq> []
              then ((map_option redirect
                       (od_set_query D (ig_dsnet_logout C) ''post_logout_redirect_uri'' (ig_base_url C)), gone), s1)
              else if ig_end_session C \<noteq> []
              then ((Some (redirect (ig_end_session C @ (if str_contains (ig_end_session C) ''?'' then ''&'' else ''?'')
                       @ ''post_logout_redirect_uri='' @ od_escape D (ig_base_url C))), gone), s1)
              else ((Some (redirect ''/''), gone), s1))"

definition HandleMe :: "bool \<Rightarrow> (string \<rightharpoonup> string) \<Rightarrow> issuer \<Rightarrow> response" where
  "HandleMe is_get cookies s =
     (if \<not> is_get then http_error 405 ''method not allowed''
      else case CurrentSession cookies s of
        Inl e \<Rightarrow> http_error 401 ''unauthorized''
      | Inr u \<Rightarrow> resp 200 (jobj ([(''sub'', GStr (ss_sub u))]
          @ (if ss_email u = [] then [] else [(''email'', GStr (ss_email u))])
          @ (if ss_name u = [] then [] else [(''name'', GStr (ss_name u))]))))"

section \<open>Issuing\<close>

text \<open>Times are Unix seconds; \<open>After\<close> is strict, so a code is good in its last second.\<close>

definition HandleCreateOffer ::
    "oidc \<Rightarrow> issuer_config \<Rightarrow> 8 word list \<Rightarrow> int \<Rightarrow> bool \<Rightarrow> (string \<rightharpoonup> string) \<Rightarrow> issuer
      \<Rightarrow> response \<times> issuer" where
  "HandleCreateOffer D C code_bytes now is_post cookies s =
     (if \<not> is_post then (http_error 405 ''method not allowed'', s)
      else case CurrentSession cookies s of
        Inl e \<Rightarrow> (http_error 401 ''unauthorized'', s)
      | Inr u \<Rightarrow>
          (let code = RandomString code_bytes; offerURI = ig_base_url C @ ''/oidc4vci/offer/'' @ code
           in (resp 200 (jobj [(''credential_offer_uri'', GStr offerURI),
                 (''deeplink'', GStr (deeplink @ ''?credential_offer_uri='' @ od_escape D offerURI))]),
               s\<lparr>is_preauth := (is_preauth s)
                   (code \<mapsto> \<lparr>pa_code = code, pa_user = u, pa_expires_at = now + 300\<rparr>)\<rparr>)))"

definition live_preauth :: "int \<Rightarrow> string \<Rightarrow> issuer \<Rightarrow> preauth option" where
  "live_preauth now code s =
     (case is_preauth s code of None \<Rightarrow> None
      | Some pa \<Rightarrow> if pa_expires_at pa < now then None else Some pa)"

definition offer_object :: "issuer_config \<Rightarrow> string \<Rightarrow> gval" where
  "offer_object C code =
     GMap [(''credential_issuer'', GStr (ig_base_url C)),
           (''credential_configuration_ids'', GList [GStr ''StudentCredential_JWT_v1'']),
           (''grants'', GMap [(grant_key, GMap [(''pre-authorized_code'', GStr code)])])]"

definition HandleOfferByCode :: "issuer_config \<Rightarrow> int \<Rightarrow> string \<Rightarrow> issuer \<Rightarrow> response" where
  "HandleOfferByCode C now url_path s =
     (case live_preauth now (path_base url_path) s of
        None \<Rightarrow> http_error 400 ''offer expired or invalid''
      | Some pa \<Rightarrow> resp 200 (Json (offer_object C (path_base url_path))))"

text \<open>
  The token endpoint in its three critical sections: the check of the code, the storing of the access
  token, the removal of the code. \<open>bound\<close> is the decoded body: the grant type and the code.
\<close>

definition vci_token_check :: "int \<Rightarrow> (string \<times> string) option \<Rightarrow> issuer \<Rightarrow> response + string \<times> preauth" where
  "vci_token_check now bound s =
     (case bound of None \<Rightarrow> Inl (http_error 400 ''bad request'')
      | Some (grant, code) \<Rightarrow>
      if grant \<noteq> grant_key then Inl (http_error 400 ''unsupported grant'')
      else case live_preauth now code s of
        None \<Rightarrow> Inl (http_error 400 ''invalid or expired pre-authorized code'')
      | Some pa \<Rightarrow> Inr (code, pa))"

definition vci_store_access :: "string \<Rightarrow> string \<Rightarrow> int \<Rightarrow> preauth \<Rightarrow> issuer \<Rightarrow> issuer" where
  "vci_store_access tok cnonce now' pa s =
     s\<lparr>is_access := (is_access s)
         (tok \<mapsto> \<lparr>ac_token = tok, ac_user = pa_user pa, ac_cnonce = cnonce, ac_exp = now' + 300\<rparr>)\<rparr>"

definition vci_remove_code :: "string \<Rightarrow> issuer \<Rightarrow> issuer" where
  "vci_remove_code code s = s\<lparr>is_preauth := (is_preauth s)(code := None)\<rparr>"

definition vci_token_response :: "string \<Rightarrow> string \<Rightarrow> response" where
  "vci_token_response tok cnonce =
     resp 200 (jobj [(''access_token'', GStr tok), (''token_type'', GStr ''bearer''),
       (''expires_in'', GInt KInt 300), (''c_nonce'', GStr cnonce), (''c_nonce_expires_in'', GInt KInt 300)])"

text \<open>The request alone: no other comes between the sections.\<close>

definition HandleVciToken ::
    "8 word list \<Rightarrow> 8 word list \<Rightarrow> int \<Rightarrow> int \<Rightarrow> (string \<times> string) option \<Rightarrow> issuer \<Rightarrow> response \<times> issuer" where
  "HandleVciToken token_bytes nonce_bytes now now' bound s =
     (case vci_token_check now bound s of
        Inl r \<Rightarrow> (r, s)
      | Inr (code, pa) \<Rightarrow>
          (let tok = ''atk_'' @ RandomString token_bytes; cnonce = RandomString nonce_bytes
           in (vci_token_response tok cnonce, vci_remove_code code (vci_store_access tok cnonce now' pa s))))"

lemma HandleVciToken_eq:
  "HandleVciToken token_bytes nonce_bytes now now' bound s =
     (case bound of None \<Rightarrow> (http_error 400 ''bad request'', s)
      | Some (grant, code) \<Rightarrow>
      if grant \<noteq> grant_key then (http_error 400 ''unsupported grant'', s)
      else case live_preauth now code s of
        None \<Rightarrow> (http_error 400 ''invalid or expired pre-authorized code'', s)
      | Some pa \<Rightarrow>
          (let tok = ''atk_'' @ RandomString token_bytes; cnonce = RandomString nonce_bytes
           in (resp 200 (jobj [(''access_token'', GStr tok), (''token_type'', GStr ''bearer''),
                 (''expires_in'', GInt KInt 300), (''c_nonce'', GStr cnonce), (''c_nonce_expires_in'', GInt KInt 300)]),
               s\<lparr>is_access := (is_access s)
                   (tok \<mapsto> \<lparr>ac_token = tok, ac_user = pa_user pa, ac_cnonce = cnonce, ac_exp = now' + 300\<rparr>),
                 is_preauth := (is_preauth s)(code := None)\<rparr>)))"
  by (simp add: HandleVciToken_def vci_token_check_def vci_store_access_def vci_remove_code_def vci_token_response_def
      Let_def split: option.split)

text \<open>The claims; the birth date is the same for everybody. \<open>stamp\<close> is RFC 3339 of \<open>now\<close>.\<close>

definition vc_claims :: "issuer_config \<Rightarrow> (int \<Rightarrow> string) \<Rightarrow> int \<Rightarrow> string \<Rightarrow> int \<Rightarrow> gval" where
  "vc_claims C stamp now sub birthTS =
     GMap [(''iss'', GStr (ig_base_url C)), (''sub'', GStr sub), (''iat'', GInt KInt64 now), (''nbf'', GInt KInt64 now),
           (''vc'', GMap
              [(''@context'', GList [GStr ''https://www.w3.org/2018/credentials/v1'']),
               (''type'', GList [GStr ''VerifiableCredential'', GStr ''AgeOver18Credential'']),
               (''issuer'', GStr (ig_base_url C)), (''issuanceDate'', GStr (stamp now)),
               (''credentialSubject'', GMap
                  [(''id'', GStr sub), (''birth_ts'', GInt KInt64 birthTS), (''university'', GStr ''AGH'')])])]"

text \<open>The bearer token of the header, trimmed.\<close>

definition bearer_token :: "string \<Rightarrow> string option" where
  "bearer_token auth =
     (if has_prefix auth ''Bearer '' then Some (trim_space (drop 7 auth)) else None)"

text \<open>\<open>sign\<close> signs the JSON text of the claims under the issuer's key.\<close>

definition HandleVciCredential ::
    "wallet_lib \<Rightarrow> issuer_config \<Rightarrow> (int \<Rightarrow> string) \<Rightarrow> (string \<Rightarrow> string res) \<Rightarrow> int \<Rightarrow> string \<Rightarrow> issuer
      \<Rightarrow> response" where
  "HandleVciCredential W C stamp sign now auth s =
     (case bearer_token auth of None \<Rightarrow> http_error 401 ''unauthorized'' | Some tok \<Rightarrow>
      case is_access s tok of None \<Rightarrow> http_error 401 ''invalid token'' | Some r \<Rightarrow>
      if ac_exp r < now then http_error 401 ''invalid token''
      else case parse_date ''2004-05-10'' of
        None \<Rightarrow> http_error 500 ''invalid birthdate''
      | Some birthTS \<Rightarrow>
      (case sign (json_text W (vc_claims C stamp now (ss_sub (ac_user r)) birthTS)) of
        Inl e \<Rightarrow> http_error 500 (''sign failed: '' @ error_text (wl_lib_text W) e)
      | Inr jws \<Rightarrow> resp 200 (jobj [(''format'', GStr ''jwt_vc_json''), (''credential'', GStr jws)])))"

section \<open>Metadata\<close>

definition HandleCredentialIssuerMetadata :: "issuer_config \<Rightarrow> response" where
  "HandleCredentialIssuerMetadata C =
     (let base = ig_base_url C;
          algs = GList [GStr ''EdDSA'', GStr ''ES256'']
      in resp 200 (jobj
           [(''credential_issuer'', GStr base), (''authorization_server'', GStr base),
            (''token_endpoint'', GStr (base @ ''/oidc4vci/token'')),
            (''credential_endpoint'', GStr (base @ ''/oidc4vci/credential'')),
            (''grants'', GMap
               [(''authorization_code'', GMap []),
                (grant_key, GMap [(''tx_code'', GMap
                   [(''length'', GInt KInt 8), (''input_mode'', GStr ''numeric'')])])]),
            (''credentials_supported'', GList [GMap
               [(''credential_configuration_id'', GStr ''AgeOver18_JWT_v1''), (''format'', GStr ''jwt_vc_json''),
                (''scope'', GStr ''age_over_18''), (''credential_signing_alg_values_supported'', algs),
                (''cryptographic_binding_methods_supported'', GList [GStr ''jwk'']),
                (''proof_types_supported'', GMap [(''jwt'', GMap [(''alg_values_supported'', algs)])]),
                (''credential_definition'', GMap
                   [(''type'', GList [GStr ''VerifiableCredential'', GStr ''AgeOver18Credential'']),
                    (''credentialSubject'', GMap [(''birth_ts'', GMap [(''display'', GList [GMap
                       [(''name'', GStr ''Birth timestamp (UNIX seconds)''), (''locale'', GStr ''en'')]])])])]),
                (''display'', GList [GMap
                   [(''name'', GStr ''Age over 18 credential''),
                    (''description'', GStr (''Credential containing birth timestamp to prove that the holder is ''
                       @ ''at least 18 years old via zero-knowledge proof.'')),
                    (''locale'', GStr ''en'')]])]])]))"

end
