(* ===== verification/WalletZkpProps.thy ===== *)
theory WalletZkpProps
  imports WalletZkp PresentationProps CircuitProps
begin

text \<open>
  What the wallet puts into a proof and into a submission: which credential a field is read from,
  and when the public inputs it sends pass the echo check of the API.
\<close>

section \<open>Which credential a field is read from\<close>

text \<open>The first credential, in the order of the listing, that has a claim for the field.\<close>

fun first_some :: "('a \<Rightarrow> 'b option) \<Rightarrow> 'a list \<Rightarrow> 'b option" where
  "first_some f [] = None"
| "first_some f (x # xs) = (case f x of None \<Rightarrow> first_some f xs | Some v \<Rightarrow> Some v)"

definition credential_claim :: "wallet_lib \<Rightarrow> string \<Rightarrow> credential \<Rightarrow> gval option" where
  "credential_claim W n vc = (case claims_of W vc of None \<Rightarrow> None | Some c \<Rightarrow> field_claim c n)"

lemma assign_field_other: "fd_name f \<noteq> n \<Longrightarrow> assign_field c f m n = m n"
  by (simp add: assign_field_def split: option.splits)

lemma assign_field_here:
  "\<not> reserved (fd_name f) \<Longrightarrow>
   assign_field c f m (fd_name f) = (case m (fd_name f) of None \<Rightarrow> field_claim c (fd_name f) | Some v \<Rightarrow> Some v)"
  by (simp add: assign_field_def split: option.splits)

lemma fold_assign_other: "n \<notin> fd_name ` set fs \<Longrightarrow> fold (assign_field c) fs m n = m n"
  by (induction fs arbitrary: m) (auto simp: assign_field_other)

lemma fold_assign_field:
  assumes "distinct (map fd_name fs)" and "n \<in> fd_name ` set fs" and "\<not> reserved n"
  shows "fold (assign_field c) fs m n = (case m n of None \<Rightarrow> field_claim c n | Some v \<Rightarrow> Some v)"
  using assms
proof (induction fs arbitrary: m)
  case Nil
  then show ?case by simp
next
  case (Cons f fs)
  show ?case
  proof (cases "fd_name f = n")
    case True
    then have "n \<notin> fd_name ` set fs" using Cons.prems(1) by auto
    then show ?thesis
      using assign_field_here [of f c m] True Cons.prems(3) by (auto simp: fold_assign_other)
  next
    case False
    then show ?thesis using Cons by (auto simp: assign_field_other)
  qed
qed

lemma fold_credentials:
  assumes "distinct (map fd_name (sd_fields schema))" and "n \<in> fd_name ` set (sd_fields schema)" and "\<not> reserved n"
  shows "fold (assign_credential W schema) vcs m n
    = (case m n of None \<Rightarrow> first_some (credential_claim W n) vcs | Some v \<Rightarrow> Some v)"
proof (induction vcs arbitrary: m)
  case Nil
  show ?case by (simp split: option.splits)
next
  case (Cons vc vcs)
  have "assign_credential W schema vc m n
      = (case m n of None \<Rightarrow> credential_claim W n vc | Some v \<Rightarrow> Some v)"
    by (simp add: assign_credential_def credential_claim_def fold_assign_field [OF assms] split: option.splits)
  then show ?case using Cons.IH [of "assign_credential W schema vc m"] by (auto split: option.splits)
qed

lemma fold_reserved: "reserved n \<Longrightarrow> fold (assign_credential W schema) vcs m n = m n"
proof (induction vcs arbitrary: m)
  case Nil
  show ?case by simp
next
  case (Cons vc vcs)
  have "fold (assign_field c) fs m' n = m' n" for c fs m'
    using Cons.prems by (induction fs arbitrary: m') (auto simp: assign_field_def split: option.splits)
  then have "assign_credential W schema vc m n = m n"
    by (simp add: assign_credential_def split: option.splits)
  then show ?case using Cons by simp
qed

lemma assign_reserved_other: "\<not> reserved n \<Longrightarrow> assign_reserved schema d m n = m n"
  by (simp add: assign_reserved_def reserved_def Let_def)

lemma assign_reserved_simps:
  "assign_reserved schema d m ''aud'' =
     (if ok (FieldDefinition schema ''aud'') \<and> pd_audience d \<noteq> [] then Some (GStr (pd_audience d)) else m ''aud'')"
  "assign_reserved schema d m ''nonce'' =
     (if ok (FieldDefinition schema ''nonce'') \<and> pd_nonce d \<noteq> [] then Some (GStr (pd_nonce d)) else m ''nonce'')"
  by (simp_all add: assign_reserved_def Let_def)

section \<open>The public inputs\<close>

lemma map_filter_Pair_absent:
  "n \<notin> fd_name ` set fs \<Longrightarrow>
   map_of (List.map_filter (\<lambda>f. if fd_public f then map_option (Pair (fd_name f)) (m (fd_name f)) else None) fs) n = None"
  by (induction fs) (auto simp: map_filter_simps split: option.splits)

lemma public_inputs_lookup:
  assumes "distinct (map fd_name (sd_fields schema))"
  shows "map_of (public_inputs_of schema m) n = (if n \<in> set (PublicFieldOrder schema) then m n else None)"
proof -
  have "distinct (map fd_name fs) \<Longrightarrow>
      map_of (List.map_filter (\<lambda>f. if fd_public f then map_option (Pair (fd_name f)) (m (fd_name f)) else None) fs) n
      = (if n \<in> fd_name ` {f \<in> set fs. fd_public f} then m n else None)" for fs
  proof (induction fs)
    case Nil
    show ?case by (simp add: map_filter_simps)
  next
    case (Cons f fs)
    then show ?case
      using map_filter_Pair_absent [of n fs m] by (auto simp: map_filter_simps split: option.splits)
  qed
  from this [OF assms] show ?thesis by (simp add: public_inputs_of_def PublicFieldOrder_def)
qed

lemma public_inputs_empty:
  assumes "schema_wf schema" and "missing_fields schema m = []"
    and "\<And>n. reserved n \<Longrightarrow> ok (FieldDefinition schema n) \<Longrightarrow> m n \<noteq> None"
  shows "public_inputs_of schema m = [] \<longleftrightarrow> PublicFieldOrder schema = []"
proof -
  have dist: "distinct (map fd_name (sd_fields schema))" using assms(1) by (simp add: schema_wf_def)
  have "m n \<noteq> None" if "n \<in> set (PublicFieldOrder schema)" for n
  proof -
    from that obtain f where f: "f \<in> set (sd_fields schema)" "fd_name f = n" by (auto simp: PublicFieldOrder_def)
    then have "ok (FieldDefinition schema n)"
      using assms(1) field_index_of_lookup [OF dist f(1)]
      by (simp add: FieldDefinition_def schema_field_def schema_wf_def)
    then show ?thesis using assms(2,3) f by (cases "reserved n") (auto simp: missing_fields_def filter_empty_conv)
  qed
  then have "set (PublicFieldOrder schema) = dom (map_of (public_inputs_of schema m))"
    by (auto simp: public_inputs_lookup [OF dist] split: if_splits)
  then show ?thesis by (metis dom_map_of_conv_image_fst image_is_empty set_empty)
qed

lemma public_field_known:
  assumes "schema_wf schema" and "n \<in> set (PublicFieldOrder schema)"
  shows "ok (FieldDefinition schema n)"
proof -
  from assms(2) obtain f where f: "f \<in> set (sd_fields schema)" "fd_name f = n" by (auto simp: PublicFieldOrder_def)
  then show ?thesis
    using assms(1) field_index_of_lookup [OF _ f(1)]
    by (simp add: FieldDefinition_def schema_field_def schema_wf_def)
qed

text \<open>The echo check, taken out of \<open>refusal\<close>.\<close>

lemma refusal_echo:
  assumes "sub_public_inputs sub = inputs"
  shows "(inputs = [] \<or> sprint (en_lib E) (index_any (map_of inputs) ''aud'') = sv_audience s
           \<and> sprint (en_lib E) (index_any (map_of inputs) ''nonce'')
               = sprint (en_lib E) (index_any (pr_public_inputs req) ''nonce'')
           \<and> sprint (en_lib E) (index_any (pr_public_inputs req) ''nonce'') \<noteq> []
         \<longrightarrow> refusal E s req sub = refusal E s req (sub\<lparr>sub_public_inputs := []\<rparr>))"
    and "refusal E s req sub = None \<Longrightarrow> inputs \<noteq> [] \<Longrightarrow>
         sprint (en_lib E) (index_any (map_of inputs) ''aud'') = sv_audience s
         \<and> sprint (en_lib E) (index_any (map_of inputs) ''nonce'')
               = sprint (en_lib E) (index_any (pr_public_inputs req) ''nonce'')"
  using assms by (auto simp: refusal_def Let_def split: if_splits)

section \<open>Properties\<close>

lemma build_assignments_first:
  assumes "ParseSchema L src = Inr schema" and "n \<in> fd_name ` set (sd_fields schema)" and "\<not> reserved n"
  shows "build_assignments W schema d vcs n = first_some (credential_claim W n) vcs"
proof -
  have "distinct (map fd_name (sd_fields schema))"
    using ParseSchema_wf [OF assms(1)] by (simp add: schema_wf_def)
  from fold_credentials [OF this assms(2,3), of W vcs Map.empty] show ?thesis
    by (simp add: build_assignments_def assign_reserved_other [OF assms(3)])
qed

text \<open>
  C16. The wallet reads every field, other than \<open>aud\<close> and \<open>nonce\<close>, from the first stored credential
  that has a claim for it: at the top level, else in the credential subject, else at the dotted
  path. The order of the fields in the schema does not matter.
\<close>

theorem build_assignments_first_credential:
  assumes "ParseSchema L src = Inr schema" and "n \<in> fd_name ` set (sd_fields schema)" and "\<not> reserved n"
  shows "build_assignments W schema d vcs n
    = first_some (\<lambda>vc. case claims_of W vc of None \<Rightarrow> None | Some c \<Rightarrow> field_claim c n) vcs"
  using build_assignments_first [OF assms] by (simp add: credential_claim_def [abs_def])

definition claims_lib :: wallet_lib where
  "claims_lib =
     \<lparr>wl_base = plain_lib\<lparr>gl_json_parse := \<lambda>p. Some (JObj [(''vc'', JObj [(''credentialSubject'',
        JObj [(''birth_ts'', JStr p), (''degree'', JStr ''MSc'')])])])\<rparr>,
      wl_first_json = \<lambda>t. None, wl_jws_parse = Inr, wl_jws_verify = Inr, wl_status_text = \<lambda>c. [],
      wl_url_ok = \<lambda>u. True, wl_url_query = \<lambda>u. None,
      wl_url_scheme = \<lambda>u. None, wl_b64url = \<lambda>b. b, wl_lib_text = \<lambda>t. t\<rparr>"

definition claims_vc :: "string \<Rightarrow> credential" where
  "claims_vc raw = \<lparr>vc_id = raw, vc_format = ''jwt_vc_json'', vc_raw = raw, vc_issuer = [], vc_subject = [],
     vc_types = [], vc_created_at = 0\<rparr>"

lemma demo_schema_names:
  "map fd_name (sd_fields demo_schema) = [''birth_ts'', ''degree'']" "PublicFieldOrder demo_schema = [''degree'']"
  by code_simp+

lemma claims_of_demo:
  "claims_of claims_lib (claims_vc raw) = Some (GMap [(''vc'', GMap [(''credentialSubject'',
     GMap [(''birth_ts'', GStr raw), (''degree'', GStr ''MSc'')])])])"
  by (simp add: claims_of_def claims_lib_def claims_vc_def dedup_last_def)

definition demo_descriptor :: "string \<Rightarrow> string \<Rightarrow> presentation_descriptor" where
  "demo_descriptor aud n =
     \<lparr>pd_request_id = ''r1'', pd_audience = aud, pd_expires_at = 100, pd_challenge = [], pd_nonce = n,
      pd_schema_hash = [], pd_schema_uri = [], pd_vk_url = [], pd_pk_url = [], pd_submit_url = []\<rparr>"

theorem build_assignments_first_credential_witness:
  "build_assignments claims_lib demo_schema (demo_descriptor [] []) [claims_vc ''first'', claims_vc ''second'']
     ''birth_ts'' = Some (GStr ''first'')"
proof -
  have "''birth_ts'' \<in> fd_name ` set (sd_fields demo_schema)"
    using demo_schema_names(1) by (metis list.set_intros(1) set_map)
  from build_assignments_first_credential [OF demo_parses this] show ?thesis
    by (simp add: reserved_def claims_of_demo field_claim_def gmap_get_def extractCredentialSubject_def)
qed

text \<open>What the reserved fields hold when the descriptor names an audience and a nonce.\<close>

lemma reserved_assigned:
  assumes "pd_audience d \<noteq> []" and "pd_nonce d \<noteq> []"
  shows "build_assignments W schema d vcs ''aud'' = (if ok (FieldDefinition schema ''aud'') then Some (GStr (pd_audience d)) else None)"
    and "build_assignments W schema d vcs ''nonce'' = (if ok (FieldDefinition schema ''nonce'') then Some (GStr (pd_nonce d)) else None)"
  using assms by (simp_all add: build_assignments_def assign_reserved_simps fold_reserved reserved_def)

text \<open>Without both of them among the public fields, a submission with public inputs is refused.\<close>

lemma refused_without_echo:
  assumes "distinct (map fd_name (sd_fields schema))" and "sub_public_inputs sub = public_inputs_of schema m"
    and "public_inputs_of schema m \<noteq> []" and "\<not> {''aud'', ''nonce''} \<subseteq> set (PublicFieldOrder schema)"
    and "sv_audience s \<noteq> ''<nil>''" and "pr_public_inputs req ''nonce'' = Some (GStr n)" and "n \<noteq> ''<nil>''"
  shows "refusal E s req sub \<noteq> None"
proof
  assume "refusal E s req sub = None"
  from refusal_echo(2) [OF assms(2) this assms(3)]
  have e: "sprint (en_lib E) (index_any (map_of (public_inputs_of schema m)) ''aud'') = sv_audience s"
    "sprint (en_lib E) (index_any (map_of (public_inputs_of schema m)) ''nonce'') = n"
    using assms(6) by (simp_all add: index_any_def)
  have nil: "sprint (en_lib E) GNil = ''<nil>''" by simp
  from e(1) assms(5) have "''aud'' \<in> set (PublicFieldOrder schema)"
    by (auto simp: public_inputs_lookup [OF assms(1), of m] index_any_def split: if_splits)
  moreover from e(2) assms(7) have "''nonce'' \<in> set (PublicFieldOrder schema)"
    by (auto simp: public_inputs_lookup [OF assms(1), of m] index_any_def split: if_splits)
  ultimately show False using assms(4) by simp
qed

text \<open>
  C22. The wallet against the API. With a descriptor the API answered, the public inputs the wallet
  sends pass the echo check when the schema has no public field or has both \<open>aud\<close> and \<open>nonce\<close> public;
  every other schema with a public field is always refused, however good the proof.
\<close>

theorem wallet_echo_check:
  assumes "ParseSchema L src = Inr schema"
    and "mem_load i (store_of s) = Some req" and "rs_body (Descriptor (en_lib E) now i s) = Json v"
    and "gmap_get v ''audience'' = Some (GStr (pd_audience d))" and "gmap_get v ''nonce'' = Some (GStr (pd_nonce d))"
    and "sv_audience s = http @ t" and "trim_space (http @ t) = http @ t" and "\<not> str_contains t ''//''"
    and "pr_public_inputs req ''nonce'' = Some (GStr n)" and "n \<notin> {[], ''<nil>''}"
    and "m = build_assignments W schema (normalize_descriptor d) vcs" and "missing_fields schema m = []"
    and "sub_public_inputs sub = public_inputs_of schema m"
  shows "if PublicFieldOrder schema = [] \<or> {''aud'', ''nonce''} \<subseteq> set (PublicFieldOrder schema)
         then refusal E s req sub = refusal E s req (sub\<lparr>sub_public_inputs := []\<rparr>)
         else refusal E s req sub \<noteq> None"
proof -
  have wf: "schema_wf schema" using ParseSchema_wf [OF assms(1)] .
  then have dist: "distinct (map fd_name (sd_fields schema))" by (simp add: schema_wf_def)
  have "pd_audience d = http @ t" "pd_nonce d = n"
    using assms(2-6,9) by (auto simp: Descriptor_def resp_def jobj_def jerror_def gmap_get_def Let_def
        text_or_empty_def is_nil_def split: if_splits)
  then have d: "pd_audience (normalize_descriptor d) = sv_audience s" "pd_nonce (normalize_descriptor d) = n"
    using normalizeWeirdURL_clean [OF assms(7,8)] assms(6) by (simp_all add: normalize_descriptor_def)
  then have m: "m ''aud'' = (if ok (FieldDefinition schema ''aud'') then Some (GStr (sv_audience s)) else None)"
    "m ''nonce'' = (if ok (FieldDefinition schema ''nonce'') then Some (GStr n) else None)"
    using reserved_assigned [of "normalize_descriptor d" W schema vcs] assms(6,10) by (simp_all add: assms(11))
  have empty: "public_inputs_of schema m = [] \<longleftrightarrow> PublicFieldOrder schema = []"
    using m by (intro public_inputs_empty [OF wf assms(12)]) (auto simp: reserved_def)
  show ?thesis
  proof (cases "PublicFieldOrder schema = [] \<or> {''aud'', ''nonce''} \<subseteq> set (PublicFieldOrder schema)")
    case True
    then have "public_inputs_of schema m = []
        \<or> map_of (public_inputs_of schema m) ''aud'' = Some (GStr (sv_audience s))
          \<and> map_of (public_inputs_of schema m) ''nonce'' = Some (GStr n)"
      using m public_field_known [OF wf] empty by (auto simp: public_inputs_lookup [OF dist, of m])
    then show ?thesis
      using True refusal_echo(1) [OF assms(13), of E s req] assms(9,10) by (auto simp: index_any_def)
  next
    case False
    then have "public_inputs_of schema m \<noteq> []" "\<not> {''aud'', ''nonce''} \<subseteq> set (PublicFieldOrder schema)" using empty by simp_all
    have "sv_audience s \<noteq> ''<nil>''" "n \<noteq> ''<nil>''" using assms(6,10) by simp_all
    from refused_without_echo [OF dist assms(13) \<open>public_inputs_of schema m \<noteq> []\<close> \<open>\<not> {''aud'', ''nonce''} \<subseteq> _\<close> this(1) assms(9) this(2)]
    have "refusal E s req sub \<noteq> None" .
    then show ?thesis unfolding if_not_P [OF False] .
  qed
qed

theorem wallet_echo_check_witness:
  "refusal demo_env (demo_service\<lparr>sv_audience := ''http://api''\<rparr>) (demo_request ''r1'' [])
     (demo_sub ''r1'' ''good'' (public_inputs_of demo_schema
        (build_assignments claims_lib demo_schema (normalize_descriptor (demo_descriptor ''http://api'' ''nr1''))
           [claims_vc ''c'']))) \<noteq> None"
proof -
  let ?s = "demo_service\<lparr>sv_audience := ''http://api''\<rparr>" and ?d = "demo_descriptor ''http://api'' ''nr1''"
  let ?m = "build_assignments claims_lib demo_schema (normalize_descriptor ?d) [claims_vc ''c'']"
  obtain v where v: "rs_body (Descriptor (en_lib demo_env) (demo_time 0) ''r1'' ?s) = Json v"
    "gmap_get v ''audience'' = Some (GStr (pd_audience ?d))" "gmap_get v ''nonce'' = Some (GStr (pd_nonce ?d))"
    by (simp add: Descriptor_def resp_def jobj_def gmap_get_def demo_defs gt_unix_def text_or_empty_def is_nil_def
        Let_def demo_descriptor_def)
  have mem: "''birth_ts'' \<in> fd_name ` set (sd_fields demo_schema)" "''degree'' \<in> fd_name ` set (sd_fields demo_schema)"
    using demo_schema_names(1) by (metis list.set_intros set_map)+
  have "?m ''birth_ts'' = Some (GStr ''c'')" "?m ''degree'' = Some (GStr ''MSc'')"
    using build_assignments_first [OF demo_parses mem(1)] build_assignments_first [OF demo_parses mem(2)]
    by (simp_all add: reserved_def credential_claim_def claims_of_demo field_claim_def gmap_get_def
        extractCredentialSubject_def)
  then have missing: "missing_fields demo_schema ?m = []"
    unfolding missing_fields_def demo_schema_names(1) by simp
  have "if PublicFieldOrder demo_schema = [] \<or> {''aud'', ''nonce''} \<subseteq> set (PublicFieldOrder demo_schema)
        then refusal demo_env ?s (demo_request ''r1'' []) (demo_sub ''r1'' ''good'' (public_inputs_of demo_schema ?m))
          = refusal demo_env ?s (demo_request ''r1'' []) (demo_sub ''r1'' ''good'' (public_inputs_of demo_schema ?m)
              \<lparr>sub_public_inputs := []\<rparr>)
        else refusal demo_env ?s (demo_request ''r1'' []) (demo_sub ''r1'' ''good'' (public_inputs_of demo_schema ?m)) \<noteq> None"
  proof (rule wallet_echo_check [OF demo_parses _ v, where t = "''api''" and n = "''nr1''"])
    show "trim_space (http @ ''api'') = http @ ''api''" by (simp add: trim_space_printable printable_def)
    show "\<not> str_contains ''api'' ''//''" by (simp add: str_contains_def has_prefix_def)
  qed (use missing in \<open>simp_all add: demo_defs\<close>)
  then show ?thesis by (simp add: demo_schema_names(2))
qed

end
