(* ===== verification/IssuerProps.thy ===== *)
theory IssuerProps
  imports Issuer WalletZkpProps
begin

text \<open>
  What the login flow and the issuing endpoints guarantee: who a credential can be issued to, that
  an offer is used once, and what the callback does not check.
\<close>

section \<open>Random strings\<close>

lemma alphabet_length: "length alphabet = 62"
  by (simp add: alphabet_def)

lemma alphabet_distinct: "distinct alphabet"
  by (simp add: alphabet_def)

lemma residues:
  fixes i :: nat
  assumes "i < 62"
  shows "{n. n < 256 \<and> n mod 62 = i} = {i, i + 62, i + 124, i + 186} \<union> (if i < 8 then {i + 248} else {})"
proof -
  have "n \<in> {i, i + 62, i + 124, i + 186} \<union> (if i < 8 then {i + 248} else {})"
    if n: "n < 256" "n mod 62 = i" for n
  proof -
    have "n = 62 * (n div 62) + i" using n(2) div_mult_mod_eq [of n 62] by simp
    moreover have "n div 62 < 5" using n(1) by simp
    then have "n div 62 \<in> {0, 1, 2, 3, 4}" by auto
    ultimately show ?thesis using n(1) by auto
  qed
  moreover have "n < 256 \<and> n mod 62 = i" if "n \<in> {i, i + 62, i + 124, i + 186} \<union> (if i < 8 then {i + 248} else {})" for n
  proof -
    have "(i + 62 * k) mod 62 = i" for k using assms by simp
    from this [of 1] this [of 2] this [of 3] this [of 4] show ?thesis
      using that assms by (auto split: if_splits)
  qed
  ultimately show ?thesis by blast
qed

lemma card_bytes: "card {b :: 8 word. unat b mod 62 = i} = card {n. n < 256 \<and> n mod 62 = i}"
proof -
  have "{n. n < 256 \<and> n mod 62 = i} = unat ` {b :: 8 word. unat b mod 62 = i}"
  proof (intro equalityI subsetI)
    fix n assume n: "n \<in> {n. n < 256 \<and> n mod 62 = i}"
    then have "unat (of_nat n :: 8 word) = n" by (simp add: unat_of_nat)
    then show "n \<in> unat ` {b :: 8 word. unat b mod 62 = i}" using n by (intro image_eqI [of _ _ "of_nat n"]) auto
  next
    fix n assume "n \<in> unat ` {b :: 8 word. unat b mod 62 = i}"
    then show "n \<in> {n. n < 256 \<and> n mod 62 = i}" 
      using unsigned_less [where ?'b = 8] by auto
  qed
  moreover have "inj_on unat {b :: 8 word. unat b mod 62 = i}" by (rule inj_onI) (simp add: word_unat_eq_iff)
  ultimately show ?thesis by (simp add: card_image)
qed

section \<open>Runs of the issuer\<close>

text \<open>The actions, each with what the environment supplies: bytes, times, cookies, the provider.\<close>

datatype issuer_step =
    ALogin "8 word list" "8 word list" "8 word list" bool
  | ACallback oidc "8 word list" bool string string "string \<rightharpoonup> string"
  | ALogout bool "string \<rightharpoonup> string"
  | AOffer "8 word list" int bool "string \<rightharpoonup> string"
  | AToken "8 word list" "8 word list" int int "(string \<times> string) option"

fun issuer_act :: "wallet_lib \<Rightarrow> oidc \<Rightarrow> issuer_config \<Rightarrow> issuer_step \<Rightarrow> issuer \<Rightarrow> issuer" where
  "issuer_act W D C (ALogin v n st g) s = snd (HandleLogin W D C v n st g s)"
| "issuer_act W D C (ACallback D' b g code st ck) s = snd (HandleCallback D' C b g code st ck s)"
| "issuer_act W D C (ALogout g ck) s = snd (HandleLogout D C g ck s)"
| "issuer_act W D C (AOffer b now g ck) s = snd (HandleCreateOffer D C b now g ck s)"
| "issuer_act W D C (AToken t n now now' body) s = snd (HandleVciToken t n now now' body s)"

definition issuer_acts :: "wallet_lib \<Rightarrow> oidc \<Rightarrow> issuer_config \<Rightarrow> issuer_step list \<Rightarrow> issuer \<Rightarrow> issuer" where
  "issuer_acts W D C as s = fold (issuer_act W D C) as s"

definition empty_issuer :: issuer where
  "empty_issuer = \<lparr>is_sessions = Map.empty, is_preauth = Map.empty, is_access = Map.empty, is_pkce = Map.empty\<rparr>"

text \<open>The users the stores hold, and who a callback logs in: somebody the provider vouched for.\<close>

definition users :: "issuer \<Rightarrow> session set" where
  "users s = ran (is_sessions s) \<union> pa_user ` ran (is_preauth s) \<union> ac_user ` ran (is_access s)"

definition vouched :: "issuer_config \<Rightarrow> issuer_step \<Rightarrow> session \<Rightarrow> bool" where
  "vouched C a u =
     (case a of
        ACallback D b g code st ck \<Rightarrow>
          g \<and> code \<noteq> [] \<and> (\<exists>ver idt. ver \<noteq> []
            \<and> od_exchange D [(''code'', code), (''code_verifier'', ver), (''redirect_uri'', ig_redirect_uri C)] = Inr idt
            \<and> login_user D (ck CookieNameNonce) idt = Inr u)
      | _ \<Rightarrow> False)"

lemma users_upd:
  "users (s\<lparr>is_pkce := p\<rparr>) = users s"
  "users (s\<lparr>is_sessions := (is_sessions s)(sid := None)\<rparr>) \<subseteq> users s"
  "users (s\<lparr>is_sessions := (is_sessions s)(sid \<mapsto> u), is_pkce := p\<rparr>) \<subseteq> insert u (users s)"
  "users (s\<lparr>is_preauth := (is_preauth s)(c \<mapsto> pa)\<rparr>) \<subseteq> insert (pa_user pa) (users s)"
  "users (s\<lparr>is_access := (is_access s)(t \<mapsto> r), is_preauth := (is_preauth s)(c := None)\<rparr>) \<subseteq> insert (ac_user r) (users s)"
  by (auto simp: users_def ran_def split: if_splits)

lemma users_member:
  "is_sessions s sid = Some u \<Longrightarrow> u \<in> users s"
  "is_preauth s c = Some pa \<Longrightarrow> pa_user pa \<in> users s"
  "is_access s t = Some r \<Longrightarrow> ac_user r \<in> users s"
  by (auto simp: users_def ran_def)

lemma live_preauth_Some: "live_preauth now c s = Some pa \<longleftrightarrow> is_preauth s c = Some pa \<and> now \<le> pa_expires_at pa"
  by (auto simp: live_preauth_def not_less split: option.splits if_splits)

lemma issuer_act_users: "users (issuer_act W D C a s) \<subseteq> users s \<union> {u. vouched C a u}"
proof (cases a)
  case (ALogin v n st g)
  then show ?thesis by (simp add: HandleLogin_def Let_def users_upd)
next
  case (ACallback D' b g code st ck)
  then show ?thesis
    using users_upd(3)
    by (auto simp: HandleCallback_def Let_def vouched_def split: sum.splits if_splits dest!: subsetD [OF users_upd(3)])
next
  case (ALogout g ck)
  then show ?thesis
    using users_upd(2) by (auto simp: HandleLogout_def Let_def split: option.splits if_splits)
next
  case (AOffer b now g ck)
  then show ?thesis
    using users_upd(4)
    by (auto simp: HandleCreateOffer_def CurrentSession_def Let_def split: sum.splits option.splits if_splits
        dest!: subsetD [OF users_upd(4)] intro: users_member)
next
  case (AToken t n now now' body)
  then show ?thesis
    by (auto simp: HandleVciToken_eq Let_def live_preauth_Some split: option.splits if_splits
        dest!: subsetD [OF users_upd(5)] intro: users_member)
qed

lemma issuer_acts_users: "users (issuer_acts W D C as s) \<subseteq> users s \<union> {u. \<exists>a\<in>set as. vouched C a u}"
proof (induction as arbitrary: s)
  case Nil
  show ?case by (simp add: issuer_acts_def)
next
  case (Cons a as)
  then show ?case using issuer_act_users [of W D C a s] by (fastforce simp: issuer_acts_def)
qed

section \<open>A concrete run\<close>

definition demo_oidc :: oidc where
  "demo_oidc = \<lparr>od_auth_url = \<lambda>ps. [], od_exchange = \<lambda>ps. Inr None, od_verify = \<lambda>t. Inr (),
     od_claims = \<lambda>t. Inl (LibErr []), od_userinfo = Inr \<lparr>ss_sub = ''alice'', ss_email = [], ss_name = []\<rparr>,
     od_set_query = \<lambda>u k v. Some u, od_escape = \<lambda>u. u, od_error_text = \<lambda>e. []\<rparr>"

definition demo_config :: issuer_config where
  "demo_config = \<lparr>ig_base_url = ''http://i'', ig_redirect_uri = ''http://i/cb'', ig_dsnet_logout = [],
     ig_end_session = [], ig_scopes = [''openid''], ig_key_id = ''k''\<rparr>"

definition demo_login :: issuer_step where
  "demo_login = ACallback demo_oidc [0] True ''c'' ''st'' [CookieNamePKCE \<mapsto> ''v'']"

definition demo_run :: "issuer_step list" where
  "demo_run = [demo_login, AOffer [1] 0 True [CookieNameSession \<mapsto> ''a''],
     AToken [2] [3] 300 300 (Some (grant_key, ''b''))]"

lemma demo_letters: "RandomString [0] = ''a''" "RandomString [1] = ''b''" "RandomString [2] = ''c''" "RandomString [3] = ''d''"
  by (simp_all add: RandomString_def alphabet_def)

lemma demo_run_state:
  "is_access (issuer_acts claims_lib demo_oidc demo_config demo_run empty_issuer)
   = [''atk_c'' \<mapsto> \<lparr>ac_token = ''atk_c'', ac_user = \<lparr>ss_sub = ''alice'', ss_email = [], ss_name = []\<rparr>,
        ac_cnonce = ''d'', ac_exp = 600\<rparr>]"
  by (simp add: issuer_acts_def demo_run_def demo_login_def HandleCallback_def pkce_verifier_def Let_def
      login_user_def demo_oidc_def HandleCreateOffer_def CurrentSession_def HandleVciToken_eq live_preauth_def
      demo_letters empty_issuer_def)

section \<open>Properties\<close>

text \<open>
  A random string has the length asked for and letters of the alphabet, but they are not equally
  likely: of the 256 values of a byte five give each of the letters a to h, four give each other one.
\<close>

theorem RandomString_bias:
  "length (RandomString bs) = length bs \<and> set (RandomString bs) \<subseteq> set alphabet
   \<and> (\<forall>i<62. card {b. RandomString [b] = [alphabet ! i]} = (if i < 8 then 5 else 4))"
proof (intro conjI allI impI)
  show "length (RandomString bs) = length bs" by (simp add: RandomString_def)
  have "unat b mod 62 < length alphabet" for b :: "8 word" by (simp add: alphabet_length)
  then show "set (RandomString bs) \<subseteq> set alphabet" by (auto simp: RandomString_def alphabet_length)
  fix i :: nat assume i: "i < 62"
  then have "{b. RandomString [b] = [alphabet ! i]} = {b. unat b mod 62 = i}"
    using nth_eq_iff_index_eq [OF alphabet_distinct] by (auto simp: RandomString_def alphabet_length)
  then show "card {b. RandomString [b] = [alphabet ! i]} = (if i < 8 then 5 else 4)"
    using card_bytes [of i] residues [OF i] by (simp add: card_insert_if)
qed

text \<open>
  C15. A credential is only ever issued to a user whom the identity provider vouched for in an earlier
  callback; and whoever it is, the birth date in it is the one of 10 May 2004.
\<close>

theorem credential_subject_logged_in:
  assumes "rs_status (HandleVciCredential W C stamp sign now auth (issuer_acts V D C as empty_issuer)) = 200"
  shows "\<exists>a\<in>set as. \<exists>u jws. vouched C a u
    \<and> sign (json_text W (vc_claims C stamp now (ss_sub u) 1084147200)) = Inr jws
    \<and> HandleVciCredential W C stamp sign now auth (issuer_acts V D C as empty_issuer)
        = resp 200 (jobj [(''format'', GStr ''jwt_vc_json''), (''credential'', GStr jws)])"
proof -
  let ?s = "issuer_acts V D C as empty_issuer"
  from assms obtain t r where t: "bearer_token auth = Some t" "is_access ?s t = Some r" "\<not> ac_exp r < now"
    by (auto simp: HandleVciCredential_def http_error_def resp_def split: option.splits if_splits)
  from assms t obtain jws where j: "sign (json_text W (vc_claims C stamp now (ss_sub (ac_user r)) 1084147200)) = Inr jws"
    by (auto simp: HandleVciCredential_def http_error_def resp_def parse_date_2004 split: sum.splits)
  have "ac_user r \<in> users ?s" using t(2) by (rule users_member(3))
  moreover have "users empty_issuer = {}" by (simp add: users_def empty_issuer_def)
  ultimately obtain a where "a \<in> set as" "vouched C a (ac_user r)"
    using issuer_acts_users [of V D C as empty_issuer] by auto
  then show ?thesis using t j by (auto simp: HandleVciCredential_def parse_date_2004)
qed

theorem credential_subject_logged_in_witness:
  "\<exists>a\<in>set demo_run. \<exists>u. vouched demo_config a u"
proof -
  have "rs_status (HandleVciCredential claims_lib demo_config (\<lambda>t. []) Inr 600 ''Bearer atk_c''
      (issuer_acts claims_lib demo_oidc demo_config demo_run empty_issuer)) = 200"
    by (simp add: HandleVciCredential_def bearer_token_def has_prefix_def trim_space_printable printable_def
        demo_run_state parse_date_2004 resp_def)
  from credential_subject_logged_in [OF this] show ?thesis by blast
qed

text \<open>
  C14. An offer is redeemed once by requests that come one after the other: after a token request for
  its code that succeeded, every later one is refused, unless an offer with the same code has been made
  in between.
\<close>

theorem offer_code_single_use:
  assumes "rs_status (fst (HandleVciToken tb nb now now' (Some (grant, code)) s)) = 200"
    and "\<forall>a\<in>set as. \<forall>b t g ck. a = AOffer b t g ck \<longrightarrow> RandomString b \<noteq> code"
  shows "HandleVciToken tb' nb' later later' (Some (grant_key, code))
      (issuer_acts W D C as (snd (HandleVciToken tb nb now now' (Some (grant, code)) s)))
    = (http_error 400 ''invalid or expired pre-authorized code'',
       issuer_acts W D C as (snd (HandleVciToken tb nb now now' (Some (grant, code)) s)))"
proof -
  have gone: "is_preauth (snd (HandleVciToken tb nb now now' (Some (grant, code)) s)) code = None"
    using assms(1) by (auto simp: HandleVciToken_eq Let_def http_error_def resp_def split: option.splits if_splits)
  have step: "is_preauth (issuer_act W D C a s1) code = None"
    if "is_preauth s1 code = None" "\<forall>b t g ck. a = AOffer b t g ck \<longrightarrow> RandomString b \<noteq> code" for a s1
    using that
    by (cases a) (auto simp: HandleLogin_def HandleCallback_def HandleLogout_def HandleCreateOffer_def
        HandleVciToken_eq Let_def split: sum.splits option.splits if_splits)
  have "is_preauth (issuer_acts W D C as s1) code = None" if "is_preauth s1 code = None" for s1
    using that assms(2)
  proof (induction as arbitrary: s1)
    case Nil
    then show ?case by (simp add: issuer_acts_def)
  next
    case (Cons a as)
    have "is_preauth (issuer_act W D C a s1) code = None" using Cons.prems by (intro step) auto
    with Cons show ?case by (auto simp: issuer_acts_def)
  qed
  from this [OF gone] show ?thesis
    by (simp add: HandleVciToken_eq live_preauth_def)
qed

theorem offer_code_single_use_witness:
  "rs_status (fst (HandleVciToken [4] [5] 10 10 (Some (grant_key, ''b''))
     (issuer_acts claims_lib demo_oidc demo_config demo_run empty_issuer))) = 400"
proof -
  let ?s = "issuer_acts claims_lib demo_oidc demo_config (take 2 demo_run) empty_issuer"
  have s: "issuer_acts claims_lib demo_oidc demo_config demo_run empty_issuer
      = issuer_acts claims_lib demo_oidc demo_config [] (snd (HandleVciToken [2] [3] 300 300 (Some (grant_key, ''b'')) ?s))"
    by (simp add: issuer_acts_def demo_run_def)
  have "rs_status (fst (HandleVciToken [2] [3] 300 300 (Some (grant_key, ''b'')) ?s)) = 200"
    by (simp add: issuer_acts_def demo_run_def demo_login_def HandleCallback_def pkce_verifier_def Let_def
        login_user_def demo_oidc_def HandleCreateOffer_def CurrentSession_def HandleVciToken_eq live_preauth_def
        demo_letters empty_issuer_def resp_def)
  from offer_code_single_use [OF this, of "[]"] show ?thesis
    unfolding s by (simp add: http_error_def resp_def)
qed

text \<open>
  Requests at the same time are another matter: a code is there until the last critical section of
  the request that redeems it, and a second request that has checked it by then gets a token too.
\<close>

theorem concurrent_token_requests_both_succeed:
  assumes "vci_token_check now bound s = Inr (code, pa)" and "tok \<noteq> tok'"
  shows "vci_token_check now bound (vci_store_access tok c n pa s) = Inr (code, pa)
    \<and> (let s2 = vci_remove_code code (vci_store_access tok' c' n' pa (vci_remove_code code (vci_store_access tok c n pa s)))
       in map_option ac_user (is_access s2 tok) = Some (pa_user pa) \<and> map_option ac_user (is_access s2 tok') = Some (pa_user pa))"
  using assms
  by (auto simp: vci_token_check_def vci_store_access_def vci_remove_code_def live_preauth_def Let_def
      split: option.splits if_splits)

text \<open>
  C31. The callback does not tie the login to the browser that began it. Somebody who starts a login
  and has another browser, without cookies, open the callback with the state and the code of it
  logs that browser in as himself: the state is compared with nothing.
\<close>

theorem callback_login_csrf:
  assumes "HandleLogin W D C vb nb sb True s = (answer, s1)" and "vb \<noteq> []" and "code \<noteq> []"
    and "od_exchange D [(''code'', code), (''code_verifier'', RandomString vb), (''redirect_uri'', ig_redirect_uri C)]
      = Inr idt"
    and "login_user D None idt = Inr u"
    and "HandleCallback D C sid True code (RandomString sb) Map.empty s1 = ((r, cks), s2)"
  shows "r = redirect ''/offer.html'' \<and> CurrentSession [CookieNameSession \<mapsto> RandomString sid] s2 = Inr u
    \<and> \<lparr>ck_name = CookieNameSession, ck_value = RandomString sid, ck_max_age = 3600\<rparr> \<in> set cks"
proof -
  have "pkce_verifier Map.empty (RandomString sb) s1 = RandomString vb"
    using assms(1) by (auto simp: HandleLogin_def Let_def pkce_verifier_def)
  moreover have "RandomString vb \<noteq> []" using assms(2) by (simp add: RandomString_def)
  ultimately show ?thesis
    using assms(3-6) by (auto simp: HandleCallback_def Let_def CurrentSession_def)
qed

theorem callback_login_csrf_witness:
  "CurrentSession [CookieNameSession \<mapsto> ''a''] (snd (HandleCallback demo_oidc demo_config [0] True ''x'' ''d'' Map.empty
     (snd (HandleLogin claims_lib demo_oidc demo_config [1] [2] [3] True empty_issuer))))
   = Inr \<lparr>ss_sub = ''alice'', ss_email = [], ss_name = []\<rparr>"
proof -
  let ?s = "snd (HandleLogin claims_lib demo_oidc demo_config [1] [2] [3] True empty_issuer)"
  obtain r cks s2 where c: "HandleCallback demo_oidc demo_config [0] True ''x'' (RandomString [3]) Map.empty ?s = ((r, cks), s2)"
    by (metis prod.exhaust)
  have "CurrentSession [CookieNameSession \<mapsto> RandomString [0]] s2 = Inr \<lparr>ss_sub = ''alice'', ss_email = [], ss_name = []\<rparr>"
    using callback_login_csrf [OF prod.collapse [symmetric] _ _ _ _ c, where idt = None]
    by (simp add: demo_oidc_def login_user_def)
  then show ?thesis using c by (simp add: demo_letters)
qed

end
