(* ===== verification/IssuanceFlow.thy ===== *)
theory IssuanceFlow
  imports IssuerProps
begin

text \<open>
  Issuing end to end: the wallet's import (\<open>WalletCredentials\<close>) against the issuer's endpoints
  (\<open>Issuer\<close>), which answer its HTTP calls; and what becomes of a credential that nobody signed.
\<close>

section \<open>The issuer as an HTTP server\<close>

text \<open>The JSON tree of a value of the kinds the endpoints answer with.\<close>

fun to_json :: "gval \<Rightarrow> json" where
  "to_json GNil = JNull"
| "to_json (GBool b) = JBool b"
| "to_json (GInt k i) = JNum (int_str i)"
| "to_json (GStr s) = JStr s"
| "to_json (GList xs) = JArr (map to_json xs)"
| "to_json (GMap kvs) = JObj (map (\<lambda>kv. (fst kv, to_json (snd kv))) kvs)"
| "to_json v = JNull"

text \<open>\<open>enc\<close> is the encoder of \<open>util.WriteJSON\<close>.\<close>

definition as_reply :: "(gval \<Rightarrow> string) \<Rightarrow> response \<Rightarrow> reply" where
  "as_reply enc r =
     \<lparr>rp_status = rs_status r,
      rp_body = (case rs_body r of Json v \<Rightarrow> enc v | Plain t \<Rightarrow> t | Bytes ct b \<Rightarrow> b | Html n v \<Rightarrow> []),
      rp_read_error = None\<rparr>"

definition decode_token_request :: "json \<Rightarrow> (string \<times> string) res" where
  "decode_token_request j =
     and_then (members j) (\<lambda>kvs.
     and_then (decode_string ''grant_type'' kvs) (\<lambda>g.
     and_then (decode_string ''pre-authorized_code'' kvs) (\<lambda>c.
     and_then (decode_string ''tx_code'' kvs) (\<lambda>t. Inr (g, c)))))"

definition token_body :: "wallet_lib \<Rightarrow> string \<Rightarrow> (string \<times> string) option" where
  "token_body W b =
     (case wl_first_json W b of None \<Rightarrow> None
      | Some j \<Rightarrow> (case decode_token_request j of Inl e \<Rightarrow> None | Inr p \<Rightarrow> Some p))"

definition issuer_server ::
    "wallet_lib \<Rightarrow> (gval \<Rightarrow> string) \<Rightarrow> issuer_config \<Rightarrow> (int \<Rightarrow> string) \<Rightarrow> (string \<Rightarrow> string res)
      \<Rightarrow> 8 word list \<Rightarrow> 8 word list \<Rightarrow> int \<Rightarrow> issuer http" where
  "issuer_server W enc C stamp sign tb nb now =
     \<lparr>ht_get = \<lambda>u s.
        (Inr (as_reply enc
           (if has_prefix u (ig_base_url C @ ''/oidc4vci/offer/'')
            then HandleOfferByCode C now (drop (length (ig_base_url C)) u) s
            else http_error 404 ''404 page not found'')), s),
      ht_post = \<lambda>u auth b s.
        (if u = ig_base_url C @ ''/oidc4vci/token''
         then map_prod (\<lambda>r. Inr (as_reply enc r)) id (HandleVciToken tb nb now now (token_body W b) s)
         else (Inr (as_reply enc
           (if u = ig_base_url C @ ''/oidc4vci/credential''
            then HandleVciCredential W C stamp sign now (case auth of None \<Rightarrow> [] | Some a \<Rightarrow> a) s
            else http_error 404 ''404 page not found'')), s))\<rparr>"

section \<open>The messages\<close>

lemma offer_names:
  "equal_fold ''credential_issuer'' ''credential_issuer''"
  "\<not> equal_fold ''credential_configuration_ids'' ''credential_issuer''"
  "\<not> equal_fold ''grants'' ''credential_issuer''"
  "\<not> equal_fold ''credential_issuer'' ''credential_configuration_ids''"
  "equal_fold ''credential_configuration_ids'' ''credential_configuration_ids''"
  "\<not> equal_fold ''grants'' ''credential_configuration_ids''"
  "\<not> equal_fold ''credential_issuer'' ''grants''"
  "\<not> equal_fold ''credential_configuration_ids'' ''grants''"
  "equal_fold ''grants'' ''grants''"
  by code_simp+

lemma request_names:
  "equal_fold ''grant_type'' ''grant_type''"
  "\<not> equal_fold ''pre-authorized_code'' ''grant_type''"
  "\<not> equal_fold ''grant_type'' ''pre-authorized_code''"
  "equal_fold ''pre-authorized_code'' ''pre-authorized_code''"
  "\<not> equal_fold ''grant_type'' ''tx_code''"
  "\<not> equal_fold ''pre-authorized_code'' ''tx_code''"
  by code_simp+

lemma token_names:
  "equal_fold ''access_token'' ''access_token''"
  "\<not> equal_fold ''token_type'' ''access_token''"
  "\<not> equal_fold ''expires_in'' ''access_token''"
  "\<not> equal_fold ''c_nonce'' ''access_token''"
  "\<not> equal_fold ''c_nonce_expires_in'' ''access_token''"
  "\<not> equal_fold ''access_token'' ''token_type''"
  "equal_fold ''token_type'' ''token_type''"
  "\<not> equal_fold ''expires_in'' ''token_type''"
  "\<not> equal_fold ''c_nonce'' ''token_type''"
  "\<not> equal_fold ''c_nonce_expires_in'' ''token_type''"
  "\<not> equal_fold ''access_token'' ''expires_in''"
  "\<not> equal_fold ''token_type'' ''expires_in''"
  "equal_fold ''expires_in'' ''expires_in''"
  "\<not> equal_fold ''c_nonce'' ''expires_in''"
  "\<not> equal_fold ''c_nonce_expires_in'' ''expires_in''"
  "\<not> equal_fold ''access_token'' ''c_nonce''"
  "\<not> equal_fold ''token_type'' ''c_nonce''"
  "\<not> equal_fold ''expires_in'' ''c_nonce''"
  "equal_fold ''c_nonce'' ''c_nonce''"
  "\<not> equal_fold ''c_nonce_expires_in'' ''c_nonce''"
  by code_simp+

lemma credential_names:
  "equal_fold ''format'' ''format''"
  "\<not> equal_fold ''credential'' ''format''"
  "\<not> equal_fold ''format'' ''credential''"
  "equal_fold ''credential'' ''credential''"
  by code_simp+

lemma claim_names:
  "equal_fold ''iss'' ''iss''"
  "\<not> equal_fold ''sub'' ''iss''"
  "\<not> equal_fold ''iat'' ''iss''"
  "\<not> equal_fold ''nbf'' ''iss''"
  "\<not> equal_fold ''vc'' ''iss''"
  "\<not> equal_fold ''iss'' ''sub''"
  "equal_fold ''sub'' ''sub''"
  "\<not> equal_fold ''iat'' ''sub''"
  "\<not> equal_fold ''nbf'' ''sub''"
  "\<not> equal_fold ''vc'' ''sub''"
  "\<not> equal_fold ''iss'' ''vc''"
  "\<not> equal_fold ''sub'' ''vc''"
  "\<not> equal_fold ''iat'' ''vc''"
  "\<not> equal_fold ''nbf'' ''vc''"
  "equal_fold ''vc'' ''vc''"
  by code_simp+

lemma vc_names:
  "\<not> equal_fold ''@context'' ''type''"
  "equal_fold ''type'' ''type''"
  "\<not> equal_fold ''issuer'' ''type''"
  "\<not> equal_fold ''issuanceDate'' ''type''"
  "\<not> equal_fold ''credentialSubject'' ''type''"
  by code_simp+

lemmas message_names = offer_names request_names token_names credential_names claim_names vc_names

lemmas decode_simps = members_def members_of_def decode_string_def decode_slice_def decode_int_def decode_map_def
  decode_name_def message_names

lemma decode_offer_object:
  "decode_offer L (to_json (offer_object C code)) =
     Inr \<lparr>co_issuer = ig_base_url C, co_configuration_ids = [''StudentCredential_JWT_v1''],
          co_grants = [(grant_key, GMap [(''pre-authorized_code'', GStr code)])]\<rparr>"
  by (simp add: decode_offer_def offer_object_def decode_simps dedup_last_def)

lemma decode_token_request_object: "decode_token_request (to_json (token_request code)) = Inr (grant_key, code)"
  by (simp add: decode_token_request_def token_request_def decode_simps)

definition token_object :: "string \<Rightarrow> string \<Rightarrow> gval" where
  "token_object tok cnonce =
     GMap [(''access_token'', GStr tok), (''token_type'', GStr ''bearer''), (''expires_in'', GInt KInt 300),
           (''c_nonce'', GStr cnonce), (''c_nonce_expires_in'', GInt KInt 300)]"

lemma decode_token_object: "decode_token (to_json (token_object tok cnonce)) = Inr tok"
proof -
  have "parse_int64 (int_str 300) = Some 300" by (simp add: parse_int64_str in_int64_def)
  then show ?thesis by (simp add: decode_token_def token_object_def decode_simps)
qed

definition credential_object :: "string \<Rightarrow> gval" where
  "credential_object jws = GMap [(''format'', GStr ''jwt_vc_json''), (''credential'', GStr jws)]"

lemma decode_credential_object: "decode_credential (to_json (credential_object jws)) = Inr (''jwt_vc_json'', jws)"
  by (simp add: decode_credential_def credential_object_def decode_simps)

lemma meta_of_claims:
  assumes "gl_json_parse L payload = Some (to_json (vc_claims C stamp now sub ts))"
  shows "meta_of L payload = \<lparr>vm_issuer = ig_base_url C, vm_subject = sub,
     vm_types = [''VerifiableCredential'', ''AgeOver18Credential'']\<rparr>"
  using assms
  by (simp add: meta_of_def vc_claims_def lenient_string_def lenient_strings_def lenient_inner_def members_of_def
      message_names)

section \<open>From the offer to the wallet\<close>

lemma RandomString_alphabet: "set (RandomString bs) \<subseteq> set alphabet"
proof -
  have "unat b mod 62 < length alphabet" for b :: "8 word" by (simp add: alphabet_length)
  then show ?thesis by (auto simp: RandomString_def alphabet_length)
qed

lemma alphabet_printable: "c \<in> set alphabet \<Longrightarrow> printable c \<and> c \<noteq> CHR ''/''"
  by (auto simp: alphabet_def printable_def)

lemma path_base_last:
  assumes "CHR ''/'' \<notin> set x" and "x \<noteq> []"
  shows "path_base (p @ ''/'' @ x) = x"
proof -
  obtain y c where x: "x = y @ [c]" using assms(2) by (cases x rule: rev_cases) auto
  have c: "c \<noteq> CHR ''/''" using assms(1) x by auto
  have "takeWhile (\<lambda>d. d \<noteq> CHR ''/'') (rev x @ CHR ''/'' # rev p) = rev x"
    using assms(1) by (subst takeWhile_append2) auto
  then have "takeWhile (\<lambda>d. d \<noteq> CHR ''/'') (rev (p @ CHR ''/'' # x)) = rev x" by simp
  moreover have "trim_right_slash (p @ CHR ''/'' # x) = p @ CHR ''/'' # x"
    using c x by (simp add: trim_right_slash_def)
  ultimately show ?thesis using assms(2) unfolding path_base_def Let_def by simp
qed

lemma path_base_offer: "bs \<noteq> [] \<Longrightarrow> path_base (''/oidc4vci/offer/'' @ RandomString bs) = RandomString bs"
  using path_base_last [of "RandomString bs" "''/oidc4vci/offer''"] RandomString_alphabet [of bs] alphabet_printable
  by (auto simp: RandomString_def)

lemma bearer_token_random: "bearer_token (''Bearer '' @ ''atk_'' @ RandomString bs) = Some (''atk_'' @ RandomString bs)"
proof -
  have "trim_space (''atk_'' @ RandomString bs) = ''atk_'' @ RandomString bs"
  proof (rule trim_space_printable)
    show "printable (last (''atk_'' @ RandomString bs))"
    proof (cases "RandomString bs = []")
      case False
      then have "last (RandomString bs) \<in> set alphabet" using RandomString_alphabet [of bs] last_in_set by blast
      then show ?thesis using alphabet_printable False by simp
    qed (simp add: printable_def)
  qed (simp_all add: printable_def)
  then show ?thesis by (simp add: bearer_token_def has_prefix_def)
qed

text \<open>
  What is relied on of the codecs: a value written by the issuer's encoder is read back by the wallet's decoder,
  a body posted by the wallet is read back by the issuer, a signed text verifies.
\<close>

definition carried :: "wallet_lib \<Rightarrow> (gval \<Rightarrow> string) \<Rightarrow> gval \<Rightarrow> bool" where
  "carried W enc v = (wl_first_json W (enc v) = Some (to_json v))"

definition posted :: "wallet_lib \<Rightarrow> gval \<Rightarrow> bool" where
  "posted W v = (wl_first_json W (json_text W v) = Some (to_json v))"

definition signed_ok :: "wallet_lib \<Rightarrow> (string \<Rightarrow> string res) \<Rightarrow> gval \<Rightarrow> string \<Rightarrow> bool" where
  "signed_ok W sign v jws =
     (sign (json_text W v) = Inr jws \<and> wl_jws_verify W jws = Inr (json_text W v)
      \<and> gl_json_parse (wl_base W) (json_text W v) = Some (to_json v))"

lemma server_offer:
  assumes "bs \<noteq> []" and "live_preauth now (RandomString bs) s = Some pa"
    and "carried W enc (offer_object C (RandomString bs))"
  shows "HttpGetJSON W (issuer_server W enc C stamp sign tb nb now) (ig_base_url C @ ''/oidc4vci/offer/'' @ RandomString bs) s
    = (Inr (to_json (offer_object C (RandomString bs))), s)"
proof -
  have "path_base (''/oidc4vci/offer/'' @ RandomString bs) = RandomString bs" using assms(1) by (rule path_base_offer)
  then show ?thesis
    using assms(2,3)
    by (simp add: HttpGetJSON_def issuer_server_def has_prefix_def HandleOfferByCode_def as_reply_def resp_def
        json_reply_def carried_def)
qed

lemma server_offer_gone:
  assumes "bs \<noteq> []" and "live_preauth now (RandomString bs) s = None"
  shows "\<exists>e. HttpGetJSON W (issuer_server W enc C stamp sign tb nb now) (ig_base_url C @ ''/oidc4vci/offer/'' @ RandomString bs) s
    = (Inl e, s)"
proof -
  have "path_base (''/oidc4vci/offer/'' @ RandomString bs) = RandomString bs" using assms(1) by (rule path_base_offer)
  then show ?thesis
    using assms(2)
    by (simp add: HttpGetJSON_def issuer_server_def has_prefix_def HandleOfferByCode_def as_reply_def resp_def
        json_reply_def http_error_def)
qed

definition redeemed :: "8 word list \<Rightarrow> 8 word list \<Rightarrow> int \<Rightarrow> string \<Rightarrow> preauth \<Rightarrow> issuer \<Rightarrow> issuer" where
  "redeemed tb nb now code pa s =
     s\<lparr>is_access := (is_access s)(''atk_'' @ RandomString tb \<mapsto>
         \<lparr>ac_token = ''atk_'' @ RandomString tb, ac_user = pa_user pa, ac_cnonce = RandomString nb, ac_exp = now + 300\<rparr>),
       is_preauth := (is_preauth s)(code := None)\<rparr>"

lemma server_token:
  assumes "live_preauth now code s = Some pa" and "posted W (token_request code)"
    and "carried W enc (token_object (''atk_'' @ RandomString tb) (RandomString nb))"
  shows "HttpPostJSON W (issuer_server W enc C stamp sign tb nb now) (ig_base_url C @ ''/oidc4vci/token'') (token_request code) s
    = (Inr (to_json (token_object (''atk_'' @ RandomString tb) (RandomString nb))), redeemed tb nb now code pa s)"
  using assms
  by (simp add: HttpPostJSON_def issuer_server_def HandleVciToken_eq Let_def as_reply_def resp_def json_reply_def
      carried_def posted_def token_body_def decode_token_request_object token_object_def redeemed_def jobj_def)

lemma server_credential:
  assumes "signed_ok W sign (vc_claims C stamp now (ss_sub (pa_user pa)) 1084147200) jws"
    and "carried W enc (credential_object jws)"
  shows "HttpPostAuthJSON W (issuer_server W enc C stamp sign tb nb now) (ig_base_url C @ ''/oidc4vci/credential'')
      (''atk_'' @ RandomString tb) (GMap []) (redeemed tb nb now code pa s)
    = (Inr (to_json (credential_object jws)), redeemed tb nb now code pa s)"
proof -
  note b = bearer_token_random [of tb, simplified]
  show ?thesis
    using assms
    by (simp add: HttpPostAuthJSON_def issuer_server_def HandleVciCredential_def b redeemed_def parse_date_2004
        as_reply_def resp_def json_reply_def carried_def credential_object_def jobj_def signed_ok_def)
qed

lemma redeem_issued:
  assumes "bs \<noteq> []" and "live_preauth now (RandomString bs) s = Some pa"
    and "carried W enc (offer_object C (RandomString bs))"
    and "posted W (token_request (RandomString bs))"
    and "carried W enc (token_object (''atk_'' @ RandomString tb) (RandomString nb))"
    and "signed_ok W sign (vc_claims C stamp now (ss_sub (pa_user pa)) 1084147200) jws"
    and "carried W enc (credential_object jws)"
  shows "redeem W (issuer_server W enc C stamp sign tb nb now) (ig_base_url C @ ''/oidc4vci/offer/'' @ RandomString bs) s
    = (Inr (''jwt_vc_json'', jws), redeemed tb nb now (RandomString bs) pa s)"
proof -
  have "RandomString bs \<noteq> []" using assms(1) by (simp add: RandomString_def)
  then show ?thesis
    unfolding redeem_def server_offer [OF assms(1-3)]
    by (simp add: decode_offer_object preauth_code_def server_token [OF assms(2,4,5)] decode_token_object server_credential [OF assms(6,7), simplified] decode_credential_object)
qed

text \<open>
  C13. Issuing works end to end. A user who is logged in makes an offer; whoever imports its link
  into a wallet within five minutes, with the bodies carried faithfully between the two, gets a
  credential of the issuer about that user stored, and a second import of the link is refused.
\<close>

theorem issued_credential_is_imported:
  assumes login: "CurrentSession cookies s = Inr u"
    and offer: "HandleCreateOffer D C cb t0 True cookies s = (answer, s1)" "cb \<noteq> []" "now \<le> t0 + 300"
    and link: "wl_url_query W link = Some q" "has_prefix link deeplink"
      "q ''credential_offer_uri'' = ig_base_url C @ ''/oidc4vci/offer/'' @ RandomString cb"
    and codec: "carried W enc (offer_object C (RandomString cb))" "posted W (token_request (RandomString cb))"
      "carried W enc (token_object (''atk_'' @ RandomString tb) (RandomString nb))" "carried W enc (credential_object jws)"
    and sign: "signed_ok W sign (vc_claims C stamp now (ss_sub u) 1084147200) jws"
  shows "\<exists>vc r s2. HandleWalletImportOffer W (issuer_server W enc C stamp sign tb nb now) clock (Inr link) (vcs, s1)
        = (Some r, vc_save vc vcs, s2)
     \<and> rs_status r = 200 \<and> vc_raw vc = jws \<and> vc_issuer vc = ig_base_url C \<and> vc_subject vc = ss_sub u
     \<and> vc_types vc = [''VerifiableCredential'', ''AgeOver18Credential'']
     \<and> (\<exists>e. HandleWalletImportOffer W (issuer_server W enc C stamp sign tb' nb' now') clock' (Inr link) (vcs', s2)
            = (Some (http_error 400 e), vcs', s2))"
proof -
  let ?pa = "\<lparr>pa_code = RandomString cb, pa_user = u, pa_expires_at = t0 + 300\<rparr>"
  let ?H = "issuer_server W enc C stamp sign tb nb now"
  let ?s2 = "redeemed tb nb now (RandomString cb) ?pa s1"
  let ?vc = "new_credential W ''jwt_vc_json'' jws clock"
  have "s1 = s\<lparr>is_preauth := (is_preauth s)(RandomString cb \<mapsto> ?pa)\<rparr>"
    using offer(1) login by (simp add: HandleCreateOffer_def Let_def)
  then have live: "live_preauth now (RandomString cb) s1 = Some ?pa" using offer(3) by (simp add: live_preauth_def)
  have s': "signed_ok W sign (vc_claims C stamp now (ss_sub (pa_user ?pa)) 1084147200) jws" using sign by simp
  have red: "redeem W ?H (q ''credential_offer_uri'') s1 = (Inr (''jwt_vc_json'', jws), ?s2)"
    unfolding link(3) by (rule redeem_issued [OF offer(2) live codec(1-3) s' codec(4)])
  have ne: "link \<noteq> []" "q ''credential_offer_uri'' \<noteq> []"
    using link(2,3) by (auto simp: has_prefix_def deeplink_def)
  have first: "HandleWalletImportOffer W ?H clock (Inr link) (vcs, s1)
      = (Some (resp 200 (jobj [(''vc_id'', GStr (vc_id ?vc)), (''issuer'', GStr (vc_issuer ?vc)),
           (''types'', GList (map GStr (vc_types ?vc))), (''stored'', GBool True)])), vc_save ?vc vcs, ?s2)"
    by (simp add: HandleWalletImportOffer_def link(1,2) ne red Let_def)
  have vc: "vc_raw ?vc = jws" "vc_issuer ?vc = ig_base_url C" "vc_subject ?vc = ss_sub u"
      "vc_types ?vc = [''VerifiableCredential'', ''AgeOver18Credential'']"
    using sign meta_of_claims [of "wl_base W" _ C stamp now "ss_sub u" 1084147200]
    by (simp_all add: new_credential_def Let_def verified_payload_def signed_ok_def)
  have "live_preauth now' (RandomString cb) ?s2 = None" by (simp add: live_preauth_def redeemed_def)
  from server_offer_gone [OF offer(2) this, of W enc C stamp sign tb' nb']
  obtain e where e: "HttpGetJSON W (issuer_server W enc C stamp sign tb' nb' now') (q ''credential_offer_uri'') ?s2 = (Inl e, ?s2)"
    unfolding link(3) by blast
  have "redeem W (issuer_server W enc C stamp sign tb' nb' now') (q ''credential_offer_uri'') ?s2
      = (wrapped ''offer fetch failed'' (Inl e), ?s2)"
    by (simp add: redeem_def e)
  then have "HandleWalletImportOffer W (issuer_server W enc C stamp sign tb' nb' now') clock' (Inr link) (vcs', ?s2)
      = (Some (http_error 400 (error_text (wl_lib_text W) (Wrap ''offer fetch failed'' e))), vcs', ?s2)"
    by (simp add: HandleWalletImportOffer_def link(1,2) ne Let_def)
  with first vc show ?thesis by (auto simp: resp_def)
qed

text \<open>A run with the messages in a table.\<close>

fun first_key :: "gval \<Rightarrow> string" where
  "first_key (GMap (kv # kvs)) = fst kv"
| "first_key v = []"

definition flow_messages :: "string \<rightharpoonup> json" where
  "flow_messages =
     [''credential_issuer'' \<mapsto> to_json (offer_object demo_config ''b''),
      ''grant_type'' \<mapsto> to_json (token_request ''b''),
      ''access_token'' \<mapsto> to_json (token_object ''atk_c'' ''d''),
      ''format'' \<mapsto> to_json (credential_object ''jws''),
      ''iss'' \<mapsto> to_json (vc_claims demo_config (\<lambda>t. []) 300 ''alice'' 1084147200)]"

definition flow_lib :: wallet_lib where
  "flow_lib = claims_lib\<lparr>wl_base := plain_lib\<lparr>gl_json_text := \<lambda>v. Some (first_key v), gl_json_parse := flow_messages\<rparr>,
     wl_first_json := flow_messages, wl_jws_verify := \<lambda>j. Inr ''iss'',
     wl_url_query := \<lambda>u. Some (\<lambda>k. ''http://i/oidc4vci/offer/b'')\<rparr>"

definition flow_sign :: "string \<Rightarrow> string res" where
  "flow_sign t = Inr ''jws''"

theorem issued_credential_is_imported_witness:
  "\<exists>vc r s2. HandleWalletImportOffer flow_lib (issuer_server flow_lib first_key demo_config (\<lambda>t. []) flow_sign [2] [3] 300) 0
       (Inr ''openid-credential-offer://x'')
       (Map.empty, snd (HandleCreateOffer demo_oidc demo_config [1] 0 True [CookieNameSession \<mapsto> ''a'']
         (issuer_acts claims_lib demo_oidc demo_config [demo_login] empty_issuer)))
     = (Some r, vc_save vc Map.empty, s2) \<and> vc_subject vc = ''alice''"
proof -
  let ?s = "issuer_acts claims_lib demo_oidc demo_config [demo_login] empty_issuer"
  let ?u = "\<lparr>ss_sub = ''alice'', ss_email = [], ss_name = []\<rparr>"
  let ?o = "HandleCreateOffer demo_oidc demo_config [1] 0 True [CookieNameSession \<mapsto> ''a''] ?s"
  have login: "CurrentSession [CookieNameSession \<mapsto> ''a''] ?s = Inr ?u"
    by (simp add: issuer_acts_def demo_login_def HandleCallback_def pkce_verifier_def Let_def
        login_user_def demo_oidc_def CurrentSession_def demo_letters empty_issuer_def)
  have codec: "carried flow_lib first_key (offer_object demo_config (RandomString [1]))"
      "posted flow_lib (token_request (RandomString [1]))"
      "carried flow_lib first_key (token_object (''atk_'' @ RandomString [2]) (RandomString [3]))"
      "carried flow_lib first_key (credential_object ''jws'')"
    by (simp_all add: carried_def posted_def flow_lib_def flow_messages_def json_text_def demo_letters
        offer_object_def token_request_def token_object_def credential_object_def)
  have sign: "signed_ok flow_lib flow_sign (vc_claims demo_config (\<lambda>t. []) 300 (ss_sub ?u) 1084147200) ''jws''"
    by (simp add: signed_ok_def flow_lib_def flow_messages_def json_text_def flow_sign_def vc_claims_def)
  have link: "wl_url_query flow_lib ''openid-credential-offer://x'' = Some (\<lambda>k. ''http://i/oidc4vci/offer/b'')"
      "has_prefix ''openid-credential-offer://x'' deeplink"
      "(\<lambda>k. ''http://i/oidc4vci/offer/b'') ''credential_offer_uri''
         = ig_base_url demo_config @ ''/oidc4vci/offer/'' @ RandomString [1]"
    by (simp_all add: flow_lib_def has_prefix_def deeplink_def demo_config_def demo_letters)
  have now: "[1 :: 8 word] \<noteq> []" "(300::int) \<le> 0 + 300" by simp_all
  from issued_credential_is_imported [OF login prod.collapse [symmetric] now link codec sign, of 0 Map.empty]
  show ?thesis by (metis session.select_convs(1))
qed

section \<open>A credential that nobody signed\<close>

text \<open>
  C30. The wallet does not insist on a signature. A credential whose signature is bad is ingested all
  the same, reported as stored, and, when the listing visits it first, its claims are the ones the
  wallet proves things about.
\<close>

theorem forged_credential_is_used:
  assumes "wl_jws_verify W jws = Inl e" and "trim_space jws \<noteq> []"
    and "claims_of W (new_credential W ''jwt_vc_json'' jws now) = Some claims"
    and "ParseSchema L src = Inr schema" and "n \<in> fd_name ` set (sd_fields schema)" and "\<not> reserved n"
    and "field_claim claims n = Some v"
    and "HandleWalletIngest W H now True (Inr \<lparr>ir_credential = jws, ir_offer = off, ir_store = None\<rparr>) (vcs, s) = (r, vcs', s')"
  shows "rs_status r = 200 \<and> vcs' (Sha256hex W jws) \<noteq> None
    \<and> build_assignments W schema d (vc_list (Sha256hex W jws # rest) vcs') n = Some v"
proof -
  let ?vc = "new_credential W ''jwt_vc_json'' jws now"
  have "vc_id ?vc = Sha256hex W jws" by (simp add: new_credential_def Let_def)
  then have r: "rs_status r = 200" "vcs' = vcs(Sha256hex W jws \<mapsto> ?vc)"
    using assms(2,8) by (auto simp: HandleWalletIngest_def ingest_source_def Let_def resp_def vc_save_def)
  have "vc_list (Sha256hex W jws # rest) vcs' = ?vc # vc_list rest vcs'"
    by (simp add: vc_list_def map_filter_def r(2))
  then show ?thesis
    using r assms(3,7) build_assignments_first [OF assms(4-6)] by (simp add: credential_claim_def)
qed

definition unsigned_lib :: wallet_lib where
  "unsigned_lib = claims_lib\<lparr>wl_jws_verify := \<lambda>j. Inl (LibErr ''bad signature'')\<rparr>"

lemma unsigned_claims:
  "claims_of unsigned_lib (new_credential unsigned_lib fmt raw now) = Some (GMap [(''vc'', GMap [(''credentialSubject'',
     GMap [(''birth_ts'', GStr raw), (''degree'', GStr ''MSc'')])])])"
proof -
  have "claims_of unsigned_lib (new_credential unsigned_lib fmt raw now) = claims_of claims_lib (claims_vc raw)"
    by (simp add: claims_of_def unsigned_lib_def claims_lib_def claims_vc_def new_credential_def Let_def)
  then show ?thesis by (simp add: claims_of_demo)
qed

theorem forged_credential_is_used_witness:
  "build_assignments unsigned_lib demo_schema (demo_descriptor [] []) (vc_list [Sha256hex unsigned_lib ''forged'']
     (fst (snd (HandleWalletIngest unsigned_lib (issuer_server flow_lib first_key demo_config (\<lambda>t. []) flow_sign [] [] 0)
       0 True (Inr \<lparr>ir_credential = ''forged'', ir_offer = [], ir_store = None\<rparr>) (Map.empty, empty_issuer)))))
     ''birth_ts'' = Some (GStr ''forged'')"
proof -
  let ?I = "HandleWalletIngest unsigned_lib (issuer_server flow_lib first_key demo_config (\<lambda>t. []) flow_sign [] [] 0)
       0 True (Inr \<lparr>ir_credential = ''forged'', ir_offer = [], ir_store = None\<rparr>) (Map.empty, empty_issuer)"
  have bad: "wl_jws_verify unsigned_lib ''forged'' = Inl (LibErr ''bad signature'')" by (simp add: unsigned_lib_def)
  have t: "trim_space ''forged'' \<noteq> []" by (simp add: trim_space_printable printable_def)
  have n: "''birth_ts'' \<in> fd_name ` set (sd_fields demo_schema)"
    using demo_schema_names(1) by (metis list.set_intros(1) set_map)
  have f: "field_claim (GMap [(''vc'', GMap [(''credentialSubject'',
     GMap [(''birth_ts'', GStr ''forged''), (''degree'', GStr ''MSc'')])])]) ''birth_ts'' = Some (GStr ''forged'')"
    by (simp add: field_claim_def gmap_get_def extractCredentialSubject_def)
  have "\<not> reserved ''birth_ts''" by (simp add: reserved_def)
  moreover obtain r vcs' s' where I: "?I = (r, vcs', s')" by (metis prod.exhaust)
  ultimately show ?thesis
    using forged_credential_is_used [OF bad t unsigned_claims demo_parses n _ f I, of "demo_descriptor [] []" "[]"] by simp
qed

end
