(* ===== verification/ChainProps.thy ===== *)
theory ChainProps
  imports ChainWorkers VerificationFlow LogAudit IssuanceFlow BlockchainProps
begin

text \<open>
  The workers of the blockchain client and the messages between it and the API: what a proof on the
  chain is about, what the checking endpoint accepts, and how one bad message ends the API.
\<close>

section \<open>Connecting\<close>

lemma dial_loop_all:
  "dial_loop dial i n w e =
     (case List.find (\<lambda>j. ok (dial j)) [i..<i + n] of
        Some j \<Rightarrow> (dial j, take (j - i) (w # map (\<lambda>k. 2 ^ Suc k) [i..<i + n]))
      | None \<Rightarrow> (if n = 0 then Inl e else dial (i + n - 1), take n (w # map (\<lambda>k. 2 ^ Suc k) [i..<i + n])))"
proof (induction n arbitrary: i w e)
  case 0
  then show ?case by simp
next
  case (Suc n)
  have r: "[i..<Suc (i + n)] = i # [Suc i..<Suc (i + n)]" by (simp add: upt_conv_Cons)
  show ?case
  proof (cases "dial i")
    case (Inr c)
    then show ?thesis by (simp add: r del: upt_Suc)
  next
    case (Inl x)
    let ?F = "List.find (\<lambda>j. ok (dial j)) [Suc i..<Suc (i + n)]"
    have f: "List.find (\<lambda>j. ok (dial j)) [i..<Suc (i + n)] = ?F" using Inl by (simp add: r del: upt_Suc)
    have d: "dial_loop dial i (Suc n) w e = apsnd ((#) w) (dial_loop dial (Suc i) n (2 ^ Suc i) x)"
      using Inl by (simp add: apsnd_def map_prod_def split: prod.splits)
    show ?thesis
    proof (cases ?F)
      case None
      then show ?thesis
        using Inl unfolding add_Suc_right d f Suc [of "Suc i"] by (simp add: r del: upt_Suc)
    next
      case (Some j)
      then have "Suc i \<le> j" using find_SomeD [OF Some] by auto
      then have "j - i = Suc (j - Suc i)" by simp
      then show ?thesis
        using Some unfolding add_Suc_right d f Suc [of "Suc i"] by (simp add: r del: upt_Suc)
    qed
  qed
qed

text \<open>
  C33. Connecting takes seven attempts at most and returns the first connection made, or the error of
  the seventh; before the next attempt it sleeps 1, 2, 4 and so on up to 64 seconds, after the last
  failure too.
\<close>

theorem connect_attempts:
  "ConnectToRabbitmq dial =
     (case List.find (\<lambda>j. ok (dial j)) [0..<7] of
        Some j \<Rightarrow> (dial j, map (\<lambda>k. 2 ^ k) [0..<j])
      | None \<Rightarrow> (dial 6, [1, 2, 4, 8, 16, 32, 64]))"
proof -
  have l: "(1::int) # map (\<lambda>k. 2 ^ Suc k) [0..<0 + 7] = map (\<lambda>k. 2 ^ k) [0..<8]"
    by (simp add: upt_rec)
  have "take j (map (\<lambda>k. (2::int) ^ k) [0..<8]) = map (\<lambda>k. 2 ^ k) [0..<j]" if "j < 8" for j
    using that by (simp add: take_map)
  moreover have "j < 7" if "List.find (\<lambda>j. ok (dial j)) [0..<7] = Some j" for j
    using find_SomeD [OF that] by simp
  moreover have "map (\<lambda>k. (2::int) ^ k) [0..<7] = [1, 2, 4, 8, 16, 32, 64]" by (simp add: upt_rec)
  ultimately show ?thesis
    unfolding ConnectToRabbitmq_def dial_loop_all l by (auto split: option.splits)
qed

section \<open>The account of a proof\<close>

text \<open>
  The space allocated for a proof has room for it and at least a kilobyte more, is a multiple of
  eight and two kilobytes or more, and no more than half the data and about two kilobytes above it.
\<close>

theorem account_space:
  assumes "length data < 2 ^ 51"
  shows "length data + 1024 \<le> unat (calculateRequiredAccountSpace data)
    \<and> unat (calculateRequiredAccountSpace data) mod 8 = 0
    \<and> 2048 \<le> unat (calculateRequiredAccountSpace data)
    \<and> unat (calculateRequiredAccountSpace data) \<le> length data + length data div 2 + 2056"
proof -
  let ?n = "int (length data)"
  define t where "t = (if ?n > 10000 then ?n * 3 div 2 else if ?n > 1000 then ?n + 2048 else ?n + 1024)"
  define r where "r = (if t mod 8 \<noteq> 0 then t + (8 - t mod 8) else t)"
  define x where "x = (if r < 2048 then 2048 else r)"
  have t: "?n + 1024 \<le> t" "t \<le> ?n + ?n div 2 + 2048" by (auto simp: t_def)
  have r: "t \<le> r" "r \<le> t + 7" "r mod 8 = 0" by (auto simp: r_def) presburger+
  have x: "r \<le> x" "2048 \<le> x" "x \<le> ?n + ?n div 2 + 2056" "x mod 8 = 0" using r t by (auto simp: x_def)
  have c: "calculateRequiredAccountSpace data = word_of_int x"
    by (simp add: calculateRequiredAccountSpace_def Let_def t_def r_def x_def)
  have "?n < 2 ^ 51" using assms by (metis of_nat_less_iff of_nat_numeral of_nat_power)
  then have "x < 2 ^ 64" using x(3) by simp
  then have u: "unat (calculateRequiredAccountSpace data) = nat x"
    using x(2) by (simp add: c unsigned_of_int take_bit_int_eq_self)
  have "int (nat x) = x" using x(2) by simp
  moreover from this have "nat x mod 8 = 0" using x(4) by (metis nat_mod_distrib nat_0 of_nat_0_le_iff nat_int of_nat_numeral)
  ultimately show ?thesis
    using x t r unfolding u by (auto simp: nat_le_iff le_nat_iff)
qed

theorem account_space_witness:
  "1024 \<le> unat (calculateRequiredAccountSpace [])"
  using account_space [of "[]"] by simp

section \<open>Messages between the services\<close>

lemma dto_names:
  "equal_fold ''event_id'' ''event_id''" "\<not> equal_fold ''signature'' ''event_id''" "\<not> equal_fold ''account_id'' ''event_id''"
  "\<not> equal_fold ''event_id'' ''signature''" "equal_fold ''signature'' ''signature''" "\<not> equal_fold ''account_id'' ''signature''"
  "\<not> equal_fold ''event_id'' ''account_id''" "\<not> equal_fold ''signature'' ''account_id''" "equal_fold ''account_id'' ''account_id''"
  "\<not> equal_fold ''request_body'' ''event_id''" "\<not> equal_fold ''error'' ''event_id''" "\<not> equal_fold ''reason_code'' ''event_id''"
  "\<not> equal_fold ''event_id'' ''request_body''" "equal_fold ''request_body'' ''request_body''"
  "\<not> equal_fold ''error'' ''request_body''" "\<not> equal_fold ''reason_code'' ''request_body''"
  "\<not> equal_fold ''event_id'' ''error''" "\<not> equal_fold ''request_body'' ''error''" "equal_fold ''error'' ''error''"
  "\<not> equal_fold ''reason_code'' ''error''" "\<not> equal_fold ''event_id'' ''reason_code''"
  "\<not> equal_fold ''request_body'' ''reason_code''" "\<not> equal_fold ''error'' ''reason_code''"
  "equal_fold ''reason_code'' ''reason_code''"
  by code_simp+

text \<open>A message that arrives as it was sent.\<close>

definition result_travels :: "golib \<Rightarrow> proof_result_dto \<Rightarrow> bool" where
  "result_travels L r =
     (case gl_json_text L (result_json r) of None \<Rightarrow> False
      | Some t \<Rightarrow> gl_json_parse L t = Some (to_json (result_json r)))"

definition failure_travels :: "golib \<Rightarrow> proof_failure_dto \<Rightarrow> bool" where
  "failure_travels L f =
     (gl_b64_decode L (gl_b64_encode L (fl_request_body f)) = Some (fl_request_body f) \<and>
      (case gl_json_text L (failure_json L f) of None \<Rightarrow> False
       | Some t \<Rightarrow> gl_json_parse L t = Some (to_json (failure_json L f))))"

lemma decode_result_json: "decode_result (to_json (result_json r)) = Inr r"
  by (simp add: decode_result_def result_json_def decode_simps dto_names)

lemma decode_failure_json:
  assumes "gl_b64_decode L (gl_b64_encode L (fl_request_body f)) = Some (fl_request_body f)"
  shows "decode_failure L (to_json (failure_json L f)) = Inr f"
  using assms by (simp add: decode_failure_def failure_json_def decode_bytes_def decode_simps dto_names)

text \<open>What the broker gets, and what the API does with it.\<close>

definition new_bodies :: "broker \<Rightarrow> broker \<Rightarrow> string list" where
  "new_bodies br br' = map (\<lambda>m. snd (snd m)) (drop (length (br_sent br)) (br_sent br'))"

lemma failure_arrives:
  assumes "failure_travels (we_lib E) f" and "br_faults br = []"
  obtains t where "new_bodies br (publish_failure E f br) = [t]"
    "failed_handler (we_lib E) U now t db = apfst (\<lambda>r. r \<noteq> None) (SaveFailedAndUpdateOutbox U now f db)"
proof -
  obtain t where t: "gl_json_text (we_lib E) (failure_json (we_lib E) f) = Some t"
      "gl_json_parse (we_lib E) t = Some (to_json (failure_json (we_lib E) f))"
    using assms(1) by (auto simp: failure_travels_def split: option.splits)
  show ?thesis
  proof (rule that)
    show "new_bodies br (publish_failure E f br) = [t]"
      using assms(2) by (simp add: new_bodies_def publish_failure_def Publish_def Serialize_def t channel_publish_def)
    have "unmarshal (we_lib E) (decode_failure (we_lib E)) t = Inr f"
      using assms(1) by (simp add: unmarshal_def t decode_failure_json failure_travels_def)
    then show "failed_handler (we_lib E) U now t db = apfst (\<lambda>r. r \<noteq> None) (SaveFailedAndUpdateOutbox U now f db)"
      by (simp add: failed_handler_def)
  qed
qed

lemma result_arrives:
  assumes "result_travels (we_lib E) r" and "br_faults br = []"
  obtains t where "new_bodies br (snd (Publish (we_lib E) (we_results E) (result_json r) br)) = [t]"
    "results_handler (we_lib E) U fresh now t db = apfst (\<lambda>x. x \<noteq> None) (ProcessVerificationResult U fresh now r db)"
proof -
  obtain t where t: "gl_json_text (we_lib E) (result_json r) = Some t"
      "gl_json_parse (we_lib E) t = Some (to_json (result_json r))"
    using assms(1) by (auto simp: result_travels_def split: option.splits)
  show ?thesis
  proof (rule that)
    show "new_bodies br (snd (Publish (we_lib E) (we_results E) (result_json r) br)) = [t]"
      using assms(2) by (simp add: new_bodies_def Publish_def Serialize_def t channel_publish_def)
    show "results_handler (we_lib E) U fresh now t db = apfst (\<lambda>x. x \<noteq> None) (ProcessVerificationResult U fresh now r db)"
      by (simp add: results_handler_def unmarshal_def t decode_result_json)
  qed
qed

section \<open>Failures\<close>

text \<open>
  C27. One message that is no JSON ends the API: the client of the chain answers it with a failure
  without an event, and the consumer of failures stores the row and then panics on the empty event,
  so that the messages after it are not handled.
\<close>

theorem poison_message_crashes_api:
  assumes "uuid_laws U" and "unmarshal (we_lib E) decode_verified body = Inl e"
    and "failure_travels (we_lib E) (CreateErrorDto [] body (we_text E e) ErrUnmarshal)"
    and "br_faults br = []" and "db_faults db = []"
  shows "StartConsuming (failed_handler (we_lib E) U now) (new_bodies br (negative_worker E body br) @ later) db
    = (False, db\<lparr>db_failures := db_failures db @ [\<lparr>pf_id = next_id (db_failures db), pf_event_id = [],
        pf_request_body = body, pf_error = we_text E e, pf_reason_code = ''UnmarshalError''\<rparr>]\<rparr>)"
proof -
  let ?f = "CreateErrorDto [] body (we_text E e) ErrUnmarshal"
  obtain t where t: "new_bodies br (publish_failure E ?f br) = [t]"
    "failed_handler (we_lib E) U now t db = apfst (\<lambda>r. r \<noteq> None) (SaveFailedAndUpdateOutbox U now ?f db)"
    using failure_arrives [OF assms(3,4)] by metis
  have "ul_parse U [] = None" using uuid_short(1) [OF assms(1), of "[]"] by simp
  then have "failed_handler (we_lib E) U now t db
      = (False, db\<lparr>db_failures := db_failures db @ [\<lparr>pf_id = next_id (db_failures db), pf_event_id = [],
          pf_request_body = body, pf_error = we_text E e, pf_reason_code = ''UnmarshalError''\<rparr>]\<rparr>)"
    using assms(5)
    by (simp add: t(2) SaveFailedAndUpdateOutbox_def SaveFailedProof_def statement_quiet must_parse_def CreateErrorDto_def)
  moreover have "negative_worker E body br = publish_failure E ?f br" by (simp add: negative_worker_def assms(2))
  ultimately show ?thesis by (simp add: t(1))
qed

text \<open>Two services for the witnesses: a message travels as \<open>''m''\<close>, any other text is no JSON or \<open>j\<close>.\<close>

definition wire_lib :: "gval \<Rightarrow> json option \<Rightarrow> golib" where
  "wire_lib v j = plain_lib\<lparr>gl_json_text := \<lambda>x. Some ''m'',
     gl_json_parse := \<lambda>t. if t = ''m'' then Some (to_json v) else j\<rparr>"

lemma wire_lib_simps [simp]:
  "gl_json_text (wire_lib v j) x = Some ''m''" "gl_json_parse (wire_lib v j) t = (if t = ''m'' then Some (to_json v) else j)"
  "gl_b64_encode (wire_lib v j) s = s" "gl_b64_decode (wire_lib v j) s = Some s"
  by (simp_all add: wire_lib_def plain_lib_def)

lemma failure_travels_wire: "failure_travels (wire_lib (failure_json plain_lib f) j) f"
  by (simp add: failure_travels_def failure_json_def plain_lib_def)

definition no_proof :: "circuit_base \<Rightarrow> (unit, unit, unit) zkp_result res" where
  "no_proof b = Inl (LibErr [])"

definition demo_env :: "golib \<Rightarrow> (circuit_base \<Rightarrow> (unit, 'pub, unit) zkp_result res) \<Rightarrow> (unit, unit, unit, 'pub, unit) worker_env" where
  "demo_env L create =
     \<lparr>we_lib = L, we_failures = \<lparr>pb_exchange = ''ex'', pb_routing_key = ''fail''\<rparr>,
      we_results = \<lparr>pb_exchange = ''ex'', pb_routing_key = ''ok''\<rparr>, we_text = \<lambda>e. ''bad'',
      we_chain = \<lparr>so_rent = \<lambda>n s. (Inr 0, s), so_new_key = \<lambda>s. (Inr ''acc'', s), so_blockhash = \<lambda>s. (Inr [], s),
        so_transaction = \<lambda>is h p. Inr (), so_sign = \<lambda>t f. Inr (), so_simulate = \<lambda>t s. (Inr None, s),
        so_send = \<lambda>t s. (Inr ''sig'', s), so_create_account = \<lambda>a b c d e. \<lparr>in_program = [], in_accounts = [], in_data = []\<rparr>,
        so_private = \<lambda>k. k\<rparr>,
      we_keys = \<lparr>ck_contract = [], ck_payer = [], ck_payer_private = []\<rparr>, we_create = create,
      we_codec = \<lparr>bk_write_proof = \<lambda>x. Inr [], bk_read_proof = \<lambda>x. Inr (), bk_write_vk = \<lambda>x. Inr [], bk_read_vk = \<lambda>x. Inr (),
        bk_write_witness = \<lambda>x. Inr [], bk_read_witness = \<lambda>x. Inl (LibErr []), bk_borsh = \<lambda>x. Inr [], bk_unborsh = \<lambda>x. Inr ([], [], [])\<rparr>\<rparr>"

theorem poison_message_crashes_api_witness:
  "\<not> fst (StartConsuming (failed_handler (wire_lib (failure_json plain_lib (CreateErrorDto [] ''x'' ''bad'' ErrUnmarshal)) None) demo_uuids 0)
     (new_bodies \<lparr>br_sent = [], br_faults = []\<rparr>
        (negative_worker (demo_env (wire_lib (failure_json plain_lib (CreateErrorDto [] ''x'' ''bad'' ErrUnmarshal)) None) no_proof)
           ''x'' \<lparr>br_sent = [], br_faults = []\<rparr>) @ [''y'']) empty_database)"
proof -
  let ?L = "wire_lib (failure_json plain_lib (CreateErrorDto [] ''x'' ''bad'' ErrUnmarshal)) None"
  let ?E = "demo_env ?L no_proof"
  have l: "we_lib ?E = ?L" "we_text ?E e = ''bad''" for e by (simp_all add: demo_env_def)
  have "unmarshal ?L decode_verified ''x'' = Inl (LibErr ''json'')" by (simp add: unmarshal_def)
  from poison_message_crashes_api [OF demo_uuid_laws, of ?E "''x''" "LibErr ''json''" "\<lparr>br_sent = [], br_faults = []\<rparr>"
      empty_database 0 "[''y'']", unfolded l, OF this failure_travels_wire]
  show ?thesis by (simp add: empty_database_def)
qed

text \<open>
  C12. The failure of a verification comes back to its event: when the client of the chain reports a
  verification that did not go through, the API stores the failure and the pending event is retried
  once more or, on the sixth failure, closed; the other events stay as they are.
\<close>

theorem failed_verification_is_retried:
  assumes "uuid_laws U" and "unmarshal (we_lib E) decode_verified body = Inr m"
    and "ul_parse U (vd_event_id m) = Some k" and "pending_event db k = Some ev"
    and "failure_travels (we_lib E) (CreateInfoDto (vd_event_id m) body ErrVerifierResolution)"
    and "br_faults br = []" and "db_faults db = []"
  shows "\<exists>db'. StartConsuming (failed_handler (we_lib E) U now) (new_bodies br (negative_worker E body br)) db = (True, db')
    \<and> pending_event db' = (pending_event db)(k := bump_event ev)
    \<and> map pf_event_id (db_failures db') = map pf_event_id (db_failures db) @ [vd_event_id m]"
proof -
  let ?f = "CreateInfoDto (vd_event_id m) body ErrVerifierResolution"
  obtain t where t: "new_bodies br (publish_failure E ?f br) = [t]"
    "failed_handler (we_lib E) U now t db = apfst (\<lambda>r. r \<noteq> None) (SaveFailedAndUpdateOutbox U now ?f db)"
    using failure_arrives [OF assms(5,6)] by metis
  obtain d where d: "SaveFailedProof ?f db = (Inr (), d)" "db_faults d = []" "db_events d = db_events db"
    "map pf_event_id (db_failures d) = map pf_event_id (db_failures db) @ [vd_event_id m]"
    using assms(7) by (simp add: SaveFailedProof_def statement_quiet CreateInfoDto_def)
  have k: "canonical U k" using uuid_canonical(1) [OF assms(1,3)] .
  have "pending_event d = pending_event db" by (rule ext) (simp add: pending_event_def d(3))
  then have p: "pending_event d k = Some ev" "pending_event d = pending_event db" using assms(4) by simp_all
  obtain db' where u: "UpdateRetryValue U now k d = (Inr (), db')" using quiet_retry [OF k d(2) p(1)] by blast
  have "SaveFailedAndUpdateOutbox U now ?f db = (Some (Inr ()), db')"
    using assms(3) u unfolding SaveFailedAndUpdateOutbox_def d(1) by (simp add: must_parse_def CreateInfoDto_def)
  moreover have "pending_event db' = (pending_event db)(k := bump_event ev)"
    using outbox.retry_bumps [OF k u] p by auto
  moreover have "db_failures db' = db_failures d"
    using UpdateRetryValue_Inr [OF k u] same_others_tables(4) by metis
  moreover have "negative_worker E body br = publish_failure E ?f br" by (simp add: negative_worker_def assms(2))
  ultimately show ?thesis using d(4) by (simp add: t)
qed

lemma event_name: "equal_fold ''event_id'' ''event_id''" "\<not> equal_fold ''event_id'' ''resolved_values''"
  by code_simp+

lemma decode_event: "decode_verified (JObj [(''event_id'', JStr e)]) = Inr \<lparr>vd_event_id = e, vd_resolved_values = []\<rparr>"
  by (simp add: decode_verified_def decode_simps event_name)

definition failing_event :: outbox_event where
  "failing_event = zero_event\<lparr>oe_event_id := demo_uuid CHR ''e''\<rparr>"

theorem failed_verification_is_retried_witness:
  "\<exists>db'. pending_event db' (demo_uuid CHR ''e'') = Some (failing_event\<lparr>oe_retry := 1\<rparr>)
    \<and> map pf_event_id (db_failures db') = [demo_uuid CHR ''e'']"
proof -
  let ?f = "CreateInfoDto (demo_uuid CHR ''e'') ''x'' ErrVerifierResolution"
  let ?L = "wire_lib (failure_json plain_lib ?f) (Some (JObj [(''event_id'', JStr (demo_uuid CHR ''e''))]))"
  let ?E = "demo_env ?L no_proof"
  let ?m = "\<lparr>vd_event_id = demo_uuid CHR ''e'', vd_resolved_values = []\<rparr>"
  have l: "we_lib ?E = ?L" by (simp add: demo_env_def)
  have u: "unmarshal ?L decode_verified ''x'' = Inr ?m" by (simp add: unmarshal_def decode_event)
  have t: "failure_travels ?L (CreateInfoDto (vd_event_id ?m) ''x'' ErrVerifierResolution)" by (simp add: failure_travels_wire)
  have k: "ul_parse demo_uuids (vd_event_id ?m) = Some (demo_uuid CHR ''e'')" by simp
  have p: "pending_event (empty_database\<lparr>db_events := [failing_event]\<rparr>) (demo_uuid CHR ''e'') = Some failing_event"
    by (simp add: pending_event_def open_event_def failing_event_def zero_event_def)
  from failed_verification_is_retried [OF demo_uuid_laws _ k p, of ?E "''x''" "\<lparr>br_sent = [], br_faults = []\<rparr>" 0, unfolded l, OF u t]
  obtain db' where "pending_event db' = (pending_event (empty_database\<lparr>db_events := [failing_event]\<rparr>))(demo_uuid CHR ''e'' := bump_event failing_event)"
    "map pf_event_id (db_failures db') = [demo_uuid CHR ''e'']"
    by (auto simp: empty_database_def)
  then show ?thesis by (intro exI [of _ db']) (simp add: bump_event_def failing_event_def zero_event_def MaxRetries_def)
qed

section \<open>What a proof on the chain says\<close>

text \<open>
  C28. The worker for positive verifications proves nothing about the user. Whatever the values of the
  message and their verdicts are, the proof it makes is of the age of the default person of 1990, so
  that from 18 October 2008 on there is one; it is put on the chain and reported for the event.
\<close>

theorem positive_worker_proves_default_person:
  assumes "groth_sem p B den" and "groth_total B" and "2100 < p"
    and "visits visit default_assignment" and "gl_json_parse (we_lib E) src = Some bc_DefaultAgeSchema"
    and "date_ok (clk 0)" and "18 \<le> d_year (clk 0)" and "d_year (clk 0) < p" and "d_year (clk 0) < 2 ^ 63"
    and "date_le \<lparr>d_year = 2008, d_month = 10, d_day = 18\<rparr> (clk 0)"
    and "we_create E = CreateZKP (we_lib E) B visit src clk"
    and "unmarshal (we_lib E) decode_verified body = Inr m"
  shows "\<exists>zr. we_create E empty_base = Inr zr \<and> positive_worker E body (s, br) =
    (case publishZkpToSolana E zr s of
       (Inl e, s') \<Rightarrow> (s', publish_failure E (CreateErrorDto (vd_event_id m) body (we_text E e) ErrSolana) br)
     | (Inr (sig, account), s') \<Rightarrow>
         (s', snd (Publish (we_lib E) (we_results E)
            (result_json \<lparr>rd_event_id = vd_event_id m, rd_signature = sig, rd_account_id = account\<rparr>) br)))"
proof -
  have "ok (we_create E empty_base)"
    using CreateZKP_without_values [where clk = clk, OF assms(1-9)] assms(10) by (simp add: assms(11) empty_base_def)
  then obtain zr where "we_create E empty_base = Inr zr" by (auto simp: ok_iff)
  then show ?thesis by (simp add: positive_worker_def assms(12) split: prod.split sum.split)
qed

definition two_lib :: golib where
  "two_lib = plain_lib\<lparr>gl_json_parse := \<lambda>t. if t = [] then Some bc_DefaultAgeSchema else Some (JObj [(''event_id'', JStr t)])\<rparr>"

definition year_2024 :: "nat \<Rightarrow> date" where
  "year_2024 = (\<lambda>k. \<lparr>d_year = 2024, d_month = 6, d_day = 1\<rparr>)"

theorem positive_worker_proves_default_person_witness:
  "\<exists>zr. CreateZKP two_lib (fgroth 10007) visit_birth [] year_2024 empty_base = Inr zr
    \<and> positive_worker (demo_env two_lib (CreateZKP two_lib (fgroth 10007) visit_birth [] year_2024)) ''e''
        ((), \<lparr>br_sent = [], br_faults = []\<rparr>) = ((), \<lparr>br_sent = [(''ex'', ''ok'', [])], br_faults = []\<rparr>)"
proof -
  let ?c = "CreateZKP two_lib (fgroth 10007) visit_birth [] year_2024"
  let ?E = "demo_env two_lib ?c"
  have e: "we_lib ?E = two_lib" "we_create ?E = ?c" by (simp_all add: demo_env_def)
  have v: "visits visit_birth default_assignment" using visit_birth by (simp add: default_assignment_def birth_map_def)
  have j: "gl_json_parse two_lib [] = Some bc_DefaultAgeSchema" by (simp add: two_lib_def)
  have u: "unmarshal two_lib decode_verified ''e'' = Inr \<lparr>vd_event_id = ''e'', vd_resolved_values = []\<rparr>"
    by (simp add: unmarshal_def two_lib_def decode_event)
  have d: "date_ok (year_2024 0)" "18 \<le> d_year (year_2024 0)" "d_year (year_2024 0) < 10007" "d_year (year_2024 0) < 2 ^ 63"
    "date_le \<lparr>d_year = 2008, d_month = 10, d_day = 18\<rparr> (year_2024 0)" "(2100::int) < 10007" "(1::int) < 10007"
    by (simp_all add: year_2024_def date_ok_def date_le_def)
  have p: "publishZkpToSolana ?E zr () = (Inr (''sig'', ''acc''), ())" for zr
    by (simp add: publishZkpToSolana_def demo_env_def bc_SerializeBorsh_def and_then_def bind_st_def
        createAndPopulateZkpAccount_def Let_def simulate_and_send_def wrapped_def)
  obtain zr where z: "we_create ?E empty_base = Inr zr"
    "positive_worker ?E ''e'' ((), \<lparr>br_sent = [], br_faults = []\<rparr>) =
      ((), snd (Publish (we_lib ?E) (we_results ?E)
            (result_json \<lparr>rd_event_id = ''e'', rd_signature = ''sig'', rd_account_id = ''acc''\<rparr>) \<lparr>br_sent = [], br_faults = []\<rparr>))"
    using positive_worker_proves_default_person [where E = ?E and clk = year_2024 and src = "[]" and s = "()"
        and br = "\<lparr>br_sent = [], br_faults = []\<rparr>" and body = "''e''",
        OF fgroth_sem [OF d(7)] fgroth_total d(6) v _ d(1-5), unfolded e, OF j refl u]
    by (auto simp: p e)
  have "Publish (we_lib ?E) (we_results ?E) v \<lparr>br_sent = [], br_faults = []\<rparr>
      = (Inr (), \<lparr>br_sent = [(''ex'', ''ok'', [])], br_faults = []\<rparr>)" for v
    by (simp add: Publish_def Serialize_def channel_publish_def demo_env_def two_lib_def plain_lib_def)
  then show ?thesis using z by (auto simp: e)
qed

section \<open>Checking a proof on the chain\<close>

text \<open>What is written is read back, by Borsh also when bytes follow.\<close>

definition bc_codec_laws :: "('vk, 'pub, 'prf) bc_codec \<Rightarrow> bool" where
  "bc_codec_laws C =
     ((\<forall>x s. bk_write_proof C x = Inr s \<longrightarrow> bk_read_proof C s = Inr x)
      \<and> (\<forall>x s. bk_write_vk C x = Inr s \<longrightarrow> bk_read_vk C s = Inr x)
      \<and> (\<forall>x s. bk_write_witness C x = Inr s \<longrightarrow> bk_read_witness C s = Inr x)
      \<and> (\<forall>x s. bk_borsh C x = Inr s \<longrightarrow> bk_unborsh C s = Inr x))"

lemma chain_package_roundtrip:
  assumes "bc_codec_laws C" and "bc_SerializeBorsh C zr = Inr data"
  shows "bc_ReconstructZkpResult C data = Inr (zr\<lparr>zr_tx_hash := []\<rparr>)"
  using assms
  by (cases zr) (auto simp: bc_SerializeBorsh_def bc_ReconstructZkpResult_def bc_codec_laws_def res_simps)

text \<open>What the endpoint answers for a package at the start of an account.\<close>

lemma verify_answers:
  assumes "bc_codec_laws (re_codec R)" and "bc_SerializeBorsh (re_codec R) zr = Inr data"
    and "re_verify R (zr_proof zr) (zr_verifying_key zr) (zr_public_witness zr) = Inr ()"
    and "re_signature R signature = Inr sig" and "re_transaction R sig s = (Inr (), s1)"
    and "re_public_key R accountStr = Inr key" and "re_account R key s1 = (Inr (Some (data @ rest)), s2)"
    and "signature \<noteq> []" and "accountStr \<noteq> []" and "in_int64 (int (length data))"
  shows "SolanaReader_Verify R signature accountStr (int_str (int (length data))) s =
    (resp 200 (jobj [(''proof'', re_json R (zr\<lparr>zr_tx_hash := []\<rparr>)), (''account'', GStr accountStr),
       (''size'', GInt KInt (int (length data)))]), s2)"
proof -
  have n: "int_str (int (length data)) \<noteq> []"
    by (simp add: int_str_def)
  have l: "sint (word_of_nat (length data) :: int64) = int (length data)" using sint_int64 [OF assms(10)] by simp
  show ?thesis
    using chain_package_roundtrip [OF assms(1,2)] assms(3-10) n l
    by (simp add: SolanaReader_Verify_def parse_int64_str check_account_def)
qed

text \<open>
  C29. The endpoint that checks a proof on the chain accepts any statement: for any transaction that
  exists and any account that holds a package whose proof verifies under the verifying key in the same
  package, whoever made that key, it answers 200. Neither the circuit of the key nor a relation
  between the transaction and the account is asked for.
\<close>

theorem chain_verify_accepts_any_key:
  assumes "bc_codec_laws (re_codec R)" and "bc_SerializeBorsh (re_codec R) zr = Inr data"
    and "re_verify R (zr_proof zr) (zr_verifying_key zr) (zr_public_witness zr) = Inr ()"
    and "re_signature R signature = Inr sig" and "re_transaction R sig s = (Inr (), s1)"
    and "re_public_key R accountStr = Inr key" and "re_account R key s1 = (Inr (Some (data @ rest)), s2)"
    and "signature \<noteq> []" and "accountStr \<noteq> []" and "in_int64 (int (length data))"
  shows "SolanaReader_Verify R signature accountStr (int_str (int (length data))) s =
    (resp 200 (jobj [(''proof'', re_json R (zr\<lparr>zr_tx_hash := []\<rparr>)), (''account'', GStr accountStr),
       (''size'', GInt KInt (int (length data)))]), s2)"
  by (rule verify_answers [OF assms])

definition demo_reader :: "(unit, string, string, string) reader_env" where
  "demo_reader =
     \<lparr>re_signature = Inr, re_public_key = Inr, re_transaction = \<lambda>t s. (Inr (), s),
      re_account = \<lambda>a s. (Inr (Some ''xyz''), s),
      re_codec = \<lparr>bk_write_proof = Inr, bk_read_proof = Inr, bk_write_vk = Inr, bk_read_vk = Inr,
        bk_write_witness = Inr, bk_read_witness = Inr,
        bk_borsh = \<lambda>(a, b, c). if length a = 1 \<and> length b = 1 then Inr (a @ b @ c) else Inl (LibErr ''borsh''),
        bk_unborsh = \<lambda>t. Inr (take 1 t, take 1 (drop 1 t), drop 2 t)\<rparr>,
      re_verify = \<lambda>p k w. if p = k then Inl (LibErr ''groth16'') else Inr (), re_text = \<lambda>e. [], re_json = \<lambda>zr. GNil\<rparr>"

theorem chain_verify_accepts_any_key_witness:
  "rs_status (fst (SolanaReader_Verify demo_reader ''sig'' ''acc'' ''2'' ())) = 200"
proof -
  let ?zr = "\<lparr>zr_proof = ''x'', zr_verifying_key = ''y'', zr_public_witness = [], zr_tx_hash = []\<rparr>"
  have c: "bc_codec_laws (re_codec demo_reader)"
    by (auto simp: bc_codec_laws_def demo_reader_def length_Suc_conv split: if_splits)
  have b: "bc_SerializeBorsh (re_codec demo_reader) ?zr = Inr ''xy''"
    by (simp add: bc_SerializeBorsh_def demo_reader_def and_then_def)
  from chain_verify_accepts_any_key [OF c b, of "''sig''" "''sig''" "()" "()" "''acc''" "''acc''" "''z''" "()"]
  have "rs_status (fst (SolanaReader_Verify demo_reader ''sig'' ''acc'' (int_str (int (length ''xy''))) ())) = 200"
    by (simp add: demo_reader_def resp_def in_int64_def)
  moreover have "int_str (int (length ''xy'')) = ''2''" by code_simp
  ultimately show ?thesis by simp
qed

end
