(* ===== verification/Config.thy ===== *)
theory Config
  imports Messaging GoStrings
begin

text \<open>
  The configuration of the services: the files read at the start (\<open>pkg/utilities\<close>,
  \<open>pkg/rabbitmq/rabbitmq_config.go\<close>, \<open>api/src/api_config.go\<close>), the environment
  (\<open>zk-wallet-go/internal/app/config\<close>) and the text that \<open>api/src/database/database.go\<close> logs of a
  connection string.
\<close>

section \<open>The environment\<close>

text \<open>An unset variable reads as the empty text. \<open>None\<close>: the process ends.\<close>

definition MustEnv :: "(string \<Rightarrow> string) \<Rightarrow> string \<Rightarrow> string option" where
  "MustEnv env k = (if env k = [] then None else Some (env k))"

definition GetenvDefault :: "(string \<Rightarrow> string) \<Rightarrow> string \<Rightarrow> string \<Rightarrow> string" where
  "GetenvDefault env k def = (if env k \<noteq> [] then env k else def)"

definition ResolveLanHost :: "(string \<Rightarrow> string) \<Rightarrow> string option" where
  "ResolveLanHost env =
     (if trim_space (env ''LAN_HOST_IP'') \<noteq> [] then Some (trim_space (env ''LAN_HOST_IP'')) else None)"

section \<open>The files\<close>

text \<open>\<open>file\<close> is the content or the error of reading it, \<open>dec\<close> the struct the type says.\<close>

definition ReadConfig :: "golib \<Rightarrow> (json \<Rightarrow> 't res) \<Rightarrow> ('t \<Rightarrow> 'u) \<Rightarrow> string res \<Rightarrow> 'u res" where
  "ReadConfig L dec MapToDomain file =
     and_then file (\<lambda>fileContent. and_then (unmarshal L dec fileContent) (\<lambda>c. Inr (MapToDomain c)))"

definition ConvertJsonArrayToDomain :: "('t \<Rightarrow> 'u) \<Rightarrow> 't list \<Rightarrow> 'u list" where
  "ConvertJsonArrayToDomain MapToDomain jsonArray = fold (\<lambda>item domainArray. domainArray @ [MapToDomain item]) jsonArray []"

record rabbitmq_config =
  rc_user :: string
  rc_password :: string
  rc_publishers :: "publisher_config list"
  rc_consumers :: "consumer_config list"

record api_config_json =
  aj_rabbitmq :: rabbitmq_config
  aj_port :: "16 word"
  aj_connection_string :: string

record api_config =
  ac_rabbitmq :: rabbitmq_config
  ac_port :: "16 word"
  ac_connection_string :: string

text \<open>The conversions copy member by member, the alias types included; the database is left out.\<close>

definition rabbitmq_MapToDomain :: "rabbitmq_config \<Rightarrow> rabbitmq_config" where
  "rabbitmq_MapToDomain j =
     \<lparr>rc_user = rc_user j, rc_password = rc_password j,
      rc_publishers = ConvertJsonArrayToDomain (\<lambda>p. \<lparr>pc_alias = pc_alias p, pc_exchange = pc_exchange p,
        pc_routing_key = pc_routing_key p\<rparr>) (rc_publishers j),
      rc_consumers = ConvertJsonArrayToDomain (\<lambda>c. \<lparr>cc_alias = cc_alias c, cc_tag = cc_tag c, cc_queue = cc_queue c\<rparr>)
        (rc_consumers j)\<rparr>"

definition api_MapToDomain :: "api_config_json \<Rightarrow> api_config" where
  "api_MapToDomain j =
     \<lparr>ac_rabbitmq = rabbitmq_MapToDomain (aj_rabbitmq j), ac_port = aj_port j, ac_connection_string = []\<rparr>"

definition GetDatabaseConnectionString :: "(string \<Rightarrow> string) \<Rightarrow> api_config \<Rightarrow> string" where
  "GetDatabaseConnectionString env ac =
     (if env ''DB_CONNECTION_STRING'' \<noteq> [] then env ''DB_CONNECTION_STRING'' else ac_connection_string ac)"

lemma ConvertJsonArrayToDomain_map: "ConvertJsonArrayToDomain f xs = map f xs"
proof -
  have "fold (\<lambda>x acc. acc @ [f x]) xs ys = ys @ map f xs" for ys by (induction xs arbitrary: ys) simp_all
  then show ?thesis by (simp add: ConvertJsonArrayToDomain_def)
qed

lemma rabbitmq_MapToDomain_id [simp]: "rabbitmq_MapToDomain j = j"
proof -
  have "map (\<lambda>p. \<lparr>pc_alias = pc_alias p, pc_exchange = pc_exchange p, pc_routing_key = pc_routing_key p\<rparr>) ps = ps" for ps
    by (induction ps) simp_all
  moreover have "map (\<lambda>c. \<lparr>cc_alias = cc_alias c, cc_tag = cc_tag c, cc_queue = cc_queue c\<rparr>) cs = cs" for cs
    by (induction cs) simp_all
  ultimately show ?thesis by (cases j) (simp add: rabbitmq_MapToDomain_def ConvertJsonArrayToDomain_map)
qed

text \<open>The connection string of the file never arrives.\<close>

lemma connection_string_dropped: "GetDatabaseConnectionString (\<lambda>k. []) (api_MapToDomain j) = []"
  by (simp add: GetDatabaseConnectionString_def api_MapToDomain_def)

section \<open>The services' own files\<close>

definition api_rabbitmq :: rabbitmq_config where
  "api_rabbitmq =
     \<lparr>rc_user = ''id_system_api'', rc_password = ''id_system_api'',
      rc_publishers =
        [\<lparr>pc_alias = ''VerifiersUnverifiedPublisher'', pc_exchange = ''verifiers'', pc_routing_key = ''unverified.#''\<rparr>,
         \<lparr>pc_alias = ''LogPublisher'', pc_exchange = ''log_audit'', pc_routing_key = []\<rparr>],
      rc_consumers =
        [\<lparr>cc_alias = ''ProofResultsConsumer'', cc_tag = ''api-proof-results'', cc_queue = ''proof.results''\<rparr>,
         \<lparr>cc_alias = ''ProofFailuresConsumer'', cc_tag = ''api-proof-failures'', cc_queue = ''proof.failures''\<rparr>,
         \<lparr>cc_alias = ''LogConsumer'', cc_tag = ''api-log-consumer'', cc_queue = ''logs.api''\<rparr>]\<rparr>"

definition blockchain_rabbitmq :: rabbitmq_config where
  "blockchain_rabbitmq =
     \<lparr>rc_user = ''id_system_blockchain'', rc_password = ''id_system_blockchain'',
      rc_publishers =
        [\<lparr>pc_alias = ''IdentityResultsPublisher'', pc_exchange = ''identity'', pc_routing_key = ''proof.results''\<rparr>,
         \<lparr>pc_alias = ''IdentityFailurePublisher'', pc_exchange = ''identity'', pc_routing_key = ''proof.failures''\<rparr>,
         \<lparr>pc_alias = ''LogPublisher'', pc_exchange = ''log_audit'', pc_routing_key = []\<rparr>],
      rc_consumers =
        [\<lparr>cc_alias = ''VerifiedPositiveConsumer'', cc_tag = ''blockchain-verified-positive'', cc_queue = ''verified.positive''\<rparr>,
         \<lparr>cc_alias = ''VerifiedNegativeConsumer'', cc_tag = ''blockchain-verified-negative'', cc_queue = ''verified.negative''\<rparr>,
         \<lparr>cc_alias = ''LogConsumer'', cc_tag = ''blockchain-log-consumer'', cc_queue = ''logs.blockchain''\<rparr>]\<rparr>"

text \<open>The aliases that the code of the two services looks up.\<close>

definition api_aliases :: "string list \<times> string list" where
  "api_aliases = ([''VerifiersUnverifiedPublisher'', ''LogPublisher''],
     [''ProofResultsConsumer'', ''ProofFailuresConsumer'', ''LogConsumer''])"

definition blockchain_aliases :: "string list \<times> string list" where
  "blockchain_aliases = ([''IdentityFailurePublisher'', ''IdentityResultsPublisher'', ''LogPublisher''],
     [''VerifiedPositiveConsumer'', ''VerifiedNegativeConsumer'', ''LogConsumer''])"

text \<open>What a service finds after the initialisation, when every channel opens: no alias gives nil.\<close>

definition aliases_resolve :: "rabbitmq_config \<Rightarrow> string list \<times> string list \<Rightarrow> bool" where
  "aliases_resolve c used =
     (case (InitializePublisherRegistry (\<lambda>i. True) (rc_publishers (rabbitmq_MapToDomain c)) None,
            InitializeConsumerRegistry (\<lambda>i. True) (rc_consumers (rabbitmq_MapToDomain c)) None) of
        (Some ps, Some cs) \<Rightarrow>
          list_all (\<lambda>a. GetPublisher ps a \<noteq> None \<and> GetPublisher ps a \<noteq> Some None) (fst used)
          \<and> list_all (\<lambda>a. GetConsumer cs a \<noteq> None \<and> GetConsumer cs a \<noteq> Some None) (snd used)
      | _ \<Rightarrow> False)"

section \<open>Masking the password\<close>

definition indexOf :: "string \<Rightarrow> string \<Rightarrow> int" where
  "indexOf s substr = (case find_sub substr s of None \<Rightarrow> - 1 | Some i \<Rightarrow> int i)"

definition findPasswordIndex :: "string \<Rightarrow> int" where
  "findPasswordIndex conn =
     (let pwKey = ''password=''; i = indexOf conn pwKey in if i \<noteq> - 1 then i + int (length pwKey) else - 1)"

definition getPassword :: "string \<Rightarrow> string" where
  "getPassword conn =
     (let pwKey = ''password=''; i = indexOf conn pwKey
      in if i \<noteq> - 1
         then takeWhile (\<lambda>c. \<not> (c = CHR '' '' \<or> c = CHR '';'')) (drop (nat (i + int (length pwKey))) conn)
         else [])"

definition masked :: "string \<Rightarrow> string" where
  "masked connectionString =
     (let idx = findPasswordIndex connectionString
      in if idx \<noteq> - 1
         then take (nat idx) connectionString @ ''***''
              @ drop (nat (idx + int (length (getPassword connectionString)))) connectionString
         else connectionString)"

lemma find_sub_at:
  assumes "s = a @ sub @ b" and "sub \<noteq> []" and "\<not> str_contains (a @ butlast sub) sub"
  shows "find_sub sub s = Some (length a)"
proof -
  obtain i where i: "find_sub sub s = Some i" using assms(1) find_sub_None_iff [of sub s] by auto
  have le: "i \<le> length a" using find_sub_first [OF i assms(1)] .
  define p q where "p = take i s" and "q = drop (i + length sub) s"
  have s: "s = p @ sub @ q" using find_sub_Some [OF i] by (simp add: p_def q_def)
  have p: "length p = i" using le assms(1) by (simp add: p_def)
  have "i = length a"
  proof (rule ccontr)
    assume "i \<noteq> length a"
    with le have lt: "length (p @ sub) \<le> length (a @ butlast sub)" using assms(2) p by (cases sub) auto
    have "a @ butlast sub = take (length (a @ butlast sub)) s" unfolding assms(1) by (simp add: butlast_conv_take)
    also have "\<dots> = p @ sub @ take (length (a @ butlast sub) - length (p @ sub)) q"
      using lt unfolding s by simp
    finally show False using assms(3) unfolding contains_iff by blast
  qed
  then show ?thesis using i by simp
qed

section \<open>Properties\<close>

text \<open>
  Every publisher and consumer that the code of the API and of the blockchain client looks up is
  configured in the service's file: no lookup gives nil, on which a call would panic.
\<close>

theorem configured_aliases:
  "aliases_resolve api_rabbitmq api_aliases \<and> aliases_resolve blockchain_rabbitmq blockchain_aliases"
  by (simp add: aliases_resolve_def api_rabbitmq_def api_aliases_def blockchain_rabbitmq_def blockchain_aliases_def
      InitializePublisherRegistry_def InitializeConsumerRegistry_def GetPublisher_def GetConsumer_def)

text \<open>
  The text logged of a connection string has three stars in place of the value of its first
  \<open>password=\<close>, up to a space or a semicolon, and nothing else changed; a string without that key,
  as one in the form of a URL, is logged as it is.
\<close>

theorem masked_connection_string:
  assumes "conn = before @ ''password='' @ pw @ after" and "\<not> str_contains (before @ ''password'') ''password=''"
    and "set pw \<inter> {CHR '' '', CHR '';''} = {}" and "after = [] \<or> hd after \<in> {CHR '' '', CHR '';''}"
    and "\<not> str_contains url ''password=''"
  shows "masked conn = before @ ''password=***'' @ after \<and> masked url = url"
proof -
  have i: "indexOf conn ''password='' = int (length before)"
    using find_sub_at [OF assms(1)] assms(2) by (simp add: indexOf_def)
  have rest: "drop (length before + 9) conn = pw @ after" unfolding assms(1) by simp
  let ?P = "\<lambda>c. \<not> (c = CHR '' '' \<or> c = CHR '';'')"
  have "\<And>c. c \<in> set pw \<Longrightarrow> ?P c" using assms(3) by auto
  then have "takeWhile ?P (pw @ after) = pw @ takeWhile ?P after" by (rule takeWhile_append2)
  moreover have "takeWhile ?P after = []" using assms(4) by (cases after) auto
  ultimately have pw: "takeWhile ?P (pw @ after) = pw" by (metis append_Nil2)
  have n: "nat (int (length before) + 9) = length before + 9" by simp
  have "getPassword conn = takeWhile ?P (drop (length before + 9) conn)" by (simp add: getPassword_def Let_def i n)
  then have g: "getPassword conn = pw" by (simp only: rest pw)
  have "take (length before + 9) conn = before @ ''password=''" unfolding assms(1) by simp
  moreover have "drop (length before + 9 + length pw) conn = after"
    using rest by (metis add.commute append_eq_conv_conj drop_drop)
  moreover have "nat (int (length before) + 9 + int (length pw)) = length before + 9 + length pw" by simp
  ultimately have "masked conn = before @ ''password=***'' @ after"
    by (simp add: masked_def findPasswordIndex_def Let_def i g n)
  moreover have "indexOf url ''password='' = - 1" using assms(5) by (simp add: indexOf_def str_contains_def)
  then have "masked url = url" by (simp add: masked_def findPasswordIndex_def Let_def)
  ultimately show ?thesis by simp
qed

theorem masked_connection_string_witness:
  "masked ''host=h password=pw port=1'' = ''host=h password=*** port=1'' \<and> masked ''postgres://u:pw@h'' = ''postgres://u:pw@h''"
proof -
  have "\<not> str_contains (''host=h '' @ ''password'') ''password=''" "\<not> str_contains ''postgres://u:pw@h'' ''password=''"
    by (simp_all add: str_contains_def has_prefix_def)
  then show ?thesis
    using masked_connection_string [of "''host=h password=pw port=1''" "''host=h ''" "''pw''" "'' port=1''" "''postgres://u:pw@h''"]
    by simp
qed

end
