(* ===== verification/Logger.thy ===== *)
theory Logger
  imports Messaging
begin

text \<open>
  \<open>pkg/logger\<close>: the wrapper of zerolog that also hands each message to a sink, and the default logger
  of a process. Of zerolog the code relies on this: a line is written when its level is not below
  the logger's and the global level, and after a line of level fatal the process ends, after one of
  level panic the goroutine panics, whether the line was written or not.
\<close>

section \<open>Levels\<close>

text \<open>\<open>zerolog.Level\<close> is a signed byte, ordered as such.\<close>

datatype log_level = Level (level_code: "8 word")

instantiation log_level :: linorder
begin

definition less_eq_log_level :: "log_level \<Rightarrow> log_level \<Rightarrow> bool" where
  "a \<le> b \<longleftrightarrow> sint (level_code a) \<le> sint (level_code b)"

definition less_log_level :: "log_level \<Rightarrow> log_level \<Rightarrow> bool" where
  "a < b \<longleftrightarrow> sint (level_code a) < sint (level_code b)"

instance
proof
  fix a b c :: log_level
  show "a < b \<longleftrightarrow> a \<le> b \<and> \<not> b \<le> a" by (auto simp: less_eq_log_level_def less_log_level_def)
  show "a \<le> a" by (simp add: less_eq_log_level_def)
  show "a \<le> b \<Longrightarrow> b \<le> c \<Longrightarrow> a \<le> c" by (simp add: less_eq_log_level_def)
  have "x = y" if "sint x = sint y" for x y :: "8 word" using arg_cong [OF that, of "word_of_int :: int \<Rightarrow> 8 word"] by simp
  then show "a \<le> b \<Longrightarrow> b \<le> a \<Longrightarrow> a = b"
    by (cases a; cases b) (simp add: less_eq_log_level_def)
  show "a \<le> b \<or> b \<le> a" by (auto simp: less_eq_log_level_def)
qed

end

definition TraceLevel :: log_level where "TraceLevel = Level (- 1)"
definition DebugLevel :: log_level where "DebugLevel = Level 0"
definition InfoLevel :: log_level where "InfoLevel = Level 1"
definition WarnLevel :: log_level where "WarnLevel = Level 2"
definition ErrorLevel :: log_level where "ErrorLevel = Level 3"
definition FatalLevel :: log_level where "FatalLevel = Level 4"
definition PanicLevel :: log_level where "PanicLevel = Level 5"
definition NoLevel :: log_level where "NoLevel = Level 6"

lemmas level_defs = TraceLevel_def DebugLevel_def InfoLevel_def WarnLevel_def ErrorLevel_def FatalLevel_def
  PanicLevel_def NoLevel_def

section \<open>The logger\<close>

text \<open>
  The sink works on a state \<open>'s\<close>; its last argument before it is the time. The lines written are kept
  beside it, the latest last: level, error and message.
\<close>

record 's logger =
  lo_level :: log_level
  lo_sink :: "(string \<Rightarrow> log_level \<Rightarrow> int \<Rightarrow> 's \<Rightarrow> 's) option"

type_synonym log_line = "log_level \<times> goerr option \<times> string"

datatype after = Returns | Exits | Panics

text \<open>\<open>zerolog.New\<close> writes everything from trace on; \<open>With().Timestamp().Caller()\<close> leaves the level.\<close>

definition New :: "'s logger" where
  "New = \<lparr>lo_level = TraceLevel, lo_sink = None\<rparr>"

definition NewFromConfig :: "log_level \<Rightarrow> 's logger" where
  "NewFromConfig cfg = \<lparr>lo_level = (if cfg = NoLevel then InfoLevel else cfg), lo_sink = None\<rparr>"

definition WithLevel :: "log_level \<Rightarrow> 's logger \<Rightarrow> 's logger" where
  "WithLevel l lg = lg\<lparr>lo_level := l\<rparr>"

text \<open>A new logger over the same zerolog: without the sink.\<close>

definition WithContext :: "'s logger \<Rightarrow> 's logger" where
  "WithContext lg = \<lparr>lo_level = lo_level lg, lo_sink = None\<rparr>"

definition AddSinkToLoggerInstance :: "(string \<Rightarrow> log_level \<Rightarrow> int \<Rightarrow> 's \<Rightarrow> 's) \<Rightarrow> 's logger \<Rightarrow> 's logger" where
  "AddSinkToLoggerInstance f lg = lg\<lparr>lo_sink := Some f\<rparr>"

definition activateSink :: "'s logger \<Rightarrow> string \<Rightarrow> log_level \<Rightarrow> int \<Rightarrow> 's \<Rightarrow> 's" where
  "activateSink lg msg level timestamp s =
     (case lo_sink lg of None \<Rightarrow> s | Some f \<Rightarrow> f msg level timestamp s)"

text \<open>\<open>spf\<close> is \<open>fmt.Sprintf\<close>.\<close>

definition activateSinkFormatted ::
    "(string \<Rightarrow> gval list \<Rightarrow> string) \<Rightarrow> 's logger \<Rightarrow> string \<Rightarrow> log_level \<Rightarrow> int \<Rightarrow> gval list \<Rightarrow> 's \<Rightarrow> 's" where
  "activateSinkFormatted spf lg format level timestamp v = activateSink lg (spf format v) level timestamp"

text \<open>One line of zerolog, below the global level \<open>gl\<close> or the logger's none.\<close>

definition written ::
    "log_level \<Rightarrow> 's logger \<Rightarrow> log_level \<Rightarrow> goerr option \<Rightarrow> string \<Rightarrow> log_line list \<times> 's \<Rightarrow> log_line list \<times> 's" where
  "written gl lg l err msg st =
     (if lo_level lg \<le> l \<and> gl \<le> l then (fst st @ [(l, err, msg)], snd st) else st)"

definition logger_Debug :: "log_level \<Rightarrow> 's logger \<Rightarrow> int \<Rightarrow> string \<Rightarrow> log_line list \<times> 's \<Rightarrow> after \<times> log_line list \<times> 's" where
  "logger_Debug gl lg now msg st = (Returns, apsnd (activateSink lg msg DebugLevel now) (written gl lg DebugLevel None msg st))"

definition logger_Info :: "log_level \<Rightarrow> 's logger \<Rightarrow> int \<Rightarrow> string \<Rightarrow> log_line list \<times> 's \<Rightarrow> after \<times> log_line list \<times> 's" where
  "logger_Info gl lg now msg st = (Returns, apsnd (activateSink lg msg InfoLevel now) (written gl lg InfoLevel None msg st))"

definition logger_Warn :: "log_level \<Rightarrow> 's logger \<Rightarrow> int \<Rightarrow> string \<Rightarrow> log_line list \<times> 's \<Rightarrow> after \<times> log_line list \<times> 's" where
  "logger_Warn gl lg now msg st = (Returns, apsnd (activateSink lg msg WarnLevel now) (written gl lg WarnLevel None msg st))"

text \<open>\<open>Err(nil)\<close> adds nothing to a line.\<close>

definition logger_Error ::
    "log_level \<Rightarrow> 's logger \<Rightarrow> int \<Rightarrow> goerr option \<Rightarrow> string \<Rightarrow> log_line list \<times> 's \<Rightarrow> after \<times> log_line list \<times> 's" where
  "logger_Error gl lg now err msg st = (Returns, apsnd (activateSink lg msg ErrorLevel now) (written gl lg ErrorLevel err msg st))"

text \<open>After \<open>Msg\<close> of a fatal line the process has ended, and after one of a panic line the call has panicked.\<close>

definition logger_Fatal ::
    "log_level \<Rightarrow> 's logger \<Rightarrow> int \<Rightarrow> goerr option \<Rightarrow> string \<Rightarrow> log_line list \<times> 's \<Rightarrow> after \<times> log_line list \<times> 's" where
  "logger_Fatal gl lg now err msg st = (Exits, written gl lg FatalLevel err msg st)"

definition logger_Panic ::
    "log_level \<Rightarrow> 's logger \<Rightarrow> int \<Rightarrow> goerr option \<Rightarrow> string \<Rightarrow> log_line list \<times> 's \<Rightarrow> after \<times> log_line list \<times> 's" where
  "logger_Panic gl lg now err msg st = (Panics, written gl lg PanicLevel err msg st)"

text \<open>\<open>zl.WithLevel(level)\<close> neither ends the process nor panics; nothing is written at level disabled (7).\<close>

definition logger_Log ::
    "log_level \<Rightarrow> 's logger \<Rightarrow> int \<Rightarrow> log_level \<Rightarrow> string \<Rightarrow> log_line list \<times> 's \<Rightarrow> after \<times> log_line list \<times> 's" where
  "logger_Log gl lg now level msg st =
     (Returns, apsnd (activateSink lg msg level now) (if level = Level 7 then st else written gl lg level None msg st))"

text \<open>The formatting variants format twice, for zerolog and for the sink.\<close>

type_synonym sprintf = "string \<Rightarrow> gval list \<Rightarrow> string"

definition logger_Debugf ::
    "sprintf \<Rightarrow> log_level \<Rightarrow> 's logger \<Rightarrow> int \<Rightarrow> string \<Rightarrow> gval list \<Rightarrow> log_line list \<times> 's \<Rightarrow> after \<times> log_line list \<times> 's" where
  "logger_Debugf spf gl lg now format v st =
     (Returns, apsnd (activateSinkFormatted spf lg format DebugLevel now v) (written gl lg DebugLevel None (spf format v) st))"

definition logger_Infof ::
    "sprintf \<Rightarrow> log_level \<Rightarrow> 's logger \<Rightarrow> int \<Rightarrow> string \<Rightarrow> gval list \<Rightarrow> log_line list \<times> 's \<Rightarrow> after \<times> log_line list \<times> 's" where
  "logger_Infof spf gl lg now format v st =
     (Returns, apsnd (activateSinkFormatted spf lg format InfoLevel now v) (written gl lg InfoLevel None (spf format v) st))"

definition logger_Warnf ::
    "sprintf \<Rightarrow> log_level \<Rightarrow> 's logger \<Rightarrow> int \<Rightarrow> string \<Rightarrow> gval list \<Rightarrow> log_line list \<times> 's \<Rightarrow> after \<times> log_line list \<times> 's" where
  "logger_Warnf spf gl lg now format v st =
     (Returns, apsnd (activateSinkFormatted spf lg format WarnLevel now v) (written gl lg WarnLevel None (spf format v) st))"

definition logger_Errorf ::
    "sprintf \<Rightarrow> log_level \<Rightarrow> 's logger \<Rightarrow> int \<Rightarrow> goerr option \<Rightarrow> string \<Rightarrow> gval list
      \<Rightarrow> log_line list \<times> 's \<Rightarrow> after \<times> log_line list \<times> 's" where
  "logger_Errorf spf gl lg now err format v st =
     (Returns, apsnd (activateSinkFormatted spf lg format ErrorLevel now v) (written gl lg ErrorLevel err (spf format v) st))"

definition logger_Fatalf ::
    "sprintf \<Rightarrow> log_level \<Rightarrow> 's logger \<Rightarrow> int \<Rightarrow> goerr option \<Rightarrow> string \<Rightarrow> gval list
      \<Rightarrow> log_line list \<times> 's \<Rightarrow> after \<times> log_line list \<times> 's" where
  "logger_Fatalf spf gl lg now err format v st = (Exits, written gl lg FatalLevel err (spf format v) st)"

definition logger_Panicf ::
    "sprintf \<Rightarrow> log_level \<Rightarrow> 's logger \<Rightarrow> int \<Rightarrow> goerr option \<Rightarrow> string \<Rightarrow> gval list
      \<Rightarrow> log_line list \<times> 's \<Rightarrow> after \<times> log_line list \<times> 's" where
  "logger_Panicf spf gl lg now err format v st = (Panics, written gl lg PanicLevel err (spf format v) st)"

definition logger_Logf ::
    "sprintf \<Rightarrow> log_level \<Rightarrow> 's logger \<Rightarrow> int \<Rightarrow> log_level \<Rightarrow> string \<Rightarrow> gval list
      \<Rightarrow> log_line list \<times> 's \<Rightarrow> after \<times> log_line list \<times> 's" where
  "logger_Logf spf gl lg now level format v st =
     (Returns, apsnd (activateSinkFormatted spf lg format level now v)
        (if level = Level 7 then st else written gl lg level None (spf format v) st))"

section \<open>A process that logs\<close>

text \<open>
  The calls of a process on one logger, with their times; the formatting variants are these on the
  formatted text. After a fatal line nothing comes; a panic ends its goroutine, and if it is recovered
  the process goes on.
\<close>

datatype log_call =
    CDebug string
  | CInfo string
  | CWarn string
  | CError "goerr option" string
  | CFatal "goerr option" string
  | CPanic "goerr option" string
  | CLog log_level string

fun make_call :: "log_level \<Rightarrow> 's logger \<Rightarrow> int \<Rightarrow> log_call \<Rightarrow> log_line list \<times> 's \<Rightarrow> after \<times> log_line list \<times> 's" where
  "make_call gl lg now (CDebug msg) st = logger_Debug gl lg now msg st"
| "make_call gl lg now (CInfo msg) st = logger_Info gl lg now msg st"
| "make_call gl lg now (CWarn msg) st = logger_Warn gl lg now msg st"
| "make_call gl lg now (CError err msg) st = logger_Error gl lg now err msg st"
| "make_call gl lg now (CFatal err msg) st = logger_Fatal gl lg now err msg st"
| "make_call gl lg now (CPanic err msg) st = logger_Panic gl lg now err msg st"
| "make_call gl lg now (CLog level msg) st = logger_Log gl lg now level msg st"

fun log_run ::
    "log_level \<Rightarrow> 's logger \<Rightarrow> (log_call \<times> int) list \<Rightarrow> log_line list \<times> 's \<Rightarrow> after \<times> log_line list \<times> 's" where
  "log_run gl lg [] st = (Returns, st)"
| "log_run gl lg ((c, now) # cs) st =
     (case make_call gl lg now c st of
        (Exits, st') \<Rightarrow> (Exits, st')
      | (_, st') \<Rightarrow> log_run gl lg cs st')"

section \<open>The default logger\<close>

text \<open>
  What \<open>With()\<close> makes of the arguments is thrown away. \<open>None\<close> before the first call; a later call
  changes nothing.
\<close>

definition InitDefaultLogger :: "(string \<times> string) list \<Rightarrow> 's logger option \<Rightarrow> 's logger option" where
  "InitDefaultLogger args state = (case state of Some lg \<Rightarrow> Some lg | None \<Rightarrow> Some New)"

text \<open>\<open>None\<close> is the panic.\<close>

definition Default :: "'s logger option \<Rightarrow> 's logger option" where
  "Default state = state"

text \<open>The member of the struct is not exported, so that no JSON sets it.\<close>

definition decode_logger_config :: "json \<Rightarrow> 8 word res" where
  "decode_logger_config j = and_then (members j) (\<lambda>kvs. Inr 0)"

definition logger_MapToDomain :: "8 word \<Rightarrow> log_level" where
  "logger_MapToDomain logLevel = Level logLevel"

section \<open>The sink to RabbitMQ\<close>

text \<open>\<open>Level.String()\<close>; other levels are printed as numbers.\<close>

definition level_text :: "log_level \<Rightarrow> string" where
  "level_text l =
     (if l = DebugLevel then ''debug'' else if l = InfoLevel then ''info'' else if l = WarnLevel then ''warn''
      else if l = ErrorLevel then ''error'' else if l = FatalLevel then ''fatal'' else if l = PanicLevel then ''panic''
      else if l = TraceLevel then ''trace'' else if l = NoLevel then [] else if l = Level 7 then ''disabled''
      else int_str (sint (level_code l)))"

definition CreateRabbitmqLoggerSink ::
    "golib \<Rightarrow> publisher \<Rightarrow> string \<Rightarrow> log_level \<Rightarrow> int \<Rightarrow> broker \<Rightarrow> broker" where
  "CreateRabbitmqLoggerSink L p msg level timestamp br = rabbitmq_sink L p msg (level_text level) timestamp br"

section \<open>What reaches a sink\<close>

fun call_line :: "log_call \<times> int \<Rightarrow> log_level \<times> string \<times> int" where
  "call_line (CDebug msg, now) = (DebugLevel, msg, now)"
| "call_line (CInfo msg, now) = (InfoLevel, msg, now)"
| "call_line (CWarn msg, now) = (WarnLevel, msg, now)"
| "call_line (CError err msg, now) = (ErrorLevel, msg, now)"
| "call_line (CFatal err msg, now) = (FatalLevel, msg, now)"
| "call_line (CPanic err msg, now) = (PanicLevel, msg, now)"
| "call_line (CLog level msg, now) = (level, msg, now)"

definition is_fatal :: "log_call \<times> int \<Rightarrow> bool" where
  "is_fatal c = (case fst c of CFatal err msg \<Rightarrow> True | _ \<Rightarrow> False)"

definition is_panic :: "log_call \<times> int \<Rightarrow> bool" where
  "is_panic c = (case fst c of CPanic err msg \<Rightarrow> True | _ \<Rightarrow> False)"

text \<open>The lines before the first fatal one, without those of a panic.\<close>

definition sunk_lines :: "(log_call \<times> int) list \<Rightarrow> (log_level \<times> string \<times> int) list" where
  "sunk_lines calls = map call_line (filter (\<lambda>c. \<not> is_panic c) (takeWhile (\<lambda>c. \<not> is_fatal c) calls))"

definition sink_all :: "(string \<Rightarrow> log_level \<Rightarrow> int \<Rightarrow> 's \<Rightarrow> 's) \<Rightarrow> (log_level \<times> string \<times> int) list \<Rightarrow> 's \<Rightarrow> 's" where
  "sink_all f lines s = fold (\<lambda>c. f (fst (snd c)) (fst c) (snd (snd c))) lines s"

section \<open>Facts\<close>

lemmas returning_defs = logger_Debug_def logger_Info_def logger_Warn_def logger_Error_def logger_Log_def logger_Debugf_def
  logger_Infof_def logger_Warnf_def logger_Errorf_def logger_Logf_def

lemma written_state [simp]: "snd (written gl lg l err msg st) = snd st"
  by (simp add: written_def)

text \<open>The formatting variants are the plain ones on the formatted text.\<close>

lemma formatted_variants:
  "logger_Debugf spf gl lg now format v st = logger_Debug gl lg now (spf format v) st"
  "logger_Infof spf gl lg now format v st = logger_Info gl lg now (spf format v) st"
  "logger_Warnf spf gl lg now format v st = logger_Warn gl lg now (spf format v) st"
  "logger_Errorf spf gl lg now err format v st = logger_Error gl lg now err (spf format v) st"
  "logger_Fatalf spf gl lg now err format v st = logger_Fatal gl lg now err (spf format v) st"
  "logger_Panicf spf gl lg now err format v st = logger_Panic gl lg now err (spf format v) st"
  "logger_Logf spf gl lg now level format v st = logger_Log gl lg now level (spf format v) st"
  by (simp_all add: returning_defs logger_Fatalf_def logger_Panicf_def logger_Fatal_def logger_Panic_def
      activateSinkFormatted_def [abs_def])

lemma make_call_sink:
  "snd (snd (make_call gl lg now c st)) =
     (if is_fatal (c, now) \<or> is_panic (c, now) then snd st
      else activateSink lg (fst (snd (call_line (c, now)))) (fst (call_line (c, now))) now (snd st))"
  "fst (make_call gl lg now c st) = (if is_fatal (c, now) then Exits else if is_panic (c, now) then Panics else Returns)"
  by (cases c; simp add: returning_defs logger_Fatal_def logger_Panic_def is_fatal_def is_panic_def)+

lemma call_line_time [simp]: "snd (snd (call_line (c, now))) = now"
  by (cases c) simp_all

lemma sunk_lines_Cons:
  "sunk_lines (c # cs) = (if is_fatal c then [] else if is_panic c then sunk_lines cs else call_line c # sunk_lines cs)"
  by (simp add: sunk_lines_def)

text \<open>A sink gets these lines, whatever the levels; without a sink they go nowhere.\<close>

lemma make_call_cases:
  obtains st' where "make_call gl lg now c st =
      (if is_fatal (c, now) then Exits else if is_panic (c, now) then Panics else Returns, st')"
    and "snd st' = (if is_fatal (c, now) \<or> is_panic (c, now) then snd st
      else activateSink lg (fst (snd (call_line (c, now)))) (fst (call_line (c, now))) now (snd st))"
proof -
  show thesis
    by (rule that [of "snd (make_call gl lg now c st)"])
      (rule prod_eqI, simp_all only: make_call_sink fst_conv snd_conv)
qed

lemma log_run_sink:
  "snd (snd (log_run gl lg calls st)) = (case lo_sink lg of None \<Rightarrow> snd st | Some f \<Rightarrow> sink_all f (sunk_lines calls) (snd st))"
proof (induction calls arbitrary: st)
  case Nil
  show ?case by (simp add: sunk_lines_def sink_all_def split: option.split)
next
  case (Cons x calls)
  obtain c now where x: "x = (c, now)" by fastforce
  show ?case
    by (rule make_call_cases [of gl lg now c st])
      (auto simp: x Cons.IH sunk_lines_Cons sink_all_def activateSink_def split: option.split)
qed

lemma log_run_exits: "fst (log_run gl lg calls st) = (if \<exists>c\<in>set calls. is_fatal c then Exits else Returns)"
proof (induction calls arbitrary: st)
  case Nil
  show ?case by simp
next
  case (Cons x calls)
  obtain c now where x: "x = (c, now)" by fastforce
  show ?case by (rule make_call_cases [of gl lg now c st]) (auto simp: x Cons.IH)
qed

end
