(* ===== verification/Routing.thy ===== *)
theory Routing
  imports Config Logger LogAudit Identity IssuanceFlow
begin

text \<open>
  Where the messages of the services go: the exchanges and bindings of
  \<open>src/system/rabbitmq/definitions.json\<close>, the publishers of the two \<open>config.json\<close>, and what the
  consumers make of what arrives.
\<close>

section \<open>The broker\<close>

text \<open>
  A fanout exchange sends a message to every queue bound to it, a direct one to those bound under its
  routing key, a topic one to those whose binding key matches: words between dots, a star for one
  word, a hash for any number. The empty key has no word.
\<close>

datatype exchange_kind = Fanout | Direct | Topic

record binding =
  bn_source :: string
  bn_queue :: string
  bn_key :: string

definition topic_words :: "string \<Rightarrow> string list" where
  "topic_words key = (if key = [] then [] else split_on CHR ''.'' key)"

fun topic_match :: "string list \<Rightarrow> string list \<Rightarrow> bool" where
  "topic_match [] ks = (ks = [])"
| "topic_match (p # ps) [] = (p = ''#'' \<and> topic_match ps [])"
| "topic_match (p # ps) (k # ks) =
     (if p = ''#'' then topic_match ps (k # ks) \<or> topic_match (p # ps) ks
      else (p = ''*'' \<or> p = k) \<and> topic_match ps ks)"

fun binding_matches :: "exchange_kind \<Rightarrow> string \<Rightarrow> string \<Rightarrow> bool" where
  "binding_matches Fanout bkey key = True"
| "binding_matches Direct bkey key = (bkey = key)"
| "binding_matches Topic bkey key = topic_match (topic_words bkey) (topic_words key)"

definition system_exchanges :: "string \<rightharpoonup> exchange_kind" where
  "system_exchanges = [''verifiers'' \<mapsto> Topic, ''identity'' \<mapsto> Direct, ''log_audit'' \<mapsto> Fanout]"

definition system_bindings :: "binding list" where
  "system_bindings =
     [\<lparr>bn_source = ''verifiers'', bn_queue = ''unverified'', bn_key = []\<rparr>,
      \<lparr>bn_source = ''verifiers'', bn_queue = ''verified.positive'', bn_key = ''positive''\<rparr>,
      \<lparr>bn_source = ''verifiers'', bn_queue = ''verified.negative'', bn_key = ''negative''\<rparr>,
      \<lparr>bn_source = ''identity'', bn_queue = ''proof.results'', bn_key = ''proof.results''\<rparr>,
      \<lparr>bn_source = ''identity'', bn_queue = ''proof.failures'', bn_key = ''proof.failures''\<rparr>,
      \<lparr>bn_source = ''log_audit'', bn_queue = ''logs.blockchain'', bn_key = []\<rparr>,
      \<lparr>bn_source = ''log_audit'', bn_queue = ''logs.api'', bn_key = []\<rparr>,
      \<lparr>bn_source = ''log_audit'', bn_queue = ''logs.guest'', bn_key = []\<rparr>,
      \<lparr>bn_source = ''log_audit'', bn_queue = ''logs.admin'', bn_key = []\<rparr>]"

text \<open>The queues a message reaches, and the bodies a queue gets, in the order of their publication.\<close>

definition reaches :: "string \<Rightarrow> string \<Rightarrow> string \<Rightarrow> bool" where
  "reaches exchange key queue =
     (case system_exchanges exchange of None \<Rightarrow> False
      | Some k \<Rightarrow> list_ex (\<lambda>b. bn_source b = exchange \<and> bn_queue b = queue \<and> binding_matches k (bn_key b) key) system_bindings)"

definition delivered :: "string \<Rightarrow> broker \<Rightarrow> string list" where
  "delivered queue br =
     map (\<lambda>m. snd (snd m)) (filter (\<lambda>m. reaches (fst m) (fst (snd m)) queue) (br_sent br))"

text \<open>A publisher of a service, as its code gets it by the alias.\<close>

definition configured_publisher :: "rabbitmq_config \<Rightarrow> string \<Rightarrow> publisher" where
  "configured_publisher c alias =
     (case InitializePublisherRegistry (\<lambda>i. True) (rc_publishers (rabbitmq_MapToDomain c)) None of
        Some reg \<Rightarrow> (case GetPublisher reg alias of Some (Some p) \<Rightarrow> p | _ \<Rightarrow> undefined)
      | None \<Rightarrow> undefined)"

lemma configured_publishers:
  "configured_publisher api_rabbitmq ''VerifiersUnverifiedPublisher'' = \<lparr>pb_exchange = ''verifiers'', pb_routing_key = ''unverified.#''\<rparr>"
  "configured_publisher api_rabbitmq ''LogPublisher'' = \<lparr>pb_exchange = ''log_audit'', pb_routing_key = []\<rparr>"
  "configured_publisher blockchain_rabbitmq ''LogPublisher'' = \<lparr>pb_exchange = ''log_audit'', pb_routing_key = []\<rparr>"
  "configured_publisher blockchain_rabbitmq ''IdentityResultsPublisher'' = \<lparr>pb_exchange = ''identity'', pb_routing_key = ''proof.results''\<rparr>"
  "configured_publisher blockchain_rabbitmq ''IdentityFailurePublisher'' = \<lparr>pb_exchange = ''identity'', pb_routing_key = ''proof.failures''\<rparr>"
  by (simp_all add: configured_publisher_def api_rabbitmq_def blockchain_rabbitmq_def InitializePublisherRegistry_def GetPublisher_def)

lemma delivered_publish:
  "delivered q (snd (Publish L p v br)) = delivered q br @
     (case Serialize L v of Inl e \<Rightarrow> []
      | Inr b \<Rightarrow> if ok (fst (Publish L p v br)) \<and> reaches (pb_exchange p) (pb_routing_key p) q then [b] else [])"
  by (simp add: delivered_def publish_sent split: sum.splits)

lemma unverified_unroutable: "\<not> reaches ''verifiers'' ''unverified.#'' q"
proof -
  have "topic_words ''unverified.#'' = [''unverified'', ''#'']" "topic_words ''positive'' = [''positive'']"
    "topic_words ''negative'' = [''negative'']" "topic_words [] = []" by code_simp+
  then show ?thesis by (simp add: reaches_def system_exchanges_def system_bindings_def)
qed

lemma logs_everywhere: "reaches ''log_audit'' key ''logs.api''" "reaches ''log_audit'' key ''logs.blockchain''"
  by (simp_all add: reaches_def system_exchanges_def system_bindings_def)

text \<open>
  C36. A verification that is queued reaches nobody. The API publishes it under the key \<open>unverified.#\<close>,
  a text and not a pattern there, and the queue of the verifiers is bound under the empty key: no
  queue of the broker gets the message, although the caller is answered 202.
\<close>

theorem queued_verification_reaches_nobody:
  "delivered q (snd (snd (QueueVerification L U fresh (configured_publisher api_rabbitmq ''VerifiersUnverifiedPublisher'') bound (db, br))))
    = delivered q br"
proof -
  obtain r db' br' where res: "QueueVerification L U fresh (configured_publisher api_rabbitmq ''VerifiersUnverifiedPublisher'') bound (db, br)
    = (r, db', br')" by (metis prod.exhaust)
  have "delivered q (snd (Publish L (configured_publisher api_rabbitmq ''VerifiersUnverifiedPublisher'') v br)) = delivered q br" for v
    by (auto simp: delivered_publish configured_publishers unverified_unroutable split: sum.splits)
  then have "delivered q br' = delivered q br"
    using res
    by (auto simp: QueueVerification_def QueueVerification_service_def split: option.splits sum.splits prod.splits if_splits)
       (metis snd_conv)+
  then show ?thesis by (simp add: res)
qed

section \<open>Logs\<close>

lemma log_names:
  "equal_fold ''level'' ''level''" "\<not> equal_fold ''message'' ''level''" "\<not> equal_fold ''timestamp'' ''level''"
  "\<not> equal_fold ''level'' ''message''" "equal_fold ''message'' ''message''" "\<not> equal_fold ''timestamp'' ''message''"
  "\<not> equal_fold ''level'' ''timestamp''" "\<not> equal_fold ''message'' ''timestamp''" "equal_fold ''timestamp'' ''timestamp''"
  "equal_fold ''T'' ''T''"
  by code_simp+

lemma decode_logger_json:
  assumes "in_int64 (lm_timestamp m)"
  shows "decode_logger_message (to_json (logger_json m)) = Inr m"
  using assms
  by (simp add: decode_logger_message_def logger_json_def decode_timestamp_def decode_simps log_names parse_int64_str)

text \<open>A level is short enough for its column.\<close>

lemma level_text_fits: "char_count (level_text l) \<le> 10"
proof -
  have c: "char_count s \<le> length s" for s unfolding char_count_def by (rule length_filter_le)
  obtain w where w: "l = Level w" by (cases l) simp
  have "sint w < 128" "- 128 \<le> sint w" using sint_lt [of w] sint_ge [of w] by simp_all
  then have "nat \<bar>sint w\<bar> < 10 ^ 3" by simp
  then have "length (nat_str (nat \<bar>sint w\<bar>)) \<le> 3" by (rule length_nat_str) simp
  then have "length (int_str (sint w)) \<le> 4" by (auto simp: int_str_def abs_if split: if_splits)
  then have "length (level_text l) \<le> 10" by (auto simp: level_text_def w)
  then show ?thesis using c [of "level_text l"] by linarith
qed

text \<open>
  A message that arrives as it was sent: its text survives the JSON, and Postgres takes it.
\<close>

definition log_travels :: "golib \<Rightarrow> logger_message \<Rightarrow> bool" where
  "log_travels L m =
     (in_int64 (lm_timestamp m) \<and> CHR 0x00 \<notin> set (lm_message m) \<and>
      (case gl_json_text L (logger_json m) of None \<Rightarrow> False
       | Some t \<Rightarrow> gl_json_parse L t = Some (to_json (logger_json m))))"

definition line_message :: "log_level \<times> string \<times> int \<Rightarrow> logger_message" where
  "line_message c = \<lparr>lm_level = level_text (fst c), lm_message = fst (snd c), lm_timestamp = snd (snd c)\<rparr>"

lemma one_line_published:
  assumes "log_travels L (line_message c)" and "br_faults br = []"
  shows "\<exists>b. let br' = CreateRabbitmqLoggerSink L \<lparr>pb_exchange = ''log_audit'', pb_routing_key = k\<rparr>
        (fst (snd c)) (fst c) (snd (snd c)) br
      in br_faults br' = [] \<and> br_sent br' = br_sent br @ [(''log_audit'', k, b)]
         \<and> unmarshal L decode_logger_message b = Inr (line_message c)"
proof -
  obtain t where t: "gl_json_text L (logger_json (line_message c)) = Some t"
      "gl_json_parse L t = Some (to_json (logger_json (line_message c)))"
    using assms(1) by (auto simp: log_travels_def split: option.splits)
  have "in_int64 (lm_timestamp (line_message c))" using assms(1) by (simp add: log_travels_def)
  then have u: "unmarshal L decode_logger_message t = Inr (line_message c)"
    by (simp add: unmarshal_def t decode_logger_json)
  let ?br = "snd (Publish L \<lparr>pb_exchange = ''log_audit'', pb_routing_key = k\<rparr> (logger_json (line_message c)) br)"
  have "CreateRabbitmqLoggerSink L \<lparr>pb_exchange = ''log_audit'', pb_routing_key = k\<rparr>
      (fst (snd c)) (fst c) (snd (snd c)) br = ?br"
    by (simp add: CreateRabbitmqLoggerSink_def rabbitmq_sink_def line_message_def)
  moreover have "br_faults ?br = [] \<and> br_sent ?br = br_sent br @ [(''log_audit'', k, t)]"
    using assms(2) by (simp add: Publish_def Serialize_def t channel_publish_def)
  ultimately show ?thesis using u by (simp add: Let_def)
qed

lemma level_text_clean: "CHR 0x00 \<notin> set (level_text l)"
proof -
  have "CHR 0x00 \<notin> set (nat_str n)" for n
    using nat_str_digits [of n] by (auto simp: list_all_iff is_digit_def)
  then have "CHR 0x00 \<notin> set (int_str i)" for i by (simp add: int_str_def)
  then show ?thesis by (simp add: level_text_def)
qed

lemma one_line_stored:
  assumes "unmarshal L decode_logger_message b = Inr (line_message c)" and "log_travels L (line_message c)"
    and "db_faults db = []"
  shows "log_sink_worker L b db = db\<lparr>db_logs := db_logs db @
    [\<lparr>lg_id = next_id (db_logs db), lg_level = level_text (fst c), lg_message = fst (snd c), lg_timestamp = snd (snd c),
      lg_service = ''api''\<rparr>]\<rparr>"
  using assms level_text_fits [of "fst c"] level_text_clean [of "fst c"]
  by (simp add: log_sink_worker_def ProcessLogMessage_def CreateLogEntry_def statement_def line_message_def apiServiceName_def
      log_travels_def)

lemma run_published:
  assumes "\<forall>c\<in>set lines. log_travels L (line_message c)" and "br_faults br = []"
  shows "\<exists>bodies. br_sent (sink_all (CreateRabbitmqLoggerSink L \<lparr>pb_exchange = ''log_audit'', pb_routing_key = k\<rparr>) lines br)
      = br_sent br @ map (\<lambda>b. (''log_audit'', k, b)) bodies
    \<and> map (unmarshal L decode_logger_message) bodies = map (\<lambda>c. Inr (line_message c)) lines"
  using assms
proof (induction lines arbitrary: br)
  case Nil
  then show ?case by (simp add: sink_all_def)
next
  case (Cons c lines)
  let ?f = "CreateRabbitmqLoggerSink L \<lparr>pb_exchange = ''log_audit'', pb_routing_key = k\<rparr>"
  define br1 where "br1 = ?f (fst (snd c)) (fst c) (snd (snd c)) br"
  obtain b where b: "br_faults br1 = []" "br_sent br1 = br_sent br @ [(''log_audit'', k, b)]"
      "unmarshal L decode_logger_message b = Inr (line_message c)"
    using one_line_published [of L c br k] Cons.prems by (auto simp: br1_def Let_def)
  obtain bodies where "br_sent (sink_all ?f lines br1) = br_sent br1 @ map (\<lambda>b. (''log_audit'', k, b)) bodies"
      "map (unmarshal L decode_logger_message) bodies = map (\<lambda>c. Inr (line_message c)) lines"
    using Cons.IH [of br1] Cons.prems b(1) by auto
  then show ?case using b by (intro exI [of _ "b # bodies"]) (simp add: sink_all_def br1_def)
qed

definition audit_row :: "log_row \<Rightarrow> string \<times> string \<times> int \<times> string" where
  "audit_row r = (lg_level r, lg_message r, lg_timestamp r, lg_service r)"

lemma run_stored:
  assumes "map (unmarshal L decode_logger_message) bodies = map (\<lambda>c. Inr (line_message c)) lines"
    and "\<forall>c\<in>set lines. log_travels L (line_message c)" and "db_faults db = []"
  shows "map audit_row (db_logs (snd (StartConsuming (\<lambda>b d. (True, log_sink_worker L b d)) bodies db)))
    = map audit_row (db_logs db) @ map (\<lambda>c. (level_text (fst c), fst (snd c), snd (snd c), ''api'')) lines"
  using assms
proof (induction lines arbitrary: bodies db)
  case (Cons c lines)
  then obtain b bs where b: "bodies = b # bs" "unmarshal L decode_logger_message b = Inr (line_message c)"
    "map (unmarshal L decode_logger_message) bs = map (\<lambda>c. Inr (line_message c)) lines" by auto
  note st = one_line_stored [OF b(2) _ Cons.prems(3)]
  show ?case using Cons.IH [OF b(3), of "log_sink_worker L b db"] Cons.prems(2,3) by (simp add: b(1) st audit_row_def)
qed simp

text \<open>
  C35. Which lines of a service are audited. A process logs on its default logger, \<open>early\<close> before it adds
  the sink of the queue and \<open>calls\<close> afterwards. Of the lines of \<open>calls\<close>, those before the first fatal one
  and without the ones that panic, and no others, come through the queue of the API into its table,
  in order, with their level, message and time, and under the name of the API, whichever service
  logged them; the level of the logger and the global one play no role. The early lines go nowhere, and
  the line that ends the process is lost. The queue of the chain's worker gets the same messages.
\<close>

theorem logged_lines_are_audited:
  assumes "lo_sink lg = None" and "config \<in> {api_rabbitmq, blockchain_rabbitmq}"
    and "log_run gl lg early (out, br) = (Returns, out1, br1)"
    and "log_run gl (AddSinkToLoggerInstance (CreateRabbitmqLoggerSink L (configured_publisher config ''LogPublisher'')) lg)
      calls (out1, br1) = (after', out2, br2)"
    and "\<forall>c\<in>set (sunk_lines calls). log_travels L (line_message c)" and "br_faults br = []" and "db_faults db = []"
  shows "\<exists>bodies. delivered ''logs.api'' br2 = delivered ''logs.api'' br @ bodies
    \<and> delivered ''logs.blockchain'' br2 = delivered ''logs.blockchain'' br @ bodies
    \<and> map audit_row (db_logs (snd (StartConsuming (\<lambda>b d. (True, log_sink_worker L b d)) bodies db)))
      = map audit_row (db_logs db) @ map (\<lambda>c. (level_text (fst c), fst (snd c), snd (snd c), ''api'')) (sunk_lines calls)"
proof -
  have p: "configured_publisher config ''LogPublisher'' = \<lparr>pb_exchange = ''log_audit'', pb_routing_key = []\<rparr>"
    using assms(2) by (auto simp: configured_publishers)
  have "br1 = br" using log_run_sink [of gl lg early "(out, br)"] assms(1,3) by simp
  moreover have "br2 = sink_all (CreateRabbitmqLoggerSink L (configured_publisher config ''LogPublisher'')) (sunk_lines calls) br1"
    using log_run_sink [of gl "AddSinkToLoggerInstance (CreateRabbitmqLoggerSink L (configured_publisher config ''LogPublisher'')) lg"
        calls "(out1, br1)"] assms(4)
    by (simp add: AddSinkToLoggerInstance_def)
  ultimately obtain bodies where "br_sent br2 = br_sent br @ map (\<lambda>b. (''log_audit'', [], b)) bodies"
      and u: "map (unmarshal L decode_logger_message) bodies = map (\<lambda>c. Inr (line_message c)) (sunk_lines calls)"
    using run_published [OF assms(5,6), of "[]"] by (auto simp: p)
  then have "delivered q br2 = delivered q br @ bodies" if "reaches ''log_audit'' [] q" for q
    using that by (simp add: delivered_def filter_map comp_def)
  then show ?thesis using run_stored [OF u assms(5,7)] logs_everywhere by blast
qed

definition log_lib :: golib where
  "log_lib = plain_lib\<lparr>gl_json_text := \<lambda>v. Some ''m'',
     gl_json_parse := \<lambda>t. Some (to_json (logger_json \<lparr>lm_level = ''warn'', lm_message = ''hot'', lm_timestamp = 5\<rparr>))\<rparr>"

text \<open>Of six lines the two warnings are audited.\<close>

theorem logged_lines_are_audited_witness:
  "\<exists>bodies. map audit_row (db_logs (snd (StartConsuming (\<lambda>b d. (True, log_sink_worker log_lib b d)) bodies empty_database)))
    = [(''warn'', ''hot'', 5, ''api''), (''warn'', ''hot'', 5, ''api'')]"
proof -
  let ?calls = "[(CWarn ''hot'', 5), (CPanic None ''lost'', 6), (CLog WarnLevel ''hot'', 5), (CFatal None ''end'', 7), (CInfo ''never'', 8)]"
  let ?lg = "WithLevel ErrorLevel New :: broker logger"
  have t: "level_text WarnLevel = ''warn''" by (simp add: level_text_def level_defs)
  have k: "sunk_lines ?calls = [(WarnLevel, ''hot'', 5), (WarnLevel, ''hot'', 5)]"
    by (simp add: sunk_lines_def is_fatal_def is_panic_def)
  have c: "\<forall>c\<in>set (sunk_lines ?calls). log_travels log_lib (line_message c)"
    by (simp add: k log_travels_def log_lib_def line_message_def t in_int64_def)
  have e: "db_logs empty_database = []" "db_faults empty_database = []" by (simp_all add: empty_database_def)
  let ?br = "\<lparr>br_sent = [], br_faults = []\<rparr>"
  have f: "br_faults ?br = []" by simp
  have n: "lo_sink ?lg = None" by (simp add: WithLevel_def New_def)
  obtain out1 br1 where r1: "log_run DebugLevel ?lg [(CInfo ''early'', 1)] ([], ?br) = (Returns, out1, br1)"
    by (cases "log_run DebugLevel ?lg [(CInfo ''early'', 1)] ([], ?br)") (simp add: logger_Info_def)
  obtain a out2 br2 where r2: "log_run DebugLevel (AddSinkToLoggerInstance (CreateRabbitmqLoggerSink log_lib
      (configured_publisher blockchain_rabbitmq ''LogPublisher'')) ?lg) ?calls (out1, br1) = (a, out2, br2)" by (metis prod.collapse)
  obtain bodies where "map audit_row (db_logs (snd (StartConsuming (\<lambda>b d. (True, log_sink_worker log_lib b d)) bodies empty_database)))
      = map audit_row (db_logs empty_database) @ map (\<lambda>c. (level_text (fst c), fst (snd c), snd (snd c), ''api'')) (sunk_lines ?calls)"
    using logged_lines_are_audited [OF n _ r1 r2 c f e(2)] by blast
  then show ?thesis by (intro exI [of _ bodies]) (simp add: e k t)
qed

end
