(* ===== verification/Server.thy ===== *)
theory Server
  imports BlockchainRequest GoStrings
begin

text \<open>
  The HTTP side of the three services: \<open>pkg/rest\<close>, the building of the router in
  \<open>pkg/app_builder\<close>, the middlewares, the routes of the \<open>main.go\<close> files, and the demo verifier that
  the wallet serves. Of gin the code relies on this: a group made from the engine copies the
  handlers the engine has then, and a route copies those its group has.
\<close>

section \<open>Middlewares\<close>

record http_request =
  hq_method :: string
  hq_path :: string
  hq_origin :: string

text \<open>The headers a middleware sets, and the status with which it ends the request, if it does.\<close>

type_synonym middleware = "http_request \<Rightarrow> (string \<times> string) list \<times> int option"

definition CORSMiddleware :: middleware where
  "CORSMiddleware c =
     ([(''Access-Control-Allow-Origin'', hq_origin c), (''Access-Control-Allow-Credentials'', ''true''),
       (''Access-Control-Allow-Headers'', ''Content-Type, Authorization''),
       (''Access-Control-Allow-Methods'', ''GET, POST, PUT, DELETE, OPTIONS'')],
      if hq_method c = ''OPTIONS'' then Some 204 else None)"

text \<open>Its body is commented out.\<close>

definition InternalAuthMiddleware :: middleware where
  "InternalAuthMiddleware c = ([], None)"

text \<open>The two middlewares of \<open>gin.Default()\<close> log and recover.\<close>

definition gin_default :: "middleware list" where
  "gin_default = [\<lambda>c. ([], None), \<lambda>c. ([], None)]"

text \<open>The wallet's, around its whole mux.\<close>

definition WithCORS :: "string \<Rightarrow> middleware" where
  "WithCORS issuerBaseURL r =
     ([(''Access-Control-Allow-Origin'', if hq_origin r = [] then issuerBaseURL else hq_origin r), (''Vary'', ''Origin''),
       (''Access-Control-Allow-Credentials'', ''true''), (''Access-Control-Allow-Headers'', ''Content-Type, Authorization''),
       (''Access-Control-Allow-Methods'', ''GET,POST,OPTIONS'')],
      if hq_method r = ''OPTIONS'' then Some 204 else None)"

text \<open>A chain runs up to the first that ends the request; \<open>None\<close> when the handler's turn comes.\<close>

fun run_chain :: "middleware list \<Rightarrow> http_request \<Rightarrow> (string \<times> string) list \<times> int option" where
  "run_chain [] c = ([], None)"
| "run_chain (m # ms) c =
     (case snd (m c) of
        Some st \<Rightarrow> m c
      | None \<Rightarrow> apfst ((@) (fst (m c))) (run_chain ms c))"

section \<open>The router\<close>

record 'h route =
  rt_method :: int
  rt_group :: string
  rt_path :: string
  rt_handler :: 'h

definition NewRoute :: "int \<Rightarrow> string \<Rightarrow> string \<Rightarrow> 'h \<Rightarrow> 'h route" where
  "NewRoute method grp path handler = \<lparr>rt_method = method, rt_group = grp, rt_path = path, rt_handler = handler\<rparr>"

definition NewMiddleware :: "string \<Rightarrow> middleware \<Rightarrow> string \<times> middleware" where
  "NewMiddleware grp handler = (grp, handler)"

text \<open>The methods are numbered from 0 on.\<close>

definition GET :: int where "GET = 0"
definition POST :: int where "POST = 1"
definition PUT :: int where "PUT = 2"
definition PATCH :: int where "PATCH = 3"

definition method_name :: "int \<Rightarrow> string option" where
  "method_name m =
     (if m = GET then Some ''GET'' else if m = POST then Some ''POST'' else if m = PUT then Some ''PUT''
      else if m = PATCH then Some ''PATCH'' else None)"

text \<open>The engine's handlers, the groups made so far with theirs, the routes with their chains.\<close>

record 'h gin_router =
  gn_globals :: "middleware list"
  gn_groups :: "string \<rightharpoonup> middleware list"
  gn_table :: "(string \<times> string \<times> string \<times> middleware list \<times> 'h) list"

definition ensure_group :: "string \<Rightarrow> 'h gin_router \<Rightarrow> 'h gin_router" where
  "ensure_group g r =
     (case gn_groups r g of Some hs \<Rightarrow> r | None \<Rightarrow> r\<lparr>gn_groups := (gn_groups r)(g \<mapsto> gn_globals r)\<rparr>)"

definition add_middleware :: "string \<times> middleware \<Rightarrow> 'h gin_router \<Rightarrow> 'h gin_router" where
  "add_middleware m r =
     (if fst m = ''*'' then r\<lparr>gn_globals := gn_globals r @ [snd m]\<rparr>
      else let r1 = ensure_group (fst m) r
           in r1\<lparr>gn_groups := (gn_groups r1)(fst m := map_option (\<lambda>hs. hs @ [snd m]) (gn_groups r1 (fst m)))\<rparr>)"

text \<open>
  A method without a name is only warned of, after its group has been made. That gin panics on a route
  that conflicts with an earlier one is left out: no two routes of the repository have the same method
  and path (\<open>mounted_distinct\<close>), and where two differ in a parameter only, it has the same name.
\<close>

definition add_route :: "'h route \<Rightarrow> 'h gin_router \<Rightarrow> 'h gin_router" where
  "add_route rt r =
     (let r1 = ensure_group (rt_group rt) r
      in case (method_name (rt_method rt), gn_groups r1 (rt_group rt)) of
           (Some m, Some hs) \<Rightarrow> r1\<lparr>gn_table := gn_table r1 @ [(m, rt_group rt, rt_path rt, hs, rt_handler rt)]\<rparr>
         | _ \<Rightarrow> r1)"

definition build_router :: "(string \<times> middleware) list \<Rightarrow> 'h route list \<Rightarrow> 'h gin_router" where
  "build_router middlewares routes =
     fold add_route routes (fold add_middleware middlewares
       \<lparr>gn_globals = gin_default, gn_groups = Map.empty, gn_table = []\<rparr>)"

section \<open>The chains of the routes\<close>

text \<open>
  The reference: a route has the engine's middlewares and those of its group, in order; when its group
  has some, of the engine's only those registered before the first of them.
\<close>

definition own_middlewares :: "(string \<times> middleware) list \<Rightarrow> string \<Rightarrow> (string \<times> middleware) list" where
  "own_middlewares mws g = (if g = ''*'' then [] else filter (\<lambda>m. fst m = g) mws)"

definition global_middlewares :: "(string \<times> middleware) list \<Rightarrow> middleware list" where
  "global_middlewares mws = map snd (filter (\<lambda>m. fst m = ''*'') mws)"

definition route_chain :: "(string \<times> middleware) list \<Rightarrow> string \<Rightarrow> middleware list" where
  "route_chain mws g =
     (if own_middlewares mws g = [] then gin_default @ global_middlewares mws
      else gin_default @ global_middlewares (takeWhile (\<lambda>m. fst m \<noteq> g) mws) @ map snd (own_middlewares mws g))"

definition after_middlewares :: "(string \<times> middleware) list \<Rightarrow> 'h gin_router" where
  "after_middlewares mws = fold add_middleware mws \<lparr>gn_globals = gin_default, gn_groups = Map.empty, gn_table = []\<rparr>"

lemma add_middleware_simps:
  "gn_table (add_middleware m r) = gn_table r"
  "gn_globals (add_middleware m r) = gn_globals r @ (if fst m = ''*'' then [snd m] else [])"
  "gn_groups (add_middleware m r) = (if fst m = ''*'' then gn_groups r
     else (gn_groups r)(fst m \<mapsto> (case gn_groups r (fst m) of None \<Rightarrow> gn_globals r | Some hs \<Rightarrow> hs) @ [snd m]))"
  by (auto simp: add_middleware_def ensure_group_def Let_def fun_eq_iff split: option.splits)

lemma own_middlewares_snoc:
  "own_middlewares (mws @ [m]) g = own_middlewares mws g @ (if g \<noteq> ''*'' \<and> fst m = g then [m] else [])"
  by (auto simp: own_middlewares_def)

lemma global_middlewares_snoc:
  "global_middlewares (mws @ [m]) = global_middlewares mws @ (if fst m = ''*'' then [snd m] else [])"
  by (simp add: global_middlewares_def)

lemma route_chain_own:
  assumes "own_middlewares mws g \<noteq> []"
  shows "route_chain (mws @ [m]) g = route_chain mws g @ (if fst m = g then [snd m] else [])"
proof -
  from assms obtain x where x: "x \<in> set mws" "fst x = g" "g \<noteq> ''*''"
    by (auto simp: own_middlewares_def filter_empty_conv split: if_splits)
  then have "takeWhile (\<lambda>m. fst m \<noteq> g) (mws @ [m]) = takeWhile (\<lambda>m. fst m \<noteq> g) mws"
    by (intro takeWhile_append1) auto
  then show ?thesis using assms x(3) by (simp add: route_chain_def own_middlewares_snoc)
qed

lemma route_chain_first:
  assumes "own_middlewares mws g = []" and "fst m = g" and "g \<noteq> ''*''"
  shows "route_chain (mws @ [m]) g = gin_default @ global_middlewares mws @ [snd m]"
proof -
  have "\<forall>x\<in>set mws. fst x \<noteq> g" using assms(1,3) by (auto simp: own_middlewares_def filter_empty_conv)
  then have "takeWhile (\<lambda>m. fst m \<noteq> g) (mws @ [m]) = mws @ takeWhile (\<lambda>m. fst m \<noteq> g) [m]"
    by (intro takeWhile_append2) simp
  then have "takeWhile (\<lambda>m. fst m \<noteq> g) (mws @ [m]) = mws" using assms(2) by simp
  then show ?thesis using assms by (simp add: route_chain_def own_middlewares_snoc)
qed

lemma after_middlewares_state:
  "gn_globals (after_middlewares mws :: 'h gin_router) = gin_default @ global_middlewares mws
    \<and> gn_groups (after_middlewares mws :: 'h gin_router)
      = (\<lambda>g. if own_middlewares mws g = [] then None else Some (route_chain mws g))
    \<and> gn_table (after_middlewares mws :: 'h gin_router) = []"
proof (induction mws rule: rev_induct)
  case Nil
  show ?case by (simp add: after_middlewares_def global_middlewares_def own_middlewares_def)
next
  case (snoc m mws)
  let ?r = "after_middlewares mws :: 'h gin_router"
  have s: "(after_middlewares (mws @ [m]) :: 'h gin_router) = add_middleware m ?r"
    by (simp add: after_middlewares_def)
  have "gn_groups (add_middleware m ?r) g =
      (if own_middlewares (mws @ [m]) g = [] then None else Some (route_chain (mws @ [m]) g))" for g
  proof (cases "own_middlewares mws g = []")
    case True
    then show ?thesis
      using snoc route_chain_first [OF True, of m]
      by (auto simp: add_middleware_simps own_middlewares_snoc)
  next
    case False
    then have "g \<noteq> ''*''" by (auto simp: own_middlewares_def)
    then show ?thesis
      using snoc route_chain_own [OF False, of m] False
      by (auto simp: add_middleware_simps own_middlewares_snoc)
  qed
  then show ?case using snoc by (simp add: s add_middleware_simps(1,2) global_middlewares_snoc fun_eq_iff)
qed

text \<open>The table entry of a route.\<close>

definition table_entry :: "(string \<times> middleware) list \<Rightarrow> 'h route \<Rightarrow> (string \<times> string \<times> string \<times> middleware list \<times> 'h) option" where
  "table_entry mws rt = map_option (\<lambda>m. (m, rt_group rt, rt_path rt, route_chain mws (rt_group rt), rt_handler rt))
     (method_name (rt_method rt))"

lemma add_route_table:
  assumes "\<forall>g hs. gn_groups r g = Some hs \<longrightarrow> hs = route_chain mws g"
    and "\<forall>g. gn_groups r g = None \<longrightarrow> route_chain mws g = gn_globals r"
  shows "gn_table (add_route rt r) = gn_table r @ List.map_filter (table_entry mws) [rt]
    \<and> gn_globals (add_route rt r) = gn_globals r
    \<and> (\<forall>g hs. gn_groups (add_route rt r) g = Some hs \<longrightarrow> hs = route_chain mws g)
    \<and> (\<forall>g. gn_groups (add_route rt r) g = None \<longrightarrow> route_chain mws g = gn_globals r)"
proof -
  let ?r1 = "ensure_group (rt_group rt) r"
  have g: "gn_groups ?r1 (rt_group rt) = Some (route_chain mws (rt_group rt))"
    using assms by (auto simp: ensure_group_def split: option.splits)
  have r1: "gn_table ?r1 = gn_table r" "gn_globals ?r1 = gn_globals r"
    "\<forall>g hs. gn_groups ?r1 g = Some hs \<longrightarrow> hs = route_chain mws g" "\<forall>g. gn_groups ?r1 g = None \<longrightarrow> route_chain mws g = gn_globals r"
    using assms by (auto simp: ensure_group_def split: option.splits)
  show ?thesis
  proof (cases "method_name (rt_method rt)")
    case None
    then have "add_route rt r = ?r1" "table_entry mws rt = None" by (simp_all add: add_route_def Let_def table_entry_def)
    then show ?thesis using r1 by (simp only: map_filter_simps) simp
  next
    case (Some m)
    let ?e = "(m, rt_group rt, rt_path rt, route_chain mws (rt_group rt), rt_handler rt)"
    have "add_route rt r = ?r1\<lparr>gn_table := gn_table ?r1 @ [?e]\<rparr>" "table_entry mws rt = Some ?e"
      using Some g by (simp_all add: add_route_def Let_def table_entry_def)
    then show ?thesis using r1 by (simp only: map_filter_simps) simp
  qed
qed

lemma add_routes_table:
  assumes "\<forall>g hs. gn_groups r g = Some hs \<longrightarrow> hs = route_chain mws g"
    and "\<forall>g. gn_groups r g = None \<longrightarrow> route_chain mws g = gn_globals r"
  shows "gn_table (fold add_route routes r) = gn_table r @ List.map_filter (table_entry mws) routes"
  using assms
proof (induction routes arbitrary: r)
  case Nil
  then show ?case by (simp add: map_filter_simps)
next
  case (Cons rt routes)
  from add_route_table [OF Cons.prems, of rt]
  have t: "gn_table (add_route rt r) = gn_table r @ List.map_filter (table_entry mws) [rt]"
    and p: "\<forall>g hs. gn_groups (add_route rt r) g = Some hs \<longrightarrow> hs = route_chain mws g"
      "\<forall>g. gn_groups (add_route rt r) g = None \<longrightarrow> route_chain mws g = gn_globals (add_route rt r)" by simp_all
  show ?case using Cons.IH [OF p] t by (cases "table_entry mws rt") (simp_all add: map_filter_simps)
qed

text \<open>
  C37. The router runs what the reference says: each route with a known method, in the order given, gets
  the engine's middlewares and then those of its group. The order of the middlewares matters: one for
  the engine that is added after one for a group is not run for the routes of that group.
\<close>

theorem router_chains:
  "gn_table (build_router mws routes) = List.map_filter (table_entry mws) routes"
proof -
  let ?r = "after_middlewares mws :: 'a gin_router"
  have "\<forall>g hs. gn_groups ?r g = Some hs \<longrightarrow> hs = route_chain mws g"
    "\<forall>g. gn_groups ?r g = None \<longrightarrow> route_chain mws g = gn_globals ?r"
    using after_middlewares_state [of mws, where ?'h = 'a] by (auto simp: route_chain_def split: if_splits)
  from add_routes_table [OF this, of routes] show ?thesis
    using after_middlewares_state [of mws, where ?'h = 'a] by (simp add: build_router_def after_middlewares_def)
qed

section \<open>The routes of the API and the blockchain client\<close>

text \<open>The handlers by their names in the code.\<close>

definition api_middlewares :: "(string \<times> middleware) list" where
  "api_middlewares = [NewMiddleware ''*'' CORSMiddleware, NewMiddleware ''v1/internal'' InternalAuthMiddleware]"

definition api_routes :: "string route list" where
  "api_routes =
     [NewRoute POST ''v1'' ''identity'' ''identity.CreateIdentity'',
      NewRoute GET ''v1'' ''identity/:id'' ''identity.GetIdentity'',
      NewRoute POST ''v1'' ''identity/verify'' ''identity.QueueVerification'',
      NewRoute POST ''v1'' ''presentations/create'' ''zkprequest.CreatePresentation'',
      NewRoute POST ''v1'' ''presentations/verify'' ''zkprequest.VerifyPresentation'',
      NewRoute GET ''v1'' ''presentations/:request_id'' ''zkprequest.ShowPresentation'',
      NewRoute GET ''v1'' ''presentations/:request_id/descriptor'' ''zkprequest.Descriptor'',
      NewRoute GET ''v1'' ''presentations/:request_id/status'' ''zkprequest.Status'',
      NewRoute GET ''v1'' ''presentations/:request_id/result'' ''zkprequest.Result'',
      NewRoute GET ''v1'' ''schemas/:hash'' ''zkprequest.Schema'',
      NewRoute GET ''v1'' ''artifacts/:hash/vk'' ''zkprequest.GetVK'',
      NewRoute GET ''v1'' ''artifacts/:hash/pk'' ''zkprequest.GetPK'',
      NewRoute GET ''v1'' ''logs'' ''logaudit.GetLogEntries'',
      NewRoute GET ''v1'' ''logs/service/:service'' ''logaudit.GetLogEntriesByService'',
      NewRoute GET ''v1'' ''logs/level/:level'' ''logaudit.GetLogEntriesByLevel'',
      NewRoute POST ''v1'' ''presentations/verify-blocking'' ''zkprequest.VerifyBlocking'']"

definition swagger_route :: "string route" where
  "swagger_route = NewRoute GET ''swagger'' ''*any'' ''swagger''"

definition blockchain_middlewares :: "(string \<times> middleware) list" where
  "blockchain_middlewares = [NewMiddleware ''*'' InternalAuthMiddleware]"

definition blockchain_routes :: "string route list" where
  "blockchain_routes = [NewRoute GET ''v1/internal'' ''verify'' ''external.Verify'']"

lemma mounted_distinct:
  "distinct (map (\<lambda>rt. (rt_method rt, rt_group rt, rt_path rt)) (api_routes @ [swagger_route]))"
  "distinct (map (\<lambda>rt. (rt_method rt, rt_group rt, rt_path rt)) (blockchain_routes @ [swagger_route]))"
  by code_simp+

lemma api_chain:
  assumes "g \<noteq> ''v1/internal''"
  shows "route_chain api_middlewares g = gin_default @ [CORSMiddleware]"
  using assms
  by (simp add: route_chain_def api_middlewares_def NewMiddleware_def own_middlewares_def global_middlewares_def)

lemma run_default: "run_chain (gin_default @ ms) c = run_chain ms c"
  by (simp add: gin_default_def apfst_def map_prod_def split: prod.splits)

text \<open>
  C40. No route of the API or of the blockchain client asks who is calling. The check of the internal
  routes is for a group that has none in the API and does nothing in the blockchain client, and the
  API answers every origin that its pages may read the answers, with the user's credentials.
\<close>

theorem no_route_is_guarded:
  "list_all (\<lambda>e. run_chain (fst (snd (snd (snd e)))) c
       = (fst (CORSMiddleware c), if hq_method c = ''OPTIONS'' then Some 204 else None)
       \<and> (''Access-Control-Allow-Origin'', hq_origin c) \<in> set (fst (CORSMiddleware c))
       \<and> (''Access-Control-Allow-Credentials'', ''true'') \<in> set (fst (CORSMiddleware c)))
     (gn_table (build_router api_middlewares (api_routes @ [swagger_route])))
   \<and> list_all (\<lambda>e. run_chain (fst (snd (snd (snd e)))) c = ([], None))
     (gn_table (build_router blockchain_middlewares (blockchain_routes @ [swagger_route])))"
proof -
  have a: "run_chain (route_chain api_middlewares g) c
      = (fst (CORSMiddleware c), if hq_method c = ''OPTIONS'' then Some 204 else None)" if "g \<noteq> ''v1/internal''" for g
    using that by (simp add: api_chain run_default CORSMiddleware_def)
  have b: "run_chain (route_chain blockchain_middlewares g) c = ([], None)" for g
    by (simp add: route_chain_def blockchain_middlewares_def NewMiddleware_def own_middlewares_def global_middlewares_def
        run_default InternalAuthMiddleware_def)
  have g: "list_all (\<lambda>rt. rt_group rt \<noteq> ''v1/internal'') (api_routes @ [swagger_route])"
    by (simp add: api_routes_def swagger_route_def NewRoute_def)
  have e: "\<exists>rt\<in>set rts. table_entry mws rt = Some e" if "e \<in> set (List.map_filter (table_entry mws) rts)" for e mws and rts :: "string route list"
    using that by (auto simp: map_filter_def)
  show ?thesis
    unfolding router_chains list_all_iff
    using a b g by (auto simp: table_entry_def list_all_iff CORSMiddleware_def dest!: e)
qed

section \<open>The mux of the wallet\<close>

text \<open>
  \<open>http.ServeMux\<close>: the pattern that is the path itself, else the longest that ends in a slash and
  begins the path. It matches any method.
\<close>

definition longer_pattern :: "string \<times> 'h \<Rightarrow> (string \<times> 'h) option \<Rightarrow> (string \<times> 'h) option" where
  "longer_pattern r best =
     (case best of None \<Rightarrow> Some r | Some b \<Rightarrow> if length (fst b) < length (fst r) then Some r else Some b)"

definition mux_match :: "(string \<times> 'h) list \<Rightarrow> string \<Rightarrow> 'h option" where
  "mux_match routes path =
     (case map_of routes path of
        Some h \<Rightarrow> Some h
      | None \<Rightarrow> map_option snd (fold longer_pattern
           (filter (\<lambda>r. fst r \<noteq> [] \<and> last (fst r) = CHR ''/'' \<and> has_prefix path (fst r)) routes) None))"

definition wallet_routes :: "(string \<times> string) list" where
  "wallet_routes =
     [(''/'', ''static files''),
      (''/auth/dsnet/login'', ''HandleLogin''), (''/auth/dsnet/callback'', ''HandleCallback''),
      (''/auth/logout'', ''HandleLogout''), (''/auth/me'', ''HandleMe''),
      (''/.well-known/openid-credential-issuer'', ''HandleCredentialIssuerMetadata''),
      (''/.well-known/jwks.json'', ''HandleJWKS''),
      (''/oidc4vci/offer'', ''HandleCreateOffer''), (''/oidc4vci/offer/'', ''HandleOfferByCode''),
      (''/oidc4vci/token'', ''HandleVciToken''), (''/oidc4vci/credential'', ''HandleVciCredential''),
      (''/wallet/import-offer'', ''HandleWalletImportOffer''), (''/wallet/ingest'', ''HandleWalletIngest''),
      (''/wallet/vcs'', ''HandleWalletList''), (''/wallet/vcs/'', ''HandleWalletShow''),
      (''/wallet/verify'', ''HandleWalletVerify''), (''/wallet/vcs-pretty/'', ''HandleWalletClaims''),
      (''/zkp/request'', ''Handlers.Request''), (''/zkp/verify'', ''Handlers.Verify''),
      (''/wallet/zkp/fetch-descriptor'', ''HandleFetchDescriptor''), (''/wallet/zkp/create'', ''HandleZkpCreate'')]"

text \<open>The proxy that verifies a presentation is never mounted: its documented path is a static file.\<close>

lemma verify_proxy_not_mounted:
  "mux_match wallet_routes ''/wallet/zkp/verify'' = Some ''static files'' \<and> ''HandleVerifyProxy'' \<notin> set (map snd wallet_routes)"
  by code_simp

section \<open>The demo verifier of the wallet\<close>

text \<open>The service that \<open>main\<close> makes: a registry without a circuit, a quarter of an hour.\<close>

definition main_wallet_service :: "string \<Rightarrow> wallet_service" where
  "main_wallet_service issuerBaseURL =
     wallet_NewService (Some Map.empty) (Some \<lparr>sr_schemas = Some Map.empty, sr_vks = None\<rparr>)
       [\<lambda>s. s\<lparr>wv_audience := issuerBaseURL, wv_response_uri := issuerBaseURL @ ''/zkp/verify'', wv_ttl := 900 * 1000000000\<rparr>]"

text \<open>\<open>Inr\<close> is the request that is answered, as JSON, with status 200.\<close>

definition Handlers_Request ::
    "(string \<Rightarrow> string) \<Rightarrow> (nat \<Rightarrow> gotime) \<Rightarrow> string \<Rightarrow> string \<Rightarrow> wallet_service \<Rightarrow> (response + wallet_request) \<times> wallet_service" where
  "Handlers_Request lt clk requestID nonce s =
     (case wallet_CreateRequest clk requestID nonce ''age_over_18@1'' True s of
        (Inl e, s1) \<Rightarrow> (Inl (resp 500 (Plain (error_text lt e))), s1)
      | (Inr req, s1) \<Rightarrow> (Inr req, s1))"

definition Handlers_Verify ::
    "('pub, 'prf, 'vk) env \<Rightarrow> ((string \<rightharpoonup> gval) \<Rightarrow> string) \<Rightarrow> (string \<Rightarrow> string) \<Rightarrow> gotime \<Rightarrow> gotime
      \<Rightarrow> bc_submission option \<Rightarrow> wallet_service \<Rightarrow> response \<times> wallet_service" where
  "Handlers_Verify E marshal lt now later inp s =
     (case inp of None \<Rightarrow> (resp 400 (Plain ''bad json''), s)
      | Some sub \<Rightarrow>
          (case wallet_VerifySubmission E marshal now sub s of
             (Inl e, s1) \<Rightarrow> (resp 401 (Plain (error_text lt e)), s1)
           | (Inr req, s1) \<Rightarrow>
               (resp 200 (jobj [(''ok'', GBool True), (''request_id'', GStr (bs_request_id sub)),
                  (''verified_at'', GStr (en_format E later)), (''circuit_id'', GStr (wr_circuit_id req))]), s1)))"

text \<open>The two endpoints in any order.\<close>

datatype 'd demo_call =
    CallRequest "nat \<Rightarrow> gotime" string string
  | CallVerify gotime gotime "'d option"

fun demo_step ::
    "('pub, 'prf, 'vk) env \<Rightarrow> ((string \<rightharpoonup> gval) \<Rightarrow> string) \<Rightarrow> (string \<Rightarrow> string) \<Rightarrow> bc_submission demo_call \<Rightarrow> wallet_service \<Rightarrow> wallet_service" where
  "demo_step E marshal lt (CallRequest clk i nonce) s = snd (Handlers_Request lt clk i nonce s)"
| "demo_step E marshal lt (CallVerify now later inp) s = snd (Handlers_Verify E marshal lt now later inp s)"

lemma demo_keeps_registry: "wv_circuits (demo_step E marshal lt c s) = wv_circuits s"
  by (cases c)
     (auto simp: Handlers_Request_def wallet_CreateRequest_def Handlers_Verify_def wallet_VerifySubmission_def
       wallet_store_delete_def Let_def split: option.splits sum.splits prod.splits if_splits)

text \<open>
  C38. The demo verifier that the wallet serves accepts nothing. Whatever requests it has made and
  whatever has been submitted to it, it answers a proof with 400 or 401: \<open>main\<close> gives its service no
  verifying key for any circuit, the one it makes requests for included.
\<close>

theorem demo_verifier_accepts_nothing:
  "rs_status (fst (Handlers_Verify E marshal lt now later inp
     (fold (demo_step E marshal lt) calls (main_wallet_service issuerBaseURL)))) \<in> {400, 401}"
proof -
  let ?s = "fold (demo_step E marshal lt) calls (main_wallet_service issuerBaseURL)"
  have "wv_circuits (fold (demo_step E marshal lt) calls s) = wv_circuits s" for s
    by (induction calls arbitrary: s) (simp_all add: demo_keeps_registry)
  then have "registry_vk (wv_circuits ?s) i = None" for i by (simp add: main_wallet_service_def wallet_NewService_def registry_vk_def)
  then have n: "False" if "wallet_refusal E marshal ?s req sub = None" for req sub
    using that by (auto simp: wallet_refusal_def split: option.splits sum.splits if_splits)
  show ?thesis
    by (auto dest: n simp: Handlers_Verify_def wallet_VerifySubmission_def resp_def split: option.splits sum.splits prod.splits if_splits)
qed

end
