(* ===== verification/Startup.thy ===== *)
theory Startup
  imports Routing Server VerificationFlow
begin

text \<open>
  How the services start: \<open>pkg/app_builder\<close>, the two \<open>main.go\<close> built with it, the database of the API
  (\<open>api/src/database\<close>) and the keys of the blockchain client (\<open>external/solana_config.go\<close>). A start either ends in an application or in the reason for which the process ends.
\<close>

section \<open>The configuration files\<close>

definition decode_uint16 :: "string \<Rightarrow> (string \<times> json) list \<Rightarrow> 16 word res" where
  "decode_uint16 f kvs =
     each_res (\<lambda>j w. case j of
         JNum t \<Rightarrow> (case parse_nat t of
             None \<Rightarrow> Inl (LibErr ''json'')
           | Some n \<Rightarrow> if n < 65536 then Inr (of_nat n) else Inl (LibErr ''json''))
       | JNull \<Rightarrow> Inr w
       | _ \<Rightarrow> Inl (LibErr ''json''))
       (members_of f kvs) 0"

definition decode_publisher_config :: "json \<Rightarrow> publisher_config res" where
  "decode_publisher_config j =
     and_then (members j) (\<lambda>kvs.
     and_then (decode_string ''publisher_alias'' kvs) (\<lambda>a.
     and_then (decode_string ''exchange'' kvs) (\<lambda>e.
     and_then (decode_string ''routing_key'' kvs) (\<lambda>k.
     Inr \<lparr>pc_alias = a, pc_exchange = e, pc_routing_key = k\<rparr>))))"

definition decode_consumer_config :: "json \<Rightarrow> consumer_config res" where
  "decode_consumer_config j =
     and_then (members j) (\<lambda>kvs.
     and_then (decode_string ''consumer_alias'' kvs) (\<lambda>a.
     and_then (decode_string ''consumer_tag'' kvs) (\<lambda>t.
     and_then (decode_string ''queue_name'' kvs) (\<lambda>q.
     Inr \<lparr>cc_alias = a, cc_tag = t, cc_queue = q\<rparr>))))"

definition decode_rabbitmq_config :: "(string \<times> json) list \<Rightarrow> rabbitmq_config res" where
  "decode_rabbitmq_config kvs =
     and_then (decode_string ''user'' kvs) (\<lambda>u.
     and_then (decode_string ''password'' kvs) (\<lambda>p.
     and_then (decode_slice decode_publisher_config ''publishers'' kvs) (\<lambda>ps.
     and_then (decode_slice decode_consumer_config ''consumers'' kvs) (\<lambda>cs.
     Inr \<lparr>rc_user = u, rc_password = p, rc_publishers = ps, rc_consumers = cs\<rparr>))))"

text \<open>The logger's member is dealt with in the theory on the logger.\<close>

definition decode_api_config :: "json \<Rightarrow> api_config_json res" where
  "decode_api_config j =
     and_then (members j) (\<lambda>kvs.
     and_then (decode_inner ''rabbitmq'' kvs) (\<lambda>rq.
     and_then (decode_rabbitmq_config rq) (\<lambda>r.
     and_then (decode_inner ''rest'' kvs) (\<lambda>rs.
     and_then (decode_uint16 ''port'' rs) (\<lambda>p.
     and_then (decode_inner ''database'' kvs) (\<lambda>db.
     and_then (decode_string ''connection_string'' db) (\<lambda>c.
     Inr \<lparr>aj_rabbitmq = r, aj_port = p, aj_connection_string = c\<rparr>)))))))"

record blockchain_config =
  bcf_rabbitmq :: rabbitmq_config
  bcf_port :: "16 word"

definition decode_blockchain_config :: "json \<Rightarrow> blockchain_config res" where
  "decode_blockchain_config j =
     and_then (members j) (\<lambda>kvs.
     and_then (decode_inner ''rabbitmq'' kvs) (\<lambda>rq.
     and_then (decode_rabbitmq_config rq) (\<lambda>r.
     and_then (decode_inner ''rest'' kvs) (\<lambda>rs.
     and_then (decode_uint16 ''port'' rs) (\<lambda>p.
     Inr \<lparr>bcf_rabbitmq = r, bcf_port = p\<rparr>)))))"

definition blockchain_MapToDomain :: "blockchain_config \<Rightarrow> blockchain_config" where
  "blockchain_MapToDomain j = \<lparr>bcf_rabbitmq = rabbitmq_MapToDomain (bcf_rabbitmq j), bcf_port = bcf_port j\<rparr>"

text \<open>The two files as JSON.\<close>

definition publisher_tree :: "publisher_config \<Rightarrow> json" where
  "publisher_tree p =
     JObj [(''publisher_alias'', JStr (pc_alias p)), (''exchange'', JStr (pc_exchange p)), (''routing_key'', JStr (pc_routing_key p))]"

definition consumer_tree :: "consumer_config \<Rightarrow> json" where
  "consumer_tree c =
     JObj [(''consumer_alias'', JStr (cc_alias c)), (''consumer_tag'', JStr (cc_tag c)), (''queue_name'', JStr (cc_queue c))]"

definition rabbitmq_tree :: "rabbitmq_config \<Rightarrow> json" where
  "rabbitmq_tree r =
     JObj [(''user'', JStr (rc_user r)), (''password'', JStr (rc_password r)),
           (''publishers'', JArr (map publisher_tree (rc_publishers r))),
           (''consumers'', JArr (map consumer_tree (rc_consumers r)))]"

definition api_config_file :: json where
  "api_config_file =
     JObj [(''logger'', JObj [(''log_level'', JNum ''-1'')]), (''rest'', JObj [(''port'', JNum ''8080'')]),
           (''database'', JObj [(''connection_string'',
              JStr ''host=postgres user=api_user password=api_password dbname=digital_identity port=5432 sslmode=disable'')]),
           (''rabbitmq'', rabbitmq_tree api_rabbitmq)]"

definition blockchain_config_file :: json where
  "blockchain_config_file =
     JObj [(''logger'', JObj [(''log_level'', JNum ''-1'')]), (''rest'', JObj [(''port'', JNum ''8888'')]),
           (''rabbitmq'', rabbitmq_tree blockchain_rabbitmq)]"

lemma config_names:
  "equal_fold ''publisher_alias'' ''publisher_alias''" "\<not> equal_fold ''exchange'' ''publisher_alias''" "\<not> equal_fold ''routing_key'' ''publisher_alias''"
  "\<not> equal_fold ''publisher_alias'' ''exchange''" "equal_fold ''exchange'' ''exchange''" "\<not> equal_fold ''routing_key'' ''exchange''"
  "\<not> equal_fold ''publisher_alias'' ''routing_key''" "\<not> equal_fold ''exchange'' ''routing_key''" "equal_fold ''routing_key'' ''routing_key''"
  "equal_fold ''consumer_alias'' ''consumer_alias''" "\<not> equal_fold ''consumer_tag'' ''consumer_alias''" "\<not> equal_fold ''queue_name'' ''consumer_alias''"
  "\<not> equal_fold ''consumer_alias'' ''consumer_tag''" "equal_fold ''consumer_tag'' ''consumer_tag''" "\<not> equal_fold ''queue_name'' ''consumer_tag''"
  "\<not> equal_fold ''consumer_alias'' ''queue_name''" "\<not> equal_fold ''consumer_tag'' ''queue_name''" "equal_fold ''queue_name'' ''queue_name''"
  "equal_fold ''user'' ''user''" "\<not> equal_fold ''password'' ''user''" "\<not> equal_fold ''publishers'' ''user''" "\<not> equal_fold ''consumers'' ''user''"
  "\<not> equal_fold ''user'' ''password''" "equal_fold ''password'' ''password''" "\<not> equal_fold ''publishers'' ''password''" "\<not> equal_fold ''consumers'' ''password''"
  "\<not> equal_fold ''user'' ''publishers''" "\<not> equal_fold ''password'' ''publishers''" "equal_fold ''publishers'' ''publishers''" "\<not> equal_fold ''consumers'' ''publishers''"
  "\<not> equal_fold ''user'' ''consumers''" "\<not> equal_fold ''password'' ''consumers''" "\<not> equal_fold ''publishers'' ''consumers''" "equal_fold ''consumers'' ''consumers''"
  "\<not> equal_fold ''logger'' ''rabbitmq''" "\<not> equal_fold ''rest'' ''rabbitmq''" "\<not> equal_fold ''database'' ''rabbitmq''" "equal_fold ''rabbitmq'' ''rabbitmq''"
  "\<not> equal_fold ''logger'' ''rest''" "equal_fold ''rest'' ''rest''" "\<not> equal_fold ''database'' ''rest''" "\<not> equal_fold ''rabbitmq'' ''rest''"
  "\<not> equal_fold ''logger'' ''database''" "\<not> equal_fold ''rest'' ''database''" "equal_fold ''database'' ''database''" "\<not> equal_fold ''rabbitmq'' ''database''"
  "equal_fold ''port'' ''port''" "equal_fold ''connection_string'' ''connection_string''"
  by code_simp+

lemma decode_publisher_tree: "decode_publisher_config (publisher_tree p) = Inr p"
  by (simp add: decode_publisher_config_def publisher_tree_def decode_simps config_names)

lemma decode_consumer_tree: "decode_consumer_config (consumer_tree c) = Inr c"
  by (simp add: decode_consumer_config_def consumer_tree_def decode_simps config_names)

lemma decode_all_trees:
  "decode_all decode_publisher_config (map publisher_tree ps) = Inr ps"
  "decode_all decode_consumer_config (map consumer_tree cs) = Inr cs"
  by (induction ps) (simp_all add: decode_publisher_tree, induction cs, simp_all add: decode_consumer_tree)

lemma decode_rabbitmq_tree:
  "decode_rabbitmq_config [(''user'', JStr (rc_user r)), (''password'', JStr (rc_password r)),
     (''publishers'', JArr (map publisher_tree (rc_publishers r))), (''consumers'', JArr (map consumer_tree (rc_consumers r)))] = Inr r"
  by (simp add: decode_rabbitmq_config_def decode_simps config_names decode_all_trees)

lemma decode_port: "decode_uint16 ''port'' [(''port'', JNum ''8080'')] = Inr 8080" "decode_uint16 ''port'' [(''port'', JNum ''8888'')] = Inr 8888"
proof -
  have "parse_nat ''8080'' = Some 8080" "parse_nat ''8888'' = Some 8888" by code_simp+
  then show "decode_uint16 ''port'' [(''port'', JNum ''8080'')] = Inr 8080" "decode_uint16 ''port'' [(''port'', JNum ''8888'')] = Inr 8888"
    by (simp_all add: decode_uint16_def members_of_def config_names)
qed

lemma decode_inner_simps:
  "\<not> equal_fold k f \<Longrightarrow> decode_inner f ((k, j) # kvs) = decode_inner f kvs"
  "equal_fold k f \<Longrightarrow> members_of f kvs = [] \<Longrightarrow> decode_inner f ((k, JObj m) # kvs) = Inr m"
  "members_of f [] = []"
  "\<not> equal_fold k f \<Longrightarrow> members_of f ((k, j) # kvs) = members_of f kvs"
  by (simp_all add: decode_inner_def members_of_def)

lemma decode_config_files:
  "decode_api_config api_config_file = Inr \<lparr>aj_rabbitmq = api_rabbitmq, aj_port = 8080,
     aj_connection_string = ''host=postgres user=api_user password=api_password dbname=digital_identity port=5432 sslmode=disable''\<rparr>"
  "decode_blockchain_config blockchain_config_file = Inr \<lparr>bcf_rabbitmq = blockchain_rabbitmq, bcf_port = 8888\<rparr>"
proof -
  let ?c = "''host=postgres user=api_user password=api_password dbname=digital_identity port=5432 sslmode=disable''"
  have c: "decode_string ''connection_string'' [(''connection_string'', JStr t)] = Inr t" for t
    by (simp add: decode_string_def members_of_def config_names)
  have r: "rabbitmq_tree r = JObj m \<Longrightarrow> decode_rabbitmq_config m = Inr r" for r m
    using decode_rabbitmq_tree [of r] by (simp only: rabbitmq_tree_def json.inject)
  obtain ma mb where m: "rabbitmq_tree api_rabbitmq = JObj ma" "rabbitmq_tree blockchain_rabbitmq = JObj mb"
    by (simp add: rabbitmq_tree_def)
  show "decode_api_config api_config_file = Inr \<lparr>aj_rabbitmq = api_rabbitmq, aj_port = 8080, aj_connection_string = ?c\<rparr>"
    by (simp only: decode_api_config_def api_config_file_def members_def json.case and_then_simps m decode_inner_simps
        config_names not_False_eq_True r [OF m(1)] decode_port c)
  show "decode_blockchain_config blockchain_config_file = Inr \<lparr>bcf_rabbitmq = blockchain_rabbitmq, bcf_port = 8888\<rparr>"
    by (simp only: decode_blockchain_config_def blockchain_config_file_def members_def json.case and_then_simps m decode_inner_simps
        config_names not_False_eq_True r [OF m(2)] decode_port)
qed

section \<open>The process and the machine\<close>

datatype start_failure =
    NoLanHost
  | NilLogger
  | NoConfig goerr
  | NoBroker goerr
  | NoChannel
  | NoRegistry
  | NoDatabase goerr
  | DatabaseNotOpen
  | NoTable goerr
  | NoTemplates
  | NilPublisher
  | NoKeys goerr

text \<open>
  What a process finds: the environment, the files, the library, the broker (whether an attempt to
  dial gives a connection, whether a connection gives its \<open>n\<close>-th channel), the database (whether a
  connection string opens one, whether the table of a model is made), the files of templates, the
  reader of base58 and the one of a key file (public and private key).
\<close>

record 'c machine =
  mc_env :: "string \<Rightarrow> string"
  mc_file :: "string \<Rightarrow> string res"
  mc_lib :: golib
  mc_dial :: "string \<Rightarrow> string \<Rightarrow> nat \<Rightarrow> 'c res"
  mc_channel :: "'c \<Rightarrow> nat \<Rightarrow> bool"
  mc_open :: "string \<Rightarrow> unit res"
  mc_migrate :: "string \<Rightarrow> unit res"
  mc_glob :: "string \<Rightarrow> bool"
  mc_public_key :: "string \<Rightarrow> string res"
  mc_keygen_file :: "string \<Rightarrow> (string \<times> string) res"
  mc_home :: string

text \<open>The variables of the packages: the default logger, the registries, the connection, the tables made.\<close>

record process =
  ps_logger :: "broker logger option"
  ps_consumers :: "(string \<rightharpoonup> consumer) option"
  ps_publishers :: "(string \<rightharpoonup> publisher) option"
  ps_database :: "string option"
  ps_tables :: "string list"

definition new_process :: process where
  "new_process = \<lparr>ps_logger = None, ps_consumers = None, ps_publishers = None, ps_database = None, ps_tables = []\<rparr>"

text \<open>One step after another, up to the first failure.\<close>

definition next_step :: "'e + 'a \<Rightarrow> ('a \<Rightarrow> 'e + 'b) \<Rightarrow> 'e + 'b" where
  "next_step r f = (case r of Inl e \<Rightarrow> Inl e | Inr v \<Rightarrow> f v)"

lemma next_step_simps [simp]: "next_step (Inl e) f = Inl e" "next_step (Inr v) f = f v"
  by (simp_all add: next_step_def)

text \<open>The rest of a sequence is looked at when its turn comes.\<close>

lemma next_step_weak [cong]: "r = r' \<Longrightarrow> next_step r f = next_step r' f"
  by simp

section \<open>The database\<close>

definition InitializeDatabaseConnection :: "'c machine \<Rightarrow> string \<Rightarrow> process \<Rightarrow> start_failure + process" where
  "InitializeDatabaseConnection M connectionString ps =
     (case ps_database ps of
        Some c \<Rightarrow> Inr ps
      | None \<Rightarrow>
          (case mc_open M connectionString of
             Inl e \<Rightarrow> Inl (NoDatabase e)
           | Inr u \<Rightarrow> Inr (ps\<lparr>ps_database := Some connectionString\<rparr>)))"

definition GetDatabaseConnection :: "process \<Rightarrow> start_failure + string" where
  "GetDatabaseConnection ps = (case ps_database ps of None \<Rightarrow> Inl DatabaseNotOpen | Some c \<Rightarrow> Inr c)"

text \<open>The models in their order, by the names GORM gives their tables.\<close>

definition migrated_models :: "string list" where
  "migrated_models = [''identities'', ''verified_schemas'', ''zero_knowledge_proofs'', ''zkp_proof_failures'', ''outbox_events'',
     ''log_audit_entries'']"

fun AutoMigrate :: "(string \<Rightarrow> unit res) \<Rightarrow> string list \<Rightarrow> string list \<Rightarrow> goerr option \<times> string list" where
  "AutoMigrate mig [] tables = (None, tables)"
| "AutoMigrate mig (m # ms) tables =
     (case mig m of Inl e \<Rightarrow> (Some e, tables) | Inr u \<Rightarrow> AutoMigrate mig ms (tables @ [m]))"

definition RunMigrations :: "'c machine \<Rightarrow> bool \<Rightarrow> process \<Rightarrow> start_failure + process" where
  "RunMigrations M migrateDatabase ps =
     (if migrateDatabase
      then next_step (GetDatabaseConnection ps) (\<lambda>c.
             case AutoMigrate (mc_migrate M) migrated_models (ps_tables ps) of
               (Some e, ts) \<Rightarrow> Inl (NoTable e)
             | (None, ts) \<Rightarrow> Inr (ps\<lparr>ps_tables := ts\<rparr>))
      else Inr ps)"

section \<open>The builder\<close>

text \<open>
  The logger is a pointer that \<open>InitLogger\<close> sets; most steps log first and panic without it. The
  configuration is the zero value before it is loaded. A worker has its name and what it found for
  its aliases: \<open>None\<close> is the nil interface.
\<close>

record worker =
  wk_name :: string
  wk_consumer :: "consumer option"
  wk_publishers :: "publisher option list"

record ('u, 'c) app_builder =
  ab_logger :: "broker logger option"
  ab_config :: 'u
  ab_conn :: "'c option"
  ab_workers :: "worker list"
  ab_routes :: "string route list"
  ab_middleware :: "(string \<times> middleware) list"
  ab_engine :: "string gin_router option"
  ab_serve_templates :: bool
  ab_templates_glob :: string
  ab_serve_css :: bool
  ab_css_route :: string
  ab_css_file :: string

type_synonym ('u, 'c) building = "start_failure + ('u, 'c) app_builder \<times> process"

definition new_builder :: "'u \<Rightarrow> ('u, 'c) app_builder" where
  "new_builder zero =
     \<lparr>ab_logger = None, ab_config = zero, ab_conn = None, ab_workers = [], ab_routes = [], ab_middleware = [], ab_engine = None,
      ab_serve_templates = False, ab_templates_glob = [], ab_serve_css = False, ab_css_route = [], ab_css_file = []\<rparr>"

definition InitLogger :: "(string \<times> string) list \<Rightarrow> ('u, 'c) app_builder \<times> process \<Rightarrow> ('u, 'c) building" where
  "InitLogger loggerArgs st =
     (let ps = (snd st)\<lparr>ps_logger := InitDefaultLogger loggerArgs (ps_logger (snd st))\<rparr>
      in case Default (ps_logger ps) of None \<Rightarrow> Inl NilLogger | Some l \<Rightarrow> Inr ((fst st)\<lparr>ab_logger := Some l\<rparr>, ps))"

text \<open>A step that begins with a line of the builder's logger.\<close>

definition logged ::
    "(('u, 'c) app_builder \<times> process \<Rightarrow> ('u, 'c) building) \<Rightarrow> ('u, 'c) app_builder \<times> process \<Rightarrow> ('u, 'c) building" where
  "logged f st = (case ab_logger (fst st) of None \<Rightarrow> Inl NilLogger | Some l \<Rightarrow> f st)"

definition LoadConfig ::
    "'c machine \<Rightarrow> (json \<Rightarrow> 't res) \<Rightarrow> ('t \<Rightarrow> 'u) \<Rightarrow> string \<Rightarrow> ('u, 'c) app_builder \<times> process \<Rightarrow> ('u, 'c) building" where
  "LoadConfig M dec MapToDomain filePath =
     logged (\<lambda>st. case ReadConfig (mc_lib M) dec MapToDomain (mc_file M filePath) of
       Inl e \<Rightarrow> Inl (NoConfig e) | Inr jsonConfig \<Rightarrow> Inr ((fst st)\<lparr>ab_config := jsonConfig\<rparr>, snd st))"

definition ResolveEnvironment :: "('u, 'c) app_builder \<times> process \<Rightarrow> ('u, 'c) building" where
  "ResolveEnvironment st = Inr st"

definition WithOption ::
    "(('u, 'c) app_builder \<times> process \<Rightarrow> ('u, 'c) building) \<Rightarrow> ('u, 'c) app_builder \<times> process \<Rightarrow> ('u, 'c) building" where
  "WithOption fn st = fn st"

definition InitRabbitmqConnection ::
    "'c machine \<Rightarrow> ('u \<Rightarrow> rabbitmq_config) \<Rightarrow> ('u, 'c) app_builder \<times> process \<Rightarrow> ('u, 'c) building" where
  "InitRabbitmqConnection M GetRabbitmqConfig =
     logged (\<lambda>st.
       let rabbitmqConfig = GetRabbitmqConfig (ab_config (fst st))
       in case fst (ConnectToRabbitmq (mc_dial M (rc_user rabbitmqConfig) (rc_password rabbitmqConfig))) of
            Inl e \<Rightarrow> Inl (NoBroker e)
          | Inr conn \<Rightarrow> Inr ((fst st)\<lparr>ab_conn := Some conn\<rparr>, snd st))"

text \<open>
  The consumers take the first channels of the connection, the publishers the next; a nil connection
  panics when it is asked for one.
\<close>

definition InitRabbitmqRegistries ::
    "'c machine \<Rightarrow> ('u \<Rightarrow> rabbitmq_config) \<Rightarrow> ('u, 'c) app_builder \<times> process \<Rightarrow> ('u, 'c) building" where
  "InitRabbitmqRegistries M GetRabbitmqConfig =
     logged (\<lambda>st.
       let conf = GetRabbitmqConfig (ab_config (fst st));
           chans = (case ab_conn (fst st) of None \<Rightarrow> (\<lambda>n. False) | Some c \<Rightarrow> mc_channel M c);
           used = (if ps_consumers (snd st) = None then length (rc_consumers conf) else 0)
       in case InitializeConsumerRegistry chans (rc_consumers conf) (ps_consumers (snd st)) of
            None \<Rightarrow> Inl NoChannel
          | Some cs \<Rightarrow>
              (case InitializePublisherRegistry (\<lambda>n. chans (used + n)) (rc_publishers conf) (ps_publishers (snd st)) of
                 None \<Rightarrow> Inl NoChannel
               | Some ps \<Rightarrow> Inr (fst st, (snd st)\<lparr>ps_consumers := cs, ps_publishers := ps\<rparr>)))"

text \<open>The workers are made before they are added: \<open>mk\<close> makes them from the process.\<close>

definition AddWorkerServices ::
    "(process \<Rightarrow> start_failure + worker list) \<Rightarrow> ('u, 'c) app_builder \<times> process \<Rightarrow> ('u, 'c) building" where
  "AddWorkerServices mk st =
     next_step (mk (snd st)) (\<lambda>ws. logged (\<lambda>st. Inr ((fst st)\<lparr>ab_workers := ab_workers (fst st) @ ws\<rparr>, snd st)) st)"

definition AddGinRoutes :: "string route list \<Rightarrow> ('u, 'c) app_builder \<times> process \<Rightarrow> ('u, 'c) building" where
  "AddGinRoutes rs = logged (\<lambda>st. Inr ((fst st)\<lparr>ab_routes := ab_routes (fst st) @ rs\<rparr>, snd st))"

definition AddGinMiddleware :: "(string \<times> middleware) list \<Rightarrow> ('u, 'c) app_builder \<times> process \<Rightarrow> ('u, 'c) building" where
  "AddGinMiddleware ms = logged (\<lambda>st. Inr ((fst st)\<lparr>ab_middleware := ab_middleware (fst st) @ ms\<rparr>, snd st))"

definition AddSwagger :: "('u, 'c) app_builder \<times> process \<Rightarrow> ('u, 'c) building" where
  "AddSwagger = logged (\<lambda>st. Inr ((fst st)\<lparr>ab_routes := ab_routes (fst st) @ [swagger_route]\<rparr>, snd st))"

text \<open>Templates that are not there make the router panic; the style sheet is served from a file.\<close>

definition InitGinRouter :: "'c machine \<Rightarrow> ('u, 'c) app_builder \<times> process \<Rightarrow> ('u, 'c) building" where
  "InitGinRouter M =
     logged (\<lambda>st.
       let a = fst st;
           glob = (if ab_templates_glob a = [] then ''templates/*.html'' else ab_templates_glob a)
       in if ab_serve_templates a \<and> \<not> mc_glob M glob then Inl NoTemplates
          else Inr (a\<lparr>ab_engine := Some (build_router (ab_middleware a) (ab_routes a))\<rparr>, snd st))"

section \<open>The application\<close>

record 'c application =
  ap_addr :: string
  ap_conn :: "'c option"
  ap_workers :: "worker list"
  ap_engine :: "string gin_router option"

definition Build :: "('u \<Rightarrow> 16 word) \<Rightarrow> ('u, 'c) app_builder \<times> process \<Rightarrow> start_failure + 'c application \<times> process" where
  "Build GetRestApiPort st =
     Inr (\<lparr>ap_addr = ''0.0.0.0:'' @ nat_str (unat (GetRestApiPort (ab_config (fst st)))), ap_conn = ab_conn (fst st),
           ap_workers = ab_workers (fst st), ap_engine = ab_engine (fst st)\<rparr>, snd st)"

text \<open>
  What the start does up to the signal and after it: the workers in goroutines of their own, the
  server, which ends the process when it cannot listen, its shutdown, the closing of the connection.
\<close>

datatype start_action =
    StartWorker worker
  | Listen string
  | EndProcess
  | AwaitSignal
  | Shutdown
  | CloseConnection

definition Start :: "bool \<Rightarrow> 'c application \<Rightarrow> start_action list" where
  "Start listens a =
     map StartWorker (ap_workers a) @ [Listen (ap_addr a)] @
     (if listens then [AwaitSignal, Shutdown] @ (if ap_conn a = None then [] else [CloseConnection]) else [EndProcess])"

section \<open>The workers\<close>

definition get_consumer :: "string \<Rightarrow> process \<Rightarrow> start_failure + consumer option" where
  "get_consumer alias ps = (case GetConsumer (ps_consumers ps) alias of None \<Rightarrow> Inl NoRegistry | Some c \<Rightarrow> Inr c)"

definition get_publisher :: "string \<Rightarrow> process \<Rightarrow> start_failure + publisher option" where
  "get_publisher alias ps = (case GetPublisher (ps_publishers ps) alias of None \<Rightarrow> Inl NoRegistry | Some p \<Rightarrow> Inr p)"

definition consumer_worker :: "string \<Rightarrow> process \<Rightarrow> start_failure + worker" where
  "consumer_worker alias ps =
     next_step (get_consumer alias ps) (\<lambda>c. Inr \<lparr>wk_name = alias, wk_consumer = c, wk_publishers = []\<rparr>)"

definition NewZeroKnowledgeProofFailedHandler :: "process \<Rightarrow> start_failure + worker" where
  "NewZeroKnowledgeProofFailedHandler ps =
     next_step (GetDatabaseConnection ps) (\<lambda>db. consumer_worker ''ProofFailuresConsumer'' ps)"

definition NewZeroKnowledgeProofHandler :: "process \<Rightarrow> start_failure + worker" where
  "NewZeroKnowledgeProofHandler ps =
     next_step (GetDatabaseConnection ps) (\<lambda>db. consumer_worker ''ProofResultsConsumer'' ps)"

definition NewOutboxWorker :: "process \<Rightarrow> start_failure + worker" where
  "NewOutboxWorker ps =
     next_step (get_publisher ''VerifiersUnverifiedPublisher'' ps) (\<lambda>p.
     next_step (GetDatabaseConnection ps) (\<lambda>db.
     Inr \<lparr>wk_name = ''OutboxCronWorker'', wk_consumer = None, wk_publishers = [p]\<rparr>))"

definition NewLogSinkWorker :: "process \<Rightarrow> start_failure + worker" where
  "NewLogSinkWorker ps = next_step (GetDatabaseConnection ps) (\<lambda>db. consumer_worker ''LogConsumer'' ps)"

text \<open>The identity handler's service; each of its three routes makes one.\<close>

definition NewHandler_identity :: "process \<Rightarrow> start_failure + publisher option" where
  "NewHandler_identity ps = next_step (GetDatabaseConnection ps) (\<lambda>db. get_publisher ''VerifiersUnverifiedPublisher'' ps)"

text \<open>The quotes of \<open>%q\<close> for a text without special characters.\<close>

definition LoadSolanaKeys :: "'c machine \<Rightarrow> chain_keys res" where
  "LoadSolanaKeys M =
     (let programIDStr = mc_env M ''PROGRAM_ID''
      in if programIDStr = []
         then Inl (Msg ''PROGRAM_ID env var is not set (use your deployed program id, e.g. HxSN1y...)'')
         else and_then (wrapped (''invalid PROGRAM_ID '' @ [CHR 0x22] @ programIDStr @ [CHR 0x22]) (mc_public_key M programIDStr)) (\<lambda>programID.
              let keypairPath = (if mc_env M ''PAYER_KEYPAIR_PATH'' = [] then mc_home M @ ''/.zkpconfig/solana/id.json''
                                 else mc_env M ''PAYER_KEYPAIR_PATH'')
              in and_then (wrapped (''reading payer keypair from '' @ keypairPath @ '' failed'') (mc_keygen_file M keypairPath)) (\<lambda>payer.
                 Inr \<lparr>ck_contract = programID, ck_payer = fst payer, ck_payer_private = snd payer\<rparr>)))"

text \<open>The account of the program, if there is one, and whether it is executable; nothing calls this.\<close>

definition ValidateProgramExecutable :: "(string \<Rightarrow> bool option res) \<Rightarrow> chain_keys \<Rightarrow> goerr option" where
  "ValidateProgramExecutable account_info K =
     (case account_info (ck_contract K) of
        Inl e \<Rightarrow> Some (Wrap ''GetAccountInfo(program) failed'' e)
      | Inr acc \<Rightarrow> if acc \<noteq> Some True
          then Some (Msg (''ContractPublicKey '' @ ck_contract K @ '' is not an executable account (this is NOT a program id)''))
          else None)"

definition NewVerifiedPositiveWorker :: "'c machine \<Rightarrow> process \<Rightarrow> start_failure + worker" where
  "NewVerifiedPositiveWorker M ps =
     (case LoadSolanaKeys M of Inl e \<Rightarrow> Inl (NoKeys e) | Inr k \<Rightarrow> consumer_worker ''VerifiedPositiveConsumer'' ps)"

definition NewVerifiedNegativeWorker :: "process \<Rightarrow> start_failure + worker" where
  "NewVerifiedNegativeWorker ps = consumer_worker ''VerifiedNegativeConsumer'' ps"

definition NewBlockchainClientLogSink :: "'c machine \<Rightarrow> process \<Rightarrow> start_failure + worker" where
  "NewBlockchainClientLogSink M ps =
     (case LoadSolanaKeys M of Inl e \<Rightarrow> Inl (NoKeys e) | Inr k \<Rightarrow> consumer_worker ''LogConsumer'' ps)"

section \<open>The two main functions\<close>

definition ConnectToDatabase ::
    "'c machine \<Rightarrow> ('u \<Rightarrow> string) \<Rightarrow> ('u, 'c) app_builder \<times> process \<Rightarrow> ('u, 'c) building" where
  "ConnectToDatabase M GetConnectionString =
     logged (\<lambda>st. next_step (InitializeDatabaseConnection M (GetConnectionString (ab_config (fst st))) (snd st))
       (\<lambda>ps. Inr (fst st, ps)))"

text \<open>
  The sink of the default logger is to RabbitMQ. On a nil publisher the next line of the logger, which
  the start writes soon, panics.
\<close>

definition add_log_sink :: "golib \<Rightarrow> ('u, 'c) app_builder \<times> process \<Rightarrow> ('u, 'c) building" where
  "add_log_sink L st =
     next_step (get_publisher ''LogPublisher'' (snd st)) (\<lambda>p.
     case p of None \<Rightarrow> Inl NilPublisher
     | Some logPublisher \<Rightarrow>
         (case ps_logger (snd st) of None \<Rightarrow> Inl NilLogger
          | Some lg \<Rightarrow> Inr (fst st, (snd st)\<lparr>ps_logger :=
              Some (AddSinkToLoggerInstance (CreateRabbitmqLoggerSink L logPublisher) lg)\<rparr>)))"

definition zero_rabbitmq :: rabbitmq_config where
  "zero_rabbitmq = \<lparr>rc_user = [], rc_password = [], rc_publishers = [], rc_consumers = []\<rparr>"

text \<open>The options of the API; its services have no effect outside themselves when they are made.\<close>

definition api_options :: "'c machine \<Rightarrow> (api_config, 'c) app_builder \<times> process \<Rightarrow> (api_config, 'c) building" where
  "api_options M st =
     next_step (ConnectToDatabase M (GetDatabaseConnectionString (mc_env M)) st) (\<lambda>st.
     next_step (RunMigrations M True (snd st)) (\<lambda>ps.
     next_step (GetDatabaseConnection ps) (\<lambda>db.
     Inr ((fst st)\<lparr>ab_serve_templates := True, ab_templates_glob := ''templates/*.html'', ab_serve_css := True,
                     ab_css_route := ''/app.css'', ab_css_file := ''./static/app.css''\<rparr>, ps))))"

definition api_workers :: "process \<Rightarrow> start_failure + worker list" where
  "api_workers ps =
     next_step (NewZeroKnowledgeProofFailedHandler ps) (\<lambda>a.
     next_step (NewZeroKnowledgeProofHandler ps) (\<lambda>b.
     next_step (NewOutboxWorker ps) (\<lambda>c.
     next_step (NewLogSinkWorker ps) (\<lambda>d. Inr [a, b, c, d]))))"

definition api_main :: "'c machine \<Rightarrow> start_failure + 'c application \<times> process" where
  "api_main M =
     (case ResolveLanHost (mc_env M) of None \<Rightarrow> Inl NoLanHost | Some lanHost \<Rightarrow>
      next_step (InitLogger [] (new_builder \<lparr>ac_rabbitmq = zero_rabbitmq, ac_port = 0, ac_connection_string = []\<rparr>, new_process)) (\<lambda>st.
      next_step (ResolveEnvironment st) (\<lambda>st.
      next_step (LoadConfig M decode_api_config api_MapToDomain ''config.json'' st) (\<lambda>st.
      next_step (WithOption (api_options M) st) (\<lambda>st.
      next_step (InitRabbitmqConnection M ac_rabbitmq st) (\<lambda>st.
      next_step (InitRabbitmqRegistries M ac_rabbitmq st) (\<lambda>st.
      next_step (WithOption (add_log_sink (mc_lib M)) st) (\<lambda>st.
      next_step (AddWorkerServices api_workers st) (\<lambda>st.
      next_step (AddGinMiddleware api_middlewares st) (\<lambda>st.
      next_step (NewHandler_identity (snd st)) (\<lambda>h.
      next_step (AddGinRoutes api_routes st) (\<lambda>st.
      next_step (AddSwagger st) (\<lambda>st.
      next_step (InitGinRouter M st) (\<lambda>st.
      Build ac_port st))))))))))))))"

definition blockchain_workers :: "'c machine \<Rightarrow> process \<Rightarrow> start_failure + worker list" where
  "blockchain_workers M ps =
     next_step (NewVerifiedPositiveWorker M ps) (\<lambda>a.
     next_step (NewVerifiedNegativeWorker ps) (\<lambda>b.
     next_step (NewBlockchainClientLogSink M ps) (\<lambda>c. Inr [a, b, c])))"

definition blockchain_main :: "'c machine \<Rightarrow> start_failure + 'c application \<times> process" where
  "blockchain_main M =
     (case ResolveLanHost (mc_env M) of None \<Rightarrow> Inl NoLanHost | Some lanHost \<Rightarrow>
      next_step (InitLogger [] (new_builder \<lparr>bcf_rabbitmq = zero_rabbitmq, bcf_port = 0\<rparr>, new_process)) (\<lambda>st.
      next_step (ResolveEnvironment st) (\<lambda>st.
      next_step (LoadConfig M decode_blockchain_config blockchain_MapToDomain ''config.json'' st) (\<lambda>st.
      next_step (InitRabbitmqConnection M bcf_rabbitmq st) (\<lambda>st.
      next_step (InitRabbitmqRegistries M bcf_rabbitmq st) (\<lambda>st.
      next_step (WithOption (add_log_sink (mc_lib M)) st) (\<lambda>st.
      next_step (AddWorkerServices (blockchain_workers M) st) (\<lambda>st.
      next_step (AddGinMiddleware blockchain_middlewares st) (\<lambda>st.
      next_step (AddGinRoutes blockchain_routes st) (\<lambda>st.
      next_step (AddSwagger st) (\<lambda>st.
      next_step (InitGinRouter M st) (\<lambda>st.
      Build bcf_port st))))))))))))"

section \<open>What a start needs and what it makes\<close>

text \<open>The decisions of a start, one after the other, for the settings of the file.\<close>

definition connection :: "'c machine \<Rightarrow> string \<Rightarrow> start_failure + 'c" where
  "connection M user =
     (case fst (ConnectToRabbitmq (mc_dial M user user)) of Inl e \<Rightarrow> Inl (NoBroker e) | Inr c \<Rightarrow> Inr c)"

definition channels :: "'c machine \<Rightarrow> 'c \<Rightarrow> nat \<Rightarrow> start_failure + unit" where
  "channels M c n = (if list_all (mc_channel M c) [0..<n] then Inr () else Inl NoChannel)"

definition named_worker :: "string \<Rightarrow> string \<Rightarrow> string \<Rightarrow> worker" where
  "named_worker alias q tag = \<lparr>wk_name = alias, wk_consumer = Some \<lparr>cs_queue = q, cs_tag = tag\<rparr>, wk_publishers = []\<rparr>"

definition api_application :: "'c \<Rightarrow> 'c application" where
  "api_application c =
     \<lparr>ap_addr = ''0.0.0.0:8080'', ap_conn = Some c,
      ap_workers = [named_worker ''ProofFailuresConsumer'' ''proof.failures'' ''api-proof-failures'',
        named_worker ''ProofResultsConsumer'' ''proof.results'' ''api-proof-results'',
        \<lparr>wk_name = ''OutboxCronWorker'', wk_consumer = None,
         wk_publishers = [Some \<lparr>pb_exchange = ''verifiers'', pb_routing_key = ''unverified.#''\<rparr>]\<rparr>,
        named_worker ''LogConsumer'' ''logs.api'' ''api-log-consumer''],
      ap_engine = Some (build_router api_middlewares (api_routes @ [swagger_route]))\<rparr>"

definition blockchain_application :: "'c \<Rightarrow> 'c application" where
  "blockchain_application c =
     \<lparr>ap_addr = ''0.0.0.0:8888'', ap_conn = Some c,
      ap_workers = [named_worker ''VerifiedPositiveConsumer'' ''verified.positive'' ''blockchain-verified-positive'',
        named_worker ''VerifiedNegativeConsumer'' ''verified.negative'' ''blockchain-verified-negative'',
        named_worker ''LogConsumer'' ''logs.blockchain'' ''blockchain-log-consumer''],
      ap_engine = Some (build_router blockchain_middlewares (blockchain_routes @ [swagger_route]))\<rparr>"

text \<open>What is looked at of a start: the application, the database opened and the tables made.\<close>

definition outcome :: "start_failure + 'c application \<times> process \<Rightarrow> start_failure + 'c application \<times> string option \<times> string list" where
  "outcome r = next_step r (\<lambda>x. Inr (fst x, ps_database (snd x), ps_tables (snd x)))"

lemma api_registries:
  "InitializeConsumerRegistry ch (rc_consumers api_rabbitmq) None =
     (if ch 0 \<and> ch 1 \<and> ch 2 then Some (Some [''ProofResultsConsumer'' \<mapsto> \<lparr>cs_queue = ''proof.results'', cs_tag = ''api-proof-results''\<rparr>,
        ''ProofFailuresConsumer'' \<mapsto> \<lparr>cs_queue = ''proof.failures'', cs_tag = ''api-proof-failures''\<rparr>,
        ''LogConsumer'' \<mapsto> \<lparr>cs_queue = ''logs.api'', cs_tag = ''api-log-consumer''\<rparr>]) else None)"
  "InitializePublisherRegistry ch (rc_publishers api_rabbitmq) None =
     (if ch 0 \<and> ch 1 then Some (Some [''VerifiersUnverifiedPublisher'' \<mapsto> \<lparr>pb_exchange = ''verifiers'', pb_routing_key = ''unverified.#''\<rparr>,
        ''LogPublisher'' \<mapsto> \<lparr>pb_exchange = ''log_audit'', pb_routing_key = []\<rparr>]) else None)"
  "length (rc_consumers api_rabbitmq) = 3"
  by (simp_all add: api_rabbitmq_def InitializeConsumerRegistry_def InitializePublisherRegistry_def numeral_2_eq_2)

lemma blockchain_registries:
  "InitializeConsumerRegistry ch (rc_consumers blockchain_rabbitmq) None =
     (if ch 0 \<and> ch 1 \<and> ch 2 then Some (Some [''VerifiedPositiveConsumer'' \<mapsto> \<lparr>cs_queue = ''verified.positive'', cs_tag = ''blockchain-verified-positive''\<rparr>,
        ''VerifiedNegativeConsumer'' \<mapsto> \<lparr>cs_queue = ''verified.negative'', cs_tag = ''blockchain-verified-negative''\<rparr>,
        ''LogConsumer'' \<mapsto> \<lparr>cs_queue = ''logs.blockchain'', cs_tag = ''blockchain-log-consumer''\<rparr>]) else None)"
  "InitializePublisherRegistry ch (rc_publishers blockchain_rabbitmq) None =
     (if ch 0 \<and> ch 1 \<and> ch 2 then Some (Some [''IdentityResultsPublisher'' \<mapsto> \<lparr>pb_exchange = ''identity'', pb_routing_key = ''proof.results''\<rparr>,
        ''IdentityFailurePublisher'' \<mapsto> \<lparr>pb_exchange = ''identity'', pb_routing_key = ''proof.failures''\<rparr>,
        ''LogPublisher'' \<mapsto> \<lparr>pb_exchange = ''log_audit'', pb_routing_key = []\<rparr>]) else None)"
  "length (rc_consumers blockchain_rabbitmq) = 3"
  by (simp_all add: blockchain_rabbitmq_def InitializeConsumerRegistry_def InitializePublisherRegistry_def numeral_2_eq_2)

lemma configured_users:
  "rc_user api_rabbitmq = ''id_system_api''" "rc_password api_rabbitmq = ''id_system_api''"
  "rc_user blockchain_rabbitmq = ''id_system_blockchain''" "rc_password blockchain_rabbitmq = ''id_system_blockchain''"
  by (simp_all add: api_rabbitmq_def blockchain_rabbitmq_def)

lemma channel_lists:
  "list_all ch [0..<5] = (ch 0 \<and> ch 1 \<and> ch 2 \<and> ch 3 \<and> ch 4)"
  "list_all ch [0..<6] = (ch 0 \<and> ch 1 \<and> ch 2 \<and> ch 3 \<and> ch 4 \<and> ch 5)"
  by (simp_all add: upt_rec numeral_eq_Suc)

definition api_registered :: "process \<Rightarrow> process" where
  "api_registered ps = ps\<lparr>
     ps_consumers := Some [''ProofResultsConsumer'' \<mapsto> \<lparr>cs_queue = ''proof.results'', cs_tag = ''api-proof-results''\<rparr>,
        ''ProofFailuresConsumer'' \<mapsto> \<lparr>cs_queue = ''proof.failures'', cs_tag = ''api-proof-failures''\<rparr>,
        ''LogConsumer'' \<mapsto> \<lparr>cs_queue = ''logs.api'', cs_tag = ''api-log-consumer''\<rparr>],
     ps_publishers := Some [''VerifiersUnverifiedPublisher'' \<mapsto> \<lparr>pb_exchange = ''verifiers'', pb_routing_key = ''unverified.#''\<rparr>,
        ''LogPublisher'' \<mapsto> \<lparr>pb_exchange = ''log_audit'', pb_routing_key = []\<rparr>]\<rparr>"

definition blockchain_registered :: "process \<Rightarrow> process" where
  "blockchain_registered ps = ps\<lparr>
     ps_consumers := Some [''VerifiedPositiveConsumer'' \<mapsto> \<lparr>cs_queue = ''verified.positive'', cs_tag = ''blockchain-verified-positive''\<rparr>,
        ''VerifiedNegativeConsumer'' \<mapsto> \<lparr>cs_queue = ''verified.negative'', cs_tag = ''blockchain-verified-negative''\<rparr>,
        ''LogConsumer'' \<mapsto> \<lparr>cs_queue = ''logs.blockchain'', cs_tag = ''blockchain-log-consumer''\<rparr>],
     ps_publishers := Some [''IdentityResultsPublisher'' \<mapsto> \<lparr>pb_exchange = ''identity'', pb_routing_key = ''proof.results''\<rparr>,
        ''IdentityFailurePublisher'' \<mapsto> \<lparr>pb_exchange = ''identity'', pb_routing_key = ''proof.failures''\<rparr>,
        ''LogPublisher'' \<mapsto> \<lparr>pb_exchange = ''log_audit'', pb_routing_key = []\<rparr>]\<rparr>"

lemma registries_step:
  assumes "ab_logger b \<noteq> None" and "ab_conn b = Some c" and "ps_consumers ps = None" and "ps_publishers ps = None"
  shows "get (ab_config b) = api_rabbitmq \<Longrightarrow> InitRabbitmqRegistries M get (b, ps) =
      next_step (channels M c 5) (\<lambda>u. Inr (b, api_registered ps))"
    and "get (ab_config b) = blockchain_rabbitmq \<Longrightarrow> InitRabbitmqRegistries M get (b, ps) =
      next_step (channels M c 6) (\<lambda>u. Inr (b, blockchain_registered ps))"
  using assms
  by (auto simp: InitRabbitmqRegistries_def logged_def channels_def channel_lists Let_def api_registries blockchain_registries
      api_registered_def blockchain_registered_def)

text \<open>The lookups of the workers in these registries.\<close>

lemma registered_lookups:
  "get_consumer ''ProofFailuresConsumer'' (api_registered ps) = Inr (Some \<lparr>cs_queue = ''proof.failures'', cs_tag = ''api-proof-failures''\<rparr>)"
  "get_consumer ''ProofResultsConsumer'' (api_registered ps) = Inr (Some \<lparr>cs_queue = ''proof.results'', cs_tag = ''api-proof-results''\<rparr>)"
  "get_consumer ''LogConsumer'' (api_registered ps) = Inr (Some \<lparr>cs_queue = ''logs.api'', cs_tag = ''api-log-consumer''\<rparr>)"
  "get_publisher ''VerifiersUnverifiedPublisher'' (api_registered ps) = Inr (Some \<lparr>pb_exchange = ''verifiers'', pb_routing_key = ''unverified.#''\<rparr>)"
  "get_publisher ''LogPublisher'' (api_registered ps) = Inr (Some \<lparr>pb_exchange = ''log_audit'', pb_routing_key = []\<rparr>)"
  "get_consumer ''VerifiedPositiveConsumer'' (blockchain_registered ps) = Inr (Some \<lparr>cs_queue = ''verified.positive'', cs_tag = ''blockchain-verified-positive''\<rparr>)"
  "get_consumer ''VerifiedNegativeConsumer'' (blockchain_registered ps) = Inr (Some \<lparr>cs_queue = ''verified.negative'', cs_tag = ''blockchain-verified-negative''\<rparr>)"
  "get_consumer ''LogConsumer'' (blockchain_registered ps) = Inr (Some \<lparr>cs_queue = ''logs.blockchain'', cs_tag = ''blockchain-log-consumer''\<rparr>)"
  "get_publisher ''LogPublisher'' (blockchain_registered ps) = Inr (Some \<lparr>pb_exchange = ''log_audit'', pb_routing_key = []\<rparr>)"
  by (simp_all add: get_consumer_def get_publisher_def GetConsumer_def GetPublisher_def api_registered_def blockchain_registered_def)

lemma lookups_with_logger:
  "get_consumer a (ps\<lparr>ps_logger := l\<rparr>) = get_consumer a ps" "get_publisher a (ps\<lparr>ps_logger := l\<rparr>) = get_publisher a ps"
  "GetDatabaseConnection (ps\<lparr>ps_logger := l\<rparr>) = GetDatabaseConnection ps"
  "GetDatabaseConnection (api_registered ps) = GetDatabaseConnection ps"
  by (simp_all add: get_consumer_def get_publisher_def GetDatabaseConnection_def api_registered_def)

lemma registered_process:
  "ps_logger (api_registered ps) = ps_logger ps" "ps_database (api_registered ps) = ps_database ps" "ps_tables (api_registered ps) = ps_tables ps"
  "ps_logger (blockchain_registered ps) = ps_logger ps" "ps_database (blockchain_registered ps) = ps_database ps"
  "ps_tables (blockchain_registered ps) = ps_tables ps"
  by (simp_all add: api_registered_def blockchain_registered_def)

lemma ports: "nat_str 8080 = ''8080''" "nat_str 8888 = ''8888''"
proof -
  have "digit_char 8 = CHR ''8''" "digit_char 0 = CHR ''0''" by code_simp+
  then have "nat_str 8080 = ''8080''" "nat_str 8888 = ''8888''"
    by (simp_all add: nat_str.simps [of 8080] nat_str.simps [of 808] nat_str.simps [of 80] nat_str.simps [of 8]
        nat_str.simps [of 8888] nat_str.simps [of 888] nat_str.simps [of 88] del: nat_str.simps)
  then show "nat_str 8080 = ''8080''" "nat_str 8888 = ''8888''" .
qed

lemma api_workers_made:
  assumes "ps_database ps = Some d"
  shows "api_workers ((api_registered ps)\<lparr>ps_logger := l\<rparr>) = Inr (ap_workers (api_application c))"
  using assms
  by (simp add: api_workers_def NewZeroKnowledgeProofFailedHandler_def NewZeroKnowledgeProofHandler_def NewOutboxWorker_def
      NewLogSinkWorker_def api_application_def named_worker_def consumer_worker_def lookups_with_logger registered_lookups
      registered_process GetDatabaseConnection_def)

lemmas builder_defs = new_builder_def InitLogger_def InitDefaultLogger_def Default_def logged_def LoadConfig_def ResolveEnvironment_def
  WithOption_def InitRabbitmqConnection_def AddWorkerServices_def AddGinRoutes_def AddGinMiddleware_def
  AddSwagger_def InitGinRouter_def Build_def add_log_sink_def new_process_def

text \<open>The file gives the settings but the connection string; the options need the database and its tables.\<close>

lemma api_settings:
  assumes "mc_file M ''config.json'' = Inr content" and "gl_json_parse (mc_lib M) content = Some api_config_file"
  shows "ReadConfig (mc_lib M) decode_api_config api_MapToDomain (mc_file M ''config.json'')
    = Inr \<lparr>ac_rabbitmq = api_rabbitmq, ac_port = 8080, ac_connection_string = []\<rparr>"
  using assms by (simp add: ReadConfig_def unmarshal_def decode_config_files api_MapToDomain_def)

lemma api_options_made:
  assumes "ab_logger b \<noteq> None" and "ac_connection_string (ab_config b) = []" and "ps_database ps = None" and "ps_tables ps = []"
  shows "api_options M (b, ps) =
    next_step (case mc_open M (mc_env M ''DB_CONNECTION_STRING'') of Inl e \<Rightarrow> Inl (NoDatabase e) | Inr u \<Rightarrow> Inr ()) (\<lambda>u.
    next_step (case AutoMigrate (mc_migrate M) migrated_models [] of (Some e, ts) \<Rightarrow> Inl (NoTable e) | (None, ts) \<Rightarrow> Inr ts) (\<lambda>ts.
    Inr (b\<lparr>ab_serve_templates := True, ab_templates_glob := ''templates/*.html'', ab_serve_css := True,
           ab_css_route := ''/app.css'', ab_css_file := ''./static/app.css''\<rparr>,
         ps\<lparr>ps_database := Some (mc_env M ''DB_CONNECTION_STRING''), ps_tables := ts\<rparr>)))"
proof -
  have "GetDatabaseConnectionString (mc_env M) (ab_config b) = mc_env M ''DB_CONNECTION_STRING''"
    using assms(2) by (simp add: GetDatabaseConnectionString_def)
  then show ?thesis
    using assms
    by (auto simp: api_options_def ConnectToDatabase_def logged_def InitializeDatabaseConnection_def RunMigrations_def
        GetDatabaseConnection_def split: sum.splits option.splits prod.splits)
qed

text \<open>
  C39. What a start of the API needs, in this order: the address of the host, the database behind the
  variable \<open>DB_CONNECTION_STRING\<close> (never the one of its file), six tables, of which none is
  \<open>schemas\<close>, a connection to the broker within seven attempts, five channels and the templates. It
  then has four workers, each with the queue of its alias, and the routes; else it ends with the
  first of these that failed.
\<close>

theorem api_start:
  assumes "mc_file M ''config.json'' = Inr content" and "gl_json_parse (mc_lib M) content = Some api_config_file"
    and "trim_space (mc_env M ''LAN_HOST_IP'') \<noteq> []"
  shows "outcome (api_main M) =
    next_step (case mc_open M (mc_env M ''DB_CONNECTION_STRING'') of Inl e \<Rightarrow> Inl (NoDatabase e) | Inr u \<Rightarrow> Inr ()) (\<lambda>u.
    next_step (case AutoMigrate (mc_migrate M) migrated_models [] of (Some e, ts) \<Rightarrow> Inl (NoTable e) | (None, ts) \<Rightarrow> Inr ts) (\<lambda>ts.
    next_step (connection M ''id_system_api'') (\<lambda>c.
    next_step (channels M c 5) (\<lambda>u.
    if mc_glob M ''templates/*.html'' then Inr (api_application c, Some (mc_env M ''DB_CONNECTION_STRING''), ts) else Inl NoTemplates))))"
proof -
  have lan: "ResolveLanHost (mc_env M) = Some (trim_space (mc_env M ''LAN_HOST_IP''))" using assms(3) by (simp add: ResolveLanHost_def)
  note base = outcome_def api_main_def lan builder_defs api_settings [OF assms(1,2)] api_options_made connection_def configured_users
  obtain r ts where t: "AutoMigrate (mc_migrate M) migrated_models [] = (r, ts)" by fastforce
  consider e where "mc_open M (mc_env M ''DB_CONNECTION_STRING'') = Inl e"
    | u e where "mc_open M (mc_env M ''DB_CONNECTION_STRING'') = Inr u" "r = Some e"
    | u e where "mc_open M (mc_env M ''DB_CONNECTION_STRING'') = Inr u" "r = None"
        "fst (ConnectToRabbitmq (mc_dial M ''id_system_api'' ''id_system_api'')) = Inl e"
    | u c e where "mc_open M (mc_env M ''DB_CONNECTION_STRING'') = Inr u" "r = None"
        "fst (ConnectToRabbitmq (mc_dial M ''id_system_api'' ''id_system_api'')) = Inr c" "channels M c 5 = Inl e"
    | u c v where "mc_open M (mc_env M ''DB_CONNECTION_STRING'') = Inr u" "r = None"
        "fst (ConnectToRabbitmq (mc_dial M ''id_system_api'' ''id_system_api'')) = Inr c" "channels M c 5 = Inr v"
    by (metis not_None_eq old.sum.exhaust)
  then show ?thesis
  proof cases
    case 5
    then show ?thesis
      by (simp add: t base registries_step registered_lookups lookups_with_logger registered_process api_workers_made [of _ _ _ c]
          NewHandler_identity_def GetDatabaseConnection_def api_application_def ports)
  qed (simp_all add: t base registries_step)
qed

theorem api_start_witness:
  "ResolveLanHost (\<lambda>k. ''10.0.0.1'') = Some ''10.0.0.1'' \<and>
   outcome (api_main \<lparr>mc_env = \<lambda>k. ''10.0.0.1'', mc_file = \<lambda>f. Inr [], mc_lib = plain_lib\<lparr>gl_json_parse := \<lambda>t. Some api_config_file\<rparr>,
     mc_dial = \<lambda>u p n. if n < 2 then Inl (LibErr ''refused'') else Inr (), mc_channel = \<lambda>c n. n < 5, mc_open = \<lambda>c. Inr (),
     mc_migrate = \<lambda>m. Inr (), mc_glob = \<lambda>g. True, mc_public_key = Inr, mc_keygen_file = \<lambda>f. Inr ([], []), mc_home = []\<rparr>)
   = Inr (api_application (), Some ''10.0.0.1'', migrated_models)"
proof -
  let ?M = "\<lparr>mc_env = \<lambda>k. ''10.0.0.1'', mc_file = \<lambda>f. Inr [], mc_lib = plain_lib\<lparr>gl_json_parse := \<lambda>t. Some api_config_file\<rparr>,
     mc_dial = \<lambda>u p n. if n < 2 then Inl (LibErr ''refused'') else Inr (), mc_channel = \<lambda>c n. n < 5, mc_open = \<lambda>c. Inr (),
     mc_migrate = \<lambda>m. Inr (), mc_glob = \<lambda>g. True, mc_public_key = Inr, mc_keygen_file = \<lambda>f. Inr ([], []), mc_home = []\<rparr>"
  have t: "trim_space ''10.0.0.1'' = ''10.0.0.1''" by (rule trim_space_printable) code_simp+
  have d: "fst (ConnectToRabbitmq (\<lambda>n. if n < 2 then Inl (LibErr ''refused'') else Inr ())) = Inr ()"
    by (simp add: ConnectToRabbitmq_def numeral_eq_Suc)
  have m: "AutoMigrate (\<lambda>m. Inr ()) migrated_models [] = (None, migrated_models)" by (simp add: migrated_models_def)
  from api_start [of ?M "[]"] show ?thesis
    by (simp add: t ResolveLanHost_def connection_def d m channels_def list_all_iff)
qed

lemma blockchain_workers_made:
  assumes "LoadSolanaKeys M = Inr k"
  shows "blockchain_workers M ((blockchain_registered ps)\<lparr>ps_logger := l\<rparr>) = Inr (ap_workers (blockchain_application c))"
  using assms
  by (simp add: blockchain_workers_def NewVerifiedPositiveWorker_def NewVerifiedNegativeWorker_def NewBlockchainClientLogSink_def
      blockchain_application_def named_worker_def consumer_worker_def lookups_with_logger registered_lookups)

text \<open>A start of the blockchain client: host, broker, six channels, the keys of the chain.\<close>

lemma blockchain_start:
  assumes "mc_file M ''config.json'' = Inr content" and "gl_json_parse (mc_lib M) content = Some blockchain_config_file"
    and "trim_space (mc_env M ''LAN_HOST_IP'') \<noteq> []"
  shows "outcome (blockchain_main M) =
    next_step (connection M ''id_system_blockchain'') (\<lambda>c.
    next_step (channels M c 6) (\<lambda>u.
    next_step (case LoadSolanaKeys M of Inl e \<Rightarrow> Inl (NoKeys e) | Inr k \<Rightarrow> Inr k) (\<lambda>k.
    Inr (blockchain_application c, None, []))))"
proof -
  have cfg: "ReadConfig (mc_lib M) decode_blockchain_config blockchain_MapToDomain (mc_file M ''config.json'')
      = Inr \<lparr>bcf_rabbitmq = blockchain_rabbitmq, bcf_port = 8888\<rparr>"
    using assms(1,2) by (simp add: ReadConfig_def unmarshal_def decode_config_files blockchain_MapToDomain_def)
  have lan: "ResolveLanHost (mc_env M) = Some (trim_space (mc_env M ''LAN_HOST_IP''))" using assms(3) by (simp add: ResolveLanHost_def)
  note base = lan builder_defs cfg outcome_def blockchain_main_def connection_def configured_users
  show ?thesis
  proof (cases "fst (ConnectToRabbitmq (mc_dial M ''id_system_blockchain'' ''id_system_blockchain''))")
    case (Inl e)
    then show ?thesis by (simp add: base)
  next
    case c: (Inr c)
    show ?thesis
    proof (cases "channels M c 6")
      case (Inl e)
      then show ?thesis using c by (simp add: base registries_step)
    next
      case ch: (Inr u)
      show ?thesis
      proof (cases "LoadSolanaKeys M")
        case (Inl e)
        then show ?thesis
          using c ch by (simp add: base registries_step registered_lookups registered_process blockchain_workers_def NewVerifiedPositiveWorker_def)
      next
        case (Inr k)
        then show ?thesis
          using c ch
          by (simp add: base registries_step registered_lookups lookups_with_logger registered_process blockchain_workers_made [of _ _ _ _ c]
              blockchain_application_def ports)
      qed
    qed
  qed
qed

end
