(* ===== verification/IssuerKeys.thy ===== *)
theory IssuerKeys
  imports Issuer
begin

text \<open>
  The keys of the issuer (\<open>zk-wallet-go/internal/app/keys\<close>), their publication
  (\<open>oidcissuer.HandleJWKS\<close>), and what is signed and checked with them. Ed25519, JWK and JWS are the
  JOSE library's, a parameter.
\<close>

section \<open>The library\<close>

text \<open>
  The \<open>n\<close>-th key pair, its public key as a JWK, the JWK with the id that is made from it, the id, a
  signature with a private key and a key id in the header, its verification with a set of keys, and
  the JSON of a set.
\<close>

record ('pub, 'priv, 'key) jose =
  jo_generate :: "nat \<Rightarrow> ('pub \<times> 'priv) res"
  jo_from_raw :: "'pub \<Rightarrow> 'key res"
  jo_assign_kid :: "'key \<Rightarrow> 'key res"
  jo_kid :: "'key \<Rightarrow> string"
  jo_sign :: "'priv \<Rightarrow> string \<Rightarrow> string \<Rightarrow> string res"
  jo_verify :: "'key list \<Rightarrow> string \<Rightarrow> string res"
  jo_json :: "'key list \<Rightarrow> string"

definition key_of :: "('pub, 'priv, 'key) jose \<Rightarrow> 'pub \<Rightarrow> 'key res" where
  "key_of J pub = and_then (jo_from_raw J pub) (jo_assign_kid J)"

text \<open>
  What was signed with a pair verifies with a set of its key, to the same payload, and with a set of a
  key of another pair it does not.
\<close>

definition jose_laws :: "('pub, 'priv, 'key) jose \<Rightarrow> bool" where
  "jose_laws J \<longleftrightarrow>
     (\<forall>n pub priv k p t. jo_generate J n = Inr (pub, priv) \<longrightarrow> key_of J pub = Inr k \<longrightarrow>
        jo_sign J priv (jo_kid J k) p = Inr t \<longrightarrow>
        jo_verify J [k] t = Inr p \<and>
        (\<forall>m pub' priv' k'. jo_generate J m = Inr (pub', priv') \<longrightarrow> pub' \<noteq> pub \<longrightarrow> key_of J pub' = Inr k' \<longrightarrow>
           \<not> ok (jo_verify J [k'] t)))"

section \<open>The keys\<close>

record ('priv, 'key) issuer_keys =
  ik_private :: 'priv
  ik_key_id :: string
  ik_jwks :: "'key list"

text \<open>\<open>None\<close>: the process ends. \<open>n\<close> counts the pairs that have been made.\<close>

definition GenerateIssuerKey :: "('pub, 'priv, 'key) jose \<Rightarrow> nat \<Rightarrow> ('priv, 'key) issuer_keys option" where
  "GenerateIssuerKey J n =
     (case jo_generate J n of
        Inl e \<Rightarrow> None
      | Inr (pub, priv) \<Rightarrow>
          (case jo_from_raw J pub of
             Inl e \<Rightarrow> None
           | Inr raw \<Rightarrow>
               (case jo_assign_kid J raw of
                  Inl e \<Rightarrow> None
                | Inr k \<Rightarrow> Some \<lparr>ik_private = priv, ik_key_id = jo_kid J k, ik_jwks = [k]\<rparr>)))"

text \<open>The content type and the body.\<close>

definition HandleJWKS :: "('pub, 'priv, 'key) jose \<Rightarrow> ('priv, 'key) issuer_keys \<Rightarrow> string \<times> string" where
  "HandleJWKS J K = (''application/json'', jo_json J (ik_jwks K))"

text \<open>How \<open>HandleVciCredential\<close> signs.\<close>

definition issuer_sign :: "('pub, 'priv, 'key) jose \<Rightarrow> ('priv, 'key) issuer_keys \<Rightarrow> string \<Rightarrow> string res" where
  "issuer_sign J K payload = jo_sign J (ik_private K) (ik_key_id K) payload"

section \<open>Credentials and keys\<close>

lemma GenerateIssuerKey_Some:
  "GenerateIssuerKey J n = Some K \<longleftrightarrow>
     (\<exists>pub priv k. jo_generate J n = Inr (pub, priv) \<and> key_of J pub = Inr k
        \<and> K = \<lparr>ik_private = priv, ik_key_id = jo_kid J k, ik_jwks = [k]\<rparr>)"
  by (auto simp: GenerateIssuerKey_def key_of_def and_then_def split: sum.splits prod.splits)

lemma issued_is_signed:
  assumes "rs_status (HandleVciCredential W C stamp sign now auth s) = 200"
  obtains tok r birthTS t where "bearer_token auth = Some tok" "is_access s tok = Some r"
    "sign (json_text W (vc_claims C stamp now (ss_sub (ac_user r)) birthTS)) = Inr t"
    "rs_body (HandleVciCredential W C stamp sign now auth s)
       = jobj [(''format'', GStr ''jwt_vc_json''), (''credential'', GStr t)]"
  using assms that
  by (auto simp: HandleVciCredential_def http_error_def resp_def split: option.splits sum.splits if_splits)

text \<open>
  A credential can be checked as long as the process that issued it runs, and no longer: it verifies
  with the published keys, to the claims of the user of the token; after a start that made another
  pair it does not, because the keys are made anew and the old ones are not kept.
\<close>

theorem credentials_end_with_the_process:
  assumes "jose_laws J" and "GenerateIssuerKey J n = Some K"
    and "rs_status (HandleVciCredential W C stamp (issuer_sign J K) now auth s) = 200"
  shows "\<exists>tok r birthTS t. bearer_token auth = Some tok \<and> is_access s tok = Some r
    \<and> rs_body (HandleVciCredential W C stamp (issuer_sign J K) now auth s)
        = jobj [(''format'', GStr ''jwt_vc_json''), (''credential'', GStr t)]
    \<and> jo_verify J (ik_jwks K) t = Inr (json_text W (vc_claims C stamp now (ss_sub (ac_user r)) birthTS))
    \<and> (\<forall>m K'. GenerateIssuerKey J m = Some K' \<longrightarrow> fst (projr (jo_generate J m)) \<noteq> fst (projr (jo_generate J n)) \<longrightarrow>
         \<not> ok (jo_verify J (ik_jwks K') t))"
proof -
  from assms(3) obtain tok r birthTS t where i: "bearer_token auth = Some tok" "is_access s tok = Some r"
    "issuer_sign J K (json_text W (vc_claims C stamp now (ss_sub (ac_user r)) birthTS)) = Inr t"
    "rs_body (HandleVciCredential W C stamp (issuer_sign J K) now auth s)
       = jobj [(''format'', GStr ''jwt_vc_json''), (''credential'', GStr t)]" by (rule issued_is_signed)
  from assms(2) obtain pub priv k where k: "jo_generate J n = Inr (pub, priv)" "key_of J pub = Inr k"
    "K = \<lparr>ik_private = priv, ik_key_id = jo_kid J k, ik_jwks = [k]\<rparr>"
    unfolding GenerateIssuerKey_Some by blast
  have sg: "jo_sign J priv (jo_kid J k) (json_text W (vc_claims C stamp now (ss_sub (ac_user r)) birthTS)) = Inr t"
    using i(3) by (simp add: issuer_sign_def k(3))
  have v: "jo_verify J (ik_jwks K) t = Inr (json_text W (vc_claims C stamp now (ss_sub (ac_user r)) birthTS))"
    and o: "jo_generate J m = Inr (pub', priv') \<Longrightarrow> pub' \<noteq> pub \<Longrightarrow> key_of J pub' = Inr k' \<Longrightarrow> \<not> ok (jo_verify J [k'] t)"
    for m pub' priv' k'
    using assms(1) k(1,2) sg unfolding jose_laws_def by (simp_all add: k(3)) blast+
  have "\<not> ok (jo_verify J (ik_jwks K') t)"
    if g: "GenerateIssuerKey J m = Some K'" and ne: "fst (projr (jo_generate J m)) \<noteq> fst (projr (jo_generate J n))" for m K'
  proof -
    from g obtain pub' priv' k' where m: "jo_generate J m = Inr (pub', priv')" "key_of J pub' = Inr k'" "ik_jwks K' = [k']"
      unfolding GenerateIssuerKey_Some by auto
    from ne have "pub' \<noteq> pub" by (simp add: m(1) k(1))
    from o [OF m(1) this m(2)] show ?thesis by (simp add: m(3))
  qed
  with i(1,2,4) v show ?thesis by blast
qed

end
