(* ===== verification/WalletMain.thy ===== *)
theory WalletMain
  imports Config Server IssuerKeys
begin

text \<open>
  The \<open>main\<close> of the wallet (\<open>zk-wallet-go/cmd/wallet-server/main.go\<close>): its settings from the
  environment, and what it serves. Parsing a URL and printing its path are the library's;
  host and port are taken apart and joined as \<open>net/url\<close> and \<open>net\<close> do.
\<close>

record parsed_url =
  pu_scheme :: string
  pu_host :: string
  pu_tail :: string

text \<open>A colon and digits, or nothing.\<close>

definition valid_optional_port :: "string \<Rightarrow> bool" where
  "valid_optional_port p = (p = [] \<or> (hd p = CHR '':'' \<and> list_all is_digit (tl p)))"

text \<open>The text up to the last colon and the text from it on.\<close>

definition last_colon :: "string \<Rightarrow> string \<times> string" where
  "last_colon s =
     (if CHR '':'' \<in> set s
      then (let r = rev s; p = takeWhile (\<lambda>c. c \<noteq> CHR '':'') r
            in (rev (drop (Suc (length p)) r), CHR '':'' # rev p))
      else (s, []))"

definition splitHostPort :: "string \<Rightarrow> string \<times> string" where
  "splitHostPort hostPort =
     (let (h, p) = last_colon hostPort;
          (host, port) = (if p \<noteq> [] \<and> valid_optional_port p then (h, tl p) else (hostPort, []))
      in (if 2 \<le> length host \<and> hd host = CHR ''['' \<and> last host = CHR '']'' then butlast (tl host) else host, port))"

definition JoinHostPort :: "string \<Rightarrow> string \<Rightarrow> string" where
  "JoinHostPort host port =
     (if CHR '':'' \<in> set host then ''['' @ host @ '']:'' @ port else host @ '':'' @ port)"

definition url_text :: "parsed_url \<Rightarrow> string" where
  "url_text u = pu_scheme u @ ''://'' @ pu_host u @ pu_tail u"

record wallet_settings =
  ws_port :: string
  ws_issuer_base_url :: string
  ws_dsnet_issuer :: string
  ws_dsnet_logout :: string
  ws_client_id :: string
  ws_client_secret :: string
  ws_redirect_uri :: string
  ws_verifier_base_url :: string

text \<open>\<open>None\<close>: the process ends, because a variable is missing or the URL is none.\<close>

definition wallet_main_settings ::
    "(string \<Rightarrow> string) \<Rightarrow> (string \<Rightarrow> parsed_url option) \<Rightarrow> wallet_settings option" where
  "wallet_main_settings env parse =
     (case MustEnv env ''ISSUER_BASE_URL'' of None \<Rightarrow> None | Some raw \<Rightarrow>
     (case parse (trim_right_slash raw) of None \<Rightarrow> None | Some u \<Rightarrow>
      if pu_scheme u = [] \<or> pu_host u = [] then None
      else let (hostname, p) = splitHostPort (pu_host u);
               port = (if p = [] then ''80'' else p);
               base = url_text (u\<lparr>pu_host := JoinHostPort hostname port\<rparr>)
           in
     (case MustEnv env ''DSNET_ISSUER'' of None \<Rightarrow> None | Some dsnet \<Rightarrow>
     (case MustEnv env ''OIDC_CLIENT_ID'' of None \<Rightarrow> None | Some client \<Rightarrow>
     (case MustEnv env ''OIDC_CLIENT_SECRET'' of None \<Rightarrow> None | Some secret \<Rightarrow>
     (case MustEnv env ''ZKP_VERIFIER_BASE_URL'' of None \<Rightarrow> None | Some vbase \<Rightarrow>
       Some \<lparr>ws_port = port, ws_issuer_base_url = base, ws_dsnet_issuer = dsnet,
             ws_dsnet_logout = trim_right_slash dsnet @ ''/logout'', ws_client_id = client, ws_client_secret = secret,
             ws_redirect_uri = GetenvDefault env ''OIDC_REDIRECT_URI'' (base @ ''/auth/dsnet/callback''),
             ws_verifier_base_url = vbase\<rparr>))))))"

text \<open>
  The rest of \<open>main\<close>: the discovery of the identity provider (its end-of-session endpoint, empty when it
  names none), the keys, the stores and handlers, the routes. \<open>None\<close>: the process ends.
\<close>

record ('priv, 'key) wallet_server =
  wm_settings :: wallet_settings
  wm_issuer :: issuer_config
  wm_keys :: "('priv, 'key) issuer_keys"
  wm_credentials :: vc_store
  wm_demo :: wallet_service
  wm_routes :: "(string \<times> string) list"
  wm_addr :: string

definition wallet_main ::
    "(string \<Rightarrow> string) \<Rightarrow> (string \<Rightarrow> parsed_url option) \<Rightarrow> (string \<Rightarrow> string res) \<Rightarrow> ('pub, 'priv, 'key) jose \<Rightarrow> nat
      \<Rightarrow> ('priv, 'key) wallet_server option" where
  "wallet_main env parse discover J n =
     (case wallet_main_settings env parse of None \<Rightarrow> None | Some ws \<Rightarrow>
     (case discover (ws_dsnet_issuer ws) of Inl e \<Rightarrow> None | Inr end_session \<Rightarrow>
     (case GenerateIssuerKey J n of None \<Rightarrow> None | Some K \<Rightarrow>
       Some \<lparr>wm_settings = ws,
             wm_issuer = \<lparr>ig_base_url = ws_issuer_base_url ws, ig_redirect_uri = ws_redirect_uri ws,
               ig_dsnet_logout = ws_dsnet_logout ws, ig_end_session = end_session,
               ig_scopes = [''openid'', ''email'', ''profile''], ig_key_id = ik_key_id K\<rparr>,
             wm_keys = K, wm_credentials = Map.empty, wm_demo = main_wallet_service (ws_issuer_base_url ws),
             wm_routes = wallet_routes, wm_addr = CHR '':'' # ws_port ws\<rparr>)))"

section \<open>Facts\<close>

lemma last_colon_absent: "CHR '':'' \<notin> set s \<Longrightarrow> last_colon s = (s, [])"
  by (simp add: last_colon_def)

lemma last_colon_join:
  assumes "CHR '':'' \<notin> set p"
  shows "last_colon (h @ CHR '':'' # p) = (h, CHR '':'' # p)"
proof -
  have t: "takeWhile (\<lambda>c. c \<noteq> CHR '':'') (rev p @ CHR '':'' # rev h) = rev p"
    using assms by (subst takeWhile_append2) auto
  show ?thesis by (simp add: last_colon_def t Let_def)
qed

text \<open>Joining is undone by splitting, for a port of digits and a host without brackets.\<close>

lemma split_join:
  assumes "port \<noteq> []" and "list_all is_digit port" and "CHR ''['' \<notin> set host"
  shows "splitHostPort (JoinHostPort host port) = (host, port)"
proof -
  have "CHR '':'' \<notin> set port" using assms(2) by (auto simp: list_all_iff is_digit_def)
  note l = last_colon_join [OF this]
  have v: "valid_optional_port (CHR '':'' # port)" using assms(2) by (simp add: valid_optional_port_def)
  show ?thesis
  proof (cases "CHR '':'' \<in> set host")
    case True
    have "last_colon ((''['' @ host @ '']'') @ CHR '':'' # port) = (''['' @ host @ '']'', CHR '':'' # port)" by (rule l)
    then show ?thesis
      using True v assms(1) by (simp add: splitHostPort_def JoinHostPort_def)
  next
    case False
    then show ?thesis
      using v assms(1,3) l [of host] by (cases host) (auto simp: splitHostPort_def JoinHostPort_def)
  qed
qed

text \<open>
  An issuer whose URL names no port gets port 80, also under \<open>https\<close>: every link, the callback of
  the login and the name of the issuer in its credentials carry it, and the server listens there.
\<close>

theorem issuer_without_port:
  assumes "parse (trim_right_slash (env ''ISSUER_BASE_URL'')) = Some \<lparr>pu_scheme = scheme, pu_host = host, pu_tail = tail\<rparr>"
    and "scheme \<noteq> []" and "host \<noteq> []" and "set host \<inter> {CHR '':'', CHR ''[''} = {}"
    and "wallet_main_settings env parse = Some ws"
  shows "ws_port ws = ''80'' \<and> ws_issuer_base_url ws = scheme @ ''://'' @ host @ '':80'' @ tail
    \<and> ws_redirect_uri ws = (if env ''OIDC_REDIRECT_URI'' \<noteq> [] then env ''OIDC_REDIRECT_URI''
         else scheme @ ''://'' @ host @ '':80'' @ tail @ ''/auth/dsnet/callback'')"
proof -
  have s: "splitHostPort host = (host, [])"
    using assms(4) by (cases host) (auto simp: splitHostPort_def last_colon_absent)
  have j: "JoinHostPort host ''80'' = host @ '':80''" using assms(4) by (simp add: JoinHostPort_def)
  show ?thesis
    using assms(2,3,5)
    by (auto simp: wallet_main_settings_def MustEnv_def assms(1) s j url_text_def GetenvDefault_def Let_def split: if_splits)
qed

theorem issuer_without_port_witness:
  "\<exists>ws. wallet_main_settings (\<lambda>k. if k = ''OIDC_REDIRECT_URI'' then [] else ''x'')
     (\<lambda>t. Some \<lparr>pu_scheme = ''https'', pu_host = ''id.example'', pu_tail = []\<rparr>) = Some ws
   \<and> ws_redirect_uri ws = ''https://id.example:80/auth/dsnet/callback''"
proof -
  let ?env = "\<lambda>k. if k = ''OIDC_REDIRECT_URI'' then [] else ''x''"
  let ?parse = "\<lambda>t. Some \<lparr>pu_scheme = ''https'', pu_host = ''id.example'', pu_tail = []\<rparr>"
  have "wallet_main_settings ?env ?parse \<noteq> None" by (simp add: wallet_main_settings_def MustEnv_def Let_def split: prod.splits)
  then obtain ws where ws: "wallet_main_settings ?env ?parse = Some ws" by blast
  from issuer_without_port [of ?parse ?env "''https''" "''id.example''" "[]", OF _ _ _ _ ws] ws show ?thesis by simp
qed

end
