(* ===== verification/Contract.thy ===== *)
theory Contract
  imports ChainProps
begin

text \<open>
  The program on the chain (\<open>smart-contract/program/src/lib.rs\<close>), and what it makes of the two kinds
  of instructions that the blockchain client sends. Borsh is a parameter, with its documented format.
\<close>

section \<open>The program\<close>

datatype program_error = NotEnoughAccountKeys | InvalidInstructionData | AccountDataTooSmall

text \<open>Borsh for the three byte vectors of the struct \<open>ZkpResult\<close>.\<close>

record rust_borsh =
  rb_try_from_slice :: "string \<Rightarrow> (string \<times> string \<times> string) option"
  rb_to_vec :: "string \<times> string \<times> string \<Rightarrow> string"

text \<open>
  From the data of the accounts of an instruction to their data after it. Who signed and who owns the
  accounts is not asked. The runtime lets a program write only to accounts of its own.
\<close>

definition process_instruction :: "rust_borsh \<Rightarrow> string list \<Rightarrow> string \<Rightarrow> program_error + string list" where
  "process_instruction B accounts instruction_data =
     (case accounts of
        [] \<Rightarrow> Inl NotEnoughAccountKeys
      | account # others \<Rightarrow>
          (case rb_try_from_slice B instruction_data of
             None \<Rightarrow> Inl InvalidInstructionData
           | Some zkp_result \<Rightarrow>
               let serialized = rb_to_vec B zkp_result
               in if length account < length serialized then Inl AccountDataTooSmall
                  else Inr ((serialized @ drop (length serialized) account) # others)))"

section \<open>The format of Borsh\<close>

text \<open>A vector of bytes is its length in four bytes, the lowest first, and then the bytes.\<close>

definition length_bytes :: "nat \<Rightarrow> string" where
  "length_bytes n = [char_of n, char_of (n div 256), char_of (n div 65536), char_of (n div 16777216)]"

definition vec_bytes :: "string \<Rightarrow> string" where
  "vec_bytes v = length_bytes (length v) @ v"

fun package_bytes :: "string \<times> string \<times> string \<Rightarrow> string" where
  "package_bytes (a, b, c) = vec_bytes a @ vec_bytes b @ vec_bytes c"

fun package_fits :: "string \<times> string \<times> string \<Rightarrow> bool" where
  "package_fits (a, b, c) = (length a < 2 ^ 32 \<and> length b < 2 ^ 32 \<and> length c < 2 ^ 32)"

text \<open>Of the crate, and of the package for Go.\<close>

definition rust_borsh_laws :: "rust_borsh \<Rightarrow> bool" where
  "rust_borsh_laws B \<longleftrightarrow>
     (\<forall>z. package_fits z \<longrightarrow> rb_to_vec B z = package_bytes z)
   \<and> (\<forall>t z. rb_try_from_slice B t = Some z \<longleftrightarrow> package_fits z \<and> t = package_bytes z)"

definition go_borsh_format :: "('vk, 'pub, 'prf) bc_codec \<Rightarrow> bool" where
  "go_borsh_format C \<longleftrightarrow> (\<forall>z d. bk_borsh C z = Inr d \<longrightarrow> package_fits z \<and> d = package_bytes z)"

lemma rust_borshD:
  assumes "rust_borsh_laws B" and "package_fits z"
  shows "rb_to_vec B z = package_bytes z" and "rb_try_from_slice B (package_bytes z) = Some z"
  using assms unfolding rust_borsh_laws_def by blast+

lemma length_package: "package_fits z \<Longrightarrow> length (package_bytes z) < 2 ^ 34"
  by (cases z) (simp add: vec_bytes_def length_bytes_def)

lemma of_char_byte: "of_char (char_of n :: char) = n mod (256 :: nat)"
  by simp

lemma length_bytes_at_least:
  assumes "length_bytes n = a # b # c # [CHR '':'']" and "n < 2 ^ 32"
  shows "58 * 16777216 \<le> n"
proof -
  have "of_char (char_of (n div 16777216) :: char) = (of_char (CHR '':'') :: nat)"
    using assms(1) by (simp add: length_bytes_def)
  then have "n div 16777216 mod 256 = 58" by (simp only: of_char_byte) simp
  moreover have "n div 16777216 < 256" using assms(2) by (simp add: less_mult_imp_div_less)
  ultimately have "n div 16777216 = 58" by simp
  then show ?thesis by (metis div_times_less_eq_dividend)
qed

section \<open>The two instructions\<close>

text \<open>
  Whoever sends a package overwrites what the account held, as long as there is room: the program
  asks for no signature of the one who made the account.
\<close>

lemma package_is_overwritten:
  assumes "rust_borsh_laws B" and "package_fits z" and "length (package_bytes z) \<le> length account"
  shows "process_instruction B (account # others) (package_bytes z)
    = Inr ((package_bytes z @ drop (length (package_bytes z)) account) # others)"
  using assms(3) by (simp add: process_instruction_def rust_borshD [OF assms(1,2)] Let_def)

text \<open>A package is stored when the account was made with the space that the worker asks for.\<close>

lemma package_is_stored:
  assumes "rust_borsh_laws B" and "package_fits z"
  shows "process_instruction B (replicate (unat (calculateRequiredAccountSpace (package_bytes z))) (CHR 0x00) # others) (package_bytes z)
    = Inr ((package_bytes z @ replicate (unat (calculateRequiredAccountSpace (package_bytes z)) - length (package_bytes z)) (CHR 0x00)) # others)"
proof -
  have "length (package_bytes z) < 2 ^ 51" using length_package [OF assms(2)] by simp
  then have "length (package_bytes z) \<le> unat (calculateRequiredAccountSpace (package_bytes z))"
    using account_space [of "package_bytes z"] by simp
  then show ?thesis using package_is_overwritten [OF assms] by simp
qed

text \<open>
  A line of the log is no package: its first four bytes are read as a length of nearly a gigabyte.
\<close>

lemma log_instruction_rejected:
  assumes "rust_borsh_laws B" and "length logData < 2 ^ 29"
  shows "process_instruction B (account # others) (in_data (log_instruction K logData)) = Inl InvalidInstructionData"
proof -
  have "rb_try_from_slice B (''LOG:'' @ logData) \<noteq> Some (a, b, c)" for a b c
  proof
    assume "rb_try_from_slice B (''LOG:'' @ logData) = Some (a, b, c)"
    then have f: "package_fits (a, b, c)" and t: "''LOG:'' @ logData = package_bytes (a, b, c)"
      using assms(1) unfolding rust_borsh_laws_def by blast+
    have "take 4 (''LOG:'' @ logData) = take 4 (length_bytes (length a) @ a @ vec_bytes b @ vec_bytes c)"
      by (simp only: t package_bytes.simps vec_bytes_def append_assoc)
    then have "length_bytes (length a) = CHR ''L'' # CHR ''O'' # CHR ''G'' # [CHR '':'']"
      by (simp add: length_bytes_def)
    then have "58 * 16777216 \<le> length a" using f by (intro length_bytes_at_least) simp_all
    moreover have "length a \<le> length (''LOG:'' @ logData)" unfolding t by (simp add: vec_bytes_def)
    ultimately show False using assms(2) by simp
  qed
  then have "rb_try_from_slice B (''LOG:'' @ logData) = None"
    by (cases "rb_try_from_slice B (''LOG:'' @ logData)") auto
  then show ?thesis by (simp add: process_instruction_def log_instruction_def)
qed

section \<open>What the node does with them\<close>

text \<open>
  A simulation without an error is one that the program accepted; \<open>data_of\<close> are the data of the
  accounts in the state of the node.
\<close>

definition simulates_program :: "rust_borsh \<Rightarrow> ('s, 'tx) solana \<Rightarrow> string \<Rightarrow> ('s \<Rightarrow> string \<Rightarrow> string) \<Rightarrow> bool" where
  "simulates_program B S contract data_of \<longleftrightarrow>
     (\<forall>ins h payer tx keys tx' s.
        so_transaction S [ins] h payer = Inr tx \<longrightarrow> so_sign S tx keys = Inr tx' \<longrightarrow> in_program ins = contract \<longrightarrow>
        fst (so_simulate S tx' s) = Inr None \<longrightarrow>
        \<not> isl (process_instruction B (map (\<lambda>a. data_of s (fst a)) (in_accounts ins)) (in_data ins)))"

text \<open>Less than half a gigabyte, where a transaction has little more than a kilobyte.\<close>

definition short_line :: "golib \<Rightarrow> logger_message \<Rightarrow> bool" where
  "short_line L m = (case Serialize L (logger_json m) of Inl e \<Rightarrow> True | Inr d \<Rightarrow> length d < 2 ^ 29)"

lemma log_simulation_fails:
  assumes "rust_borsh_laws B" and "simulates_program B S (ck_contract K) data_of"
    and "length logData < 2 ^ 29"
    and "so_transaction S [log_instruction K logData] h (ck_payer K) = Inr tx" and "so_sign S tx keys = Inr tx'"
  shows "fst (so_simulate S tx' s) \<noteq> Inr None"
proof
  assume a: "fst (so_simulate S tx' s) = Inr None"
  have "in_program (log_instruction K logData) = ck_contract K"
    and i: "map (\<lambda>a. data_of s (fst a)) (in_accounts (log_instruction K logData)) = [data_of s (ck_payer K)]"
    by (simp_all add: log_instruction_def)
  then have "\<not> isl (process_instruction B [data_of s (ck_payer K)] (in_data (log_instruction K logData)))"
    using assms(2,4,5) a unfolding simulates_program_def by metis
  then show False by (simp add: log_instruction_rejected [OF assms(1,3)])
qed

lemma log_is_not_sent:
  assumes "rust_borsh_laws B" and "simulates_program B S (ck_contract K) data_of" and "short_line L m"
  shows "storeLogToSolana L (S\<lparr>so_send := f\<rparr>) K m s = storeLogToSolana L S K m s
    \<and> fst (storeLogToSolana L S K m s) \<noteq> Inr ()"
proof (cases "Serialize L (logger_json m)")
  case (Inl e)
  then show ?thesis by (simp add: storeLogToSolana_def)
next
  case (Inr d)
  obtain r1 s1 where h: "so_blockhash S s = (r1, s1)" by fastforce
  show ?thesis
  proof (cases "\<exists>h tx tx'. r1 = Inr h \<and> so_transaction S [log_instruction K d] h (ck_payer K) = Inr tx
      \<and> so_sign S tx (\<lambda>pk. if pk = ck_payer K then Some (ck_payer_private K) else None) = Inr tx'")
    case True
    then obtain b tx tx' where t: "r1 = Inr b" "so_transaction S [log_instruction K d] b (ck_payer K) = Inr tx"
      "so_sign S tx (\<lambda>pk. if pk = ck_payer K then Some (ck_payer_private K) else None) = Inr tx'" by blast
    have "length d < 2 ^ 29" using assms(3) Inr by (simp add: short_line_def)
    from log_simulation_fails [OF assms(1,2) this t(2,3), of s1]
    obtain r2 s2 where "so_simulate S tx' s1 = (r2, s2)" "r2 \<noteq> Inr None" by (metis prod.collapse)
    then show ?thesis
      by (cases r2; cases "projr r2") (auto simp: storeLogToSolana_def Inr h t)
  next
    case False
    then show ?thesis
      by (cases r1; cases "so_transaction S [log_instruction K d] (projr r1) (ck_payer K)")
         (auto simp: storeLogToSolana_def Inr h bind_st_def wrapped_def split: sum.splits)
  qed
qed

text \<open>
  C26. The chain never gets a line of the log. The program takes only packages of proofs, so the
  simulation of an instruction with a line fails and the worker drops the error: however the
  node would send a transaction, consuming any lines leaves the node in the same state.
\<close>

theorem chain_logs_never_stored:
  assumes "rust_borsh_laws B" and "simulates_program B S (ck_contract K) data_of"
    and "list_all (\<lambda>body. case unmarshal L decode_logger_message body of Inl e \<Rightarrow> True | Inr m \<Rightarrow> short_line L m) bodies"
  shows "fold (chain_log_worker L (S\<lparr>so_send := f\<rparr>) K) bodies s = fold (chain_log_worker L S K) bodies s"
  using assms(3)
proof (induction bodies arbitrary: s)
  case (Cons body bodies)
  then have "chain_log_worker L (S\<lparr>so_send := f\<rparr>) K body s = chain_log_worker L S K body s"
    using log_is_not_sent [OF assms(1,2), where f = f]
    by (auto simp: chain_log_worker_def split: sum.splits)
  then show ?case using Cons by simp
qed simp

section \<open>The runtime of the chain\<close>

text \<open>
  What the chain makes of a transaction, as documented: a map from keys to accounts; the instructions
  run in order, each by its program on the data of the accounts that it lists; a program may change the
  data only of accounts of its own that some instruction of the transaction marks as writable; when an
  instruction fails the transaction changes nothing. The effect of programs other than the contract
  is the parameter \<open>other\<close>. The money of the accounts is left out.
\<close>

record chain_account =
  ca_owner :: string
  ca_data :: string

type_synonym ledger = "string \<rightharpoonup> chain_account"

definition data_at :: "ledger \<Rightarrow> string \<Rightarrow> string" where
  "data_at m k = (case m k of None \<Rightarrow> [] | Some a \<Rightarrow> ca_data a)"

fun store_back :: "string \<Rightarrow> (string \<Rightarrow> bool) \<Rightarrow> (string \<times> string) list \<Rightarrow> ledger \<Rightarrow> ledger option" where
  "store_back program writable [] m = Some m"
| "store_back program writable ((k, d) # kds) m =
     (if d = data_at m k then store_back program writable kds m
      else case m k of None \<Rightarrow> None
         | Some a \<Rightarrow> if ca_owner a = program \<and> writable k
                    then store_back program writable kds (m(k \<mapsto> a\<lparr>ca_data := d\<rparr>)) else None)"

definition run_instruction ::
    "rust_borsh \<Rightarrow> string \<Rightarrow> (instruction \<Rightarrow> ledger \<Rightarrow> ledger option) \<Rightarrow> (string \<Rightarrow> bool) \<Rightarrow> instruction \<Rightarrow> ledger \<Rightarrow> ledger option" where
  "run_instruction B program other writable ins m =
     (if in_program ins \<noteq> program then other ins m
      else case process_instruction B (map (\<lambda>a. data_at m (fst a)) (in_accounts ins)) (in_data ins) of
        Inl e \<Rightarrow> None
      | Inr ds \<Rightarrow> store_back program writable (zip (map fst (in_accounts ins)) ds) m)"

fun run_instructions ::
    "rust_borsh \<Rightarrow> string \<Rightarrow> (instruction \<Rightarrow> ledger \<Rightarrow> ledger option) \<Rightarrow> (string \<Rightarrow> bool) \<Rightarrow> instruction list \<Rightarrow> ledger \<Rightarrow> ledger option" where
  "run_instructions B program other writable [] m = Some m"
| "run_instructions B program other writable (i # is) m =
     (case run_instruction B program other writable i m of None \<Rightarrow> None
      | Some m' \<Rightarrow> run_instructions B program other writable is m')"

definition marked_writable :: "instruction list \<Rightarrow> string \<Rightarrow> bool" where
  "marked_writable is k = list_ex (\<lambda>i. list_ex (\<lambda>(a, w, signer). a = k \<and> w) (in_accounts i)) is"

definition run_transaction ::
    "rust_borsh \<Rightarrow> string \<Rightarrow> (instruction \<Rightarrow> ledger \<Rightarrow> ledger option) \<Rightarrow> instruction list \<Rightarrow> ledger \<Rightarrow> ledger" where
  "run_transaction B program other is m =
     (case run_instructions B program other (marked_writable is) is m of None \<Rightarrow> m | Some m' \<Rightarrow> m')"

text \<open>
  The system program, asked to make an account: it is not the contract, the payer and the account are
  writable, and when it succeeds there was no such account, and now it belongs to the owner asked for
  and has the space asked for, full of zeros.
\<close>

definition system_creates :: "('s, 'tx) solana \<Rightarrow> string \<Rightarrow> (instruction \<Rightarrow> ledger \<Rightarrow> ledger option) \<Rightarrow> bool" where
  "system_creates S program other \<longleftrightarrow>
     (\<forall>rent space owner payer account.
        let c = so_create_account S rent space owner payer account
        in in_program c \<noteq> program \<and> in_accounts c = [(payer, True, True), (account, True, True)]
           \<and> (\<forall>m m'. other c m = Some m' \<longrightarrow> m account = None
                \<and> m' = m(account \<mapsto> \<lparr>ca_owner = owner, ca_data = replicate (unat space) (CHR 0x00)\<rparr>)))"

text \<open>
  Sending a transaction only hands it in. \<open>processed s1 sig m t\<close> says that what the node had under the
  signature in \<open>s1\<close> is processed when the accounts are \<open>m\<close>, and leaves the chain in \<open>t\<close>; then the accounts
  of \<open>t\<close> are what the transaction makes of \<open>m\<close>.
\<close>

definition processes_sent ::
    "rust_borsh \<Rightarrow> ('s, 'tx) solana \<Rightarrow> string \<Rightarrow> (instruction \<Rightarrow> ledger \<Rightarrow> ledger option) \<Rightarrow> ('s \<Rightarrow> ledger)
      \<Rightarrow> ('s \<Rightarrow> string \<Rightarrow> ledger \<Rightarrow> 's \<Rightarrow> bool) \<Rightarrow> bool" where
  "processes_sent B S program other accounts processed \<longleftrightarrow>
     (\<forall>is h payer tx keys tx' s sig s1 m t.
        so_transaction S is h payer = Inr tx \<longrightarrow> so_sign S tx keys = Inr tx' \<longrightarrow> so_send S tx' s = (Inr sig, s1) \<longrightarrow>
        processed s1 sig m t \<longrightarrow> accounts t = run_transaction B program other is m)"

section \<open>From the worker to the endpoint\<close>

text \<open>What the transaction of the worker does, when the account can be paid for.\<close>

lemma publication_runs:
  assumes "rust_borsh_laws B" and "package_fits z" and "system_creates S (ck_contract K) other"
    and "m (ck_payer K) = Some pa" and "data = package_bytes z"
    and c: "c = so_create_account S rent (calculateRequiredAccountSpace data) (ck_contract K) (ck_payer K) account"
    and "other c m = Some m1"
  shows "map_option ca_data (run_transaction B (ck_contract K) other [c, zkp_instruction K account data] m account)
    = Some (data @ replicate (unat (calculateRequiredAccountSpace data) - length data) (CHR 0x00))"
proof -
  let ?zeros = "replicate (unat (calculateRequiredAccountSpace data)) (CHR 0x00)" and ?P = "ck_contract K"
  let ?new = "data @ replicate (unat (calculateRequiredAccountSpace data) - length data) (CHR 0x00)"
  let ?w = "marked_writable [c, zkp_instruction K account data]"
  have s: "in_program c \<noteq> ?P" "in_accounts c = [(ck_payer K, True, True), (account, True, True)]"
    and m1: "m account = None" "m1 = m(account \<mapsto> \<lparr>ca_owner = ?P, ca_data = ?zeros\<rparr>)"
    using assms(3,7) unfolding system_creates_def c Let_def by blast+
  have ne: "ck_payer K \<noteq> account" using m1(1) assms(4) by auto
  have w: "?w account" by (simp add: marked_writable_def s(2))
  have i: "in_program (zkp_instruction K account data) = ?P" "in_data (zkp_instruction K account data) = data"
    "in_accounts (zkp_instruction K account data) = [(account, False, True), (ck_payer K, True, True)]"
    by (simp_all add: zkp_instruction_def)
  have d: "data_at m1 account = ?zeros" "data_at m1 (ck_payer K) = ca_data pa"
    using ne assms(4) by (simp_all add: data_at_def m1(2))
  have "process_instruction B [?zeros, ca_data pa] data = Inr [?new, ca_data pa]"
    using package_is_stored [OF assms(1,2)] assms(5) by simp
  then have r: "run_instruction B ?P other ?w (zkp_instruction K account data) m1
      = store_back ?P ?w [(account, ?new), (ck_payer K, ca_data pa)] m1"
    by (simp add: run_instruction_def i d del: store_back.simps)
  have "\<exists>m2. store_back ?P ?w [(account, ?new), (ck_payer K, ca_data pa)] m1 = Some m2
      \<and> map_option ca_data (m2 account) = Some ?new"
    using ne assms(4) w by (auto simp: data_at_def m1(2))
  then show ?thesis
    using assms(7) s(1) r by (auto simp: run_transaction_def run_instruction_def [of B ?P other ?w c])
qed

lemma published_package:
  assumes "go_borsh_format (we_codec E)" and "publishZkpToSolana E zr s = (Inr (sig, account), s')"
    and "bc_SerializeBorsh (we_codec E) zr = Inr data"
    and "so_rent (we_chain E) (calculateRequiredAccountSpace data) s = (Inr rent, s0)"
  shows "\<exists>z. package_fits z \<and> data = package_bytes z"
    and "\<exists>h tx tx' s1. so_transaction (we_chain E)
        [so_create_account (we_chain E) rent (calculateRequiredAccountSpace data) (ck_contract (we_keys E)) (ck_payer (we_keys E)) account,
         zkp_instruction (we_keys E) account data] h (ck_payer (we_keys E)) = Inr tx
      \<and> so_sign (we_chain E) tx (signing_keys (we_chain E) (we_keys E) account) = Inr tx'
      \<and> so_send (we_chain E) tx' s1 = (Inr sig, s')"
proof -
  from assms(3) obtain z where z: "bk_borsh (we_codec E) z = Inr data" by (auto simp: bc_SerializeBorsh_def res_simps)
  then show "\<exists>z. package_fits z \<and> data = package_bytes z" using assms(1) unfolding go_borsh_format_def by blast
  have "createAndPopulateZkpAccount (we_chain E) (we_keys E) data s = (Inr (sig, account), s')"
    using assms(2,3) by (auto simp: publishZkpToSolana_def res_simps)
  then show "\<exists>h tx tx' s1. so_transaction (we_chain E)
        [so_create_account (we_chain E) rent (calculateRequiredAccountSpace data) (ck_contract (we_keys E)) (ck_payer (we_keys E)) account,
         zkp_instruction (we_keys E) account data] h (ck_payer (we_keys E)) = Inr tx
      \<and> so_sign (we_chain E) tx (signing_keys (we_chain E) (we_keys E) account) = Inr tx'
      \<and> so_send (we_chain E) tx' s1 = (Inr sig, s')"
    using assms(4)
    by (auto simp: createAndPopulateZkpAccount_def simulate_and_send_def Let_def res_simps split: option.splits)
qed

text \<open>
  C25. A proof that the worker has put on the chain is found and checked there. The worker reports a
  signature and an account as soon as it has sent the transaction. Once the chain has processed it,
  the account being one that the payer can make, the endpoint answers 200 with the package, if the
  proof verifies: it is asked with that signature, that account and the size of the package, while the
  account is as the transaction left it.
\<close>

theorem published_proof_is_checked:
  assumes "rust_borsh_laws B" and "go_borsh_format (we_codec E)" and "bc_codec_laws (we_codec E)"
    and "system_creates (we_chain E) (ck_contract (we_keys E)) other"
    and "processes_sent B (we_chain E) (ck_contract (we_keys E)) other accounts processed"
    and "publishZkpToSolana E zr s = (Inr (sig, account), s')"
    and "bc_SerializeBorsh (we_codec E) zr = Inr data"
    and "so_rent (we_chain E) (calculateRequiredAccountSpace data) s = (Inr rent, s0)"
    and "processed s' sig m t" and "m (ck_payer (we_keys E)) \<noteq> None"
    and "other (so_create_account (we_chain E) rent (calculateRequiredAccountSpace data)
           (ck_contract (we_keys E)) (ck_payer (we_keys E)) account) m \<noteq> None"
    and "accounts u account = accounts t account" and "re_codec R = we_codec E"
    and "re_signature R sig = Inr sig'" and "re_transaction R sig' u = (Inr (), u)"
    and "re_public_key R account = Inr key" and "re_account R key u = (Inr (map_option ca_data (accounts u account)), u)"
    and "sig \<noteq> []" and "account \<noteq> []"
    and "re_verify R (zr_proof zr) (zr_verifying_key zr) (zr_public_witness zr) = Inr ()"
  shows "SolanaReader_Verify R sig account (int_str (int (length data))) u =
      (resp 200 (jobj [(''proof'', re_json R (zr\<lparr>zr_tx_hash := []\<rparr>)), (''account'', GStr account),
         (''size'', GInt KInt (int (length data)))]), u)"
proof -
  obtain z where z: "package_fits z" "data = package_bytes z"
    using published_package(1) [OF assms(2,6,7,8)] by blast
  obtain pa m1 where m: "m (ck_payer (we_keys E)) = Some pa"
      "other (so_create_account (we_chain E) rent (calculateRequiredAccountSpace data)
           (ck_contract (we_keys E)) (ck_payer (we_keys E)) account) m = Some m1"
    using assms(10,11) by blast
  have "accounts t = run_transaction B (ck_contract (we_keys E)) other
      [so_create_account (we_chain E) rent (calculateRequiredAccountSpace data) (ck_contract (we_keys E)) (ck_payer (we_keys E)) account,
       zkp_instruction (we_keys E) account data] m"
    using published_package(2) [OF assms(2,6,7,8)] assms(5,9) unfolding processes_sent_def by blast
  then obtain rest where "map_option ca_data (accounts u account) = Some (data @ rest)"
    using publication_runs [OF assms(1) z(1) assms(4) m(1) z(2) refl m(2)] assms(12) by metis
  moreover have "bc_codec_laws (re_codec R)" "bc_SerializeBorsh (re_codec R) zr = Inr data"
    using assms(3,7,13) by simp_all
  moreover have "in_int64 (int (length data))" using length_package [OF z(1)] z(2) by (simp add: in_int64_def)
  ultimately show ?thesis
    using assms(14-20) by (intro verify_answers) auto
qed

section \<open>A node that keeps the laws\<close>

definition length_value :: "string \<Rightarrow> nat" where
  "length_value bs = foldr (\<lambda>c v. of_char c + 256 * v) bs 0"

definition take_vec :: "string \<Rightarrow> string \<times> string" where
  "take_vec t = (let n = length_value (take 4 t) in (take n (drop 4 t), drop n (drop 4 t)))"

definition parse_package :: "string \<Rightarrow> string \<times> string \<times> string" where
  "parse_package t =
     (let (a, r1) = take_vec t; (b, r2) = take_vec r1; (c, r3) = take_vec r2 in (a, b, c))"

lemma length_value_bytes: "n < 2 ^ 32 \<Longrightarrow> length_value (length_bytes n) = n"
proof -
  assume n: "n < 2 ^ 32"
  have "n div 65536 = n div 256 div 256" "n div 16777216 = n div 65536 div 256" by (simp_all add: div_mult2_eq [symmetric])
  moreover from n have "n div 16777216 mod 256 = n div 16777216" by (simp add: less_mult_imp_div_less)
  ultimately show ?thesis
    by (simp add: length_value_def length_bytes_def)
qed

lemma take_vec_bytes: "length v < 2 ^ 32 \<Longrightarrow> take_vec (vec_bytes v @ r) = (v, r)"
proof -
  assume v: "length v < 2 ^ 32"
  have "length (length_bytes (length v)) = 4" by (simp add: length_bytes_def)
  then show ?thesis by (simp add: take_vec_def vec_bytes_def length_value_bytes [OF v])
qed

lemma parse_package_bytes: "package_fits z \<Longrightarrow> parse_package (package_bytes z) = z"
proof (cases z)
  case (fields a b c)
  assume "package_fits z"
  then have l: "length a < 2 ^ 32" "length b < 2 ^ 32" "length c < 2 ^ 32" by (simp_all add: fields)
  show ?thesis
    using take_vec_bytes [OF l(3), of "[]"]
    by (simp add: parse_package_def fields take_vec_bytes [OF l(1)] take_vec_bytes [OF l(2)])
qed

definition demo_rust :: rust_borsh where
  "demo_rust =
     \<lparr>rb_try_from_slice = (\<lambda>t. let z = parse_package t in if package_fits z \<and> package_bytes z = t then Some z else None),
      rb_to_vec = package_bytes\<rparr>"

definition demo_codec :: "(string, string, string) bc_codec" where
  "demo_codec =
     \<lparr>bk_write_proof = Inr, bk_read_proof = Inr, bk_write_vk = Inr, bk_read_vk = Inr, bk_write_witness = Inr, bk_read_witness = Inr,
      bk_borsh = (\<lambda>z. if package_fits z then Inr (package_bytes z) else Inl (LibErr ''borsh'')),
      bk_unborsh = (\<lambda>t. Inr (parse_package t))\<rparr>"

lemma demo_formats: "rust_borsh_laws demo_rust" "go_borsh_format demo_codec" "bc_codec_laws demo_codec"
proof -
  show "rust_borsh_laws demo_rust"
    unfolding rust_borsh_laws_def by (auto simp: demo_rust_def Let_def parse_package_bytes simp del: package_fits.simps package_bytes.simps)
  show "go_borsh_format demo_codec" unfolding go_borsh_format_def by (simp add: demo_codec_def)
  show "bc_codec_laws demo_codec"
    unfolding bc_codec_laws_def by (simp add: demo_codec_def parse_package_bytes del: package_fits.simps package_bytes.simps split: if_splits)
qed

text \<open>Its state is the data of the accounts; a transaction is its instructions.\<close>

definition demo_node :: "(string \<rightharpoonup> string, instruction list) solana" where
  "demo_node =
     \<lparr>so_rent = (\<lambda>n s. (Inr 1, s)), so_new_key = (\<lambda>s. (Inr ''new'', s)), so_blockhash = (\<lambda>s. (Inr [], s)),
      so_transaction = (\<lambda>ins h p. Inr ins), so_sign = (\<lambda>tx ks. Inr tx),
      so_simulate = (\<lambda>tx s. (Inr (case tx of
          [ins] \<Rightarrow> if isl (process_instruction demo_rust (map (\<lambda>a. case s (fst a) of None \<Rightarrow> [] | Some d \<Rightarrow> d) (in_accounts ins)) (in_data ins))
                   then Some ''rejected'' else None
        | _ \<Rightarrow> None), s)),
      so_send = (\<lambda>tx s. case tx of
          [c, z] \<Rightarrow> (case process_instruction demo_rust [in_data c, []] (in_data z) of
               Inr (d # ds) \<Rightarrow> (Inr ''sig'', s(fst (hd (in_accounts z)) \<mapsto> d))
             | _ \<Rightarrow> (Inl (LibErr ''rejected''), s))
        | _ \<Rightarrow> (Inl (LibErr ''rejected''), s)),
      so_create_account = (\<lambda>rent space owner payer account.
        \<lparr>in_program = ''system'', in_accounts = [(payer, True, True), (account, True, True)],
         in_data = replicate (unat space) (CHR 0x00)\<rparr>),
      so_private = (\<lambda>k. k)\<rparr>"

definition demo_keys :: chain_keys where
  "demo_keys = \<lparr>ck_contract = ''program'', ck_payer = ''payer'', ck_payer_private = ''secret''\<rparr>"

lemma demo_node_laws:
  "simulates_program demo_rust demo_node (ck_contract demo_keys) (\<lambda>s a. case s a of None \<Rightarrow> [] | Some d \<Rightarrow> d)"
  by (auto simp: simulates_program_def demo_node_def split: if_splits)

theorem chain_logs_never_stored_witness:
  "fold (chain_log_worker (plain_lib\<lparr>gl_json_parse := \<lambda>t. Some (JObj [])\<rparr>) (demo_node\<lparr>so_send := \<lambda>tx s. (Inr ''sig'', s(''log'' \<mapsto> ''stored''))\<rparr>)
     demo_keys) [''a'', ''b''] Map.empty = Map.empty"
proof -
  let ?L = "plain_lib\<lparr>gl_json_parse := \<lambda>t. Some (JObj [])\<rparr>"
  have l: "list_all (\<lambda>body. case unmarshal ?L decode_logger_message body of Inl e \<Rightarrow> True | Inr m \<Rightarrow> short_line ?L m) bodies" for bodies
    by (induction bodies) (auto simp: short_line_def Serialize_def plain_lib_def split: sum.splits)
  note t = chain_logs_never_stored [OF demo_formats(1) demo_node_laws l [of "[''a'', ''b'']"], where s = Map.empty]
  let ?f = "\<lambda>tx s. (Inr ''sig'', s)"
  have "chain_log_worker ?L (demo_node\<lparr>so_send := ?f\<rparr>) demo_keys body s = s" for body s
    by (simp add: chain_log_worker_def storeLogToSolana_def demo_node_def bind_st_def split: sum.splits option.splits)
  then show ?thesis using t [of ?f] t [of "\<lambda>tx s. (Inr ''sig'', s(''log'' \<mapsto> ''stored''))"] by simp
qed

text \<open>
  A node whose state is its accounts and the transaction that was handed in last; its system program
  takes the owner from the name of the program that it is called by.
\<close>

definition demo_system :: "instruction \<Rightarrow> ledger \<Rightarrow> ledger option" where
  "demo_system c m =
     (case in_accounts c of
        [payer, account] \<Rightarrow>
          (if m (fst account) \<noteq> None then None
           else Some (m(fst account \<mapsto> \<lparr>ca_owner = tl (in_program c), ca_data = in_data c\<rparr>)))
      | _ \<Rightarrow> None)"

definition ledger_node :: "(ledger \<times> instruction list, instruction list) solana" where
  "ledger_node =
     \<lparr>so_rent = (\<lambda>n s. (Inr 1, s)), so_new_key = (\<lambda>s. (Inr ''new'', s)), so_blockhash = (\<lambda>s. (Inr [], s)),
      so_transaction = (\<lambda>ins h p. Inr ins), so_sign = (\<lambda>tx ks. Inr tx), so_simulate = (\<lambda>tx s. (Inr None, s)),
      so_send = (\<lambda>tx s. (Inr ''sig'', (fst s, tx))),
      so_create_account = (\<lambda>rent space owner payer account.
        \<lparr>in_program = CHR ''S'' # owner, in_accounts = [(payer, True, True), (account, True, True)],
         in_data = replicate (unat space) (CHR 0x00)\<rparr>),
      so_private = (\<lambda>k. k)\<rparr>"

definition after_block :: "ledger \<times> instruction list \<Rightarrow> ledger \<times> instruction list" where
  "after_block s = (run_transaction demo_rust (ck_contract demo_keys) demo_system (snd s) (fst s), [])"

lemma ledger_node_laws:
  "system_creates ledger_node (ck_contract demo_keys) demo_system"
  "processes_sent demo_rust ledger_node (ck_contract demo_keys) demo_system fst (\<lambda>s sig m t. m = fst s \<and> t = after_block s)"
  by (auto simp: system_creates_def processes_sent_def ledger_node_def demo_keys_def demo_system_def after_block_def)

definition ledger_worker :: "(ledger \<times> instruction list, instruction list, string, string, string) worker_env" where
  "ledger_worker =
     \<lparr>we_lib = plain_lib, we_failures = \<lparr>pb_exchange = [], pb_routing_key = []\<rparr>, we_results = \<lparr>pb_exchange = [], pb_routing_key = []\<rparr>,
      we_text = \<lambda>e. [], we_chain = ledger_node, we_keys = demo_keys, we_create = \<lambda>b. Inl (LibErr ''none''), we_codec = demo_codec\<rparr>"

definition ledger_reader :: "(ledger \<times> instruction list, string, string, string) reader_env" where
  "ledger_reader =
     \<lparr>re_signature = Inr, re_public_key = Inr, re_transaction = \<lambda>t s. (Inr (), s),
      re_account = \<lambda>a s. (Inr (map_option ca_data (fst s a)), s), re_codec = demo_codec,
      re_verify = \<lambda>p k w. if p = k then Inl (LibErr ''groth16'') else Inr (), re_text = \<lambda>e. [], re_json = \<lambda>zr. GNil\<rparr>"

definition demo_proof :: "(string, string, string) zkp_result" where
  "demo_proof = \<lparr>zr_proof = ''p'', zr_verifying_key = ''k'', zr_public_witness = ''w'', zr_tx_hash = []\<rparr>"

definition paid_ledger :: "ledger \<times> instruction list" where
  "paid_ledger = ([''payer'' \<mapsto> \<lparr>ca_owner = ''system'', ca_data = []\<rparr>], [])"

theorem published_proof_is_checked_witness:
  "\<exists>s'. publishZkpToSolana ledger_worker demo_proof paid_ledger = (Inr (''sig'', ''new''), s')
    \<and> rs_status (fst (SolanaReader_Verify ledger_reader ''sig'' ''new''
        (int_str (int (length (package_bytes (''p'', ''k'', ''w''))))) (after_block s'))) = 200"
proof -
  let ?data = "package_bytes (''p'', ''k'', ''w'')"
  have d: "bc_SerializeBorsh demo_codec demo_proof = Inr ?data"
    by (simp add: bc_SerializeBorsh_def demo_codec_def demo_proof_def del: package_bytes.simps)
  have w: "we_codec ledger_worker = demo_codec" "we_chain ledger_worker = ledger_node" "we_keys ledger_worker = demo_keys"
    by (simp_all add: ledger_worker_def)
  obtain s' where p: "publishZkpToSolana ledger_worker demo_proof paid_ledger = (Inr (''sig'', ''new''), s')"
      "fst s' = fst paid_ledger"
    by (simp add: publishZkpToSolana_def createAndPopulateZkpAccount_def simulate_and_send_def w d ledger_node_def Let_def
        del: package_bytes.simps)
  have "SolanaReader_Verify ledger_reader ''sig'' ''new'' (int_str (int (length ?data))) (after_block s') =
      (resp 200 (jobj [(''proof'', re_json ledger_reader (demo_proof\<lparr>zr_tx_hash := []\<rparr>)), (''account'', GStr ''new''),
         (''size'', GInt KInt (int (length ?data)))]), after_block s')"
    by (rule published_proof_is_checked [OF demo_formats(1) _ _ _ _ p(1), where other = demo_system and accounts = fst
          and processed = "\<lambda>s sig m t. m = fst s \<and> t = after_block s" and m = "fst s'" and t = "after_block s'"
          and rent = 1 and ?s0.0 = paid_ledger])
      (simp_all add: w d demo_formats ledger_node_laws p(2) del: package_bytes.simps,
       simp_all add: ledger_node_def ledger_reader_def demo_keys_def paid_ledger_def demo_system_def demo_proof_def del: package_bytes.simps)
  with p(1) show ?thesis by (intro exI [of _ s']) (simp add: resp_def del: package_bytes.simps)
qed

end
