(* ===== verification/DevTools.thy ===== *)
theory DevTools
  imports Identity ProofResults
begin

text \<open>
  Two helpers that no code calls yet: the data for development (\<open>api/src/database/dev_database.go\<close>)
  and the client for requests between the services (\<open>pkg/http_client\<close>).
\<close>

section \<open>Data for development\<close>

text \<open>
  GORM's \<open>FirstOrCreate\<close> with a value whose primary key is zero and no condition takes the first row
  of the table, if there is one, and creates the value only on an empty table.
\<close>

definition first_or_create ::
    "(database \<Rightarrow> 'r list) \<Rightarrow> (database \<Rightarrow> 'r res \<times> database) \<Rightarrow> database \<Rightarrow> 'r res \<times> database" where
  "first_or_create rows create db =
     (case statement (\<lambda>d. (Inr (rows d), d)) db of
        (Inl e, d) \<Rightarrow> (Inl e, d)
      | (Inr [], d) \<Rightarrow> create d
      | (Inr (r # rs), d) \<Rightarrow> (Inr r, d))"

definition dev_schema :: gval where
  "dev_schema = GMap [(''constraints'', GList [GMap [(''key'', GStr ''Age''), (''comparison_type'', GStr ''gt''), (''value'', GInt KInt 18)]])]"

text \<open>
  Every error is logged and passed over. The two ids are fresh; the second insertion needs the row id
  of the administrator, zero when there is none. The last lines of the log name both ids, whatever has
  been inserted.
\<close>

definition InitializeDatabaseForDev :: "golib \<Rightarrow> uuid_lib \<Rightarrow> string \<Rightarrow> string \<Rightarrow> database \<Rightarrow> database \<times> string list" where
  "InitializeDatabaseForDev L U admin_id schema_id db =
     (let (r, d) = first_or_create db_identities (Create U admin_id ''admin'' None) db;
          admin = (case r of Inl e \<Rightarrow> 0 | Inr row \<Rightarrow> id_id row);
          serialized = (case Serialize L dev_schema of Inl e \<Rightarrow> [] | Inr t \<Rightarrow> t);
          (r2, d2) = first_or_create db_verified_schemas (statement (create_schema schema_id serialized admin)) d
      in (d2, [''Created admin user with id: '' @ admin_id, ''Created schema with Age constraint: '' @ schema_id]))"

text \<open>On the empty tables it does what it says; afterwards it changes nothing.\<close>

lemma dev_data_on_empty_tables:
  assumes "db_identities db = []" and "db_verified_schemas db = []" and "db_faults db = []"
    and "ul_column U admin_id = Some admin_id" and "Serialize L dev_schema = Inr t"
  shows "fst (InitializeDatabaseForDev L U admin_id schema_id db) = db\<lparr>
      db_identities := [\<lparr>id_id = 1, id_identity_id = admin_id, id_identity_name = ''admin'', id_parent_id = None\<rparr>],
      db_verified_schemas := [\<lparr>vs_id = 1, vs_schema_id = schema_id, vs_super_identity_id = 1, vs_schema = t\<rparr>]\<rparr>"
  using assms
  by (simp add: InitializeDatabaseForDev_def first_or_create_def statement_def Create_def create_schema_def uuid_param_def
      next_id_def Let_def)

text \<open>
  On tables with rows it inserts nothing, although it says that it has created an administrator: the
  first identity, whoever it is, is taken for it.
\<close>

lemma dev_data_on_used_tables:
  assumes "db_identities db \<noteq> []" and "db_verified_schemas db \<noteq> []" and "db_faults db = []"
  shows "fst (InitializeDatabaseForDev L U admin_id schema_id db) = db"
  using assms
  by (simp add: InitializeDatabaseForDev_def first_or_create_def statement_def Let_def split: list.splits)

section \<open>Requests between the services\<close>

text \<open>
  The answer goes to one of two channels, unless the goroutine panics. The library: whether a method
  is a token and the URL one, the transport with its state \<open>'s\<close> (method, URL, headers, body), the
  status texts, the JSON of a body and the reading of an answer.
\<close>

datatype 't answer = OnErrorCh goerr | OnResponseCh 't | NilRequest

record ('s, 't) internal_lib =
  il_request_ok :: "string \<Rightarrow> string \<Rightarrow> bool"
  il_do :: "string \<Rightarrow> string \<Rightarrow> (string \<times> string) list \<Rightarrow> string \<Rightarrow> 's \<Rightarrow> (int \<times> string res) res \<times> 's"
  il_status_text :: "int \<Rightarrow> string"
  il_unmarshal :: "string \<Rightarrow> 't res"
  il_text :: "goerr \<Rightarrow> string"

definition internal_headers :: "(string \<times> string) list" where
  "internal_headers = [(''Content-Type'', ''application/json''), (''Authorization'', ''internal_token_admin_123'')]"

text \<open>From the answer of the transport; \<open>zero\<close> is the zero value of the type.\<close>

definition read_answer :: "('s, 't) internal_lib \<Rightarrow> 't \<Rightarrow> (int \<times> string res) res \<Rightarrow> 't answer" where
  "read_answer I zero r =
     (case r of Inl e \<Rightarrow> OnErrorCh e
      | Inr (status, content) \<Rightarrow>
      (case content of Inl e \<Rightarrow> OnErrorCh e
      | Inr responseBody \<Rightarrow>
          if status < 200 \<or> 300 < status
          then OnErrorCh (Msg (''HTTP error: '' @ int_str status @ '' '' @ il_status_text I status))
          else if responseBody = [] then OnResponseCh zero
          else (case il_unmarshal I responseBody of Inl e \<Rightarrow> OnErrorCh e | Inr v \<Rightarrow> OnResponseCh v)))"

definition ReqeuestBase ::
    "('s, 't) internal_lib \<Rightarrow> 't \<Rightarrow> string \<Rightarrow> string \<Rightarrow> string res \<Rightarrow> 's \<Rightarrow> 't answer \<times> 's" where
  "ReqeuestBase I zero urlAppendix method body s =
     (let fullUrl = ''http://api:8080/api/v1/internal/identity/'' @ urlAppendix;
          with_body = method = ''POST'' \<or> method = ''PUT'' \<or> method = ''PATCH''
      in case (if with_body then body else Inr []) of
           Inl e \<Rightarrow> (OnErrorCh (Msg (''Failed to marshal request body: '' @ il_text I e)), s)
         | Inr t \<Rightarrow>
             if \<not> il_request_ok I method fullUrl then (NilRequest, s)
             else (case il_do I method fullUrl internal_headers t s of (r, s') \<Rightarrow> (read_answer I zero r, s')))"

lemma read_answer_answers: "read_answer I zero r \<noteq> NilRequest"
  by (auto simp: read_answer_def split: sum.splits)

text \<open>
  The caller is answered exactly once, on one of the channels, unless the request cannot be made: its
  error is overwritten and the nil request panics. A status of 300 counts as a success.
\<close>

lemma ReqeuestBase_panics_iff:
  "fst (ReqeuestBase I zero u m body s) = NilRequest \<longleftrightarrow>
     \<not> il_request_ok I m (''http://api:8080/api/v1/internal/identity/'' @ u) \<and>
     (m = ''POST'' \<or> m = ''PUT'' \<or> m = ''PATCH'' \<longrightarrow> ok body)"
  using read_answer_answers [of I zero]
  by (cases body; cases "m = ''POST'' \<or> m = ''PUT'' \<or> m = ''PATCH''") (auto simp: ReqeuestBase_def Let_def split: prod.splits)

lemma read_answer_success:
  "read_answer I zero (Inr (status, Inr [])) = OnResponseCh zero \<longleftrightarrow> 200 \<le> status \<and> status \<le> 300"
  by (auto simp: read_answer_def)

end
