(* ===== verification/Spec2Isabelle.thy ===== *)
theory Spec2Isabelle
  imports CircuitProps BlockchainProps WalletProps PresentationProps PresentationRace ChainProps Startup WalletMain Contract
    DevTools
begin

text \<open>
  A model of the digital identity system of \<open>src/system\<close>: three Go services, the packages they share
  and the program on the chain, with the theorems on what they guarantee and on what they do not.

  The parts and how they interact.

  \<^item> The \<^bold>\<open>API\<close> (\<open>api/src\<close>) keeps identities, queues verifications for verifiers over RabbitMQ, stores the
    results and failures that come back, audits the log, and serves presentation requests: a relying
    party posts a schema, a wallet fetches its descriptor and the proving key and submits a proof.
  \<^item> The \<^bold>\<open>blockchain client\<close> (\<open>blockchain-client/src\<close>) takes the messages of the verifiers, proves with
    Groth16, puts the proof and its verifying key into an account of the program on the chain
    (\<open>smart-contract/program\<close>), and reports to the API. It can check such an account and has a
    presentation service of its own.
  \<^item> The \<^bold>\<open>wallet\<close> (\<open>zk-wallet-go\<close>) logs its user in with an OpenID provider, issues credentials to the user
    (OIDC4VCI), stores imported ones and proves statements on them.
  \<^item> \<open>pkg\<close> has the schemas and circuits, the messaging, the logger, the router and the builder of the
    applications.

  Theories and what they model.

  \<^item> Base: \<open>Prelude\<close> (errors, results as sums, Go maps, the collections of rules), \<open>GoStrings\<close>, \<open>GoNumbers\<close>
    and \<open>GoValues\<close> (strings are byte strings; \<open>int64\<close> is a 64 bit word; \<open>float64\<close> is exact rational
    arithmetic with rounding written out; dynamic values and JSON trees).
  \<^item> Circuits: \<open>Schema\<close>, \<open>Conversion\<close>, \<open>Circuit\<close> for \<open>pkg/zkp\<close>; \<open>Copies\<close> for the copies of these files in the
    wallet and the blockchain client; \<open>BlockchainCircuit\<close> for what differs in the latter, and \<open>CreateZKP\<close>;
    \<open>WalletProver\<close> for the prover and the proof package. A circuit is a record of slots, defining it gives the
    list of the assertions it makes; gnark is a parameter that gives them a meaning.
  \<^item> Presentations: \<open>RequestStore\<close> (the in-memory stores), \<open>Presentation\<close> and \<open>PresentationHTTP\<close> (service and
    handlers of the API; the state has the stores, the caches of keys, the verdicts with their timers and
    the channels of waiters), \<open>BlockchainRequest\<close> (the services of the other two), \<open>WalletZkp\<close> and \<open>Urls\<close>
    (the wallet's side), \<open>Verifier\<close> (what every verifying service promises).
  \<^item> Credentials: \<open>WalletCredentials\<close>, \<open>Issuer\<close>, \<open>IssuerKeys\<close>. A handler that calls another server has that
    server as a parameter; \<open>IssuanceFlow\<close> puts the issuer's handlers there.
  \<^item> Verifications: \<open>Messaging\<close>, \<open>Outbox\<close> (the tables; a statement may fail), \<open>Identity\<close>, \<open>ProofResults\<close>,
    \<open>LogAudit\<close>, \<open>ChainWorkers\<close>, \<open>Contract\<close>, \<open>Routing\<close> (the exchanges and bindings of the broker).
  \<^item> Services: \<open>Config\<close>, \<open>Logger\<close>, \<open>Server\<close> (router, middlewares and routes), \<open>Startup\<close> and \<open>WalletMain\<close> (the three
    \<open>main\<close> functions), \<open>DevTools\<close> (two helpers that nothing calls).

  How the code corresponds. A definition has the name of its function, with a prefix where several
  services have one (\<open>bc_\<close> for the blockchain client, \<open>wallet_\<close> or \<open>wr_\<close> for the wallet). A struct is a record, a
  constant a definition, a call that may fail a sum with the error at the left, a call that changes
  state a function that also returns the new state, a panic a value of its own. The iteration over a Go map is a
  list in an arbitrary order. What the environment decides is an argument: clocks,
  random bytes, fresh ids, faults of the database, of the broker and of the node.

  What the lemmas show.

  \<^item> \<open>CircuitFacts\<close>, \<open>CircuitProps\<close>, \<open>BlockchainProps\<close>, \<open>WalletProps\<close>: a parsed schema is well formed; assigning
    does not depend on the order of the map and reads back; what an age and an identity circuit accept; the
    provers prove only what their circuits assert.
  \<^item> \<open>PresentationProps\<close>, \<open>PresentationRace\<close>, \<open>BlockchainRequest\<close>: when a submission is accepted, the invariant
    of the service, that a request is consumed once, that the service of the blockchain client refines it; and what two
    concurrent or two replayed submissions can do.
  \<^item> \<open>WalletZkpProps\<close>, \<open>IssuerProps\<close>, \<open>IssuanceFlow\<close>, \<open>IssuerKeys\<close>: which credential a claim comes from, who gets a
    credential, that issuing and importing end with it, and how long its signature can be checked.
  \<^item> \<open>OutboxProps\<close>, \<open>VerificationFlow\<close>, \<open>ChainProps\<close>, \<open>Contract\<close>, \<open>Routing\<close>: the invariant of the outbox, the bound on
    retries, a proof is saved once, a published proof is found and checked, which lines of a log are
    audited; and the paths on which a verification, a message or a line of the log is lost.
  \<^item> \<open>Server\<close>, \<open>Startup\<close>: the chains of handlers of the routes, what a start needs.

  Interfaces are locales with their interpretations beside the code that provides them: \<open>request_store\<close> (four
  stores), \<open>input_assignment\<close> (the two circuits), \<open>verifier\<close> (the three presentation services) and
  \<open>event_store\<close> (the outbox).

  Bounds and termination. All recursive functions are total. The loops over strings (\<open>squeeze\<close>,
  \<open>replace_all\<close>) and the division of numbers end by the length of the text or by the number. Trimming
  takes the length of its string as the number of rounds, and each round but the last takes a byte
  away. Connecting to the broker is a recursion over seven attempts. The space of an account is exact below
  \<open>2 ^ 51\<close> bytes, where the multiplication by 1.5 in floating point is. A delivery on the broker, a tick of the cron
  and the expiry of a timer are steps of their own, in any order.

  Parameters: gnark and Groth16, SHA-256, the texts of \<open>encoding/json\<close> (the decoding of its trees is modelled), Borsh,
  JOSE, net/url, the OpenID provider, RabbitMQ, the node of Solana and the texts of library errors. What is assumed of them stands in named definitions
  (such as \<open>gnark_sem\<close>, \<open>groth_sem\<close>, \<open>codec_laws\<close>, \<open>uuid_laws\<close>, \<open>jose_laws\<close>, \<open>rust_borsh_laws\<close>, \<open>prover_sem\<close>, \<open>processes_sent\<close>), each of them kept by a
  concrete function in the witnesses of the theorems that use it. Of gin, zerolog, GORM and Postgres the
  theories \<open>Server\<close>, \<open>Logger\<close> and \<open>Outbox\<close> write out what the code relies on.

  Not modelled: what is logged (but for the logger itself), headers of proxied answers, templates and QR
  codes, which are texts for people; the generated API documentation; \<open>pkg/zkpconfig\<close>, \<open>pkg/utilities/http_helpers.go\<close>
  and the two unused copies of the circuit registry, which no code uses and whose originals are modelled; the tests;
  the permissions and times to live of RabbitMQ and the reverse proxy, which are configuration.
\<close>

end
